(* ===== verification/Prelude.thy ===== *)
theory Prelude
  imports
    Main
    "HOL-Library.Word"
    "HOL-Library.Finite_Map"
    "HOL-Library.List_Lexorder"
    "HOL-Library.Char_ord"
begin

text \<open>
  Shared vocabulary of the development: names for the Go types the components use, the
  lemma collections, generic facts on finite maps, and the interface of Go's \<open>range\<close>
  loop over a map.

  A Go \<open>map[string]T\<close> is a finite map \<open>(string, 'v) fmap\<close>. The order in which
  \<open>for k, v := range m\<close> visits the keys is chosen by the runtime, so every function
  that ranges over a map takes that choice as an argument \<open>it\<close>, a function from the map
  to the list of its keys; \<open>valid_iter\<close> is what the language promises about it (every
  key once).
\<close>

type_synonym byte = "8 word"
type_synonym bytes = "8 word list"
type_synonym int64 = "64 word"
type_synonym 'v gomap = "(string, 'v) fmap"
type_synonym 'v iter = "(string, 'v) fmap \<Rightarrow> string list"

named_theorems store_defs "definitions of the lease store operations"
named_theorems lookup_simps "what a lookup returns after an operation"
named_theorems handler_defs "definitions of the request handlers"

subsection \<open>Bounds of the signed 64-bit integers\<close>

definition maxInt64 :: int where
  "maxInt64 = 9223372036854775807"

definition minInt64 :: int where
  "minInt64 = - 9223372036854775808"

definition in_int64 :: "int \<Rightarrow> bool" where
  "in_int64 i \<longleftrightarrow> minInt64 \<le> i \<and> i \<le> maxInt64"

lemmas int64_defs = maxInt64_def minInt64_def in_int64_def

lemma sint_of_int64:
  assumes "in_int64 i"
  shows "sint (word_of_int i :: int64) = i"
proof -
  have "signed_take_bit 63 i = i"
    using assms by (simp add: signed_take_bit_int_eq_self_iff int64_defs)
  then show ?thesis by (simp add: sint_sbintrunc')
qed

text \<open>
  The value of an \<open>int64\<close> word, from any integer it stands for modulo \<open>2^64\<close>.
\<close>

lemma sint_int64_eqI:
  assumes "in_int64 i" and "w = word_of_int i"
  shows "sint (w :: int64) = i"
  using assms sint_of_int64 by simp

lemma in_int64_sint: "in_int64 (sint (w :: int64))"
  using sint_greater_eq [of w] sint_less [of w] by (simp add: int64_defs)

lemma sint_uminus_int64:
  "sint (- w) = (if sint w = - (2 ^ 63) then - (2 ^ 63) else - sint w)" for w :: int64
proof -
  have w: "- w = word_of_int (- sint w)" by simp
  show ?thesis
  proof (cases "sint w = - (2 ^ 63)")
    case True
    then have "- w = word_of_int (2 ^ 63)" using w by simp
    also have "(word_of_int (2 ^ 63) :: int64) = word_of_int (- (2 ^ 63))" by simp
    finally show ?thesis using True by (simp add: sint_int64_eqI int64_defs)
  next
    case False
    then have "in_int64 (- sint w)" using in_int64_sint [of w] by (simp add: int64_defs)
    then show ?thesis using False w by (metis sint_int64_eqI)
  qed
qed

subsection \<open>Ranging over a map\<close>

definition valid_iter :: "'v iter \<Rightarrow> bool" where
  "valid_iter it \<longleftrightarrow> (\<forall>m. distinct (it m) \<and> set (it m) = fset (fmdom m))"

locale map_range =
  fixes it :: "'v iter"
  assumes visits_once: "distinct (it m)"
    and visits_all: "set (it m) = fset (fmdom m)"
begin

lemma visited_lookup: "k \<in> set (it m) \<longleftrightarrow> (\<exists>v. fmlookup m k = Some v)"
  by (auto simp: visits_all fmlookup_dom_iff)

lemma length_range: "length (it m) = fcard (fmdom m)"
  by (metis distinct_card visits_all visits_once fcard.rep_eq)

end

lemma map_range_iff: "map_range it \<longleftrightarrow> valid_iter it"
  by (auto simp: map_range_def valid_iter_def)

text \<open>One order the runtime may choose: the keys in increasing byte order.\<close>

definition sorted_iter :: "'v iter" where
  "sorted_iter m = sorted_list_of_fset (fmdom m)"

interpretation sorted_range: map_range sorted_iter
  by unfold_locales
    (simp_all add: sorted_iter_def sorted_list_of_fset.rep_eq)

lemma valid_sorted_iter [simp]: "valid_iter sorted_iter"
  using sorted_range.map_range_axioms by (simp add: map_range_iff)

text \<open>The loop \<open>for k, v := range m { if P(k, v) { return k, v } }\<close>.\<close>

fun range_find :: "string list \<Rightarrow> 'v gomap \<Rightarrow> (string \<Rightarrow> 'v \<Rightarrow> bool) \<Rightarrow> (string \<times> 'v) option" where
  "range_find [] m P = None"
| "range_find (k # ks) m P =
     (case fmlookup m k of
        Some v \<Rightarrow> if P k v then Some (k, v) else range_find ks m P
      | None \<Rightarrow> range_find ks m P)"

lemma range_find_Some:
  "range_find ks m P = Some (k, v) \<Longrightarrow> fmlookup m k = Some v \<and> P k v \<and> k \<in> set ks"
  by (induction ks) (auto split: option.splits if_splits)

lemma range_find_None:
  "range_find ks m P = None \<longleftrightarrow> (\<forall>k\<in>set ks. \<forall>v. fmlookup m k = Some v \<longrightarrow> \<not> P k v)"
  by (induction ks) (auto split: option.splits)

text \<open>
  The loop \<open>for k, v := range m { if skip(k, v) { continue }; m[k] = f(v) }\<close>, which
  assigns to entries of the map it ranges over (no key is added, so the language visits
  each key exactly once).
\<close>

fun range_update :: "string list \<Rightarrow> (string \<Rightarrow> 'v \<Rightarrow> bool) \<Rightarrow> ('v \<Rightarrow> 'v) \<Rightarrow> 'v gomap \<Rightarrow> 'v gomap" where
  "range_update [] skip f m = m"
| "range_update (k # ks) skip f m =
     (case fmlookup m k of
        Some v \<Rightarrow> range_update ks skip f (if skip k v then m else fmupd k (f v) m)
      | None \<Rightarrow> range_update ks skip f m)"

lemma fmlookup_range_update:
  "distinct ks \<Longrightarrow>
   fmlookup (range_update ks skip f m) k =
     (if k \<in> set ks then map_option (\<lambda>v. if skip k v then v else f v) (fmlookup m k)
      else fmlookup m k)"
  by (induction ks arbitrary: m) (auto split: option.splits)

context map_range
begin

lemma find_None_iff:
  "range_find (it m) m P = None \<longleftrightarrow> (\<forall>k v. fmlookup m k = Some v \<longrightarrow> \<not> P k v)"
  by (auto simp: range_find_None visited_lookup)

lemma find_unique:
  assumes "fmlookup m k = Some v" and "P k v"
    and "\<And>k' v'. fmlookup m k' = Some v' \<Longrightarrow> P k' v' \<Longrightarrow> k' = k"
  shows "range_find (it m) m P = Some (k, v)"
proof (cases "range_find (it m) m P")
  case None
  then have "\<not> P k v" using assms(1) unfolding find_None_iff by blast
  with assms(2) show ?thesis by contradiction
next
  case (Some p)
  moreover obtain k' v' where p: "p = (k', v')" by (cases p)
  ultimately have "fmlookup m k' = Some v' \<and> P k' v'"
    by (auto dest: range_find_Some)
  moreover from this have "k' = k" using assms(3) by blast
  ultimately show ?thesis using assms(1) Some p by simp
qed

lemma lookup_update:
  "fmlookup (range_update (it m) skip f m) k =
     map_option (\<lambda>v. if skip k v then v else f v) (fmlookup m k)"
proof -
  have "fmlookup m k = None" if "k \<notin> set (it m)"
    using that by (auto simp: visits_all fmlookup_dom_iff)
  then show ?thesis by (auto simp: fmlookup_range_update visits_once)
qed

lemma update_order_irrelevant:
  assumes "map_range it'"
  shows "range_update (it m) skip f m = range_update (it' m) skip f m"
  by (rule fmap_ext) (simp add: lookup_update map_range.lookup_update [OF assms])

end

subsection \<open>Counting entries\<close>

text \<open>The loop that counts the entries satisfying a condition.\<close>

fun range_count :: "string list \<Rightarrow> 'v gomap \<Rightarrow> ('v \<Rightarrow> bool) \<Rightarrow> nat" where
  "range_count [] m P = 0"
| "range_count (k # ks) m P =
     (case fmlookup m k of
        Some v \<Rightarrow> (if P v then 1 else 0) + range_count ks m P
      | None \<Rightarrow> range_count ks m P)"

lemma range_count_card:
  "distinct ks \<Longrightarrow> range_count ks m P = card {k \<in> set ks. \<exists>v. fmlookup m k = Some v \<and> P v}"
proof (induction ks)
  case Nil
  then show ?case by simp
next
  case (Cons k ks)
  let ?S = "{k \<in> set ks. \<exists>v. fmlookup m k = Some v \<and> P v}"
  have "{k' \<in> set (k # ks). \<exists>v. fmlookup m k' = Some v \<and> P v} =
        (if \<exists>v. fmlookup m k = Some v \<and> P v then insert k ?S else ?S)"
    by auto
  with Cons show ?case by (auto split: option.splits)
qed

end
