(* ===== verification/Go_Base.thy ===== *)
theory Go_Base
  imports Prelude
begin

text \<open>
  The parts of Go's standard library that several components use: error values with
  wrapping (\<open>errors\<close>, \<open>fmt.Errorf\<close>), instants and durations (\<open>time\<close>), decimal and
  hexadecimal text (\<open>fmt\<close>, \<open>encoding/hex\<close>) and a few string functions
  (\<open>strings\<close>). A Go string is its sequence of bytes, a \<open>string\<close> here.
\<close>

subsection \<open>Errors\<close>

text \<open>
  The four sentinel errors of the lease store, \<open>os.ErrNotExist\<close>, an error reported by
  the operating system or the runtime (\<open>SysError\<close>), an error made of a text
  (\<open>ErrorString\<close>), and \<open>fmt.Errorf("s: %w", err)\<close> (\<open>Wrapf s err\<close>).
\<close>

datatype go_error =
    ErrLeaseExpired
  | ErrLeaseNotFound
  | ErrNodeIPNotFound
  | ErrLeaseBlocked
  | ErrNotExist
  | SysError string
  | ErrorString string
  | Wrapf string go_error

fun errors_Is :: "go_error \<Rightarrow> go_error \<Rightarrow> bool" where
  "errors_Is (Wrapf s e) target = (Wrapf s e = target \<or> errors_Is e target)"
| "errors_Is e target = (e = target)"

fun Error :: "go_error \<Rightarrow> string" where
  "Error ErrLeaseExpired = ''lease expired''"
| "Error ErrLeaseNotFound = ''lease not found''"
| "Error ErrNodeIPNotFound = ''node IP not found''"
| "Error ErrLeaseBlocked = ''node blocked''"
| "Error ErrNotExist = ''file does not exist''"
| "Error (SysError s) = s"
| "Error (ErrorString s) = s"
| "Error (Wrapf s e) = s @ '': '' @ Error e"

text \<open>What an error of the operating system may be: never one of the store's sentinels.\<close>

fun os_error :: "go_error \<Rightarrow> bool" where
  "os_error (SysError s) = True"
| "os_error ErrNotExist = True"
| "os_error (Wrapf s e) = os_error e"
| "os_error _ = False"

lemma os_error_not_sentinel:
  "os_error e \<Longrightarrow> \<not> errors_Is e ErrLeaseBlocked \<and> \<not> errors_Is e ErrLeaseExpired \<and>
     \<not> errors_Is e ErrLeaseNotFound \<and> \<not> errors_Is e ErrNodeIPNotFound"
  by (induction e) auto

subsection \<open>Time\<close>

text \<open>
  A \<open>time.Time\<close> is its instant in nanoseconds since the zero time, January 1 of year 1
  UTC, so that \<open>time.Time{}\<close> is \<open>0\<close>; the location is not part of the instant and
  \<open>UTC\<close> is the identity. A \<open>time.Duration\<close> is the value of an \<open>int64\<close> in
  nanoseconds. \<open>Sub\<close> saturates at the ends of the duration type, as Go's does.
  \<open>Unix\<close> counts whole seconds from 1970, 62135596800 seconds after the zero time.
\<close>

type_synonym time = int
type_synonym duration = int

definition second :: duration where
  "second = 1000000000"

definition minute :: duration where
  "minute = 60 * second"

definition IsZero :: "time \<Rightarrow> bool" where
  "IsZero t \<longleftrightarrow> t = 0"

definition UTC :: "time \<Rightarrow> time" where
  "UTC t = t"

definition Add :: "time \<Rightarrow> duration \<Rightarrow> time" where
  "Add t d = t + d"

definition After :: "time \<Rightarrow> time \<Rightarrow> bool" where
  "After t u \<longleftrightarrow> u < t"

definition Sub :: "time \<Rightarrow> time \<Rightarrow> duration" where
  "Sub t u = max minInt64 (min maxInt64 (t - u))"

definition Unix :: "time \<Rightarrow> int64" where
  "Unix t = word_of_int (t div second - 62135596800)"

lemmas time_defs = IsZero_def UTC_def Add_def After_def

lemma Sub_gt_iff: "d < maxInt64 \<Longrightarrow> minInt64 \<le> d \<Longrightarrow> d < Sub t u \<longleftrightarrow> d < t - u"
  by (auto simp: Sub_def)

lemma Sub_bounds: "in_int64 (Sub t u)"
  by (auto simp: Sub_def int64_defs)

subsection \<open>Decimal and hexadecimal text\<close>

definition digit_char :: "nat \<Rightarrow> char" where
  "digit_char n = char_of (48 + n)"

fun fmt_nat :: "nat \<Rightarrow> string" where
  "fmt_nat n = (if n < 10 then [digit_char n] else fmt_nat (n div 10) @ [digit_char (n mod 10)])"

declare fmt_nat.simps [simp del]

definition fmt_d :: "int \<Rightarrow> string" where
  "fmt_d i = (if i < 0 then ''-'' @ fmt_nat (nat (- i)) else fmt_nat (nat i))"

definition hex_char :: "nat \<Rightarrow> char" where
  "hex_char n = (if n < 10 then char_of (48 + n) else char_of (87 + n))"

definition fromHexChar :: "char \<Rightarrow> nat option" where
  "fromHexChar c =
     (let n = of_char c :: nat in
      if 48 \<le> n \<and> n \<le> 57 then Some (n - 48)
      else if 97 \<le> n \<and> n \<le> 102 then Some (n - 87)
      else if 65 \<le> n \<and> n \<le> 70 then Some (n - 55)
      else None)"

fun EncodeToString :: "bytes \<Rightarrow> string" where
  "EncodeToString [] = []"
| "EncodeToString (b # bs) =
     hex_char (unat b div 16) # hex_char (unat b mod 16) # EncodeToString bs"

fun DecodeString :: "string \<Rightarrow> bytes option" where
  "DecodeString [] = Some []"
| "DecodeString [c] = None"
| "DecodeString (c # d # s) =
     (case (fromHexChar c, fromHexChar d) of
        (Some h, Some l) \<Rightarrow> map_option (\<lambda>bs. of_nat (16 * h + l) # bs) (DecodeString s)
      | _ \<Rightarrow> None)"

lemma fromHexChar_hex_char: "n < 16 \<Longrightarrow> fromHexChar (hex_char n) = Some n"
  by (auto simp: fromHexChar_def hex_char_def Let_def)

lemma unat_byte_less: "unat (b :: byte) < 256"
  using unsigned_less [of b, where ?'a = nat] by simp

lemma Decode_Encode: "DecodeString (EncodeToString bs) = Some bs"
proof (induction bs)
  case Nil
  show ?case by simp
next
  case (Cons b bs)
  have "unat b div 16 < 16" using unat_byte_less [of b] by simp
  then show ?case using Cons by (simp add: fromHexChar_hex_char)
qed

lemma EncodeToString_eq_Nil [simp]: "EncodeToString bs = [] \<longleftrightarrow> bs = []"
  by (cases bs) auto

subsection \<open>Strings\<close>

definition string_bytes :: "string \<Rightarrow> bytes" where
  "string_bytes s = map of_char s"

definition HasPrefix :: "string \<Rightarrow> string \<Rightarrow> bool" where
  "HasPrefix s p \<longleftrightarrow> take (length p) s = p"

definition TrimPrefix :: "string \<Rightarrow> string \<Rightarrow> string" where
  "TrimPrefix s p = (if HasPrefix s p then drop (length p) s else s)"

fun Contains :: "string \<Rightarrow> string \<Rightarrow> bool" where
  "Contains [] sub = (sub = [])"
| "Contains (c # s) sub = (HasPrefix (c # s) sub \<or> Contains s sub)"

definition lower_char :: "char \<Rightarrow> char" where
  "lower_char c = (let n = of_char c :: nat in if 65 \<le> n \<and> n \<le> 90 then char_of (n + 32) else c)"

definition ToLower :: "string \<Rightarrow> string" where
  "ToLower s = map lower_char s"

lemma TrimPrefix_append [simp]: "TrimPrefix (p @ s) p = s"
  by (simp add: TrimPrefix_def HasPrefix_def)

lemma HasPrefix_iff: "HasPrefix s p \<longleftrightarrow> (\<exists>u. s = p @ u)"
  unfolding HasPrefix_def by (metis append_eq_conv_conj)

lemma TrimPrefix_eq_iff: "TrimPrefix s p = t \<longleftrightarrow> s = p @ t \<or> s = t \<and> \<not> HasPrefix t p"
proof (cases "HasPrefix s p")
  case True
  then obtain u where "s = p @ u" by (auto simp: HasPrefix_iff)
  then show ?thesis using True by auto
next
  case False
  then show ?thesis by (auto simp: TrimPrefix_def HasPrefix_iff)
qed

lemma string_bytes_append [simp]: "string_bytes (s @ t) = string_bytes s @ string_bytes t"
  by (simp add: string_bytes_def)

lemma inj_string_bytes: "string_bytes s = string_bytes t \<longleftrightarrow> s = t"
proof -
  have "inj (of_char :: char \<Rightarrow> byte)"
  proof (rule injI)
    fix c d :: char
    assume "(of_char c :: byte) = of_char d"
    then have "unat (of_nat (of_char c) :: byte) = unat (of_nat (of_char d) :: byte)"
      by (simp only: of_nat_of_char)
    moreover have "(of_char c :: nat) < 256" "(of_char d :: nat) < 256"
      using of_char_mod_256 [of c] of_char_mod_256 [of d] by (metis mod_less_divisor zero_less_numeral)+
    ultimately have "(of_char c :: nat) = of_char d"
      by (simp add: unat_of_nat)
    then show "c = d" by simp
  qed
  then show ?thesis
    unfolding string_bytes_def by (metis inj_map_eq_map)
qed

end
