(* ===== verification/Go_Json.thy ===== *)
theory Go_Json
  imports Go_Base
begin

text \<open>
  JSON documents and the part of \<open>encoding/json\<close> the program uses: decoding an object
  into a struct (fields found by exact name, else by case-folded name; unknown keys
  ignored; \<open>null\<close> leaves a field as it is; a value of the wrong type is an error; a
  repeated key is decoded again over the first) and the encoding conventions of struct
  tags. A document is its syntax tree. A string token that holds an RFC 3339 timestamp
  written by \<open>time.MarshalJSON\<close> is kept as the instant it denotes (\<open>JTime\<close>); a
  number is an integer literal (\<open>JInt\<close>) or any other number literal (\<open>JReal\<close>).
  Strings are valid UTF-8, on which \<open>encoding/json\<close> is the identity (it would replace other
  bytes): what the server encodes comes from protocol buffers and JSON, which admit no other
  text, and the agent's environment is taken to be UTF-8 too. \<open>JTime\<close> stands only
  where the program itself writes an instant, the strings of a request are \<open>JStr\<close>.
\<close>

datatype json =
    JNull
  | JBool bool
  | JInt int
  | JReal string
  | JStr string
  | JTime time
  | JArr "json list"
  | JObj "(string \<times> json) list"

subsection \<open>Decoding a scalar over a current value\<close>

fun dec_string :: "json \<Rightarrow> string \<Rightarrow> string option" where
  "dec_string JNull cur = Some cur"
| "dec_string (JStr s) cur = Some s"
| "dec_string _ cur = None"

fun dec_bool :: "json \<Rightarrow> bool \<Rightarrow> bool option" where
  "dec_bool JNull cur = Some cur"
| "dec_bool (JBool b) cur = Some b"
| "dec_bool _ cur = None"

fun dec_int64 :: "json \<Rightarrow> int64 \<Rightarrow> int64 option" where
  "dec_int64 JNull cur = Some cur"
| "dec_int64 (JInt i) cur = (if in_int64 i then Some (word_of_int i) else None)"
| "dec_int64 _ cur = None"

fun dec_time :: "json \<Rightarrow> time \<Rightarrow> time option" where
  "dec_time JNull cur = Some cur"
| "dec_time (JTime t) cur = Some t"
| "dec_time _ cur = None"

subsection \<open>Decoding an object into a struct\<close>

text \<open>
  Name folding, for ASCII letters and the two code points outside ASCII that fold to an
  ASCII letter (U+017F to S, U+212A to K, in UTF-8).
\<close>

definition upper_char :: "char \<Rightarrow> char" where
  "upper_char c = (let n = of_char c :: nat in if 97 \<le> n \<and> n \<le> 122 then char_of (n - 32) else c)"

fun foldName :: "string \<Rightarrow> string" where
  "foldName (a # b # c # s) =
     (if a = CHR 0xC5 \<and> b = CHR 0xBF then CHR ''S'' # foldName (c # s)
      else if a = CHR 0xE2 \<and> b = CHR 0x84 \<and> c = CHR 0xAA then CHR ''K'' # foldName s
      else upper_char a # foldName (b # c # s))"
| "foldName [a, b] =
     (if a = CHR 0xC5 \<and> b = CHR 0xBF then [CHR ''S''] else [upper_char a, upper_char b])"
| "foldName [a] = [upper_char a]"
| "foldName [] = []"

type_synonym 'r schema = "(string \<times> (json \<Rightarrow> 'r \<Rightarrow> 'r option)) list"

definition schema_field :: "'r schema \<Rightarrow> string \<Rightarrow> (json \<Rightarrow> 'r \<Rightarrow> 'r option) option" where
  "schema_field sch key =
     (case map_of sch key of
        Some f \<Rightarrow> Some f
      | None \<Rightarrow> map_of (map (\<lambda>(n, f). (foldName n, f)) sch) (foldName key))"

fun dec_fields :: "'r schema \<Rightarrow> (string \<times> json) list \<Rightarrow> 'r \<Rightarrow> 'r option" where
  "dec_fields sch [] r = Some r"
| "dec_fields sch ((key, v) # kvs) r =
     (case schema_field sch key of
        None \<Rightarrow> dec_fields sch kvs r
      | Some f \<Rightarrow> (case f v r of None \<Rightarrow> None | Some r' \<Rightarrow> dec_fields sch kvs r'))"

fun dec_struct :: "'r schema \<Rightarrow> json \<Rightarrow> 'r \<Rightarrow> 'r option" where
  "dec_struct sch (JObj kvs) r = dec_fields sch kvs r"
| "dec_struct sch JNull r = Some r"
| "dec_struct sch _ r = None"

lemma dec_fields_append:
  "dec_fields sch (xs @ ys) r =
     (case dec_fields sch xs r of None \<Rightarrow> None | Some r' \<Rightarrow> dec_fields sch ys r')"
  by (induction sch xs r rule: dec_fields.induct) (auto split: option.splits)

lemma schema_field_exact: "map_of sch key = Some f \<Longrightarrow> schema_field sch key = Some f"
  by (simp add: schema_field_def)

lemma dec_fields_single:
  "map_of sch key = Some f \<Longrightarrow> dec_fields sch [(key, v)] r = f v r"
  by (simp add: schema_field_exact split: option.split)

subsection \<open>Codecs\<close>

text \<open>
  The contract of an encoder and its decoder: what was encoded decodes to itself. An
  encoder may refuse a value (\<open>json.Marshal\<close> returns an error), which is \<open>None\<close>.
\<close>

locale json_codec =
  fixes enc :: "'a \<Rightarrow> json option" and dec :: "json \<Rightarrow> 'a option"
  assumes dec_enc: "enc x = Some j \<Longrightarrow> dec j = Some x"
begin

lemma enc_inj: "enc x = Some j \<Longrightarrow> enc y = Some j \<Longrightarrow> x = y"
  using dec_enc by (metis option.inject)

end

end
