(* ===== verification/Lease_Record.thy ===== *)
theory Lease_Record
  imports Go_Json
begin

text \<open>
  The data of \<open>src/pkg/server/lease_store.go\<close>: \<open>LeaseRecord\<close>, the persisted file
  \<open>leaseStoreFile\<close>, their JSON encoding by struct tags and decoding, with the round
  trip. \<open>LeaseStatus\<close> is a Go string type, so a loaded file may hold a status that is
  none of the three constants; it is a \<open>string\<close> here too.
\<close>

type_synonym LeaseStatus = string

definition LeaseStatusActive :: LeaseStatus where
  "LeaseStatusActive = ''active''"

definition LeaseStatusExpired :: LeaseStatus where
  "LeaseStatusExpired = ''expired''"

definition LeaseStatusBlocked :: LeaseStatus where
  "LeaseStatusBlocked = ''blocked''"

lemma status_distinct [simp]:
  "LeaseStatusActive \<noteq> LeaseStatusBlocked" "LeaseStatusBlocked \<noteq> LeaseStatusActive"
  "LeaseStatusActive \<noteq> LeaseStatusExpired" "LeaseStatusExpired \<noteq> LeaseStatusActive"
  "LeaseStatusExpired \<noteq> LeaseStatusBlocked" "LeaseStatusBlocked \<noteq> LeaseStatusExpired"
  by (simp_all add: LeaseStatusActive_def LeaseStatusBlocked_def LeaseStatusExpired_def)

record LeaseRecord =
  LastHeartbeatAt :: time
  LeaseUntil :: time
  LastUnsealAt :: time
  FirstSeen :: time
  BlockedAt :: time
  MaintenanceAt :: time
  LastUnsealIP :: string
  Status :: LeaseStatus
  NodeIP :: string
  Hostname :: string
  BlockReason :: string
  Maintenance :: bool

text \<open>The zero value \<open>LeaseRecord{}\<close>.\<close>

definition zeroRecord :: LeaseRecord where
  "zeroRecord =
     \<lparr>LastHeartbeatAt = 0, LeaseUntil = 0, LastUnsealAt = 0, FirstSeen = 0, BlockedAt = 0,
      MaintenanceAt = 0, LastUnsealIP = '''', Status = '''', NodeIP = '''', Hostname = '''',
      BlockReason = '''', Maintenance = False\<rparr>"

definition isExpired :: "LeaseRecord \<Rightarrow> time \<Rightarrow> bool" where
  "isExpired record now \<longleftrightarrow> \<not> IsZero (LeaseUntil record) \<and> After now (LeaseUntil record)"

definition activeLease :: "time \<Rightarrow> duration \<Rightarrow> LeaseRecord" where
  "activeLease now leaseDuration =
     zeroRecord\<lparr>LastHeartbeatAt := now, LeaseUntil := Add now leaseDuration,
       Status := LeaseStatusActive\<rparr>"

subsection \<open>JSON of a record\<close>

text \<open>
  \<open>time.MarshalJSON\<close> refuses a year outside 0 to 9999: the instants from 366 days
  before the zero time up to 3652059 days after it.
\<close>

definition day :: duration where
  "day = 86400 * second"

definition json_time_ok :: "time \<Rightarrow> bool" where
  "json_time_ok t \<longleftrightarrow> - (366 * day) \<le> t \<and> t < 3652059 * day"

definition record_times_ok :: "LeaseRecord \<Rightarrow> bool" where
  "record_times_ok r \<longleftrightarrow>
     json_time_ok (LastHeartbeatAt r) \<and> json_time_ok (LeaseUntil r) \<and>
     json_time_ok (LastUnsealAt r) \<and> json_time_ok (FirstSeen r) \<and>
     json_time_ok (BlockedAt r) \<and> json_time_ok (MaintenanceAt r)"

text \<open>The members of the object, in field order; \<open>omitempty\<close> and \<open>omitzero\<close> drop a zero value.\<close>

definition omit :: "bool \<Rightarrow> string \<Rightarrow> json \<Rightarrow> (string \<times> json) list" where
  "omit zero name v = (if zero then [] else [(name, v)])"

definition record_fields :: "LeaseRecord \<Rightarrow> (string \<times> json) list" where
  "record_fields r =
     [(''last_heartbeat_at'', JTime (LastHeartbeatAt r))] @
     [(''lease_until'', JTime (LeaseUntil r))] @
     [(''last_unseal_at'', JTime (LastUnsealAt r))] @
     omit (IsZero (FirstSeen r)) ''first_seen'' (JTime (FirstSeen r)) @
     omit (IsZero (BlockedAt r)) ''blocked_at'' (JTime (BlockedAt r)) @
     omit (IsZero (MaintenanceAt r)) ''maintenance_at'' (JTime (MaintenanceAt r)) @
     [(''last_unseal_ip'', JStr (LastUnsealIP r))] @
     [(''status'', JStr (Status r))] @
     omit (NodeIP r = '''') ''node_ip'' (JStr (NodeIP r)) @
     omit (Hostname r = '''') ''hostname'' (JStr (Hostname r)) @
     omit (BlockReason r = '''') ''block_reason'' (JStr (BlockReason r)) @
     omit (\<not> Maintenance r) ''maintenance'' (JBool (Maintenance r))"

definition enc_record :: "LeaseRecord \<Rightarrow> json option" where
  "enc_record r = (if record_times_ok r then Some (JObj (record_fields r)) else None)"

definition record_schema :: "LeaseRecord schema" where
  "record_schema =
     [(''last_heartbeat_at'', \<lambda>v r. map_option (\<lambda>t. r\<lparr>LastHeartbeatAt := t\<rparr>) (dec_time v (LastHeartbeatAt r))),
      (''lease_until'', \<lambda>v r. map_option (\<lambda>t. r\<lparr>LeaseUntil := t\<rparr>) (dec_time v (LeaseUntil r))),
      (''last_unseal_at'', \<lambda>v r. map_option (\<lambda>t. r\<lparr>LastUnsealAt := t\<rparr>) (dec_time v (LastUnsealAt r))),
      (''first_seen'', \<lambda>v r. map_option (\<lambda>t. r\<lparr>FirstSeen := t\<rparr>) (dec_time v (FirstSeen r))),
      (''blocked_at'', \<lambda>v r. map_option (\<lambda>t. r\<lparr>BlockedAt := t\<rparr>) (dec_time v (BlockedAt r))),
      (''maintenance_at'', \<lambda>v r. map_option (\<lambda>t. r\<lparr>MaintenanceAt := t\<rparr>) (dec_time v (MaintenanceAt r))),
      (''last_unseal_ip'', \<lambda>v r. map_option (\<lambda>s. r\<lparr>LastUnsealIP := s\<rparr>) (dec_string v (LastUnsealIP r))),
      (''status'', \<lambda>v r. map_option (\<lambda>s. r\<lparr>Status := s\<rparr>) (dec_string v (Status r))),
      (''node_ip'', \<lambda>v r. map_option (\<lambda>s. r\<lparr>NodeIP := s\<rparr>) (dec_string v (NodeIP r))),
      (''hostname'', \<lambda>v r. map_option (\<lambda>s. r\<lparr>Hostname := s\<rparr>) (dec_string v (Hostname r))),
      (''block_reason'', \<lambda>v r. map_option (\<lambda>s. r\<lparr>BlockReason := s\<rparr>) (dec_string v (BlockReason r))),
      (''maintenance'', \<lambda>v r. map_option (\<lambda>b. r\<lparr>Maintenance := b\<rparr>) (dec_bool v (Maintenance r)))]"

definition dec_record :: "json \<Rightarrow> LeaseRecord option" where
  "dec_record j = dec_struct record_schema j zeroRecord"

lemma dec_fields_omit:
  "map_of sch key = Some f \<Longrightarrow>
   dec_fields sch (omit zero key v) r = (if zero then Some r else f v r)"
  by (simp add: omit_def schema_field_exact split: option.split)

lemma dec_record_fields: "dec_fields record_schema (record_fields r) zeroRecord = Some r"
proof -
  have field: "map_of record_schema ''first_seen'' =
      Some (\<lambda>v r. map_option (\<lambda>t. r\<lparr>FirstSeen := t\<rparr>) (dec_time v (FirstSeen r)))"
    "map_of record_schema ''blocked_at'' =
      Some (\<lambda>v r. map_option (\<lambda>t. r\<lparr>BlockedAt := t\<rparr>) (dec_time v (BlockedAt r)))"
    "map_of record_schema ''maintenance_at'' =
      Some (\<lambda>v r. map_option (\<lambda>t. r\<lparr>MaintenanceAt := t\<rparr>) (dec_time v (MaintenanceAt r)))"
    "map_of record_schema ''node_ip'' =
      Some (\<lambda>v r. map_option (\<lambda>s. r\<lparr>NodeIP := s\<rparr>) (dec_string v (NodeIP r)))"
    "map_of record_schema ''hostname'' =
      Some (\<lambda>v r. map_option (\<lambda>s. r\<lparr>Hostname := s\<rparr>) (dec_string v (Hostname r)))"
    "map_of record_schema ''block_reason'' =
      Some (\<lambda>v r. map_option (\<lambda>s. r\<lparr>BlockReason := s\<rparr>) (dec_string v (BlockReason r)))"
    "map_of record_schema ''maintenance'' =
      Some (\<lambda>v r. map_option (\<lambda>b. r\<lparr>Maintenance := b\<rparr>) (dec_bool v (Maintenance r)))"
    "map_of record_schema ''last_heartbeat_at'' =
      Some (\<lambda>v r. map_option (\<lambda>t. r\<lparr>LastHeartbeatAt := t\<rparr>) (dec_time v (LastHeartbeatAt r)))"
    "map_of record_schema ''lease_until'' =
      Some (\<lambda>v r. map_option (\<lambda>t. r\<lparr>LeaseUntil := t\<rparr>) (dec_time v (LeaseUntil r)))"
    "map_of record_schema ''last_unseal_at'' =
      Some (\<lambda>v r. map_option (\<lambda>t. r\<lparr>LastUnsealAt := t\<rparr>) (dec_time v (LastUnsealAt r)))"
    "map_of record_schema ''last_unseal_ip'' =
      Some (\<lambda>v r. map_option (\<lambda>s. r\<lparr>LastUnsealIP := s\<rparr>) (dec_string v (LastUnsealIP r)))"
    "map_of record_schema ''status'' =
      Some (\<lambda>v r. map_option (\<lambda>s. r\<lparr>Status := s\<rparr>) (dec_string v (Status r)))"
    by (simp_all add: record_schema_def)
  have omitted: "(if b then Some x else Some y) = Some (if b then x else y)" for b and x y :: LeaseRecord
    by simp
  show ?thesis
    unfolding record_fields_def
    by (simp only: dec_fields_append field [THEN dec_fields_omit]
        field [THEN dec_fields_single] dec_time.simps dec_string.simps dec_bool.simps
        option.map option.case omitted)
      (cases r, auto simp: zeroRecord_def IsZero_def)
qed

interpretation lease_record: json_codec enc_record dec_record
  by unfold_locales
    (auto simp: enc_record_def dec_record_def dec_record_fields split: if_splits)

subsection \<open>JSON of the store file\<close>

text \<open>
  \<open>leaseStoreFile\<close> holds the map of the nodes, which may be nil (\<open>None\<close>). Encoding
  a Go map writes its keys in increasing order.
\<close>

record leaseStoreFile =
  Nodes :: "LeaseRecord gomap option"

definition node_members :: "LeaseRecord gomap \<Rightarrow> (string \<times> json) list" where
  "node_members m = map (\<lambda>(k, r). (k, JObj (record_fields r))) (sorted_list_of_fmap m)"

definition nodes_times_ok :: "LeaseRecord gomap \<Rightarrow> bool" where
  "nodes_times_ok m \<longleftrightarrow> list_all (\<lambda>(k, r). record_times_ok r) (sorted_list_of_fmap m)"

definition enc_file :: "leaseStoreFile \<Rightarrow> json option" where
  "enc_file f =
     (case Nodes f of
        None \<Rightarrow> Some (JObj [(''nodes'', JNull)])
      | Some m \<Rightarrow> if nodes_times_ok m then Some (JObj [(''nodes'', JObj (node_members m))]) else None)"

fun dec_entries :: "(string \<times> json) list \<Rightarrow> LeaseRecord gomap \<Rightarrow> LeaseRecord gomap option" where
  "dec_entries [] m = Some m"
| "dec_entries ((k, v) # kvs) m =
     (case dec_record v of None \<Rightarrow> None | Some r \<Rightarrow> dec_entries kvs (fmupd k r m))"

fun dec_nodes :: "json \<Rightarrow> LeaseRecord gomap option \<Rightarrow> LeaseRecord gomap option option" where
  "dec_nodes JNull cur = Some None"
| "dec_nodes (JObj kvs) cur =
     map_option Some (dec_entries kvs (case cur of None \<Rightarrow> fmempty | Some m \<Rightarrow> m))"
| "dec_nodes _ cur = None"

definition file_schema :: "leaseStoreFile schema" where
  "file_schema = [(''nodes'', \<lambda>v f. map_option (\<lambda>n. f\<lparr>Nodes := n\<rparr>) (dec_nodes v (Nodes f)))]"

definition dec_file :: "json \<Rightarrow> leaseStoreFile option" where
  "dec_file j = dec_struct file_schema j \<lparr>Nodes = None\<rparr>"

lemma nodes_times_ok_iff:
  "nodes_times_ok m \<longleftrightarrow> (\<forall>k r. fmlookup m k = Some r \<longrightarrow> record_times_ok r)"
  unfolding nodes_times_ok_def sorted_list_of_fmap_def list_all_iff
  by (auto simp: fmlookup_dom_iff) (metis fmdomI option.sel)

lemma dec_entries_members:
  "dec_entries (map (\<lambda>(k, r). (k, JObj (record_fields r))) kvs) m =
     Some (fold (\<lambda>(k, r). fmupd k r) kvs m)"
  by (induction kvs arbitrary: m) (auto simp: dec_record_def dec_record_fields)

lemma fmlookup_fold_upd:
  "distinct (map fst kvs) \<Longrightarrow>
   fmlookup (fold (\<lambda>(k, r). fmupd k r) kvs m) k =
     (case map_of kvs k of Some r \<Rightarrow> Some r | None \<Rightarrow> fmlookup m k)"
proof (induction kvs arbitrary: m)
  case Nil
  then show ?case by simp
next
  case (Cons p kvs)
  obtain a b where p: "p = (a, b)" by (cases p)
  with Cons.prems have "map_of kvs a = None" by (simp add: map_of_eq_None_iff)
  with Cons p show ?case by (auto split: option.splits)
qed

lemma fold_sorted_list_of_fmap:
  "fold (\<lambda>(k, r). fmupd k r) (sorted_list_of_fmap m) fmempty = m"
proof (rule fmap_ext)
  fix k
  have keys: "map fst (sorted_list_of_fmap m) = sorted_list_of_fset (fmdom m)"
    by (simp add: sorted_list_of_fmap_def o_def)
  then have "distinct (map fst (sorted_list_of_fmap m))"
    by (simp add: sorted_list_of_fset.rep_eq)
  moreover have "map_of (sorted_list_of_fmap m) k = fmlookup m k"
    by (auto simp: sorted_list_of_fmap_def map_of_map_restrict restrict_map_def o_def
        fmlookup_dom_iff split: option.splits)
  ultimately show "fmlookup (fold (\<lambda>(k, r). fmupd k r) (sorted_list_of_fmap m) fmempty) k =
      fmlookup m k"
    by (simp add: fmlookup_fold_upd split: option.split)
qed

lemma dec_file_enc_file: "enc_file f = Some j \<Longrightarrow> dec_file j = Some f"
  by (cases f)
    (auto simp: enc_file_def dec_file_def file_schema_def schema_field_def node_members_def
      dec_entries_members fold_sorted_list_of_fmap split: option.splits if_splits)

interpretation store_file: json_codec enc_file dec_file
  by unfold_locales (rule dec_file_enc_file)

end
