(* ===== verification/Metrics.thy ===== *)
theory Metrics
  imports Go_Base
begin

text \<open>
  The gRPC error values the server returns, and the Prometheus metrics of
  \<open>src/pkg/server/metrics.go\<close>.

  The gRPC library is not part of the repository: \<open>status.FromError\<close>,
  \<open>codes.Code.String\<close> are the fields of a record \<open>grpc_lib\<close> that the definitions take
  as an argument, and the locale \<open>grpc_status\<close> states what their documentation promises.
  The Prometheus client is not part of the repository either: a \<open>*Metrics\<close> is the list
  of calls made on its collectors so far, and \<open>None\<close> is the nil pointer, on which every
  method returns at once.
\<close>

subsection \<open>gRPC status errors\<close>

datatype code =
    OK | Canceled | Unknown | InvalidArgument | DeadlineExceeded | NotFound | AlreadyExists
  | PermissionDenied | ResourceExhausted | FailedPrecondition | Aborted | OutOfRange
  | Unimplemented | Internal | Unavailable | DataLoss | Unauthenticated

text \<open>An error of a handler: \<open>status.Error(c, m)\<close>, or any other Go error.\<close>

datatype rpc_error = StatusErr code string | GoErr go_error

record grpc_lib =
  FromError :: "rpc_error \<Rightarrow> (code \<times> string) option"
  CodeString :: "code \<Rightarrow> string"

locale grpc_status =
  fixes g :: grpc_lib
  assumes FromError_status: "FromError g (StatusErr c m) = Some (c, m)"
    and FromError_plain: "FromError g (GoErr e) = None"

text \<open>The library as documented: the name of a code is the name of its constant.\<close>

primrec code_name :: "code \<Rightarrow> string" where
  "code_name OK = ''OK''"
| "code_name Canceled = ''Canceled''"
| "code_name Unknown = ''Unknown''"
| "code_name InvalidArgument = ''InvalidArgument''"
| "code_name DeadlineExceeded = ''DeadlineExceeded''"
| "code_name NotFound = ''NotFound''"
| "code_name AlreadyExists = ''AlreadyExists''"
| "code_name PermissionDenied = ''PermissionDenied''"
| "code_name ResourceExhausted = ''ResourceExhausted''"
| "code_name FailedPrecondition = ''FailedPrecondition''"
| "code_name Aborted = ''Aborted''"
| "code_name OutOfRange = ''OutOfRange''"
| "code_name Unimplemented = ''Unimplemented''"
| "code_name Internal = ''Internal''"
| "code_name Unavailable = ''Unavailable''"
| "code_name DataLoss = ''DataLoss''"
| "code_name Unauthenticated = ''Unauthenticated''"

primrec status_of :: "rpc_error \<Rightarrow> (code \<times> string) option" where
  "status_of (StatusErr c m) = Some (c, m)"
| "status_of (GoErr e) = None"

definition grpc_doc :: grpc_lib where
  "grpc_doc = \<lparr>FromError = status_of, CodeString = code_name\<rparr>"

interpretation doc: grpc_status grpc_doc
  by unfold_locales (simp_all add: grpc_doc_def)

subsection \<open>Calls on the collectors\<close>

datatype metric_event =
    UnsealRequests string string
  | HeartbeatRequest string string
  | RequestDuration string duration
  | ActiveLeases nat
  | ExpiredLeases nat
  | LeaseStoreErrors string
  | HeartbeatTimeouts nat

type_synonym metrics = "metric_event list option"

definition NewMetrics :: metrics where
  "NewMetrics = Some []"

definition requestLabels :: "grpc_lib \<Rightarrow> rpc_error option \<Rightarrow> string \<times> string" where
  "requestLabels g err =
     (case err of
        None \<Rightarrow> (''success'', ''ok'')
      | Some e \<Rightarrow>
          (case FromError g e of
             None \<Rightarrow> (''error'', ''internal'')
           | Some (c, msg) \<Rightarrow>
               if c = PermissionDenied then
                 (if Contains msg ''blocked'' then (''denied'', ''node_blocked'')
                  else if Contains msg ''expired'' then (''denied'', ''lease_expired'')
                  else if Contains msg ''missing'' then (''denied'', ''lease_missing'')
                  else if Contains msg ''registered'' then (''denied'', ''unknown_peer_ip'')
                  else (''denied'', ''permission_denied''))
               else if c = InvalidArgument then (''error'', ''invalid_argument'')
               else if c = Unauthenticated then (''denied'', ''unauthenticated'')
               else if c = FailedPrecondition then (''denied'', ''failed_precondition'')
               else (''error'', ToLower (CodeString g c))))"

definition observeUnseal :: "grpc_lib \<Rightarrow> metrics \<Rightarrow> rpc_error option \<Rightarrow> duration \<Rightarrow> metrics" where
  "observeUnseal g ms err d =
     (case ms of
        None \<Rightarrow> None
      | Some log \<Rightarrow>
          (let (result, reason) = requestLabels g err
           in Some (log @ [UnsealRequests result reason, RequestDuration ''unseal'' d])))"

definition observeHeartbeat :: "grpc_lib \<Rightarrow> metrics \<Rightarrow> rpc_error option \<Rightarrow> duration \<Rightarrow> metrics" where
  "observeHeartbeat g ms err d =
     (case ms of
        None \<Rightarrow> None
      | Some log \<Rightarrow>
          (let (result, reason) = requestLabels g err
           in Some (log @ [HeartbeatRequest result reason, RequestDuration ''heartbeat'' d])))"

definition setLeaseCounts :: "metrics \<Rightarrow> nat \<Rightarrow> nat \<Rightarrow> metrics" where
  "setLeaseCounts ms active expired =
     (case ms of
        None \<Rightarrow> None
      | Some log \<Rightarrow> Some (log @ [ActiveLeases active, ExpiredLeases expired]))"

definition incHeartbeatTimeouts :: "metrics \<Rightarrow> nat \<Rightarrow> metrics" where
  "incHeartbeatTimeouts ms count =
     (case ms of None \<Rightarrow> None | Some log \<Rightarrow> Some (log @ [HeartbeatTimeouts count]))"

definition incLeaseStoreError :: "metrics \<Rightarrow> string \<Rightarrow> metrics" where
  "incLeaseStoreError ms operation =
     (case ms of None \<Rightarrow> None | Some log \<Rightarrow> Some (log @ [LeaseStoreErrors operation]))"

subsection \<open>Lemmas\<close>

context grpc_status
begin

lemma requestLabels_plain: "requestLabels g (Some (GoErr e)) = (''error'', ''internal'')"
  by (simp add: requestLabels_def FromError_plain)

lemma requestLabels_denied_iff:
  "fst (requestLabels g (Some (StatusErr c m))) = ''denied'' \<longleftrightarrow>
     c \<in> {PermissionDenied, Unauthenticated, FailedPrecondition}"
  by (simp add: requestLabels_def FromError_status)

end

text \<open>The gauge that a scrape reads: the argument of the last call that set it.\<close>

fun active_gauge :: "metric_event list \<Rightarrow> nat option" where
  "active_gauge [] = None"
| "active_gauge (e # es) =
     (case active_gauge es of
        Some n \<Rightarrow> Some n
      | None \<Rightarrow> (case e of ActiveLeases n \<Rightarrow> Some n | _ \<Rightarrow> None))"

fun expired_gauge :: "metric_event list \<Rightarrow> nat option" where
  "expired_gauge [] = None"
| "expired_gauge (e # es) =
     (case expired_gauge es of
        Some n \<Rightarrow> Some n
      | None \<Rightarrow> (case e of ExpiredLeases n \<Rightarrow> Some n | _ \<Rightarrow> None))"

lemma active_gauge_append:
  "active_gauge (es @ fs) = (case active_gauge fs of Some n \<Rightarrow> Some n | None \<Rightarrow> active_gauge es)"
  by (induction es) (auto split: option.splits)

lemma expired_gauge_append:
  "expired_gauge (es @ fs) = (case expired_gauge fs of Some n \<Rightarrow> Some n | None \<Rightarrow> expired_gauge es)"
  by (induction es) (auto split: option.splits)

lemmas gauge_append = active_gauge_append expired_gauge_append

end
