(* ===== verification/Lease_Store.thy ===== *)
theory Lease_Store
  imports Lease_Record Metrics
begin

text \<open>
  The file-backed lease store of \<open>src/pkg/server/lease_store.go\<close>: its state, the
  operations one by one, and the facts every client uses.

  Each exported method holds the store's mutex for its whole body, so a method is one
  state transition; the mutex itself has no other effect and is not a field here. The
  record \<open>LeaseStore\<close> has the struct's fields and, as the environment the methods act
  on, the files of the operating system. \<open>metrics\<close> is the shared \<open>*Metrics\<close>. What
  the operating system answers to the calls of one method is the argument \<open>io\<close>; a failed
  \<open>os.WriteFile\<close> may leave anything at the temporary path. A Go method that returns
  several values returns a tuple, and an \<open>error\<close> result is an option.
\<close>

subsection \<open>State\<close>

datatype file_data = EmptyFile | Malformed | Document json

record LeaseStore =
  nodes :: "LeaseRecord gomap"
  metrics :: metrics
  path :: string
  files :: "string \<rightharpoonup> file_data"

record sys_io =
  MkdirAll_err :: "go_error option"
  WriteFile_err :: "(go_error \<times> file_data option) option"
  Rename_err :: "go_error option"
  ReadFile_err :: "go_error option"

definition io_ok :: sys_io where
  "io_ok = \<lparr>MkdirAll_err = None, WriteFile_err = None, Rename_err = None, ReadFile_err = None\<rparr>"

definition tmpPath :: "LeaseStore \<Rightarrow> string" where
  "tmpPath s = path s @ ''.tmp''"

definition store_error :: "LeaseStore \<Rightarrow> string \<Rightarrow> LeaseStore" where
  "store_error s operation = s\<lparr>metrics := incLeaseStoreError (metrics s) operation\<rparr>"

subsection \<open>Metrics, persistence and loading\<close>

fun lease_counts :: "string list \<Rightarrow> LeaseRecord gomap \<Rightarrow> time \<Rightarrow> nat \<times> nat \<Rightarrow> nat \<times> nat" where
  "lease_counts [] m now (active, expired) = (active, expired)"
| "lease_counts (k # ks) m now (active, expired) =
     (case fmlookup m k of
        None \<Rightarrow> lease_counts ks m now (active, expired)
      | Some record \<Rightarrow>
          if Status record = LeaseStatusBlocked \<or> Status record = LeaseStatusExpired
             \<or> isExpired record now
          then lease_counts ks m now (active, Suc expired)
          else lease_counts ks m now (Suc active, expired))"

definition updateLeaseMetricsLocked :: "LeaseRecord iter \<Rightarrow> time \<Rightarrow> LeaseStore \<Rightarrow> LeaseStore" where
  "updateLeaseMetricsLocked it now s =
     (if metrics s = None then s
      else let (active, expired) = lease_counts (it (nodes s)) (nodes s) now (0, 0)
           in s\<lparr>metrics := setLeaseCounts (metrics s) active expired\<rparr>)"

definition persistLocked :: "sys_io \<Rightarrow> LeaseStore \<Rightarrow> go_error option \<times> LeaseStore" where
  "persistLocked io s =
     (if path s = '''' then (None, s)
      else case MkdirAll_err io of
        Some e \<Rightarrow> (Some (Wrapf ''failed to create lease state directory'' e), store_error s ''mkdir'')
      | None \<Rightarrow>
          (case enc_file \<lparr>Nodes = Some (nodes s)\<rparr> of
             None \<Rightarrow>
               (Some (Wrapf ''failed to encode lease state'' (SysError ''year outside of range [0,9999]'')),
                store_error s ''encode'')
           | Some data \<Rightarrow>
               (case WriteFile_err io of
                  Some (e, left) \<Rightarrow>
                    (Some (Wrapf ''failed to write lease state'' e),
                     store_error (s\<lparr>files := (files s)(tmpPath s := left)\<rparr>) ''write'')
                | None \<Rightarrow>
                    (let s1 = s\<lparr>files := (files s)(tmpPath s \<mapsto> Document data)\<rparr> in
                     case Rename_err io of
                       Some e \<Rightarrow>
                         (Some (Wrapf ''failed to replace lease state'' e), store_error s1 ''rename'')
                     | None \<Rightarrow>
                         (None, s1\<lparr>files := (files s1)(path s \<mapsto> Document data, tmpPath s := None)\<rparr>)))))"

definition ReadFile :: "sys_io \<Rightarrow> (string \<rightharpoonup> file_data) \<Rightarrow> string \<Rightarrow> go_error + file_data" where
  "ReadFile io fs p =
     (case ReadFile_err io of
        Some e \<Rightarrow> Inl e
      | None \<Rightarrow> (case fs p of None \<Rightarrow> Inl (Wrapf (''open '' @ p) ErrNotExist) | Some d \<Rightarrow> Inr d))"

definition load :: "LeaseRecord iter \<Rightarrow> sys_io \<Rightarrow> time \<Rightarrow> LeaseStore \<Rightarrow> go_error option \<times> LeaseStore" where
  "load it io now s =
     (case ReadFile io (files s) (path s) of
        Inl e \<Rightarrow>
          if errors_Is e ErrNotExist then (None, s)
          else (Some (Wrapf ''failed to read lease state'' e), store_error s ''read'')
      | Inr EmptyFile \<Rightarrow> (None, s)
      | Inr Malformed \<Rightarrow>
          (Some (Wrapf ''failed to decode lease state'' (SysError ''invalid JSON'')), store_error s ''decode'')
      | Inr (Document j) \<Rightarrow>
          (case dec_file j of
             None \<Rightarrow>
               (Some (Wrapf ''failed to decode lease state'' (SysError ''cannot unmarshal'')),
                store_error s ''decode'')
           | Some payload \<Rightarrow>
               (None,
                updateLeaseMetricsLocked it (UTC now)
                  (s\<lparr>nodes := (case Nodes payload of None \<Rightarrow> fmempty | Some m \<Rightarrow> m)\<rparr>))))"

definition NewFileLeaseStore ::
  "LeaseRecord iter \<Rightarrow> sys_io \<Rightarrow> time \<Rightarrow> string \<Rightarrow> metrics \<Rightarrow> (string \<rightharpoonup> file_data) \<Rightarrow> go_error + LeaseStore" where
  "NewFileLeaseStore it io now p ms fs =
     (let store = \<lparr>nodes = fmempty, metrics = ms, path = p, files = fs\<rparr> in
      if p = '''' then Inr (updateLeaseMetricsLocked it (UTC now) store)
      else case load it io now store of
        (Some e, _) \<Rightarrow> Inl e
      | (None, store') \<Rightarrow> Inr store')"

subsection \<open>Operations\<close>

definition setNode :: "string \<Rightarrow> LeaseRecord \<Rightarrow> LeaseStore \<Rightarrow> LeaseStore" where
  "setNode nodeUUID record s = s\<lparr>nodes := fmupd nodeUUID record (nodes s)\<rparr>"

definition recordByIPLocked :: "LeaseRecord iter \<Rightarrow> string \<Rightarrow> LeaseStore \<Rightarrow> (string \<times> LeaseRecord) option" where
  "recordByIPLocked it peerIP s =
     range_find (it (nodes s)) (nodes s) (\<lambda>_ record. LastUnsealIP record = peerIP)"

definition Bootstrap ::
  "LeaseRecord iter \<Rightarrow> sys_io \<Rightarrow> string \<Rightarrow> string \<Rightarrow> time \<Rightarrow> duration \<Rightarrow> LeaseStore \<Rightarrow>
   (LeaseRecord \<times> go_error option) \<times> LeaseStore" where
  "Bootstrap it io nodeUUID peerIP now leaseDuration s =
     (let record0 = (activeLease (UTC now) leaseDuration)
            \<lparr>LastUnsealAt := UTC now, LastUnsealIP := peerIP, NodeIP := peerIP\<rparr>;
          record = (case fmlookup (nodes s) nodeUUID of
              Some existing \<Rightarrow> record0\<lparr>FirstSeen := FirstSeen existing, Hostname := Hostname existing\<rparr>
            | None \<Rightarrow> record0\<lparr>FirstSeen := UTC now\<rparr>);
          s1 = s\<lparr>nodes := range_update (it (nodes s))
                   (\<lambda>existingNodeUUID existingRecord.
                      existingNodeUUID = nodeUUID \<or> LastUnsealIP existingRecord \<noteq> peerIP)
                   (\<lambda>existingRecord. existingRecord\<lparr>LastUnsealIP := ''''\<rparr>) (nodes s)\<rparr>;
          s2 = updateLeaseMetricsLocked it (UTC now) (setNode nodeUUID record s1);
          (err, s3) = persistLocked io s2
      in ((record, err), s3))"

definition HeartbeatByIP ::
  "LeaseRecord iter \<Rightarrow> sys_io \<Rightarrow> string \<Rightarrow> time \<Rightarrow> duration \<Rightarrow> LeaseStore \<Rightarrow>
   (string \<times> LeaseRecord \<times> go_error option) \<times> LeaseStore" where
  "HeartbeatByIP it io peerIP now0 leaseDuration s =
     (case recordByIPLocked it peerIP s of
        None \<Rightarrow> (('''', zeroRecord, Some ErrNodeIPNotFound), s)
      | Some (nodeUUID, record) \<Rightarrow>
          (let now = UTC now0 in
           if Status record = LeaseStatusBlocked then ((nodeUUID, record, Some ErrLeaseBlocked), s)
           else if isExpired record now \<or> Status record = LeaseStatusExpired then
             (let record' = record\<lparr>Status := LeaseStatusExpired\<rparr>;
                  s1 = updateLeaseMetricsLocked it now (setNode nodeUUID record' s)
              in case persistLocked io s1 of
                   (Some err, s2) \<Rightarrow> (('''', zeroRecord, Some err), s2)
                 | (None, s2) \<Rightarrow> ((nodeUUID, record', Some ErrLeaseExpired), s2))
           else
             (let record' = record\<lparr>LastHeartbeatAt := now, LeaseUntil := Add now leaseDuration,
                    Status := LeaseStatusActive\<rparr>;
                  s1 = updateLeaseMetricsLocked it now (setNode nodeUUID record' s);
                  (err, s2) = persistLocked io s1
              in ((nodeUUID, record', err), s2))))"

definition Validate ::
  "LeaseRecord iter \<Rightarrow> sys_io \<Rightarrow> string \<Rightarrow> time \<Rightarrow> LeaseStore \<Rightarrow>
   (LeaseRecord \<times> go_error option) \<times> LeaseStore" where
  "Validate it io nodeUUID now0 s =
     (case fmlookup (nodes s) nodeUUID of
        None \<Rightarrow> ((zeroRecord, Some ErrLeaseNotFound), s)
      | Some record \<Rightarrow>
          (let now = UTC now0 in
           if Status record = LeaseStatusBlocked then ((record, Some ErrLeaseBlocked), s)
           else if isExpired record now \<or> Status record = LeaseStatusExpired then
             (let record' = record\<lparr>Status := LeaseStatusExpired\<rparr>;
                  s1 = updateLeaseMetricsLocked it now (setNode nodeUUID record' s)
              in case persistLocked io s1 of
                   (Some err, s2) \<Rightarrow> ((zeroRecord, Some err), s2)
                 | (None, s2) \<Rightarrow> ((record', Some ErrLeaseExpired), s2))
           else ((record, None), s)))"

definition Get :: "string \<Rightarrow> LeaseStore \<Rightarrow> LeaseRecord option" where
  "Get nodeUUID s = fmlookup (nodes s) nodeUUID"

definition HeartbeatByUUID ::
  "LeaseRecord iter \<Rightarrow> sys_io \<Rightarrow> string \<Rightarrow> string \<Rightarrow> string \<Rightarrow> time \<Rightarrow> duration \<Rightarrow> LeaseStore \<Rightarrow>
   (LeaseRecord \<times> go_error option) \<times> LeaseStore" where
  "HeartbeatByUUID it io nodeUUID nodeIP hostname now0 leaseDuration s =
     (let now = UTC now0 in
      case fmlookup (nodes s) nodeUUID of
        None \<Rightarrow>
          (let record = zeroRecord\<lparr>FirstSeen := now, NodeIP := nodeIP, Hostname := hostname,
                 LastHeartbeatAt := now, LeaseUntil := Add now leaseDuration,
                 Status := LeaseStatusActive\<rparr>;
               s1 = updateLeaseMetricsLocked it now (setNode nodeUUID record s);
               (err, s2) = persistLocked io s1
           in ((record, err), s2))
      | Some record \<Rightarrow>
          if Status record = LeaseStatusBlocked then ((record, Some ErrLeaseBlocked), s)
          else
            (let record1 = record\<lparr>LastHeartbeatAt := now, LeaseUntil := Add now leaseDuration,
                   NodeIP := nodeIP\<rparr>;
                 record2 = (if hostname \<noteq> '''' then record1\<lparr>Hostname := hostname\<rparr> else record1);
                 record' = record2\<lparr>Status := LeaseStatusActive\<rparr>;
                 s1 = updateLeaseMetricsLocked it now (setNode nodeUUID record' s);
                 (err, s2) = persistLocked io s1
             in ((record', err), s2)))"

definition ListAll :: "LeaseStore \<Rightarrow> LeaseRecord gomap" where
  "ListAll s = nodes s"

definition Unblock ::
  "LeaseRecord iter \<Rightarrow> sys_io \<Rightarrow> string \<Rightarrow> time \<Rightarrow> duration \<Rightarrow> LeaseStore \<Rightarrow>
   (LeaseRecord \<times> go_error option) \<times> LeaseStore" where
  "Unblock it io nodeUUID now0 leaseDuration s =
     (case fmlookup (nodes s) nodeUUID of
        None \<Rightarrow> ((zeroRecord, Some ErrLeaseNotFound), s)
      | Some record \<Rightarrow>
          (let now = UTC now0;
               record' = record\<lparr>Status := LeaseStatusActive, BlockedAt := 0, BlockReason := '''',
                 LastHeartbeatAt := now, LeaseUntil := Add now leaseDuration\<rparr>;
               s1 = updateLeaseMetricsLocked it now (setNode nodeUUID record' s);
               (err, s2) = persistLocked io s1
           in ((record', err), s2)))"

definition SetMaintenance ::
  "sys_io \<Rightarrow> string \<Rightarrow> bool \<Rightarrow> time \<Rightarrow> duration \<Rightarrow> LeaseStore \<Rightarrow>
   (LeaseRecord \<times> go_error option) \<times> LeaseStore" where
  "SetMaintenance io nodeUUID enabled now0 leaseDuration s =
     (case fmlookup (nodes s) nodeUUID of
        None \<Rightarrow> ((zeroRecord, Some ErrLeaseNotFound), s)
      | Some record \<Rightarrow>
          (let now = UTC now0;
               record1 = record\<lparr>Maintenance := enabled\<rparr>;
               record' = (if enabled then record1\<lparr>MaintenanceAt := now\<rparr>
                 else record1\<lparr>MaintenanceAt := 0, LastHeartbeatAt := now,
                   LeaseUntil := Add now leaseDuration\<rparr>);
               (err, s2) = persistLocked io (setNode nodeUUID record' s)
           in ((record', err), s2)))"

fun block_loop ::
  "string list \<Rightarrow> time \<Rightarrow> duration \<Rightarrow> string list \<Rightarrow> LeaseRecord gomap \<Rightarrow> string list \<times> LeaseRecord gomap" where
  "block_loop [] now heartbeatTimeout blocked m = (blocked, m)"
| "block_loop (k # ks) now heartbeatTimeout blocked m =
     (case fmlookup m k of
        None \<Rightarrow> block_loop ks now heartbeatTimeout blocked m
      | Some record \<Rightarrow>
          if Status record \<noteq> LeaseStatusActive then block_loop ks now heartbeatTimeout blocked m
          else if Maintenance record then block_loop ks now heartbeatTimeout blocked m
          else if IsZero (LastHeartbeatAt record) then block_loop ks now heartbeatTimeout blocked m
          else if Sub now (LastHeartbeatAt record) \<le> heartbeatTimeout
            then block_loop ks now heartbeatTimeout blocked m
          else block_loop ks now heartbeatTimeout (blocked @ [k])
                 (fmupd k (record\<lparr>Status := LeaseStatusBlocked, BlockedAt := now,
                    BlockReason := ''heartbeat_timeout''\<rparr>) m))"

definition BlockExpiredNodes ::
  "LeaseRecord iter \<Rightarrow> sys_io \<Rightarrow> time \<Rightarrow> duration \<Rightarrow> LeaseStore \<Rightarrow> string list \<times> LeaseStore" where
  "BlockExpiredNodes it io now0 heartbeatTimeout s =
     (let now = UTC now0;
          (blocked, m) = block_loop (it (nodes s)) now heartbeatTimeout [] (nodes s);
          s1 = s\<lparr>nodes := m\<rparr>
      in if 0 < length blocked
         then (blocked, snd (persistLocked io (updateLeaseMetricsLocked it now s1)))
         else (blocked, s1))"

definition LookupByIP :: "LeaseRecord iter \<Rightarrow> string \<Rightarrow> LeaseStore \<Rightarrow> go_error + string \<times> LeaseRecord" where
  "LookupByIP it ip s =
     (case recordByIPLocked it ip s of
        None \<Rightarrow>
          (case range_find (it (nodes s)) (nodes s) (\<lambda>_ rec. NodeIP rec = ip) of
             Some (uuid, rec) \<Rightarrow> Inr (uuid, rec)
           | None \<Rightarrow> Inl ErrNodeIPNotFound)
      | Some (nodeUUID, record) \<Rightarrow> Inr (nodeUUID, record))"

end
