(* ===== verification/Lease_Store_Facts.thy ===== *)
theory Lease_Store_Facts
  imports Lease_Store "HOL-Library.Multiset"
begin

text \<open>
  What the lease store promises its clients. The abstract specification is a machine per
  node: \<open>node_step\<close> says how one operation changes the record of one node, with no file,
  no metrics and no iteration order. The store refines it (\<open>store_refines\<close>), operation
  by operation, for every iteration order the runtime may choose and every answer of the
  operating system; the invariant \<open>store_inv\<close> is what makes the lookup by address
  deterministic.
\<close>

subsection \<open>Frame facts of the helpers\<close>

lemma store_error_simps [simp]:
  "nodes (store_error s op) = nodes s" "path (store_error s op) = path s"
  "files (store_error s op) = files s"
  by (simp_all add: store_error_def)

lemma updateLeaseMetrics_simps [simp]:
  "nodes (updateLeaseMetricsLocked it now s) = nodes s"
  "path (updateLeaseMetricsLocked it now s) = path s"
  "files (updateLeaseMetricsLocked it now s) = files s"
  by (simp_all add: updateLeaseMetricsLocked_def split: prod.splits)

lemma setNode_simps [simp]:
  "nodes (setNode k r s) = fmupd k r (nodes s)" "path (setNode k r s) = path s"
  "files (setNode k r s) = files s"
  by (simp_all add: setNode_def)

lemma persist_simps [simp]:
  "nodes (snd (persistLocked io s)) = nodes s" "path (snd (persistLocked io s)) = path s"
  by (auto simp: persistLocked_def Let_def split: option.splits)

lemma persist_pairD:
  "persistLocked io s = (e, s') \<Longrightarrow> nodes s' = nodes s \<and> path s' = path s"
  using persist_simps [of io s] by simp

lemma tmpPath_neq [simp]: "tmpPath s \<noteq> path s" "path s \<noteq> tmpPath s"
  by (simp_all add: tmpPath_def)

subsection \<open>The operations as one transition function\<close>

datatype store_op =
    OpBootstrap string string time duration
  | OpHeartbeatByIP string time duration
  | OpValidate string time
  | OpHeartbeatByUUID string string string time duration
  | OpUnblock string time duration
  | OpSetMaintenance string bool time duration
  | OpBlockExpiredNodes time duration

text \<open>One method call: the error it returns and the store afterwards.\<close>

fun exec_op ::
  "LeaseRecord iter \<Rightarrow> sys_io \<Rightarrow> store_op \<Rightarrow> LeaseStore \<Rightarrow> go_error option \<times> LeaseStore" where
  "exec_op it io (OpBootstrap u ip t d) s =
     (case Bootstrap it io u ip t d s of ((r, e), s') \<Rightarrow> (e, s'))"
| "exec_op it io (OpHeartbeatByIP ip t d) s =
     (case HeartbeatByIP it io ip t d s of ((u, r, e), s') \<Rightarrow> (e, s'))"
| "exec_op it io (OpValidate u t) s =
     (case Validate it io u t s of ((r, e), s') \<Rightarrow> (e, s'))"
| "exec_op it io (OpHeartbeatByUUID u ip h t d) s =
     (case HeartbeatByUUID it io u ip h t d s of ((r, e), s') \<Rightarrow> (e, s'))"
| "exec_op it io (OpUnblock u t d) s =
     (case Unblock it io u t d s of ((r, e), s') \<Rightarrow> (e, s'))"
| "exec_op it io (OpSetMaintenance u b t d) s =
     (case SetMaintenance io u b t d s of ((r, e), s') \<Rightarrow> (e, s'))"
| "exec_op it io (OpBlockExpiredNodes t d) s =
     (case BlockExpiredNodes it io t d s of (bs, s') \<Rightarrow> (None, s'))"

text \<open>A call with the choices the environment makes for it.\<close>

type_synonym store_call = "LeaseRecord iter \<times> sys_io \<times> store_op"

definition exec_call :: "store_call \<Rightarrow> LeaseStore \<Rightarrow> LeaseStore" where
  "exec_call c s = (case c of (it, io, op) \<Rightarrow> snd (exec_op it io op s))"

text \<open>A heartbeat by address needs an address; everything else may be called with anything.\<close>

fun op_ok :: "store_op \<Rightarrow> bool" where
  "op_ok (OpHeartbeatByIP ip t d) = (ip \<noteq> '''')"
| "op_ok _ = True"

definition call_ok :: "store_call \<Rightarrow> bool" where
  "call_ok c \<longleftrightarrow> valid_iter (fst c) \<and> op_ok (snd (snd c))"

subsection \<open>The abstract machine of one node\<close>

text \<open>Expiry as \<open>Validate\<close> and \<open>HeartbeatByIP\<close> see it.\<close>

definition lapsed :: "LeaseRecord \<Rightarrow> time \<Rightarrow> bool" where
  "lapsed r now \<longleftrightarrow> isExpired r now \<or> Status r = LeaseStatusExpired"

definition overdue :: "LeaseRecord \<Rightarrow> time \<Rightarrow> duration \<Rightarrow> bool" where
  "overdue r now timeout \<longleftrightarrow>
     Status r = LeaseStatusActive \<and> \<not> Maintenance r \<and> LastHeartbeatAt r \<noteq> 0 \<and>
     timeout < Sub now (LastHeartbeatAt r)"

definition renewed :: "LeaseRecord \<Rightarrow> time \<Rightarrow> duration \<Rightarrow> LeaseRecord" where
  "renewed r now d = r\<lparr>LastHeartbeatAt := now, LeaseUntil := now + d, Status := LeaseStatusActive\<rparr>"

definition blocked_at :: "LeaseRecord \<Rightarrow> time \<Rightarrow> LeaseRecord" where
  "blocked_at r now =
     r\<lparr>Status := LeaseStatusBlocked, BlockedAt := now, BlockReason := ''heartbeat_timeout''\<rparr>"

definition bootstrapped :: "string \<Rightarrow> time \<Rightarrow> duration \<Rightarrow> LeaseRecord option \<Rightarrow> LeaseRecord" where
  "bootstrapped ip now d old =
     \<lparr>LastHeartbeatAt = now, LeaseUntil = now + d, LastUnsealAt = now,
      FirstSeen = (case old of Some r \<Rightarrow> FirstSeen r | None \<Rightarrow> now),
      BlockedAt = 0, MaintenanceAt = 0, LastUnsealIP = ip, Status = LeaseStatusActive,
      NodeIP = ip, Hostname = (case old of Some r \<Rightarrow> Hostname r | None \<Rightarrow> ''''),
      BlockReason = '''', Maintenance = False\<rparr>"

fun node_step :: "store_op \<Rightarrow> string \<Rightarrow> LeaseRecord option \<Rightarrow> LeaseRecord option" where
  "node_step (OpBootstrap u ip t d) k old =
     (if k = u then Some (bootstrapped ip t d old)
      else map_option (\<lambda>r. if LastUnsealIP r \<noteq> ip then r else r\<lparr>LastUnsealIP := ''''\<rparr>) old)"
| "node_step (OpHeartbeatByIP ip t d) k old =
     map_option (\<lambda>r.
       if LastUnsealIP r \<noteq> ip \<or> Status r = LeaseStatusBlocked then r
       else if lapsed r t then r\<lparr>Status := LeaseStatusExpired\<rparr>
       else renewed r t d) old"
| "node_step (OpValidate u t) k old =
     map_option (\<lambda>r.
       if k \<noteq> u \<or> Status r = LeaseStatusBlocked \<or> \<not> lapsed r t then r
       else r\<lparr>Status := LeaseStatusExpired\<rparr>) old"
| "node_step (OpHeartbeatByUUID u ip h t d) k old =
     (if k \<noteq> u then old
      else case old of
        None \<Rightarrow> Some (renewed (zeroRecord\<lparr>FirstSeen := t, NodeIP := ip, Hostname := h\<rparr>) t d)
      | Some r \<Rightarrow>
          if Status r = LeaseStatusBlocked then Some r
          else Some (renewed (r\<lparr>NodeIP := ip, Hostname := (if h = '''' then Hostname r else h)\<rparr>) t d))"
| "node_step (OpUnblock u t d) k old =
     map_option (\<lambda>r. if k \<noteq> u then r else renewed (r\<lparr>BlockedAt := 0, BlockReason := ''''\<rparr>) t d) old"
| "node_step (OpSetMaintenance u b t d) k old =
     map_option (\<lambda>r.
       if k \<noteq> u then r
       else if b then r\<lparr>Maintenance := True, MaintenanceAt := t\<rparr>
       else r\<lparr>Maintenance := False, MaintenanceAt := 0, LastHeartbeatAt := t, LeaseUntil := t + d\<rparr>) old"
| "node_step (OpBlockExpiredNodes t timeout) k old =
     map_option (\<lambda>r. if overdue r t timeout then blocked_at r t else r) old"

subsection \<open>The invariant\<close>

text \<open>No two nodes are bound to the same unseal address.\<close>

definition unique_ip :: "LeaseRecord gomap \<Rightarrow> bool" where
  "unique_ip m \<longleftrightarrow>
     (\<forall>k k' r r'. fmlookup m k = Some r \<longrightarrow> fmlookup m k' = Some r' \<longrightarrow>
        LastUnsealIP r = LastUnsealIP r' \<longrightarrow> LastUnsealIP r \<noteq> '''' \<longrightarrow> k = k')"

text \<open>
  The fields of a record agree: the status is one of the three constants, the block
  fields are set exactly while the node is blocked, and no maintenance start is kept
  outside maintenance.
\<close>

definition record_ok :: "LeaseRecord \<Rightarrow> bool" where
  "record_ok r \<longleftrightarrow>
     Status r \<in> {LeaseStatusActive, LeaseStatusExpired, LeaseStatusBlocked} \<and>
     (Status r \<noteq> LeaseStatusBlocked \<longrightarrow> BlockedAt r = 0 \<and> BlockReason r = '''') \<and>
     (Status r = LeaseStatusBlocked \<longrightarrow> BlockReason r = ''heartbeat_timeout'') \<and>
     (\<not> Maintenance r \<longrightarrow> MaintenanceAt r = 0)"

definition store_inv :: "LeaseStore \<Rightarrow> bool" where
  "store_inv s \<longleftrightarrow>
     unique_ip (nodes s) \<and> (\<forall>k r. fmlookup (nodes s) k = Some r \<longrightarrow> record_ok r)"

subsection \<open>Each operation refines the machine\<close>

text \<open>The blocking loop: which nodes it collects and what it does to each of them.\<close>

lemma block_loop_nodes:
  "snd (block_loop ks now timeout bl m) =
     range_update ks (\<lambda>_ r. \<not> overdue r now timeout) (\<lambda>r. blocked_at r now) m"
  by (induction ks now timeout bl m rule: block_loop.induct)
    (auto simp: overdue_def blocked_at_def IsZero_def not_le split: option.splits)

lemma block_loop_blocked:
  "distinct ks \<Longrightarrow>
   fst (block_loop ks now timeout bl m) =
     bl @ filter (\<lambda>k. case fmlookup m k of None \<Rightarrow> False | Some r \<Rightarrow> overdue r now timeout) ks"
proof (induction ks now timeout bl m rule: block_loop.induct)
  case (2 k ks now timeout bl m)
  have upd: "filter (\<lambda>k. case fmlookup (fmupd k' r m) k of None \<Rightarrow> False | Some r \<Rightarrow> overdue r now timeout) ks =
    filter (\<lambda>k. case fmlookup m k of None \<Rightarrow> False | Some r \<Rightarrow> overdue r now timeout) ks"
    if "k' \<notin> set ks" for k' r
    using that by (intro filter_cong) auto
  show ?case
  proof (cases "fmlookup m k")
    case None
    with 2 show ?thesis by simp
  next
    case (Some r)
    with 2 upd show ?thesis by (auto simp: overdue_def IsZero_def not_le)
  qed
qed simp

lemma block_loop_length: "length bl \<le> length (fst (block_loop ks now timeout bl m))"
proof (induction ks now timeout bl m rule: block_loop.induct)
  case (2 k ks now timeout bl m)
  then show ?case by (auto split: option.splits)
qed simp

lemma block_loop_idle:
  "fst (block_loop ks now timeout bl m) = bl \<Longrightarrow> snd (block_loop ks now timeout bl m) = m"
proof (induction ks now timeout bl m rule: block_loop.induct)
  case (2 k ks now timeout bl m)
  have "fst (block_loop ks now timeout (bl @ [k]) m') \<noteq> bl" for m'
    using block_loop_length [of "bl @ [k]" ks now timeout m'] by auto
  with 2 show ?case by (auto split: option.splits if_splits)
qed simp

text \<open>Ranging over the nodes of the store, in any order the runtime chooses.\<close>

locale lease_range = map_range it for it :: "LeaseRecord iter"
begin

lemma BlockExpiredNodes_nodes:
  "fmlookup (nodes (snd (BlockExpiredNodes it io t d s))) k =
    node_step (OpBlockExpiredNodes t d) k (fmlookup (nodes s) k)"
proof -
  have "nodes (snd (BlockExpiredNodes it io t d s)) = snd (block_loop (it (nodes s)) t d [] (nodes s))"
    by (simp add: BlockExpiredNodes_def UTC_def Let_def split: prod.splits)
  then show ?thesis
    by (auto simp: block_loop_nodes lookup_update intro!: option.map_cong)
qed

lemma BlockExpiredNodes_fst:
  "fst (BlockExpiredNodes it io t d s) =
    filter (\<lambda>k. case fmlookup (nodes s) k of None \<Rightarrow> False | Some r \<Rightarrow> overdue r t d) (it (nodes s))"
  using block_loop_blocked [OF visits_once, where m = "nodes s" and now = t and timeout = d and bl = "[]"]
  by (simp add: BlockExpiredNodes_def UTC_def Let_def case_prod_unfold)

lemma BlockExpiredNodes_mem:
  "k \<in> set (fst (BlockExpiredNodes it io t d s)) \<longleftrightarrow>
    (\<exists>r. fmlookup (nodes s) k = Some r \<and> overdue r t d)"
  by (auto simp: BlockExpiredNodes_fst visited_lookup split: option.splits)

lemma BlockExpiredNodes_distinct: "distinct (fst (BlockExpiredNodes it io t d s))"
  by (simp add: BlockExpiredNodes_fst visits_once)

lemma Bootstrap_nodes:
  "fmlookup (nodes (snd (Bootstrap it io u ip t d s))) k =
    node_step (OpBootstrap u ip t d) k (fmlookup (nodes s) k)"
  by (auto simp: Bootstrap_def bootstrapped_def activeLease_def zeroRecord_def time_defs Let_def
      lookup_update split: prod.splits option.splits dest!: persist_pairD)

lemma recordByIP_unique:
  assumes "unique_ip (nodes s)" and "ip \<noteq> ''''"
  shows "recordByIPLocked it ip s = Some (k, r) \<longleftrightarrow>
    fmlookup (nodes s) k = Some r \<and> LastUnsealIP r = ip"
proof
  assume "recordByIPLocked it ip s = Some (k, r)"
  then show "fmlookup (nodes s) k = Some r \<and> LastUnsealIP r = ip"
    by (auto simp: recordByIPLocked_def dest: range_find_Some)
next
  assume k: "fmlookup (nodes s) k = Some r \<and> LastUnsealIP r = ip"
  show "recordByIPLocked it ip s = Some (k, r)"
    unfolding recordByIPLocked_def
  proof (rule find_unique)
    show "k' = k" if "fmlookup (nodes s) k' = Some r'" "LastUnsealIP r' = ip" for k' r'
      using assms k that unfolding unique_ip_def by metis
  qed (use k in simp_all)
qed

lemma recordByIP_None:
  "recordByIPLocked it ip s = None \<longleftrightarrow>
    (\<forall>k r. fmlookup (nodes s) k = Some r \<longrightarrow> LastUnsealIP r \<noteq> ip)"
  by (simp add: recordByIPLocked_def find_None_iff)

lemma HeartbeatByIP_nodes:
  assumes "unique_ip (nodes s)" and "ip \<noteq> ''''"
  shows "fmlookup (nodes (snd (HeartbeatByIP it io ip t d s))) k =
    node_step (OpHeartbeatByIP ip t d) k (fmlookup (nodes s) k)"
proof (cases "recordByIPLocked it ip s")
  case None
  then have "\<forall>k r. fmlookup (nodes s) k = Some r \<longrightarrow> LastUnsealIP r \<noteq> ip"
    by (simp only: recordByIP_None)
  with None show ?thesis
    by (cases "fmlookup (nodes s) k") (auto simp: HeartbeatByIP_def)
next
  case (Some p)
  then obtain u r where p: "recordByIPLocked it ip s = Some (u, r)" by (cases p) auto
  then have u: "fmlookup (nodes s) u = Some r" "LastUnsealIP r = ip"
    using recordByIP_unique [OF assms] by blast+
  have other: "LastUnsealIP r' \<noteq> ip" if "fmlookup (nodes s) k' = Some r'" "k' \<noteq> u" for k' r'
    using assms u that unfolding unique_ip_def by metis
  show ?thesis
  proof (cases "k = u")
    case True
    with p u show ?thesis
      by (auto simp: HeartbeatByIP_def lapsed_def renewed_def time_defs Let_def
          split: prod.splits option.splits dest!: persist_pairD)
  next
    case False
    with p have "fmlookup (nodes (snd (HeartbeatByIP it io ip t d s))) k = fmlookup (nodes s) k"
      by (auto simp: HeartbeatByIP_def Let_def split: prod.splits option.splits dest!: persist_pairD)
    moreover have "node_step (OpHeartbeatByIP ip t d) k (fmlookup (nodes s) k) = fmlookup (nodes s) k"
      using other False by (cases "fmlookup (nodes s) k") auto
    ultimately show ?thesis by simp
  qed
qed

end

lemma Validate_nodes:
  "fmlookup (nodes (snd (Validate it io u t s))) k =
    node_step (OpValidate u t) k (fmlookup (nodes s) k)"
  by (cases "fmlookup (nodes s) u"; cases "k = u"; cases "fmlookup (nodes s) k")
    (auto simp: Validate_def lapsed_def time_defs Let_def
      split: prod.splits option.splits dest!: persist_pairD)

lemma HeartbeatByUUID_nodes:
  "fmlookup (nodes (snd (HeartbeatByUUID it io u ip h t d s))) k =
    node_step (OpHeartbeatByUUID u ip h t d) k (fmlookup (nodes s) k)"
  by (auto simp: HeartbeatByUUID_def renewed_def zeroRecord_def time_defs Let_def
      split: prod.splits option.splits dest!: persist_pairD)

lemma Unblock_nodes:
  "fmlookup (nodes (snd (Unblock it io u t d s))) k =
    node_step (OpUnblock u t d) k (fmlookup (nodes s) k)"
  by (cases "fmlookup (nodes s) u"; cases "k = u"; cases "fmlookup (nodes s) k")
    (auto simp: Unblock_def renewed_def time_defs Let_def
      split: prod.splits option.splits dest!: persist_pairD)

lemma SetMaintenance_nodes:
  "fmlookup (nodes (snd (SetMaintenance io u b t d s))) k =
    node_step (OpSetMaintenance u b t d) k (fmlookup (nodes s) k)"
  by (cases "fmlookup (nodes s) u"; cases "k = u"; cases "fmlookup (nodes s) k")
    (auto simp: SetMaintenance_def time_defs Let_def
      split: prod.splits option.splits dest!: persist_pairD)

interpretation sorted_lease: lease_range sorted_iter
  by unfold_locales

lemma lease_range_iff: "lease_range it \<longleftrightarrow> valid_iter it"
  by (simp add: lease_range_def map_range_iff)

lemma snd_exec_op:
  "snd (exec_op it io (OpBootstrap u ip t d) s) = snd (Bootstrap it io u ip t d s)"
  "snd (exec_op it io (OpHeartbeatByIP ip t d) s) = snd (HeartbeatByIP it io ip t d s)"
  "snd (exec_op it io (OpValidate u t) s) = snd (Validate it io u t s)"
  "snd (exec_op it io (OpHeartbeatByUUID u ip h t d) s) = snd (HeartbeatByUUID it io u ip h t d s)"
  "snd (exec_op it io (OpUnblock u t d) s) = snd (Unblock it io u t d s)"
  "snd (exec_op it io (OpSetMaintenance u b t d) s) = snd (SetMaintenance io u b t d s)"
  "snd (exec_op it io (OpBlockExpiredNodes t d) s) = snd (BlockExpiredNodes it io t d s)"
  by (simp_all split: prod.splits)

lemma exec_op_nodes:
  assumes "valid_iter it" and "op_ok op" and "unique_ip (nodes s)"
  shows "fmlookup (nodes (snd (exec_op it io op s))) k = node_step op k (fmlookup (nodes s) k)"
proof -
  have range: "lease_range it" using assms(1) by (simp add: lease_range_iff)
  note refine = lease_range.Bootstrap_nodes [OF range] lease_range.HeartbeatByIP_nodes [OF range]
    lease_range.BlockExpiredNodes_nodes [OF range]
    Validate_nodes HeartbeatByUUID_nodes Unblock_nodes SetMaintenance_nodes
  show ?thesis
    using assms
    by (cases op) (simp_all add: snd_exec_op refine del: node_step.simps exec_op.simps)
qed

subsection \<open>Every operation keeps the invariant\<close>

lemmas step_defs = bootstrapped_def renewed_def blocked_at_def zeroRecord_def

lemma record_ok_updates:
  "record_ok r \<Longrightarrow> record_ok (r\<lparr>LastUnsealIP := ip\<rparr>)"
  "record_ok r \<Longrightarrow> Status r \<noteq> LeaseStatusBlocked \<Longrightarrow> record_ok (r\<lparr>Status := LeaseStatusExpired\<rparr>)"
  "record_ok r \<Longrightarrow> Status r \<noteq> LeaseStatusBlocked \<Longrightarrow> record_ok (renewed r t d)"
  "record_ok r \<Longrightarrow> Status r \<noteq> LeaseStatusBlocked \<Longrightarrow>
     record_ok (renewed (r\<lparr>NodeIP := ip, Hostname := h\<rparr>) t d)"
  "record_ok r \<Longrightarrow> Status r \<noteq> LeaseStatusBlocked \<Longrightarrow> record_ok (renewed (r\<lparr>NodeIP := ip\<rparr>) t d)"
  "record_ok r \<Longrightarrow> record_ok (renewed (r\<lparr>BlockedAt := 0, BlockReason := ''''\<rparr>) t d)"
  "record_ok r \<Longrightarrow> record_ok (r\<lparr>Maintenance := True, MaintenanceAt := t\<rparr>)"
  "record_ok r \<Longrightarrow>
     record_ok (r\<lparr>Maintenance := False, MaintenanceAt := 0, LastHeartbeatAt := t, LeaseUntil := u\<rparr>)"
  "record_ok r \<Longrightarrow> record_ok (blocked_at r t)"
  "record_ok (renewed (zeroRecord\<lparr>FirstSeen := t, NodeIP := ip, Hostname := h\<rparr>) t d)"
  "record_ok (bootstrapped ip t d old)"
  by (simp_all add: record_ok_def step_defs)

lemma record_ok_step:
  assumes "\<And>r. old = Some r \<Longrightarrow> record_ok r" and step: "node_step op k old = Some r'"
  shows "record_ok r'"
proof (cases old)
  case None
  with step show ?thesis by (cases op) (auto simp: record_ok_updates split: if_splits)
next
  case (Some r)
  with assms(1) have "record_ok r" by simp
  with Some step show ?thesis by (cases op) (auto simp: record_ok_updates split: if_splits)
qed

text \<open>Only an unseal binds a node to an address.\<close>

lemma step_LastUnsealIP:
  assumes "node_step op k old = Some r'" and "LastUnsealIP r' \<noteq> ''''"
  shows "(\<exists>r. old = Some r \<and> LastUnsealIP r = LastUnsealIP r') \<or>
    (\<exists>t d. op = OpBootstrap k (LastUnsealIP r') t d)"
  using assms by (cases op; cases old) (auto simp: step_defs split: if_splits)

lemma step_Bootstrap_clears:
  assumes "node_step (OpBootstrap u ip t d) k old = Some r'" and "LastUnsealIP r' = ip" and "ip \<noteq> ''''"
  shows "k = u"
  using assms by (cases old) (auto split: if_splits)

lemma unique_ip_step:
  assumes "unique_ip m" and step: "\<And>k. fmlookup m' k = node_step op k (fmlookup m k)"
  shows "unique_ip m'"
  unfolding unique_ip_def
proof (intro allI impI)
  fix k k' r r'
  assume k: "fmlookup m' k = Some r" and k': "fmlookup m' k' = Some r'"
    and ip: "LastUnsealIP r = LastUnsealIP r'" "LastUnsealIP r \<noteq> ''''"
  show "k = k'"
  proof (cases "\<exists>u t d. op = OpBootstrap u (LastUnsealIP r) t d")
    case True
    then obtain u t d where op: "op = OpBootstrap u (LastUnsealIP r) t d" by blast
    then show ?thesis
      using k k' ip step step_Bootstrap_clears by metis
  next
    case False
    then obtain q q' where "fmlookup m k = Some q" "LastUnsealIP q = LastUnsealIP r"
      "fmlookup m k' = Some q'" "LastUnsealIP q' = LastUnsealIP r'"
      using k k' ip step step_LastUnsealIP by metis
    with assms(1) ip show ?thesis unfolding unique_ip_def by metis
  qed
qed

lemma store_inv_exec:
  assumes "store_inv s" and "valid_iter it" and "op_ok op"
  shows "store_inv (snd (exec_op it io op s))"
proof -
  let ?s = "snd (exec_op it io op s)"
  have step: "fmlookup (nodes ?s) k = node_step op k (fmlookup (nodes s) k)" for k
    using assms by (intro exec_op_nodes) (simp_all add: store_inv_def)
  then have "unique_ip (nodes ?s)"
    using assms(1) unfolding store_inv_def by (blast intro: unique_ip_step)
  moreover have "record_ok r" if "fmlookup (nodes ?s) k = Some r" for k r
    using that assms(1) record_ok_step [of "fmlookup (nodes s) k" op k r]
    by (simp add: step store_inv_def)
  ultimately show ?thesis by (simp add: store_inv_def)
qed

subsection \<open>Runs\<close>

text \<open>
  A component whose calls act on the nodes independently: under its invariant, a call
  changes the view of each node by \<open>step\<close>. Clients reason about one node at a time.
\<close>

locale node_machine =
  fixes exec :: "'c \<Rightarrow> 's \<Rightarrow> 's" and view :: "'s \<Rightarrow> 'k \<Rightarrow> 'r"
    and inv :: "'s \<Rightarrow> bool" and ok :: "'c \<Rightarrow> bool" and step :: "'c \<Rightarrow> 'k \<Rightarrow> 'r \<Rightarrow> 'r"
  assumes refines: "inv s \<Longrightarrow> ok c \<Longrightarrow> view (exec c s) k = step c k (view s k)"
    and keeps_inv: "inv s \<Longrightarrow> ok c \<Longrightarrow> inv (exec c s)"
begin

lemma run_inv: "inv s \<Longrightarrow> list_all ok cs \<Longrightarrow> inv (fold exec cs s)"
  by (induction cs arbitrary: s) (auto intro: keeps_inv)

lemma run_refines:
  "inv s \<Longrightarrow> list_all ok cs \<Longrightarrow>
   view (fold exec cs s) k = fold (\<lambda>c. step c k) cs (view s k)"
  by (induction cs arbitrary: s) (auto simp: keeps_inv refines)

lemma run_stable:
  assumes "inv s" and "list_all ok cs" and "P (view s k)"
    and "\<And>c v. c \<in> set cs \<Longrightarrow> P v \<Longrightarrow> P (step c k v)"
  shows "P (view (fold exec cs s) k)"
  using assms
proof (induction cs arbitrary: s)
  case (Cons c cs)
  from Cons.prems have "P (view (exec c s) k)" by (simp add: refines)
  with Cons show ?case by (simp add: keeps_inv)
qed simp

end

interpretation store: node_machine
  exec_call "\<lambda>s. fmlookup (nodes s)" store_inv call_ok "\<lambda>c. node_step (snd (snd c))"
proof unfold_locales
  fix s c k
  assume inv: "store_inv s" and ok: "call_ok c"
  then show "fmlookup (nodes (exec_call c s)) k = node_step (snd (snd c)) k (fmlookup (nodes s) k)"
    by (cases c) (simp add: exec_call_def call_ok_def exec_op_nodes store_inv_def)
  from inv ok show "store_inv (exec_call c s)"
    by (cases c) (simp add: exec_call_def call_ok_def store_inv_exec)
qed

subsection \<open>Metrics do not depend on the iteration order\<close>

definition counts_expired :: "time \<Rightarrow> LeaseRecord \<Rightarrow> bool" where
  "counts_expired now r \<longleftrightarrow>
     Status r = LeaseStatusBlocked \<or> Status r = LeaseStatusExpired \<or> isExpired r now"

lemma lease_counts_eq:
  "lease_counts ks m now (a, e) =
     (a + range_count ks m (\<lambda>r. \<not> counts_expired now r), e + range_count ks m (counts_expired now))"
  by (induction ks arbitrary: a e) (auto simp: counts_expired_def split: option.splits)

definition nodes_where :: "LeaseRecord gomap \<Rightarrow> (LeaseRecord \<Rightarrow> bool) \<Rightarrow> string set" where
  "nodes_where m P = {k. \<exists>r. fmlookup m k = Some r \<and> P r}"

lemma nodes_where_finite [simp]: "finite (nodes_where m P)"
  by (rule finite_subset [of _ "fset (fmdom m)"]) (auto simp: nodes_where_def fmlookup_dom_iff)

context lease_range
begin

lemma lease_counts_card:
  "lease_counts (it m) m now (0, 0) =
     (card (nodes_where m (\<lambda>r. \<not> counts_expired now r)), card (nodes_where m (counts_expired now)))"
proof -
  have "{k \<in> set (it m). \<exists>v. fmlookup m k = Some v \<and> P v} = nodes_where m P" for P
    by (auto simp: nodes_where_def visited_lookup)
  then show ?thesis by (simp add: lease_counts_eq range_count_card visits_once)
qed

lemma metrics_order_irrelevant:
  assumes "lease_range it'"
  shows "updateLeaseMetricsLocked it now s = updateLeaseMetricsLocked it' now s"
  by (simp add: updateLeaseMetricsLocked_def lease_counts_card
      lease_range.lease_counts_card [OF assms])

lemma recordByIP_order_irrelevant:
  assumes "lease_range it'" and "unique_ip (nodes s)" and "ip \<noteq> ''''"
  shows "recordByIPLocked it ip s = recordByIPLocked it' ip s"
proof (cases "recordByIPLocked it' ip s")
  case None
  then show ?thesis
    using recordByIP_None lease_range.recordByIP_None [OF assms(1)] by metis
next
  case (Some p)
  then show ?thesis
    using recordByIP_unique [OF assms(2,3)] lease_range.recordByIP_unique [OF assms]
    by (cases p) metis
qed

end

lemma BlockExpiredNodes_order_irrelevant:
  assumes "lease_range it" and "lease_range it'"
  shows "snd (BlockExpiredNodes it io t d s) = snd (BlockExpiredNodes it' io t d s)"
proof -
  have range: "map_range it" "map_range it'" using assms by (simp_all add: lease_range_def)
  let ?bl = "\<lambda>it. block_loop (it (nodes s)) t d [] (nodes s)"
  have "snd (?bl it) = snd (?bl it')"
    by (simp add: block_loop_nodes map_range.update_order_irrelevant [OF range])
  moreover have "fst (?bl it) = [] \<longleftrightarrow> fst (?bl it') = []"
    using range by (auto simp: block_loop_blocked map_range.visits_once filter_empty_conv
        map_range.visits_all)
  ultimately show ?thesis
    by (auto simp: BlockExpiredNodes_def UTC_def Let_def
        lease_range.metrics_order_irrelevant [OF assms] split: prod.splits)
qed

lemma BlockExpiredNodes_returned:
  assumes "lease_range it" and "lease_range it'"
  shows "mset (fst (BlockExpiredNodes it io t d s)) = mset (fst (BlockExpiredNodes it' io t d s))"
  using assms
  by (intro set_eq_iff_mset_eq_distinct [THEN iffD1])
    (auto simp: lease_range.BlockExpiredNodes_distinct lease_range.BlockExpiredNodes_mem)

text \<open>
  An address that is the unseal address of a node, or the reported address of at most one:
  only then does the search by address have one answer.
\<close>

definition unambiguous :: "LeaseStore \<Rightarrow> string \<Rightarrow> bool" where
  "unambiguous s ip \<longleftrightarrow>
     (\<exists>k r. fmlookup (nodes s) k = Some r \<and> LastUnsealIP r = ip) \<or>
     (\<forall>k k' r r'. fmlookup (nodes s) k = Some r \<longrightarrow> fmlookup (nodes s) k' = Some r' \<longrightarrow>
        NodeIP r = ip \<longrightarrow> NodeIP r' = ip \<longrightarrow> k = k')"

lemma LookupByIP_order_irrelevant:
  assumes "lease_range it" and "lease_range it'" and "unique_ip (nodes s)" and "ip \<noteq> ''''"
    and "unambiguous s ip"
  shows "LookupByIP it ip s = LookupByIP it' ip s"
proof (cases "recordByIPLocked it' ip s")
  case None
  note same = lease_range.recordByIP_order_irrelevant [OF assms(1-4)]
  have loop: "map_range it" "map_range it'" using assms(1,2) by (simp_all add: lease_range_def)
  let ?find = "\<lambda>it. range_find (it (nodes s)) (nodes s) (\<lambda>_ rec. NodeIP rec = ip)"
  have one: "k = k'" if "fmlookup (nodes s) k = Some r" "fmlookup (nodes s) k' = Some r'"
      "NodeIP r = ip" "NodeIP r' = ip" for k k' r r'
    using assms(5) that None lease_range.recordByIP_None [OF assms(2)] unfolding unambiguous_def by blast
  have "?find it = ?find it'"
  proof (cases "?find it'")
    case None
    then have "\<forall>k r. fmlookup (nodes s) k = Some r \<longrightarrow> NodeIP r \<noteq> ip"
      unfolding map_range.find_None_iff [OF loop(2)] .
    then have "?find it = None" unfolding map_range.find_None_iff [OF loop(1)] .
    then show ?thesis using None by simp
  next
    case (Some p)
    then have "fmlookup (nodes s) (fst p) = Some (snd p) \<and> NodeIP (snd p) = ip"
      by (cases p) (auto dest: range_find_Some)
    then have "?find it = Some (fst p, snd p)"
      using one by (intro map_range.find_unique [OF loop(1)]) auto
    then show ?thesis using Some by simp
  qed
  then show ?thesis using None same by (simp add: LookupByIP_def)
next
  case (Some p)
  then show ?thesis
    using lease_range.recordByIP_order_irrelevant [OF assms(1-4)] by (simp add: LookupByIP_def)
qed

lemma operations_order_irrelevant:
  assumes "lease_range it" and "lease_range it'" and "unique_ip (nodes s)"
  shows "NewFileLeaseStore it io t p ms fs = NewFileLeaseStore it' io t p ms fs"
    and "Bootstrap it io u ip t d s = Bootstrap it' io u ip t d s"
    and "ip \<noteq> '''' \<Longrightarrow> HeartbeatByIP it io ip t d s = HeartbeatByIP it' io ip t d s"
    and "Validate it io u t s = Validate it' io u t s"
    and "HeartbeatByUUID it io u ip hn t d s = HeartbeatByUUID it' io u ip hn t d s"
    and "Unblock it io u t d s = Unblock it' io u t d s"
proof -
  have metrics: "updateLeaseMetricsLocked it = updateLeaseMetricsLocked it'"
    by (intro ext lease_range.metrics_order_irrelevant assms(1,2))
  have loop: "map_range it" "map_range it'" using assms(1,2) by (simp_all add: lease_range_def)
  show "NewFileLeaseStore it io t p ms fs = NewFileLeaseStore it' io t p ms fs"
    unfolding NewFileLeaseStore_def load_def metrics ..
  show "Bootstrap it io u ip t d s = Bootstrap it' io u ip t d s"
    by (simp add: Bootstrap_def metrics map_range.update_order_irrelevant [OF loop])
  show "HeartbeatByIP it io ip t d s = HeartbeatByIP it' io ip t d s" if "ip \<noteq> ''''"
    unfolding HeartbeatByIP_def metrics lease_range.recordByIP_order_irrelevant [OF assms that] ..
  show "Validate it io u t s = Validate it' io u t s" unfolding Validate_def metrics ..
  show "HeartbeatByUUID it io u ip hn t d s = HeartbeatByUUID it' io u ip hn t d s"
    unfolding HeartbeatByUUID_def metrics ..
  show "Unblock it io u t d s = Unblock it' io u t d s" unfolding Unblock_def metrics ..
qed

subsection \<open>Persistence\<close>

text \<open>The file of the store holds its nodes; no file stands for no nodes.\<close>

definition synced :: "LeaseStore \<Rightarrow> bool" where
  "synced s \<longleftrightarrow>
     (case files s (path s) of
        None \<Rightarrow> nodes s = fmempty
      | Some (Document j) \<Rightarrow> dec_file j = Some \<lparr>Nodes = Some (nodes s)\<rparr>
      | Some _ \<Rightarrow> False)"

text \<open>The file of the store can be loaded.\<close>

definition loadable :: "LeaseStore \<Rightarrow> bool" where
  "loadable s \<longleftrightarrow>
     (case files s (path s) of
        None \<Rightarrow> True
      | Some EmptyFile \<Rightarrow> True
      | Some Malformed \<Rightarrow> False
      | Some (Document j) \<Rightarrow> dec_file j \<noteq> None)"

definition no_fault :: "sys_io \<Rightarrow> bool" where
  "no_fault io \<longleftrightarrow> MkdirAll_err io = None \<and> WriteFile_err io = None \<and> Rename_err io = None"

lemma persist_ok_file:
  assumes "persistLocked io s = (None, s')" and "path s \<noteq> ''''"
  shows "\<exists>j. files s' (path s) = Some (Document j) \<and> dec_file j = Some \<lparr>Nodes = Some (nodes s)\<rparr> \<and>
    files s' (tmpPath s) = None"
  using assms
  by (auto simp: persistLocked_def Let_def dec_file_enc_file split: option.splits if_splits prod.splits)

lemma persist_err_file:
  assumes "persistLocked io s = (Some e, s')"
  shows "files s' (path s) = files s (path s)"
  using assms
  by (auto simp: persistLocked_def Let_def split: option.splits if_splits prod.splits)

lemma persist_frame:
  "q \<noteq> path s \<Longrightarrow> q \<noteq> tmpPath s \<Longrightarrow> files (snd (persistLocked io s)) q = files s q"
  by (auto simp: persistLocked_def Let_def split: option.splits)

lemma persist_succeeds:
  "no_fault io \<Longrightarrow> nodes_times_ok (nodes s) \<Longrightarrow> fst (persistLocked io s) = None"
  by (auto simp: persistLocked_def no_fault_def enc_file_def Let_def)

lemma persist_synced:
  assumes "no_fault io" and "nodes_times_ok (nodes s)" and "path s \<noteq> ''''"
  shows "synced (snd (persistLocked io s))"
proof (cases "persistLocked io s")
  case (Pair e s')
  with persist_succeeds [OF assms(1,2)] have "persistLocked io s = (None, s')" by simp
  with persist_ok_file [OF this assms(3)] persist_pairD [OF this] show ?thesis
    by (auto simp: synced_def)
qed

lemma persist_loadable:
  assumes "loadable s" and "path s \<noteq> ''''"
  shows "loadable (snd (persistLocked io s))"
proof (cases "persistLocked io s")
  case (Pair e s')
  note path = persist_pairD [OF Pair]
  show ?thesis
  proof (cases e)
    case None
    with Pair persist_ok_file [of io s s'] assms(2) path show ?thesis
      by (auto simp: loadable_def)
  next
    case (Some err)
    with Pair persist_err_file [of io s err s'] assms(1) path show ?thesis
      by (simp add: loadable_def)
  qed
qed

text \<open>
  Every operation either leaves nodes, path and files alone or ends in one call of
  \<open>persistLocked\<close> on a store with the same path and files.
\<close>

lemma exec_op_persists:
  "(nodes (snd (exec_op it io op s)) = nodes s \<and> path (snd (exec_op it io op s)) = path s \<and>
      files (snd (exec_op it io op s)) = files s) \<or>
   (\<exists>s1. snd (exec_op it io op s) = snd (persistLocked io s1) \<and> path s1 = path s \<and> files s1 = files s)"
  (is "?same (snd (exec_op it io op s)) \<or> ?persist (snd (exec_op it io op s))")
proof -
  have persist: "?persist s'" if "persistLocked io s1 = (e, s')" "path s1 = path s" "files s1 = files s"
    for s1 e s'
    using that by (intro exI [of _ s1]) simp
  have upd: "?persist (snd (persistLocked io (updateLeaseMetricsLocked it t (setNode k r s))))" for t k r
    by (intro exI [of _ "updateLeaseMetricsLocked it t (setNode k r s)"]) simp
  show ?thesis
  proof (cases op)
    case (OpBootstrap u ip t d)
    then show ?thesis
      unfolding OpBootstrap snd_exec_op Bootstrap_def Let_def case_prod_unfold snd_conv
      by (intro disjI2 exI conjI) (rule refl, simp_all)
  next
    case (OpBlockExpiredNodes t d)
    have "snd (block_loop (it (nodes s)) t d [] (nodes s)) = nodes s"
      if "fst (block_loop (it (nodes s)) t d [] (nodes s)) = []"
      using that by (rule block_loop_idle)
    then show ?thesis
      unfolding OpBlockExpiredNodes snd_exec_op BlockExpiredNodes_def Let_def case_prod_unfold UTC_def
      by (auto intro!: exI)
  next
    case (OpHeartbeatByIP ip t d)
    then show ?thesis
      unfolding OpHeartbeatByIP snd_exec_op HeartbeatByIP_def Let_def
      by (auto split: option.splits prod.splits dest: persist)
  qed (use upd in \<open>auto simp: snd_exec_op Validate_def HeartbeatByUUID_def Unblock_def
      SetMaintenance_def Let_def split: option.splits prod.splits dest: persist\<close>)
qed

lemma exec_op_path: "path (snd (exec_op it io op s)) = path s"
  using exec_op_persists [of it io op s] by auto

lemma exec_op_loadable:
  assumes "loadable s" and "path s \<noteq> ''''"
  shows "loadable (snd (exec_op it io op s))"
  using exec_op_persists [of it io op s]
proof
  assume "\<exists>s1. snd (exec_op it io op s) = snd (persistLocked io s1) \<and> path s1 = path s \<and> files s1 = files s"
  then obtain s1 where s1: "snd (exec_op it io op s) = snd (persistLocked io s1)"
    "path s1 = path s" "files s1 = files s" by blast
  with assms have "loadable s1" "path s1 \<noteq> ''''" by (simp_all add: loadable_def)
  then show ?thesis unfolding s1(1) by (rule persist_loadable)
qed (use assms in \<open>simp add: loadable_def\<close>)

lemma exec_op_synced:
  assumes "synced s" and "path s \<noteq> ''''" and "no_fault io"
    and "nodes_times_ok (nodes (snd (exec_op it io op s)))"
  shows "synced (snd (exec_op it io op s))"
  using exec_op_persists [of it io op s]
proof
  assume "\<exists>s1. snd (exec_op it io op s) = snd (persistLocked io s1) \<and> path s1 = path s \<and> files s1 = files s"
  then obtain s1 where s1: "snd (exec_op it io op s) = snd (persistLocked io s1)" "path s1 = path s"
    by blast
  with assms(2,4) have "nodes_times_ok (nodes s1)" "path s1 \<noteq> ''''" by simp_all
  with assms(3) show ?thesis unfolding s1(1) by (intro persist_synced)
qed (use assms in \<open>auto simp: synced_def split: option.splits file_data.splits\<close>)

text \<open>The instants an operation stores can be written as JSON.\<close>

fun op_times_ok :: "store_op \<Rightarrow> bool" where
  "op_times_ok (OpBootstrap u ip t d) = (json_time_ok t \<and> json_time_ok (t + d))"
| "op_times_ok (OpHeartbeatByIP ip t d) = (json_time_ok t \<and> json_time_ok (t + d))"
| "op_times_ok (OpValidate u t) = True"
| "op_times_ok (OpHeartbeatByUUID u ip h t d) = (json_time_ok t \<and> json_time_ok (t + d))"
| "op_times_ok (OpUnblock u t d) = (json_time_ok t \<and> json_time_ok (t + d))"
| "op_times_ok (OpSetMaintenance u b t d) = (json_time_ok t \<and> json_time_ok (t + d))"
| "op_times_ok (OpBlockExpiredNodes t d) = json_time_ok t"

lemma json_time_ok_0 [simp]: "json_time_ok 0"
  by (simp add: json_time_ok_def day_def second_def)

lemma record_times_ok_step:
  assumes "\<And>r. old = Some r \<Longrightarrow> record_times_ok r" and "op_times_ok op"
    and "node_step op k old = Some r'"
  shows "record_times_ok r'"
proof (cases old)
  case None
  with assms(2,3) show ?thesis
    by (cases op) (auto simp: record_times_ok_def step_defs split: if_splits)
next
  case (Some r)
  with assms(1) have "record_times_ok r" by simp
  with Some assms(2,3) show ?thesis
    by (cases op) (auto simp: record_times_ok_def step_defs split: if_splits)
qed

lemma nodes_times_ok_step:
  assumes "nodes_times_ok m" and "op_times_ok op"
    and "\<And>k. fmlookup m' k = node_step op k (fmlookup m k)"
  shows "nodes_times_ok m'"
  unfolding nodes_times_ok_iff
proof (intro allI impI)
  fix k r
  assume "fmlookup m' k = Some r"
  then show "record_times_ok r"
    using assms record_times_ok_step [of "fmlookup m k" op k r] by (simp add: nodes_times_ok_iff)
qed

definition durable :: "LeaseStore \<Rightarrow> bool" where
  "durable s \<longleftrightarrow> store_inv s \<and> synced s \<and> path s \<noteq> '''' \<and> nodes_times_ok (nodes s)"

definition clean_call :: "store_call \<Rightarrow> bool" where
  "clean_call c \<longleftrightarrow> call_ok c \<and> no_fault (fst (snd c)) \<and> op_times_ok (snd (snd c))"

lemma durable_exec:
  assumes "durable s" and "clean_call c"
  shows "durable (exec_call c s)"
proof -
  obtain it io op where c: "c = (it, io, op)" by (cases c)
  with assms have inv: "store_inv s" and ok: "valid_iter it" "op_ok op" "op_times_ok op" "no_fault io"
    by (auto simp: durable_def clean_call_def call_ok_def)
  have step: "fmlookup (nodes (exec_call c s)) k = node_step op k (fmlookup (nodes s) k)" for k
    using store.refines [of s c] assms by (simp add: durable_def clean_call_def c)
  have "nodes_times_ok (nodes (exec_call c s))"
    using nodes_times_ok_step [OF _ ok(3) step] assms(1) by (simp add: durable_def)
  with assms c ok store.keeps_inv [of s c] show ?thesis
    by (simp add: durable_def clean_call_def exec_call_def exec_op_path exec_op_synced)
qed

text \<open>Without faults, the calls keep the file in step with the memory.\<close>

interpretation durable_store: node_machine
  exec_call "\<lambda>s. fmlookup (nodes s)" durable clean_call "\<lambda>c. node_step (snd (snd c))"
proof unfold_locales
  show "fmlookup (nodes (exec_call c s)) k = node_step (snd (snd c)) k (fmlookup (nodes s) k)"
    if "durable s" "clean_call c" for s c k
    using that by (intro store.refines) (simp_all add: durable_def clean_call_def)
qed (rule durable_exec)

lemma load_synced:
  assumes "synced s" and "path s \<noteq> ''''" and "ReadFile_err io = None"
  shows "\<exists>s'. NewFileLeaseStore it io now (path s) ms (files s) = Inr s' \<and> nodes s' = nodes s"
  using assms
  by (auto simp: synced_def NewFileLeaseStore_def load_def ReadFile_def Let_def
      split: option.splits file_data.splits)

lemma load_loadable:
  assumes "loadable s" and "path s \<noteq> ''''" and "ReadFile_err io = None"
  shows "\<exists>s'. NewFileLeaseStore it io now (path s) ms (files s) = Inr s'"
  using assms
  by (auto simp: loadable_def NewFileLeaseStore_def load_def ReadFile_def Let_def
      split: option.splits file_data.splits)

subsection \<open>Errors of the operating system\<close>

text \<open>The operating system reports its own errors, never one of the store's sentinels.\<close>

definition io_sane :: "sys_io \<Rightarrow> bool" where
  "io_sane io \<longleftrightarrow>
     (\<forall>e. MkdirAll_err io = Some e \<longrightarrow> os_error e) \<and>
     (\<forall>e d. WriteFile_err io = Some (e, d) \<longrightarrow> os_error e) \<and>
     (\<forall>e. Rename_err io = Some e \<longrightarrow> os_error e)"

lemma io_ok_simps [simp]: "io_sane io_ok" "no_fault io_ok"
  by (simp_all add: io_sane_def io_ok_def no_fault_def)

lemma persist_os_error:
  "io_sane io \<Longrightarrow> persistLocked io s = (Some e, s') \<Longrightarrow> os_error e"
  by (auto simp: persistLocked_def io_sane_def Let_def split: if_splits option.splits prod.splits)

lemmas persist_not_sentinel = os_error_not_sentinel [OF persist_os_error]

lemma persist_error_reason:
  "persistLocked io s1 = (Some e, s') \<Longrightarrow> \<not> (no_fault io \<and> nodes_times_ok (nodes s'))"
  using persist_succeeds [of io s1] persist_pairD [of io s1 "Some e" s'] by auto

end
