(* ===== verification/Lease_Store_Props.thy ===== *)
theory Lease_Store_Props
  imports Lease_Store_Facts
begin

text \<open>
  The properties of the lease store: invariant, refinement, the dead-man's switch on the
  store, address binding, persistence and metrics.
\<close>

subsection \<open>Helper lemmas\<close>

text \<open>Operations that may end a block of node \<open>u\<close>: the administrator's, and a new unseal.\<close>

fun releases :: "string \<Rightarrow> store_op \<Rightarrow> bool" where
  "releases u (OpUnblock u' t d) = (u' = u)"
| "releases u (OpBootstrap u' ip t d) = (u' = u)"
| "releases u _ = False"

fun is_blocked :: "LeaseRecord option \<Rightarrow> bool" where
  "is_blocked (Some r) = (Status r = LeaseStatusBlocked)"
| "is_blocked None = False"

lemma is_blocked_iff: "is_blocked old \<longleftrightarrow> (\<exists>r. old = Some r \<and> Status r = LeaseStatusBlocked)"
  by (cases old) auto

lemma is_blocked_step:
  "is_blocked old \<Longrightarrow> \<not> releases k op \<Longrightarrow> is_blocked (node_step op k old)"
  by (cases old; cases op) (auto simp: blocked_at_def)

text \<open>A node in maintenance that is not blocked.\<close>

fun exempt :: "LeaseRecord option \<Rightarrow> bool" where
  "exempt (Some r) = (Maintenance r \<and> Status r \<noteq> LeaseStatusBlocked)"
| "exempt None = False"

lemma exempt_iff:
  "exempt old \<longleftrightarrow> (\<exists>r. old = Some r \<and> Maintenance r \<and> Status r \<noteq> LeaseStatusBlocked)"
  by (cases old) auto

fun ends_maintenance :: "string \<Rightarrow> store_op \<Rightarrow> bool" where
  "ends_maintenance u (OpSetMaintenance u' b t d) = (u' = u \<and> \<not> b)"
| "ends_maintenance u (OpBootstrap u' ip t d) = (u' = u)"
| "ends_maintenance u _ = False"

lemma exempt_step:
  "exempt old \<Longrightarrow> \<not> ends_maintenance k op \<Longrightarrow> exempt (node_step op k old)"
  by (cases old; cases op) (auto simp: renewed_def overdue_def)

definition new_store :: "string \<Rightarrow> metrics \<Rightarrow> (string \<rightharpoonup> file_data) \<Rightarrow> LeaseStore" where
  "new_store p ms fs = \<lparr>nodes = fmempty, metrics = ms, path = p, files = fs\<rparr>"

lemma store_inv_empty: "nodes s = fmempty \<Longrightarrow> store_inv s"
  by (simp add: store_inv_def unique_ip_def)

lemma NewFileLeaseStore_fresh:
  assumes "p = '''' \<or> fs p = None" and "ReadFile_err io = None"
    and "NewFileLeaseStore it io now p ms fs = Inr s"
  shows "nodes s = fmempty"
  using assms
  by (auto simp: NewFileLeaseStore_def load_def ReadFile_def Let_def split: if_splits)

text \<open>A store with one node, for the concrete instances below.\<close>

definition demo_store :: "LeaseRecord \<Rightarrow> LeaseStore" where
  "demo_store r = \<lparr>nodes = fmupd ''node-1'' r fmempty, metrics = Some [], path = ''leases.json'',
     files = Map.empty\<rparr>"

definition demo_record :: LeaseRecord where
  "demo_record = bootstrapped ''10.0.0.1'' 1000 5 None"

lemma demo_store_simps [simp]:
  "nodes (demo_store r) = fmupd ''node-1'' r fmempty" "path (demo_store r) = ''leases.json''"
  "files (demo_store r) = Map.empty" "metrics (demo_store r) = Some []"
  by (simp_all add: demo_store_def)

lemma demo_record_ok [simp]: "record_ok demo_record"
  by (simp add: demo_record_def record_ok_updates)

lemma demo_record_fields [simp]:
  "Status demo_record = LeaseStatusActive" "Maintenance demo_record = False"
  "LastHeartbeatAt demo_record = 1000" "LastUnsealIP demo_record = ''10.0.0.1''"
  "LeaseUntil demo_record = 1005"
  by (simp_all add: demo_record_def bootstrapped_def)

lemma demo_times_ok:
  "nodes_times_ok (nodes (demo_store demo_record))"
  by (simp add: nodes_times_ok_iff demo_record_def bootstrapped_def record_times_ok_def
      json_time_ok_def day_def second_def)

lemma Status_blocked_at [simp]: "Status (blocked_at r t) = LeaseStatusBlocked"
  by (simp add: blocked_at_def)

lemma demo_store_inv [simp]: "record_ok r \<Longrightarrow> store_inv (demo_store r)"
  by (simp add: store_inv_def unique_ip_def)

subsection \<open>Invariant and refinement\<close>

text \<open>
  C9: starting from a store opened on a path with no file, whatever sequence of method
  calls follows, in whatever order the runtime iterates and whatever the operating system
  answers, no two nodes are bound to the same unseal address and every record is
  consistent (status, block fields and maintenance fields agree). (No heartbeat by address
  comes with an empty address.)
\<close>

theorem store_inv_run:
  assumes "NewFileLeaseStore it io now p ms fs = Inr s"
    and "p = '''' \<or> fs p = None" and "ReadFile_err io = None"
    and "list_all call_ok calls"
  shows "store_inv (fold exec_call calls s)"
  using assms by (intro store.run_inv) (simp_all add: store_inv_empty NewFileLeaseStore_fresh)

theorem store_inv_run_witness:
  "store_inv (fold exec_call
     [(sorted_iter, io_ok, OpBootstrap ''node-1'' ''10.0.0.1'' 1000 5),
      (sorted_iter, io_ok, OpBootstrap ''node-2'' ''10.0.0.1'' 1001 5)]
     (new_store ''leases.json'' None Map.empty))"
  by (rule store_inv_run [of sorted_iter io_ok 0 "''leases.json''" None Map.empty])
    (simp_all add: NewFileLeaseStore_def load_def ReadFile_def io_ok_def new_store_def call_ok_def)

text \<open>
  C8: the lease store refines the abstract per-node machine: after any sequence of calls
  the record of every node is what the abstract steps make of it, so the result depends
  neither on the iteration order of Go maps nor on failures to persist. (The store satisfies
  its invariant, and no heartbeat by address comes with an empty address: the address of a
  TCP peer never is.)
\<close>

theorem store_refines:
  assumes "store_inv s" and "list_all call_ok calls"
  shows "fmlookup (nodes (fold exec_call calls s)) k =
    fold (\<lambda>c. node_step (snd (snd c)) k) calls (fmlookup (nodes s) k)"
  using assms by (rule store.run_refines)

theorem store_refines_witness:
  "fmlookup (nodes (fold exec_call [(sorted_iter, io_ok, OpHeartbeatByIP ''10.0.0.1'' 1003 5)]
     (demo_store demo_record))) ''node-1'' = Some (renewed demo_record 1003 5)"
proof -
  have "\<not> lapsed demo_record 1003"
    by (simp add: lapsed_def isExpired_def time_defs)
  then show ?thesis
    using store_refines [of "demo_store demo_record"
        "[(sorted_iter, io_ok, OpHeartbeatByIP ''10.0.0.1'' 1003 5)]" "''node-1''"]
    by (simp add: call_ok_def)
qed

subsection \<open>Blocking\<close>

text \<open>
  A blocked node stays blocked through every sequence of store calls that contains
  neither an administrator's unblock nor a bootstrap of that very node: no heartbeat by
  address or by identifier, validation, maintenance change or check cycle releases it.
\<close>

lemma blocked_sticky:
  assumes "store_inv s" and "list_all call_ok calls"
    and "fmlookup (nodes s) u = Some r" and "Status r = LeaseStatusBlocked"
    and "list_all (\<lambda>c. \<not> releases u (snd (snd c))) calls"
  shows "\<exists>r'. fmlookup (nodes (fold exec_call calls s)) u = Some r' \<and>
    Status r' = LeaseStatusBlocked"
proof -
  have "is_blocked (fmlookup (nodes (fold exec_call calls s)) u)"
  proof (intro store.run_stable [where P = is_blocked])
    show "is_blocked (node_step (snd (snd c)) u v)" if "c \<in> set calls" "is_blocked v" for c v
      using that assms by (intro is_blocked_step) (auto simp: list_all_iff)
  qed (use assms in simp_all)
  then show ?thesis by (simp add: is_blocked_iff)
qed

text \<open>
  C25: a node in maintenance mode that is not blocked is never blocked by the dead-man's
  switch, however long it is silent, until its maintenance is ended or it is unsealed.
  (The store satisfies its invariant, and no heartbeat by address comes with an empty address.)
\<close>

theorem maintenance_exempt:
  assumes "store_inv s" and "list_all call_ok calls"
    and "fmlookup (nodes s) u = Some r" and "Maintenance r" and "Status r \<noteq> LeaseStatusBlocked"
    and "list_all (\<lambda>c. \<not> ends_maintenance u (snd (snd c))) calls"
  shows "\<exists>r'. fmlookup (nodes (fold exec_call calls s)) u = Some r' \<and>
    Maintenance r' \<and> Status r' \<noteq> LeaseStatusBlocked"
proof -
  have "exempt (fmlookup (nodes (fold exec_call calls s)) u)"
  proof (intro store.run_stable [where P = exempt])
    show "exempt (node_step (snd (snd c)) u v)" if "c \<in> set calls" "exempt v" for c v
      using that assms by (intro exempt_step) (auto simp: list_all_iff)
  qed (use assms in simp_all)
  then show ?thesis by (simp add: exempt_iff)
qed

theorem maintenance_exempt_witness:
  "\<exists>r'. fmlookup (nodes (fold exec_call
     [(sorted_iter, io_ok, OpBlockExpiredNodes 900000 1)]
     (demo_store (demo_record\<lparr>Maintenance := True, MaintenanceAt := 1001\<rparr>)))) ''node-1'' = Some r' \<and>
   Maintenance r' \<and> Status r' \<noteq> LeaseStatusBlocked"
  by (rule maintenance_exempt [where r = "demo_record\<lparr>Maintenance := True, MaintenanceAt := 1001\<rparr>"])
    (simp_all add: call_ok_def record_ok_updates)

text \<open>
  C24: one check cycle returns exactly the nodes that are active, not in maintenance, have
  sent a heartbeat and have been silent for more than the timeout, each once; it blocks
  exactly those, with the time and the reason, and changes no other record, in whatever
  order the runtime visits the nodes.
\<close>

theorem BlockExpiredNodes_exact:
  assumes "valid_iter it" and "BlockExpiredNodes it io now timeout s = (blocked, s')"
  shows "distinct blocked \<and>
    (\<forall>k. k \<in> set blocked \<longleftrightarrow>
      (\<exists>r. fmlookup (nodes s) k = Some r \<and> Status r = LeaseStatusActive \<and> \<not> Maintenance r \<and>
         LastHeartbeatAt r \<noteq> 0 \<and> timeout < Sub now (LastHeartbeatAt r))) \<and>
    (\<forall>k. fmlookup (nodes s') k =
      (if k \<in> set blocked
       then map_option (\<lambda>r. r\<lparr>Status := LeaseStatusBlocked, BlockedAt := now,
              BlockReason := ''heartbeat_timeout''\<rparr>) (fmlookup (nodes s) k)
       else fmlookup (nodes s) k))"
proof -
  have range: "lease_range it" using assms(1) by (simp add: lease_range_iff)
  have mem: "k \<in> set blocked \<longleftrightarrow> (\<exists>r. fmlookup (nodes s) k = Some r \<and> overdue r now timeout)" for k
    using lease_range.BlockExpiredNodes_mem [OF range, of k io now timeout s] assms(2) by simp
  have once: "distinct blocked"
    using lease_range.BlockExpiredNodes_distinct [OF range, of io now timeout s] assms(2) by simp
  have "fmlookup (nodes s') k = (if k \<in> set blocked
      then map_option (\<lambda>r. blocked_at r now) (fmlookup (nodes s) k) else fmlookup (nodes s) k)" for k
    using lease_range.BlockExpiredNodes_nodes [OF range, of io now timeout s k] assms(2)
    by (cases "fmlookup (nodes s) k") (auto simp: mem)
  then show ?thesis
    using once mem by (auto simp: overdue_def blocked_at_def)
qed

theorem BlockExpiredNodes_exact_witness:
  "''node-1'' \<in> set (fst (BlockExpiredNodes sorted_iter io_ok 2000 500 (demo_store demo_record)))"
proof -
  obtain blocked s' where run: "BlockExpiredNodes sorted_iter io_ok 2000 500 (demo_store demo_record) =
    (blocked, s')" by fastforce
  with BlockExpiredNodes_exact [OF valid_sorted_iter run] show ?thesis
    by (simp add: Sub_def int64_defs)
qed

subsection \<open>Iteration order and address binding\<close>

text \<open>
  If no node was unsealed from the address, the runtime may make the search
  return any of the nodes that report it. The nodes report their address themselves, in signed
  heartbeats, and nothing keeps the addresses apart.
\<close>

lemma LookupByIP_any_reporter:
  assumes "fmlookup (nodes s) k = Some r" and "NodeIP r = ip"
    and "\<forall>k' r'. fmlookup (nodes s) k' = Some r' \<longrightarrow> LastUnsealIP r' \<noteq> ip"
  shows "\<exists>it. valid_iter it \<and> LookupByIP it ip s = Inr (k, r)"
proof -
  define it :: "LeaseRecord iter" where
    "it m = (if k \<in> set (sorted_iter m) then k # remove1 k (sorted_iter m) else sorted_iter m)" for m
  have valid: "valid_iter it"
    using valid_sorted_iter unfolding valid_iter_def it_def by auto
  have "k \<in> set (sorted_iter (nodes s))"
    using assms(1) by (simp add: sorted_range.visits_all fmlookup_dom_iff)
  moreover have "recordByIPLocked it ip s = None"
    using lease_range.recordByIP_None [of it] valid assms(3) by (auto simp: lease_range_iff)
  ultimately have "LookupByIP it ip s = Inr (k, r)"
    using assms(1,2) by (simp add: LookupByIP_def it_def)
  with valid show ?thesis by blast
qed

text \<open>
  C26: the order in which the runtime visits the map is not observable through the store, with
  one exception. Under the invariant and for any two orders: opening the store gives the same
  store; an unseal's bootstrap, a lease check, a heartbeat by identifier, an unblock and a
  heartbeat from a non-empty address give the same results, records, metrics and files; a
  check cycle leaves the same store and reports the same nodes, each as often, in whatever
  order; and the search for the node of an address has the same answer if the address is the
  unseal address of some node or the reported address of at most one. (Changing maintenance
  does not range over the map.) The exception: if no node was unsealed from the address, every
  node that reports it is the answer of the search in some order.
\<close>

theorem order_irrelevant:
  assumes "store_inv s" and "valid_iter it" and "valid_iter it'"
  shows "NewFileLeaseStore it io t p ms fs = NewFileLeaseStore it' io t p ms fs \<and>
    Bootstrap it io u ip t d s = Bootstrap it' io u ip t d s \<and>
    Validate it io u t s = Validate it' io u t s \<and>
    HeartbeatByUUID it io u ip hn t d s = HeartbeatByUUID it' io u ip hn t d s \<and>
    Unblock it io u t d s = Unblock it' io u t d s \<and>
    (ip \<noteq> '''' \<longrightarrow> HeartbeatByIP it io ip t d s = HeartbeatByIP it' io ip t d s) \<and>
    snd (BlockExpiredNodes it io t d s) = snd (BlockExpiredNodes it' io t d s) \<and>
    mset (fst (BlockExpiredNodes it io t d s)) = mset (fst (BlockExpiredNodes it' io t d s)) \<and>
    (ip \<noteq> '''' \<longrightarrow> unambiguous s ip \<longrightarrow> LookupByIP it ip s = LookupByIP it' ip s) \<and>
    ((\<forall>k r. fmlookup (nodes s) k = Some r \<longrightarrow> LastUnsealIP r \<noteq> ip) \<longrightarrow>
       (\<forall>k r. fmlookup (nodes s) k = Some r \<longrightarrow> NodeIP r = ip \<longrightarrow>
          (\<exists>it. valid_iter it \<and> LookupByIP it ip s = Inr (k, r))))"
proof -
  have range: "lease_range it" "lease_range it'" using assms(2,3) by (simp_all add: lease_range_iff)
  have unique: "unique_ip (nodes s)" using assms(1) by (simp add: store_inv_def)
  note ops = operations_order_irrelevant [OF range unique]
  show ?thesis
    using ops(3) BlockExpiredNodes_order_irrelevant [OF range] BlockExpiredNodes_returned [OF range]
      LookupByIP_order_irrelevant [OF range unique] LookupByIP_any_reporter [of s _ _ ip]
    by (intro conjI impI ops(1,2,4,5,6)) (blast | simp)+
qed

text \<open>Two nodes report the address from which the first was unsealed.\<close>

theorem order_irrelevant_witness:
  "let s = snd (HeartbeatByUUID sorted_iter io_ok ''node-2'' ''10.0.0.1'' '''' 1001 5 (demo_store demo_record));
       rev_iter = (\<lambda>m. rev (sorted_iter m))
   in HeartbeatByIP sorted_iter io_ok ''10.0.0.1'' 1003 5 s = HeartbeatByIP rev_iter io_ok ''10.0.0.1'' 1003 5 s \<and>
      LookupByIP sorted_iter ''10.0.0.1'' s = LookupByIP rev_iter ''10.0.0.1'' s"
proof -
  let ?s = "snd (HeartbeatByUUID sorted_iter io_ok ''node-2'' ''10.0.0.1'' '''' 1001 5 (demo_store demo_record))"
  have rev: "valid_iter (\<lambda>m. rev (sorted_iter m) :: string list)"
    using valid_sorted_iter unfolding valid_iter_def by simp
  have "store_inv (exec_call (sorted_iter, io_ok, OpHeartbeatByUUID ''node-2'' ''10.0.0.1'' '''' 1001 5)
      (demo_store demo_record))"
    by (rule store.keeps_inv) (simp_all add: call_ok_def)
  then have "store_inv ?s" by (simp add: exec_call_def snd_exec_op del: exec_op.simps)
  moreover have "unambiguous ?s ''10.0.0.1''"
    unfolding unambiguous_def
    by (intro disjI1 exI [of _ "''node-1''"] exI [of _ demo_record]) (simp add: HeartbeatByUUID_nodes)
  ultimately show ?thesis
    using order_irrelevant [OF _ valid_sorted_iter rev, of ?s io_ok 1003 "''''" None Map.empty "''''"
        "''10.0.0.1''" 5] unfolding Let_def by simp
qed

text \<open>
  C27: after a node was bootstrapped from a non-empty address, a heartbeat and an identify
  request from that address find exactly this node, whatever node held the address before
  and in whatever order the map is searched.
\<close>

theorem bootstrap_binds_address:
  assumes "store_inv s" and "valid_iter it" and "valid_iter it'" and "ip \<noteq> ''''"
    and "Bootstrap it io u ip now d s = ((r, e), s')"
  shows "recordByIPLocked it' ip s' = Some (u, r) \<and> LookupByIP it' ip s' = Inr (u, r) \<and>
    LastUnsealIP r = ip \<and> LastHeartbeatAt r = now \<and> LeaseUntil r = now + d \<and>
    Status r = LeaseStatusActive"
proof -
  have range: "lease_range it" "lease_range it'" using assms by (simp_all add: lease_range_iff)
  have r: "r = bootstrapped ip now d (fmlookup (nodes s) u)"
    using assms(5)
    by (auto simp: Bootstrap_def bootstrapped_def activeLease_def zeroRecord_def time_defs Let_def
        split: prod.splits option.splits)
  have s': "s' = snd (exec_op it io (OpBootstrap u ip now d) s)" using assms(5) by simp
  then have "unique_ip (nodes s')"
    using store_inv_exec [OF assms(1,2), of "OpBootstrap u ip now d"] by (simp add: store_inv_def)
  moreover have "fmlookup (nodes s') u = Some r"
    using lease_range.Bootstrap_nodes [OF range(1), of io u ip now d s u] assms(5) r by simp
  ultimately have "recordByIPLocked it' ip s' = Some (u, r)"
    using lease_range.recordByIP_unique [OF range(2), of s' ip u r] assms(4) r
    by (simp add: bootstrapped_def)
  then show ?thesis using r by (simp add: LookupByIP_def bootstrapped_def)
qed

theorem bootstrap_binds_address_witness:
  "\<exists>r e s'. Bootstrap sorted_iter io_ok ''node-2'' ''10.0.0.1'' 1002 5 (demo_store demo_record) = ((r, e), s') \<and>
     LookupByIP sorted_iter ''10.0.0.1'' s' = Inr (''node-2'', r)"
proof -
  obtain r e s' where run:
    "Bootstrap sorted_iter io_ok ''node-2'' ''10.0.0.1'' 1002 5 (demo_store demo_record) = ((r, e), s')"
    by (metis prod.exhaust)
  with bootstrap_binds_address [OF _ valid_sorted_iter valid_sorted_iter _ run] show ?thesis by simp
qed

subsection \<open>Persistence\<close>

text \<open>
  Persisting replaces the file atomically: whatever system call fails, the file at the
  store's path is afterwards either the old one (an error is returned) or a document that
  decodes to exactly the nodes in memory (no error); no file but the temporary one is
  touched besides.
\<close>

lemma persist_atomic:
  assumes "path s \<noteq> ''''" and "persistLocked io s = (e, s')"
  shows "(case e of
      None \<Rightarrow> \<exists>j. files s' (path s) = Some (Document j) \<and> dec_file j = Some \<lparr>Nodes = Some (nodes s)\<rparr>
    | Some _ \<Rightarrow> files s' (path s) = files s (path s)) \<and>
    nodes s' = nodes s \<and>
    (\<forall>q. q \<noteq> path s \<and> q \<noteq> path s @ ''.tmp'' \<longrightarrow> files s' q = files s q)"
  using assms persist_ok_file [of io s s'] persist_err_file [of io s _ s'] persist_pairD [of io s e s']
    persist_frame [of _ s io]
  by (auto simp: tmpPath_def split: option.splits)

text \<open>
  C28: a restart loses nothing: after any sequence of calls on a fresh store in which no
  system call fails and every instant can be written as JSON, opening a new store on the
  same path gives back every record. (The texts of the records are valid UTF-8, as what comes
  from protocol buffers and JSON is, and no heartbeat by address comes with an empty address.)
\<close>

theorem restart_keeps_nodes:
  assumes "p \<noteq> ''''" and "fs p = None" and "ReadFile_err io = None"
    and "list_all clean_call calls"
  shows "\<exists>s'. NewFileLeaseStore it io now p ms'
      (files (fold exec_call calls (new_store p ms fs))) = Inr s' \<and>
    nodes s' = nodes (fold exec_call calls (new_store p ms fs))"
proof -
  let ?s = "fold exec_call calls (new_store p ms fs)"
  have "durable (new_store p ms fs)"
    using assms(1,2) by (simp add: durable_def new_store_def store_inv_def unique_ip_def synced_def
        nodes_times_ok_iff)
  then have durable: "durable ?s" using assms(4) by (rule durable_store.run_inv)
  have path: "path (fold exec_call cs s) = path s" for cs s
    by (induction cs arbitrary: s) (auto simp: exec_call_def exec_op_path split: prod.splits)
  from durable show ?thesis
    using load_synced [of ?s io it now ms'] assms(1,3) path [of calls "new_store p ms fs"]
    by (simp add: durable_def new_store_def)
qed

theorem restart_keeps_nodes_witness:
  "\<exists>s'. NewFileLeaseStore sorted_iter io_ok 0 ''leases.json'' None
      (files (fold exec_call [(sorted_iter, io_ok, OpBootstrap ''node-1'' ''10.0.0.1'' 1000 5)]
        (new_store ''leases.json'' None Map.empty))) = Inr s' \<and>
    nodes s' = nodes (fold exec_call [(sorted_iter, io_ok, OpBootstrap ''node-1'' ''10.0.0.1'' 1000 5)]
        (new_store ''leases.json'' None Map.empty))"
  by (rule restart_keeps_nodes)
    (simp_all add: io_ok_def clean_call_def call_ok_def no_fault_def json_time_ok_def day_def second_def)

text \<open>
  C29: whatever fails while the store persists, at whatever call, a restart never meets a
  damaged file: if the file could be loaded (or did not exist) at the start, a new store
  opens on it after any sequence of calls.
\<close>

theorem faults_keep_loadable:
  assumes "loadable s" and "path s \<noteq> ''''" and "ReadFile_err io = None"
  shows "\<exists>s'. NewFileLeaseStore it io now (path s) ms (files (fold exec_call calls s)) = Inr s'"
proof -
  have "loadable (fold exec_call calls s) \<and> path (fold exec_call calls s) = path s"
    using assms(1,2)
  proof (induction calls arbitrary: s)
    case (Cons c calls)
    then show ?case
      using exec_op_loadable [of s "fst c" "fst (snd c)" "snd (snd c)"]
      by (simp add: exec_call_def exec_op_path case_prod_unfold)
  qed simp
  then show ?thesis using load_loadable [of "fold exec_call calls s"] assms(2,3) by metis
qed

theorem faults_keep_loadable_witness:
  "\<exists>s'. NewFileLeaseStore sorted_iter io_ok 0 ''leases.json'' None
      (files (fold exec_call
        [(sorted_iter, io_ok\<lparr>WriteFile_err := Some (SysError ''ENOSPC'', Some Malformed)\<rparr>,
          OpHeartbeatByUUID ''node-1'' ''10.0.0.1'' '''' 1002 5)]
        (demo_store demo_record))) = Inr s'"
  by (rule faults_keep_loadable [of "demo_store demo_record", unfolded demo_store_simps])
    (simp_all add: loadable_def io_ok_def)

subsection \<open>Metrics\<close>

text \<open>
  C31: whenever the lease gauges are updated they show the true counts: the expired gauge
  is the number of nodes that are blocked, marked expired or past their lease, the active
  gauge is the number of all others, and together they count every node.
\<close>

theorem gauges_exact:
  assumes "valid_iter it" and "metrics s = Some log"
  shows "\<exists>log' active expired. metrics (updateLeaseMetricsLocked it now s) = Some log' \<and>
    active_gauge log' = Some active \<and> expired_gauge log' = Some expired \<and>
    expired = card {k. \<exists>r. fmlookup (nodes s) k = Some r \<and>
      (Status r = LeaseStatusBlocked \<or> Status r = LeaseStatusExpired \<or> isExpired r now)} \<and>
    active + expired = fcard (fmdom (nodes s))"
proof -
  have range: "lease_range it" using assms(1) by (simp add: lease_range_iff)
  let ?E = "nodes_where (nodes s) (counts_expired now)"
  let ?A = "nodes_where (nodes s) (\<lambda>r. \<not> counts_expired now r)"
  have "fset (fmdom (nodes s)) = ?A \<union> ?E" "?A \<inter> ?E = {}"
    by (auto simp: nodes_where_def fmlookup_dom_iff)
  then have "card ?A + card ?E = fcard (fmdom (nodes s))"
    by (simp add: fcard.rep_eq card_Un_disjoint)
  moreover have "?E = {k. \<exists>r. fmlookup (nodes s) k = Some r \<and>
      (Status r = LeaseStatusBlocked \<or> Status r = LeaseStatusExpired \<or> isExpired r now)}"
    by (simp add: nodes_where_def counts_expired_def)
  ultimately show ?thesis
    using assms(2)
    by (simp add: updateLeaseMetricsLocked_def lease_range.lease_counts_card [OF range]
        setLeaseCounts_def gauge_append)
qed

theorem gauges_exact_witness:
  "\<exists>log' active expired. metrics (updateLeaseMetricsLocked sorted_iter 9000 (demo_store demo_record)) = Some log' \<and>
    active_gauge log' = Some active \<and> expired_gauge log' = Some expired \<and> active + expired = 1"
  using gauges_exact [OF valid_sorted_iter, of "demo_store demo_record" "[]" 9000]
  by (auto simp: fcard.rep_eq)

subsection \<open>Heartbeats and the switch\<close>

text \<open>
  An accepted HTTP heartbeat protects the node: after it, no number of check cycles
  at instants within the timeout blocks the node, which stays active.
\<close>

lemma heartbeat_protects:
  assumes "store_inv s" and "valid_iter it" and "0 \<le> timeout" and "timeout < maxInt64"
    and "HeartbeatByUUID it io u ip h t d s = ((r, e), s')" and "e \<noteq> Some ErrLeaseBlocked"
    and "list_all (\<lambda>c. call_ok c \<and> (\<exists>t'. snd (snd c) = OpBlockExpiredNodes t' timeout \<and> t' \<le> t + timeout)) checks"
  shows "\<exists>r'. fmlookup (nodes (fold exec_call checks s')) u = Some r' \<and>
    Status r' = LeaseStatusActive \<and> LastHeartbeatAt r' = t \<and> LeaseUntil r' = t + d"
proof -
  let ?P = "\<lambda>old. \<exists>r'. old = Some r' \<and> Status r' = LeaseStatusActive \<and> LastHeartbeatAt r' = t \<and>
    LeaseUntil r' = t + d"
  have s': "s' = snd (exec_op it io (OpHeartbeatByUUID u ip h t d) s)" using assms(5) by simp
  have inv: "store_inv s'" unfolding s' using assms(1,2) by (rule store_inv_exec) simp
  have "\<not> is_blocked (fmlookup (nodes s) u)"
    using assms(5,6) by (auto simp: is_blocked_iff HeartbeatByUUID_def)
  then have start: "?P (fmlookup (nodes s') u)"
    using HeartbeatByUUID_nodes [of it io u ip h t d s u] assms(5)
    by (auto simp: renewed_def split: option.splits if_splits)
  show ?thesis
  proof (rule store.run_stable [where P = ?P, OF inv _ start])
    show "list_all call_ok checks" using assms(7) by (simp add: list_all_iff)
    show "?P (node_step (snd (snd c)) u v)" if c: "c \<in> set checks" and v: "?P v" for c v
    proof -
      obtain t' where "snd (snd c) = OpBlockExpiredNodes t' timeout" "t' \<le> t + timeout"
        using assms(7) c by (auto simp: list_all_iff)
      moreover obtain r' where r': "v = Some r'" "LastHeartbeatAt r' = t" using v by blast
      ultimately have "\<not> overdue r' t' timeout"
        using assms(3,4) by (simp add: overdue_def Sub_gt_iff int64_defs)
      with v r' \<open>snd (snd c) = OpBlockExpiredNodes t' timeout\<close> show ?thesis by simp
    qed
  qed
qed

text \<open>
  C39: an unseal takes a node out of maintenance: the flag does not survive Bootstrap, and
  the first check more than the timeout after the unseal blocks a node that has been
  silent since, although the administrator never ended its maintenance.
\<close>

theorem unseal_ends_maintenance:
  assumes "valid_iter it" and "valid_iter it'"
    and "fmlookup (nodes s) u = Some r" and "Maintenance r"
    and "Bootstrap it io u ip now d s = ((r', e), s')"
    and "now \<noteq> 0" and "0 \<le> timeout" and "timeout < maxInt64" and "now + timeout < now'"
  shows "fmlookup (nodes s') u = Some r' \<and> \<not> Maintenance r' \<and>
    u \<in> set (fst (BlockExpiredNodes it' io' now' timeout s'))"
proof -
  have range: "lease_range it" using assms(1) by (simp add: lease_range_iff)
  have r': "r' = bootstrapped ip now d (fmlookup (nodes s) u)"
    using assms(5)
    by (auto simp: Bootstrap_def bootstrapped_def activeLease_def zeroRecord_def time_defs Let_def
        split: prod.splits option.splits)
  have u: "fmlookup (nodes s') u = Some r'"
    using lease_range.Bootstrap_nodes [OF range, of io u ip now d s u] assms(5) r' by simp
  have "timeout < Sub now' now" using assms(7-9) by (simp add: Sub_gt_iff int64_defs)
  then have "overdue r' now' timeout"
    using assms(6) by (simp add: r' overdue_def bootstrapped_def)
  then have "u \<in> set (fst (BlockExpiredNodes it' io' now' timeout s'))"
    using u assms(2) by (simp add: lease_range.BlockExpiredNodes_mem lease_range_iff)
  then show ?thesis using u by (simp add: r' bootstrapped_def)
qed

theorem unseal_ends_maintenance_witness:
  "\<exists>r' e s'. Bootstrap sorted_iter io_ok ''node-1'' ''10.0.0.1'' 1002 5
      (demo_store (demo_record\<lparr>Maintenance := True, MaintenanceAt := 1001\<rparr>)) = ((r', e), s') \<and>
    \<not> Maintenance r' \<and> ''node-1'' \<in> set (fst (BlockExpiredNodes sorted_iter io_ok 1600 500 s'))"
proof -
  obtain r' e s' where run: "Bootstrap sorted_iter io_ok ''node-1'' ''10.0.0.1'' 1002 5
      (demo_store (demo_record\<lparr>Maintenance := True, MaintenanceAt := 1001\<rparr>)) = ((r', e), s')"
    by (metis prod.exhaust)
  with unseal_ends_maintenance [OF valid_sorted_iter valid_sorted_iter _ _ run, of
      "demo_record\<lparr>Maintenance := True, MaintenanceAt := 1001\<rparr>" 500 1600 io_ok]
  show ?thesis by (simp add: int64_defs)
qed

text \<open>
  C40: ending maintenance gives a fresh heartbeat and lease time but leaves a lease that was
  marked expired as it is: the node's next validation is still refused.
\<close>

theorem maintenance_off_keeps_expired:
  assumes "fmlookup (nodes s) u = Some r" and "Status r = LeaseStatusExpired"
    and "SetMaintenance io u False now d s = ((r', e), s')"
  shows "LastHeartbeatAt r' = now \<and> LeaseUntil r' = now + d \<and>
    snd (fst (Validate it io' u now' s')) \<noteq> None"
proof -
  have r': "r' = r\<lparr>Maintenance := False, MaintenanceAt := 0, LastHeartbeatAt := now, LeaseUntil := now + d\<rparr>"
    using assms by (auto simp: SetMaintenance_def time_defs Let_def split: prod.splits)
  moreover have "fmlookup (nodes s') u = Some r'"
    using SetMaintenance_nodes [of io u False now d s u] assms r' by simp
  ultimately show ?thesis
    using assms(2) by (simp add: Validate_def Let_def split: prod.splits option.splits)
qed

theorem maintenance_off_keeps_expired_witness:
  "\<exists>r' e s'. SetMaintenance io_ok ''node-1'' False 2000 500
      (demo_store (demo_record\<lparr>Status := LeaseStatusExpired\<rparr>)) = ((r', e), s') \<and>
    LeaseUntil r' = 2500 \<and> snd (fst (Validate sorted_iter io_ok ''node-1'' 2001 s')) \<noteq> None"
proof -
  obtain r' e s' where run: "SetMaintenance io_ok ''node-1'' False 2000 500
      (demo_store (demo_record\<lparr>Status := LeaseStatusExpired\<rparr>)) = ((r', e), s')"
    by (metis prod.exhaust)
  with maintenance_off_keeps_expired [OF _ _ run, of "demo_record\<lparr>Status := LeaseStatusExpired\<rparr>"]
  show ?thesis by simp
qed

end
