(* ===== verification/Aes_Gcm.thy ===== *)
theory Aes_Gcm
  imports Go_Base
begin

text \<open>
  The cipher of the standard library that the server seals with: \<open>crypto/aes\<close> (FIPS 197,
  encryption direction only, which is all that GCM uses) and the GCM mode of
  \<open>crypto/cipher\<close> (NIST SP 800-38D) with the sizes of \<open>cipher.NewGCM\<close>: a nonce of 12
  bytes, a tag of 16, no additional data. The locale \<open>aead\<close> is what the server relies on,
  and it is interpreted on AES-GCM itself.
\<close>

unbundle bit_operations_syntax

subsection \<open>The field of the S-box\<close>

definition xtime :: "byte \<Rightarrow> byte" where
  "xtime b = push_bit 1 b XOR (if bit b 7 then 0x1b else 0)"

primrec gf_mul_bits :: "nat \<Rightarrow> byte \<Rightarrow> byte \<Rightarrow> byte" where
  "gf_mul_bits 0 a b = 0"
| "gf_mul_bits (Suc n) a b =
     (if bit b 0 then a else 0) XOR gf_mul_bits n (xtime a) (drop_bit 1 b)"

definition gf_mul :: "byte \<Rightarrow> byte \<Rightarrow> byte" where
  "gf_mul a b = gf_mul_bits 8 a b"

text \<open>The inverse, with \<open>0\<close> mapped to itself, is the power 254.\<close>

primrec gf_pow :: "byte \<Rightarrow> nat \<Rightarrow> byte" where
  "gf_pow a 0 = 1"
| "gf_pow a (Suc n) = gf_mul a (gf_pow a n)"

definition rotl8 :: "nat \<Rightarrow> byte \<Rightarrow> byte" where
  "rotl8 n b = push_bit n b OR drop_bit (8 - n) b"

definition sbox :: "byte \<Rightarrow> byte" where
  "sbox b =
     (let x = gf_pow b 254
      in x XOR rotl8 1 x XOR rotl8 2 x XOR rotl8 3 x XOR rotl8 4 x XOR 0x63)"

subsection \<open>AES\<close>

definition xor_bytes :: "bytes \<Rightarrow> bytes \<Rightarrow> bytes" where
  "xor_bytes xs ys = map2 (XOR) xs ys"

primrec rcon :: "nat \<Rightarrow> byte" where
  "rcon 0 = 1"
| "rcon (Suc n) = xtime (rcon n)"

text \<open>The key schedule, a list of four-byte words.\<close>

primrec key_expand :: "nat \<Rightarrow> nat \<Rightarrow> bytes list \<Rightarrow> bytes list" where
  "key_expand nk 0 ws = ws"
| "key_expand nk (Suc n) ws =
     (let i = length ws; t = last ws;
          t' = (if i mod nk = 0
                then xor_bytes (map sbox (rotate1 t)) [rcon (i div nk - 1), 0, 0, 0]
                else if 6 < nk \<and> i mod nk = 4 then map sbox t else t)
      in key_expand nk n (ws @ [xor_bytes (ws ! (i - nk)) t']))"

fun chunks4 :: "bytes \<Rightarrow> bytes list" where
  "chunks4 (a # b # c # d # bs) = [a, b, c, d] # chunks4 bs"
| "chunks4 _ = []"

definition round_keys :: "bytes \<Rightarrow> bytes list" where
  "round_keys k =
     (let nk = length k div 4; ws = key_expand nk (4 * (nk + 7) - nk) (chunks4 k)
      in map (\<lambda>i. concat (take 4 (drop (4 * i) ws))) [0..<nk + 7])"

definition shift_rows :: "bytes \<Rightarrow> bytes" where
  "shift_rows s = map (\<lambda>i. s ! (i mod 4 + 4 * ((i div 4 + i mod 4) mod 4))) [0..<16]"

definition mix_columns :: "bytes \<Rightarrow> bytes" where
  "mix_columns s =
     map (\<lambda>i. let c = 4 * (i div 4); r = i mod 4; a = (\<lambda>k. s ! (c + (r + k) mod 4))
              in gf_mul 2 (a 0) XOR gf_mul 3 (a 1) XOR a 2 XOR a 3) [0..<16]"

fun aes_rounds :: "bytes list \<Rightarrow> bytes \<Rightarrow> bytes" where
  "aes_rounds [] s = s"
| "aes_rounds [k] s = map2 (XOR) (shift_rows (map sbox s)) k"
| "aes_rounds (k # ks) s = aes_rounds ks (map2 (XOR) (mix_columns (shift_rows (map sbox s))) k)"

definition aes_encrypt :: "bytes \<Rightarrow> bytes \<Rightarrow> bytes" where
  "aes_encrypt k b =
     (case round_keys k of [] \<Rightarrow> b | k0 # ks \<Rightarrow> aes_rounds ks (xor_bytes b k0))"

text \<open>\<open>aes.NewCipher\<close>: the key is kept, or refused for its size.\<close>

definition BlockSize :: nat where
  "BlockSize = 16"

definition NewCipher :: "bytes \<Rightarrow> go_error + bytes" where
  "NewCipher k =
     (if length k \<in> {16, 24, 32} then Inr k
      else Inl (ErrorString (''crypto/aes: invalid key size '' @ fmt_d (int (length k)))))"

subsection \<open>GCM\<close>

type_synonym block128 = "128 word"

definition block_of_bytes :: "bytes \<Rightarrow> block128" where
  "block_of_bytes bs = foldl (\<lambda>w b. push_bit 8 w OR ucast b) 0 bs"

definition bytes_of_block :: "block128 \<Rightarrow> bytes" where
  "bytes_of_block w = map (\<lambda>i. ucast (drop_bit (120 - 8 * i) w)) [0..<16]"

primrec ghash_mul_bits :: "nat \<Rightarrow> block128 \<Rightarrow> block128 \<Rightarrow> block128 \<Rightarrow> block128" where
  "ghash_mul_bits 0 x v z = z"
| "ghash_mul_bits (Suc n) x v z =
     ghash_mul_bits n x
       (if bit v 0 then drop_bit 1 v XOR push_bit 120 0xe1 else drop_bit 1 v)
       (if bit x n then z XOR v else z)"

definition ghash_mul :: "block128 \<Rightarrow> block128 \<Rightarrow> block128" where
  "ghash_mul x h = ghash_mul_bits 128 x h 0"

fun ghash :: "nat \<Rightarrow> block128 \<Rightarrow> block128 \<Rightarrow> bytes \<Rightarrow> block128" where
  "ghash 0 h y bs = y"
| "ghash (Suc n) h y bs =
     (let blk = take 16 bs
      in ghash n h (ghash_mul (y XOR block_of_bytes (blk @ replicate (16 - length blk) 0)) h) (drop 16 bs))"

definition counter_block :: "bytes \<Rightarrow> nat \<Rightarrow> bytes" where
  "counter_block nonce i = nonce @ map (\<lambda>n. word_of_nat (i div 2 ^ n)) [24, 16, 8, 0]"

definition aes_block :: "bytes \<Rightarrow> bytes \<Rightarrow> block128" where
  "aes_block k b = block_of_bytes (aes_encrypt k b)"

definition keystream :: "bytes \<Rightarrow> bytes \<Rightarrow> nat \<Rightarrow> bytes" where
  "keystream k nonce blocks =
     concat (map (\<lambda>i. bytes_of_block (aes_block k (counter_block nonce (i + 2)))) [0..<blocks])"

definition gctr :: "bytes \<Rightarrow> bytes \<Rightarrow> bytes \<Rightarrow> bytes" where
  "gctr k nonce bs = map2 (XOR) bs (keystream k nonce (length bs div 16 + 1))"

definition gcm_tag :: "bytes \<Rightarrow> bytes \<Rightarrow> bytes \<Rightarrow> bytes" where
  "gcm_tag k nonce ct =
     (let h = aes_block k (replicate 16 0);
          y = ghash ((length ct + 15) div 16) h 0 ct;
          y' = ghash_mul (y XOR of_nat (8 * length ct)) h
      in bytes_of_block (y' XOR aes_block k (counter_block nonce 1)))"

text \<open>\<open>cipher.NewGCM\<close> refuses only ciphers whose blocks are not 16 bytes long.\<close>

definition NewGCM :: "bytes \<Rightarrow> go_error + bytes" where
  "NewGCM block =
     (if BlockSize = 16 then Inr block
      else Inl (ErrorString ''cipher: NewGCM requires 128-bit block cipher''))"

definition NonceSize :: nat where
  "NonceSize = 12"

definition gcm_Seal :: "bytes \<Rightarrow> bytes \<Rightarrow> bytes \<Rightarrow> bytes" where
  "gcm_Seal k nonce plain = (let ct = gctr k nonce plain in ct @ gcm_tag k nonce ct)"

definition gcm_Open :: "bytes \<Rightarrow> bytes \<Rightarrow> bytes \<Rightarrow> go_error + bytes" where
  "gcm_Open k nonce c =
     (if length c < 16 then Inl (ErrorString ''cipher: message authentication failed'')
      else
        (let ct = take (length c - 16) c; tag = drop (length c - 16) c
         in if tag = gcm_tag k nonce ct then Inr (gctr k nonce ct)
            else Inl (ErrorString ''cipher: message authentication failed'')))"

subsection \<open>What the server relies on\<close>

locale aead =
  fixes seal :: "bytes \<Rightarrow> bytes \<Rightarrow> bytes" and unseal :: "bytes \<Rightarrow> bytes \<Rightarrow> go_error + bytes"
    and overhead :: nat
  assumes open_iff: "unseal nonce c = Inr p \<longleftrightarrow> c = seal nonce p"
    and seal_length: "length (seal nonce p) = length p + overhead"
begin

lemma open_seal [simp]: "unseal nonce (seal nonce p) = Inr p"
  by (simp add: open_iff)

lemma seal_inj: "seal nonce p = seal nonce p' \<longleftrightarrow> p = p'"
  by (metis open_seal sum.inject(2))

lemma open_length: "unseal nonce c = Inr p \<Longrightarrow> length c = length p + overhead"
  by (simp add: open_iff seal_length)

end

lemma length_bytes_of_block [simp]: "length (bytes_of_block w) = 16"
  by (simp add: bytes_of_block_def)

lemma length_keystream: "length (keystream k nonce n) = 16 * n"
  by (induction n) (simp_all add: keystream_def)

lemma length_gctr [simp]: "length (gctr k nonce bs) = length bs"
proof -
  have "length bs \<le> 16 * (length bs div 16 + 1)" by presburger
  then show ?thesis by (simp add: gctr_def length_keystream)
qed

lemma map2_xor_cancel:
  "length xs \<le> length ks \<Longrightarrow> map2 (XOR) (map2 (XOR) xs ks) ks = xs" for xs ks :: bytes
proof (induction xs arbitrary: ks)
  case (Cons x xs)
  then show ?case by (cases ks) (simp_all add: xor.assoc)
qed simp

lemma gctr_gctr [simp]: "gctr k nonce (gctr k nonce bs) = bs"
proof -
  let ?ks = "keystream k nonce (length bs div 16 + 1)"
  have "length bs \<le> length ?ks" unfolding length_keystream by presburger
  moreover have "gctr k nonce (gctr k nonce bs) = map2 (XOR) (map2 (XOR) bs ?ks) ?ks"
    unfolding gctr_def [of k nonce "gctr k nonce bs"] length_gctr by (simp add: gctr_def)
  ultimately show ?thesis using map2_xor_cancel by simp
qed

lemma length_gcm_tag [simp]: "length (gcm_tag k nonce ct) = 16"
  by (simp add: gcm_tag_def Let_def)

interpretation gcm: aead "gcm_Seal k" "gcm_Open k" 16 for k
proof unfold_locales
  show "gcm_Open k nonce c = Inr p \<longleftrightarrow> c = gcm_Seal k nonce p" for nonce c p
  proof
    assume open_ok: "gcm_Open k nonce c = Inr p"
    let ?ct = "take (length c - 16) c"
    from open_ok have "drop (length c - 16) c = gcm_tag k nonce ?ct" and p: "p = gctr k nonce ?ct"
      by (auto simp: gcm_Open_def Let_def split: if_splits)
    then have "?ct @ gcm_tag k nonce ?ct = c" by (metis append_take_drop_id)
    then show "c = gcm_Seal k nonce p" by (simp add: gcm_Seal_def p)
  next
    assume "c = gcm_Seal k nonce p"
    then show "gcm_Open k nonce c = Inr p" by (simp add: gcm_Open_def gcm_Seal_def Let_def)
  qed
  show "length (gcm_Seal k nonce p) = length p + 16" for nonce p
    by (simp add: gcm_Seal_def Let_def)
qed

end
