(* ===== verification/Sha256.thy ===== *)
theory Sha256
  imports Go_Base
begin

text \<open>
  The hash functions of the standard library that the signatures of
  \<open>src/pkg/server/hmac.go\<close> use: \<open>crypto/sha256\<close> (FIPS 180-4) and
  \<open>crypto/hmac\<close> (RFC 2104), as functions on byte lists. The locale \<open>keyed_hash\<close> is what
  the authenticator relies on, and it is interpreted on HMAC-SHA256 itself.
\<close>

unbundle bit_operations_syntax

type_synonym word32 = "32 word"

subsection \<open>SHA-256\<close>

text \<open>
  The constants are the first 32 bits of the fractional parts of the cube roots of the first
  64 primes, and of the square roots of the first eight; they are computed here from the
  primes, bit by bit.
\<close>

definition small_primes :: "int list" where
  "small_primes = filter (\<lambda>n. list_all (\<lambda>d. n mod d \<noteq> 0) [2..n - 1]) [2..311]"

primrec root_bits :: "nat \<Rightarrow> int \<Rightarrow> nat \<Rightarrow> int \<Rightarrow> int" where
  "root_bits k n 0 acc = acc"
| "root_bits k n (Suc b) acc =
     root_bits k n b (if (acc + 2 ^ b) ^ k \<le> n then acc + 2 ^ b else acc)"

definition fraction_of_root :: "nat \<Rightarrow> int \<Rightarrow> word32" where
  "fraction_of_root k p = word_of_int (root_bits k (p * 2 ^ (32 * k)) 40 0)"

definition sha_K :: "word32 list" where
  "sha_K = map (fraction_of_root 3) small_primes"

definition rotr32 :: "nat \<Rightarrow> word32 \<Rightarrow> word32" where
  "rotr32 n w = drop_bit n w OR push_bit (32 - n) w"

definition ssig0 :: "word32 \<Rightarrow> word32" where
  "ssig0 x = rotr32 7 x XOR rotr32 18 x XOR drop_bit 3 x"

definition ssig1 :: "word32 \<Rightarrow> word32" where
  "ssig1 x = rotr32 17 x XOR rotr32 19 x XOR drop_bit 10 x"

definition bsig0 :: "word32 \<Rightarrow> word32" where
  "bsig0 x = rotr32 2 x XOR rotr32 13 x XOR rotr32 22 x"

definition bsig1 :: "word32 \<Rightarrow> word32" where
  "bsig1 x = rotr32 6 x XOR rotr32 11 x XOR rotr32 25 x"

definition sha_ch :: "word32 \<Rightarrow> word32 \<Rightarrow> word32 \<Rightarrow> word32" where
  "sha_ch x y z = (x AND y) XOR (NOT x AND z)"

definition sha_maj :: "word32 \<Rightarrow> word32 \<Rightarrow> word32 \<Rightarrow> word32" where
  "sha_maj x y z = (x AND y) XOR (x AND z) XOR (y AND z)"

text \<open>The message schedule, latest word first.\<close>

primrec sha_expand :: "nat \<Rightarrow> word32 list \<Rightarrow> word32 list" where
  "sha_expand 0 ws = ws"
| "sha_expand (Suc n) ws =
     sha_expand n ((ssig1 (ws ! 1) + ws ! 6 + ssig0 (ws ! 14) + ws ! 15) # ws)"

type_synonym sha_state =
  "word32 \<times> word32 \<times> word32 \<times> word32 \<times> word32 \<times> word32 \<times> word32 \<times> word32"

fun sha_round :: "sha_state \<Rightarrow> word32 \<times> word32 \<Rightarrow> sha_state" where
  "sha_round (a, b, c, d, e, f, g, h) (k, w) =
     (let t1 = h + bsig1 e + sha_ch e f g + k + w;
          t2 = bsig0 a + sha_maj a b c
      in (t1 + t2, a, b, c, d + t1, e, f, g))"

fun word32_of_bytes :: "bytes \<Rightarrow> word32 list" where
  "word32_of_bytes (a # b # c # d # bs) =
     word_of_int (((uint a * 256 + uint b) * 256 + uint c) * 256 + uint d) # word32_of_bytes bs"
| "word32_of_bytes _ = []"

definition bytes_of_word32 :: "word32 \<Rightarrow> bytes" where
  "bytes_of_word32 w = map (\<lambda>n. word_of_int (uint w div 2 ^ n)) [24, 16, 8, 0]"

fun sha_block :: "sha_state \<Rightarrow> bytes \<Rightarrow> sha_state" where
  "sha_block (a, b, c, d, e, f, g, h) blk =
     (let ws = rev (sha_expand 48 (rev (word32_of_bytes blk)));
          (a', b', c', d', e', f', g', h') =
            foldl sha_round (a, b, c, d, e, f, g, h) (zip sha_K ws)
      in (a + a', b + b', c + c', d + d', e + e', f + f', g + g', h + h'))"

fun sha_blocks :: "nat \<Rightarrow> sha_state \<Rightarrow> bytes \<Rightarrow> sha_state" where
  "sha_blocks 0 st bs = st"
| "sha_blocks (Suc n) st bs = sha_blocks n (sha_block st (take 64 bs)) (drop 64 bs)"

text \<open>A \<open>1\<close> bit, zeros up to 56 bytes modulo 64, and the length in bits as 64 bits.\<close>

definition sha_pad :: "bytes \<Rightarrow> bytes" where
  "sha_pad m =
     m @ 0x80 # replicate ((119 - length m mod 64) mod 64) 0 @
     map (\<lambda>n. word_of_int ((8 * int (length m)) div 2 ^ n)) [56, 48, 40, 32, 24, 16, 8, 0]"

definition sha_output :: "sha_state \<Rightarrow> bytes" where
  "sha_output st =
     (case st of (a, b, c, d, e, f, g, h) \<Rightarrow>
        concat (map bytes_of_word32 [a, b, c, d, e, f, g, h]))"

definition sha_start :: sha_state where
  "sha_start =
     (let h = fraction_of_root 2
      in (h 2, h 3, h 5, h 7, h 11, h 13, h 17, h 19))"

definition Sum256 :: "bytes \<Rightarrow> bytes" where
  "Sum256 m = (let p = sha_pad m in sha_output (sha_blocks (length p div 64) sha_start p))"

lemma length_sha_output [simp]: "length (sha_output st) = 32"
  by (simp add: sha_output_def bytes_of_word32_def split: prod.splits)

lemma length_Sum256 [simp]: "length (Sum256 m) = 32"
  by (simp add: Sum256_def Let_def)

lemma length_sha_pad: "64 dvd length (sha_pad m)"
proof -
  define r q where "r = length m mod 64" and "q = length m div 64"
  have r: "r < 64" and m: "length m = 64 * q + r" by (simp_all add: r_def q_def)
  have "\<exists>k. r + (119 - r) mod 64 + 9 = 64 * k"
  proof (cases "r \<le> 55")
    case True
    then have "(119 - r) mod 64 = 55 - r" by (simp add: mod_if)
    then show ?thesis using True by (intro exI [of _ 1]) simp
  next
    case False
    then show ?thesis using r by (intro exI [of _ 2]) simp
  qed
  then obtain k where "r + (119 - r) mod 64 + 9 = 64 * k" by blast
  then have "length (sha_pad m) = 64 * (q + k)"
    by (simp add: sha_pad_def m r)
  then show ?thesis by simp
qed

subsection \<open>HMAC\<close>

definition hmac_key_block :: "bytes \<Rightarrow> bytes" where
  "hmac_key_block key =
     (let k = (if 64 < length key then Sum256 key else key) in k @ replicate (64 - length k) 0)"

definition hmac_sha256 :: "bytes \<Rightarrow> bytes \<Rightarrow> bytes" where
  "hmac_sha256 key msg =
     (let k = hmac_key_block key in
      Sum256 (map (\<lambda>b. b XOR 0x5c) k @ Sum256 (map (\<lambda>b. b XOR 0x36) k @ msg)))"

lemma length_hmac_key_block: "length (hmac_key_block key) = 64"
  by (simp add: hmac_key_block_def Let_def)

text \<open>\<open>hmac.Equal\<close> compares in constant time; its result is equality.\<close>

definition hmac_Equal :: "bytes \<Rightarrow> bytes \<Rightarrow> bool" where
  "hmac_Equal a b \<longleftrightarrow> a = b"

locale keyed_hash =
  fixes mac :: "bytes \<Rightarrow> bytes \<Rightarrow> bytes" and tag_size :: nat
  assumes tag_length: "length (mac key msg) = tag_size"
begin

lemma tag_hex_decodes:
  "DecodeString (EncodeToString (mac key msg)) = Some tag \<longleftrightarrow> tag = mac key msg"
  by (auto simp: Decode_Encode)

lemma short_tag_rejected: "length tag \<noteq> tag_size \<Longrightarrow> \<not> hmac_Equal (mac key msg) tag"
  by (auto simp: hmac_Equal_def tag_length)

end

interpretation hmac: keyed_hash hmac_sha256 32
  by unfold_locales (simp add: hmac_sha256_def Let_def)

end
