(* ===== verification/Net_IP.thy ===== *)
theory Net_IP
  imports Go_Base
begin

text \<open>
  The functions of the standard package \<open>net\<close> that \<open>peerIPFromContext\<close> of
  \<open>src/pkg/server/server.go\<close> calls: \<open>net.ParseIP\<close>, \<open>net.IP.String\<close> and
  \<open>net.SplitHostPort\<close>. An address is its sixteen bytes, as \<open>ParseIP\<close> returns it.
\<close>

subsection \<open>Parsing addresses\<close>

definition char_nat :: "char \<Rightarrow> nat" where
  "char_nat c = of_char c"

definition is_digit :: "char \<Rightarrow> bool" where
  "is_digit c \<longleftrightarrow> 48 \<le> char_nat c \<and> char_nat c \<le> 57"

text \<open>
  The dotted form: no leading zeros, no octet above 255, exactly four octets. \<open>dot\<close> says
  that the previous byte was a dot or that this is the first one.
\<close>

fun v4_loop :: "string \<Rightarrow> bool \<Rightarrow> nat \<Rightarrow> nat \<Rightarrow> bytes \<Rightarrow> bytes option" where
  "v4_loop [] dot val digLen fields =
     (if length fields < 3 then None else Some (fields @ [of_nat val]))"
| "v4_loop (c # cs) dot val digLen fields =
     (if is_digit c then
        if digLen = 1 \<and> val = 0 then None
        else (let val' = val * 10 + char_nat c - 48 in
              if 255 < val' then None else v4_loop cs False val' (digLen + 1) fields)
      else if c = CHR ''.'' then
        if dot \<or> cs = [] then None
        else if length fields = 3 then None
        else v4_loop cs True 0 0 (fields @ [of_nat val])
      else None)"

definition parseIPv4Fields :: "string \<Rightarrow> bytes option" where
  "parseIPv4Fields s = v4_loop s True 0 0 []"

text \<open>A group of up to four hexadecimal digits: how many, their value, and the rest.\<close>

fun hex_group :: "string \<Rightarrow> nat \<Rightarrow> nat \<Rightarrow> (nat \<times> nat \<times> string) option" where
  "hex_group [] off acc = Some (off, acc, [])"
| "hex_group (c # cs) off acc =
     (case fromHexChar c of
        None \<Rightarrow> Some (off, acc, c # cs)
      | Some h \<Rightarrow> if 3 < off \<or> 65535 < acc * 16 + h then None else hex_group cs (off + 1) (acc * 16 + h))"

text \<open>
  The loop of \<open>parseIPv6\<close>: \<open>ip\<close> holds the bytes so far, \<open>ell\<close> the position of the
  ellipsis, and the first argument bounds the groups still to come (eight at the start).
\<close>

fun v6_loop :: "nat \<Rightarrow> string \<Rightarrow> nat option \<Rightarrow> bytes \<Rightarrow> (string \<times> nat option \<times> bytes) option" where
  "v6_loop 0 s ell ip = Some (s, ell, ip)"
| "v6_loop (Suc n) s ell ip =
     (case hex_group s 0 0 of
        None \<Rightarrow> None
      | Some (off, acc, rest) \<Rightarrow>
          if off = 0 then None
          else if rest \<noteq> [] \<and> hd rest = CHR ''.'' then
            (if ell = None \<and> length ip \<noteq> 12 then None
             else if 16 < length ip + 4 then None
             else case parseIPv4Fields s of
               None \<Rightarrow> None
             | Some fields \<Rightarrow> Some ([], ell, ip @ fields))
          else
            (let ip' = ip @ [of_nat (acc div 256), of_nat (acc mod 256)] in
             case rest of
               [] \<Rightarrow> Some ([], ell, ip')
             | c # cs \<Rightarrow>
                 if c \<noteq> CHR '':'' then None
                 else if cs = [] then None
                 else if hd cs = CHR '':'' then
                   (if ell \<noteq> None then None
                    else if tl cs = [] then Some ([], Some (length ip'), ip')
                    else v6_loop n (tl cs) (Some (length ip')) ip')
                 else v6_loop n cs ell ip'))"

definition v6_finish :: "string \<times> nat option \<times> bytes \<Rightarrow> bytes option" where
  "v6_finish r =
     (case r of (s, ell, ip) \<Rightarrow>
        if s \<noteq> [] then None
        else if length ip < 16 then
          (case ell of
             None \<Rightarrow> None
           | Some e \<Rightarrow> Some (take e ip @ replicate (16 - length ip) 0 @ drop e ip))
        else if ell \<noteq> None then None
        else Some ip)"

text \<open>Without a zone: \<open>ParseIP\<close> refuses an address that has one.\<close>

definition parseIPv6 :: "string \<Rightarrow> bytes option" where
  "parseIPv6 s =
     (if CHR ''%'' \<in> set s then None
      else if HasPrefix s ''::'' then
        (if drop 2 s = [] then Some (replicate 16 0)
         else Option.bind (v6_loop 8 (drop 2 s) (Some 0) []) v6_finish)
      else Option.bind (v6_loop 8 s None []) v6_finish)"

fun parseAddr :: "string \<Rightarrow> string \<Rightarrow> bytes option" where
  "parseAddr [] s = None"
| "parseAddr (c # cs) s =
     (if c = CHR ''.'' then
        map_option (\<lambda>b4. replicate 10 0 @ [0xff, 0xff] @ b4) (parseIPv4Fields s)
      else if c = CHR '':'' then parseIPv6 s
      else if c = CHR ''%'' then None
      else parseAddr cs s)"

definition ParseIP :: "string \<Rightarrow> bytes option" where
  "ParseIP s = parseAddr s s"

subsection \<open>Printing addresses\<close>

fun fmt_hex :: "nat \<Rightarrow> string" where
  "fmt_hex n = (if n < 16 then [hex_char n] else fmt_hex (n div 16) @ [hex_char (n mod 16)])"

declare fmt_hex.simps [simp del]

definition v4_string :: "bytes \<Rightarrow> string" where
  "v4_string b =
     fmt_nat (unat (b ! 0)) @ ''.'' @ fmt_nat (unat (b ! 1)) @ ''.'' @
     fmt_nat (unat (b ! 2)) @ ''.'' @ fmt_nat (unat (b ! 3))"

definition v6_groups :: "bytes \<Rightarrow> nat list" where
  "v6_groups ip = map (\<lambda>i. 256 * unat (ip ! (2 * i)) + unat (ip ! (2 * i + 1))) [0..<8]"

text \<open>The first of the longest runs of at least two zero groups.\<close>

definition zero_run :: "nat list \<Rightarrow> nat \<times> nat" where
  "zero_run gs =
     foldl (\<lambda>(zs, ze) i. let j = i + length (takeWhile (\<lambda>g. g = 0) (drop i gs)) in
              if 2 \<le> j - i \<and> ze - zs < j - i then (i, j) else (zs, ze)) (255, 255) [0..<8]"

fun v6_emit :: "nat \<Rightarrow> nat \<Rightarrow> nat list \<Rightarrow> nat \<times> nat \<Rightarrow> string" where
  "v6_emit 0 i gs z = []"
| "v6_emit (Suc n) i gs (zs, ze) =
     (if 8 \<le> i then []
      else if i = zs then
        ''::'' @ (if 8 \<le> ze then [] else fmt_hex (gs ! ze) @ v6_emit n (ze + 1) gs (zs, ze))
      else (if 0 < i then '':'' else []) @ fmt_hex (gs ! i) @ v6_emit n (i + 1) gs (zs, ze))"

definition IP_String :: "bytes \<Rightarrow> string" where
  "IP_String ip =
     (if take 12 ip = replicate 10 0 @ [0xff, 0xff] then v4_string (drop 12 ip)
      else let gs = v6_groups ip in v6_emit 8 0 gs (zero_run gs))"

subsection \<open>Host and port\<close>

fun index_byte :: "char \<Rightarrow> string \<Rightarrow> nat option" where
  "index_byte c [] = None"
| "index_byte c (d # s) = (if d = c then Some 0 else map_option Suc (index_byte c s))"

definition last_index_byte :: "char \<Rightarrow> string \<Rightarrow> nat option" where
  "last_index_byte c s = map_option (\<lambda>i. length s - 1 - i) (index_byte c (rev s))"

definition squote :: "string \<Rightarrow> string" where
  "squote s = char_of (39 :: nat) # s @ [char_of (39 :: nat)]"

definition addrErr :: "string \<Rightarrow> string \<Rightarrow> go_error" where
  "addrErr addr why = ErrorString (''address '' @ addr @ '': '' @ why)"

definition split_finish :: "string \<Rightarrow> nat \<Rightarrow> string \<Rightarrow> nat \<Rightarrow> nat \<Rightarrow> go_error + string \<times> string" where
  "split_finish hostport i host j k =
     (if CHR ''['' \<in> set (drop j hostport) then Inl (addrErr hostport (''unexpected '' @ squote ''['' @ '' in address''))
      else if CHR '']'' \<in> set (drop k hostport) then Inl (addrErr hostport (''unexpected '' @ squote '']'' @ '' in address''))
      else Inr (host, drop (i + 1) hostport))"

definition SplitHostPort :: "string \<Rightarrow> go_error + string \<times> string" where
  "SplitHostPort hostport =
     (case last_index_byte (CHR '':'') hostport of
        None \<Rightarrow> Inl (addrErr hostport ''missing port in address'')
      | Some i \<Rightarrow>
          if hd hostport = CHR ''['' then
            (case index_byte (CHR '']'') hostport of
               None \<Rightarrow> Inl (addrErr hostport (''missing '' @ squote '']'' @ '' in address''))
             | Some e \<Rightarrow>
                 if e + 1 = length hostport then Inl (addrErr hostport ''missing port in address'')
                 else if e + 1 = i then split_finish hostport i (take (e - 1) (drop 1 hostport)) 1 (e + 1)
                 else if hostport ! (e + 1) = CHR '':'' then
                   Inl (addrErr hostport ''too many colons in address'')
                 else Inl (addrErr hostport ''missing port in address''))
          else
            (let host = take i hostport in
             if CHR '':'' \<in> set host then Inl (addrErr hostport ''too many colons in address'')
             else split_finish hostport i host 0 0))"

subsection \<open>Facts\<close>

lemma digit_char_digit: "n < 10 \<Longrightarrow> is_digit (digit_char n) \<and> char_nat (digit_char n) = 48 + n"
  by (simp add: is_digit_def char_nat_def digit_char_def)

lemma fmt_nat_digits: "\<forall>c\<in>set (fmt_nat n). is_digit c"
proof (induction n rule: fmt_nat.induct)
  case (1 n)
  then show ?case by (subst fmt_nat.simps) (auto simp: digit_char_digit)
qed

lemma not_digit [simp]: "\<not> is_digit (CHR ''.'')" "\<not> is_digit (CHR '':'')" "\<not> is_digit (CHR ''%'')"
  "\<not> is_digit (CHR ''['')" "\<not> is_digit (CHR '']'')"
  by (simp_all add: is_digit_def char_nat_def)

text \<open>The printed form of an octet has one, two or three digits.\<close>

lemma fmt_nat_octet:
  "n < 256 \<Longrightarrow> fmt_nat n =
     (if n < 10 then [digit_char n]
      else if n < 100 then [digit_char (n div 10), digit_char (n mod 10)]
      else [digit_char (n div 100), digit_char (n div 10 mod 10), digit_char (n mod 10)])"
proof -
  assume "n < 256"
  have one: "fmt_nat k = [digit_char k]" if "k < 10" for k
    using that by (simp add: fmt_nat.simps)
  have two: "fmt_nat k = [digit_char (k div 10), digit_char (k mod 10)]" if "10 \<le> k" "k < 100" for k
    using that one [of "k div 10"] by (simp add: fmt_nat.simps [of k])
  have "fmt_nat n = [digit_char (n div 100), digit_char (n div 10 mod 10), digit_char (n mod 10)]"
    if "100 \<le> n"
    using that \<open>n < 256\<close> two [of "n div 10"]
    by (simp add: fmt_nat.simps [of n] div_mult2_eq [symmetric])
  with one two show ?thesis by simp
qed

lemma v4_loop_octet:
  assumes "n < 256"
  shows "\<exists>l. v4_loop (fmt_nat n @ rest) dot 0 0 fs = v4_loop rest False n l fs"
proof -
  have d: "is_digit (digit_char k)" "char_nat (digit_char k) = 48 + k" if "k < 10" for k
    using that digit_char_digit by auto
  have tens: "n div 100 * 10 + n div 10 mod 10 = n div 10"
    using div_mult_mod_eq [of "n div 10" 10] by (simp add: div_mult2_eq [symmetric])
  have units: "n div 10 * 10 + n mod 10 = n" by simp
  consider "n < 10" | "10 \<le> n" "n < 100" | "100 \<le> n" by linarith
  then show ?thesis
  proof cases
    case 1
    then show ?thesis by (auto simp: fmt_nat_octet d Let_def)
  next
    case 2
    then have "n div 10 \<noteq> 0" "n div 10 < 10" by auto
    with 2 show ?thesis using units by (auto simp: fmt_nat_octet d Let_def)
  next
    case 3
    then have "n div 100 \<noteq> 0" "n div 100 < 10" "n div 10 \<le> 255" using assms by auto
    with 3 assms show ?thesis using units tens by (auto simp: fmt_nat_octet d Let_def)
  qed
qed

lemma parseIPv4_print:
  assumes "length b = 4"
  shows "parseIPv4Fields (v4_string b) = Some b"
proof -
  obtain b0 b1 b2 b3 where b: "b = [b0, b1, b2, b3]"
    using assms by (auto simp: numeral_eq_Suc length_Suc_conv)
  have ne: "fmt_nat n \<noteq> []" for n by (subst fmt_nat.simps) simp
  have step: "\<exists>l. v4_loop (fmt_nat (unat (x :: byte)) @ rest) dot 0 0 fs = v4_loop rest False (unat x) l fs"
    for x rest dot fs using v4_loop_octet unat_byte_less by blast
  obtain l0 l1 l2 l3 where
    "v4_loop (fmt_nat (unat b0) @ ''.'' @ fmt_nat (unat b1) @ ''.'' @ fmt_nat (unat b2) @ ''.'' @ fmt_nat (unat b3)) True 0 0 [] =
     v4_loop (''.'' @ fmt_nat (unat b1) @ ''.'' @ fmt_nat (unat b2) @ ''.'' @ fmt_nat (unat b3)) False (unat b0) l0 []"
    "v4_loop (fmt_nat (unat b1) @ ''.'' @ fmt_nat (unat b2) @ ''.'' @ fmt_nat (unat b3)) True 0 0 [b0] =
     v4_loop (''.'' @ fmt_nat (unat b2) @ ''.'' @ fmt_nat (unat b3)) False (unat b1) l1 [b0]"
    "v4_loop (fmt_nat (unat b2) @ ''.'' @ fmt_nat (unat b3)) True 0 0 [b0, b1] =
     v4_loop (''.'' @ fmt_nat (unat b3)) False (unat b2) l2 [b0, b1]"
    "v4_loop (fmt_nat (unat b3) @ []) True 0 0 [b0, b1, b2] = v4_loop [] False (unat b3) l3 [b0, b1, b2]"
    using step by metis
  then show ?thesis by (simp add: parseIPv4Fields_def v4_string_def b ne)
qed

lemma parseAddr_dotted: "\<forall>c\<in>set ds. is_digit c \<Longrightarrow> parseAddr (ds @ CHR ''.'' # r) s =
    map_option (\<lambda>b4. replicate 10 0 @ [0xff, 0xff] @ b4) (parseIPv4Fields s)"
  by (induction ds) auto

lemma ParseIP_print_v4:
  assumes "length b = 4"
  shows "ParseIP (v4_string b) = Some (replicate 10 0 @ [0xff, 0xff] @ b)"
    and "IP_String (replicate 10 0 @ [0xff, 0xff] @ b) = v4_string b"
  using parseAddr_dotted [OF fmt_nat_digits] parseIPv4_print [OF assms]
  by (simp_all add: ParseIP_def v4_string_def IP_String_def)

lemma index_byte_append: "c \<notin> set xs \<Longrightarrow> index_byte c (xs @ c # ys) = Some (length xs)"
  by (induction xs) auto

lemma SplitHostPort_plain:
  assumes "{CHR '':'', CHR ''['', CHR '']''} \<inter> set host = {}"
    and "{CHR '':'', CHR ''['', CHR '']''} \<inter> set port = {}"
  shows "SplitHostPort (host @ '':'' @ port) = Inr (host, port)"
proof -
  have "last_index_byte (CHR '':'') (host @ '':'' @ port) = Some (length host)"
    using assms(2) index_byte_append [of "CHR '':''" "rev port" "rev host"]
    by (simp add: last_index_byte_def)
  moreover have "hd (host @ '':'' @ port) \<noteq> CHR ''[''"
    using assms(1) by (cases host) auto
  ultimately show ?thesis
    using assms by (auto simp: SplitHostPort_def split_finish_def)
qed

lemma SplitHostPort_bracketed:
  assumes "{CHR ''['', CHR '']''} \<inter> set host = {}"
    and "{CHR '':'', CHR ''['', CHR '']''} \<inter> set port = {}"
  shows "SplitHostPort (''['' @ host @ '']:'' @ port) = Inr (host, port)"
proof -
  let ?s = "''['' @ host @ '']:'' @ port"
  have "last_index_byte (CHR '':'') ?s = Some (length host + 2)"
    using assms(2) index_byte_append [of "CHR '':''" "rev port" "CHR '']'' # rev host @ ''[''"]
    by (simp add: last_index_byte_def)
  moreover have "index_byte (CHR '']'') ?s = Some (length host + 1)"
    using assms(1) index_byte_append [of "CHR '']''" "''['' @ host" "'':'' @ port"] by auto
  ultimately show ?thesis
    using assms by (auto simp: SplitHostPort_def split_finish_def)
qed

end
