(* ===== verification/Kms_Server.thy ===== *)
theory Kms_Server
  imports Lease_Store_Props Aes_Gcm Sha256 Net_IP
begin

text \<open>
  The gRPC server of \<open>src/pkg/server/server.go\<close>: sealing, unsealing and the heartbeat by
  peer address, with the lease checks around them.

  The lease store is shared with other components, so it is passed to a handler and
  returned by it; \<open>srv_metrics\<close> holds the calls the server makes on the collectors it
  writes. Everything a call draws from its environment is an argument: the context
  (\<open>rpc_ctx\<close>: what \<open>ctx.Done\<close>, \<open>metadata.FromIncomingContext\<close> and
  \<open>peer.FromContext\<close> give), random bytes, the clock, the iteration order and the answers
  of the operating system (\<open>rpc_env\<close>). The key callback is a field of the server, as in
  the code. Waiting (\<open>time.Sleep\<close>, \<open>time.After\<close>) and logging have no other effect.
\<close>

subsection \<open>Requests, contexts and the environment of a call\<close>

definition PassphraseSize :: nat where
  "PassphraseSize = 32"

record Request =
  NodeUuid :: string
  Data :: bytes

record Response =
  RespData :: bytes

record rpc_ctx =
  ctx_err :: "go_error option"
  incoming_md :: "(string \<Rightarrow> string list) option"
  ctx_peer :: "string option option"

text \<open>A random source: an error, or as many bytes as are read.\<close>

type_synonym rand_source = "go_error + (nat \<Rightarrow> byte)"

definition ReadFull :: "rand_source \<Rightarrow> nat \<Rightarrow> go_error + bytes" where
  "ReadFull src n = (case src of Inl e \<Rightarrow> Inl e | Inr f \<Rightarrow> Inr (map f [0..<n]))"

record rpc_env =
  rand_key :: rand_source
  rand_data :: rand_source
  now_validate :: time
  now_lease :: time
  elapsed :: duration
  iter_validate :: "LeaseRecord iter"
  iter_lease :: "LeaseRecord iter"
  io_validate :: sys_io
  io_lease :: sys_io

record Server =
  getKey :: "rpc_ctx \<Rightarrow> string \<Rightarrow> go_error + bytes"
  srv_metrics :: metrics
  leaseWindow :: duration
  leaseEnabled :: bool

record Options =
  opt_LeaseStore :: "LeaseStore option"
  opt_Metrics :: metrics
  opt_LeaseDuration :: duration

definition NewServer :: "(rpc_ctx \<Rightarrow> string \<Rightarrow> go_error + bytes) \<Rightarrow> Options \<Rightarrow> Server" where
  "NewServer keyHandler options =
     \<lparr>getKey = keyHandler, srv_metrics = opt_Metrics options,
      leaseWindow = opt_LeaseDuration options,
      leaseEnabled = (opt_LeaseStore options \<noteq> None \<and> 0 < opt_LeaseDuration options)\<rparr>"

subsection \<open>Helpers\<close>

definition GetNodeUuid :: "Request option \<Rightarrow> string" where
  "GetNodeUuid req = (case req of None \<Rightarrow> '''' | Some r \<Rightarrow> NodeUuid r)"

definition validateNodeUUID :: "Request option \<Rightarrow> rpc_error option" where
  "validateNodeUUID req =
     (if GetNodeUuid req = '''' then Some (StatusErr InvalidArgument ''node UUID is required'')
      else None)"

definition getRandomAESKey :: "rand_source \<Rightarrow> go_error + bytes" where
  "getRandomAESKey src = ReadFull src 32"

definition keyCheckValue :: "bytes \<Rightarrow> string \<Rightarrow> string" where
  "keyCheckValue key data =
     (case NewCipher key of
        Inl _ \<Rightarrow> ''''
      | Inr block \<Rightarrow>
          (let hash = Sum256 (string_bytes data)
           in EncodeToString (take 3 (aes_encrypt block (take BlockSize hash)))))"

text \<open>\<open>%q\<close> on the text of an address: printable ASCII as it is, anything else escaped.\<close>

definition quote_char :: "char \<Rightarrow> string" where
  "quote_char c =
     (let n = of_char c :: nat in
      if n = 34 \<or> n = 92 then [char_of (92 :: nat), c]
      else if n = 7 then [char_of (92 :: nat), CHR ''a''] else if n = 8 then [char_of (92 :: nat), CHR ''b'']
      else if n = 9 then [char_of (92 :: nat), CHR ''t''] else if n = 10 then [char_of (92 :: nat), CHR ''n'']
      else if n = 11 then [char_of (92 :: nat), CHR ''v''] else if n = 12 then [char_of (92 :: nat), CHR ''f'']
      else if n = 13 then [char_of (92 :: nat), CHR ''r'']
      else if 32 \<le> n \<and> n < 127 then [c]
      else [char_of (92 :: nat), CHR ''x'', hex_char (n div 16), hex_char (n mod 16)])"

definition fmt_q :: "string \<Rightarrow> string" where
  "fmt_q s = char_of (34 :: nat) # concat (map quote_char s) @ [char_of (34 :: nat)]"

definition peerFromAddr :: "rpc_ctx \<Rightarrow> go_error + string" where
  "peerFromAddr ctx =
     (case ctx_peer ctx of
        None \<Rightarrow> Inl (ErrorString ''missing peer information'')
      | Some None \<Rightarrow> Inl (ErrorString ''missing peer information'')
      | Some (Some addr) \<Rightarrow>
          (case SplitHostPort addr of
             Inr (host, _) \<Rightarrow> Inr host
           | Inl _ \<Rightarrow>
               (case ParseIP addr of
                  None \<Rightarrow> Inl (ErrorString (''failed to parse peer address '' @ fmt_q addr))
                | Some ip \<Rightarrow> Inr (IP_String ip))))"

definition peerIPFromContext :: "rpc_ctx \<Rightarrow> go_error + string" where
  "peerIPFromContext ctx =
     (case incoming_md ctx of
        None \<Rightarrow> peerFromAddr ctx
      | Some md \<Rightarrow>
          (case md ''x-real-ip'' of
             [] \<Rightarrow> peerFromAddr ctx
           | v # _ \<Rightarrow> (case ParseIP v of Some ip \<Rightarrow> Inr (IP_String ip) | None \<Rightarrow> peerFromAddr ctx)))"

definition validateLease ::
  "rpc_env \<Rightarrow> Server \<Rightarrow> string \<Rightarrow> LeaseStore \<Rightarrow> rpc_error option \<times> LeaseStore" where
  "validateLease env srv nodeUUID s =
     (if \<not> leaseEnabled srv then (None, s)
      else
        (case Validate (iter_validate env) (io_validate env) nodeUUID (now_validate env) s of
           ((leaseRecord, None), s1) \<Rightarrow> (None, s1)
         | ((leaseRecord, Some err), s1) \<Rightarrow>
             if errors_Is err ErrLeaseBlocked then (Some (StatusErr PermissionDenied ''node blocked''), s1)
             else if errors_Is err ErrLeaseNotFound then (None, s1)
             else if errors_Is err ErrLeaseExpired then
               (Some (StatusErr PermissionDenied ''heartbeat lease expired''), s1)
             else (Some (StatusErr Internal (''failed to validate heartbeat lease: '' @ Error err)), s1)))"

text \<open>The key of a node, or a random one when the callback fails.\<close>

definition nodeKey :: "rpc_env \<Rightarrow> rpc_ctx \<Rightarrow> Server \<Rightarrow> string \<Rightarrow> go_error + bytes" where
  "nodeKey env ctx srv nodeUUID =
     (case getKey srv ctx nodeUUID of Inr key \<Rightarrow> Inr key | Inl _ \<Rightarrow> getRandomAESKey (rand_key env))"

subsection \<open>Handlers\<close>

definition Seal :: "rpc_env \<Rightarrow> rpc_ctx \<Rightarrow> Request option \<Rightarrow> Server \<Rightarrow> rpc_error + Response" where
  "Seal env ctx req srv =
     (case validateNodeUUID req of
        Some e \<Rightarrow> Inl e
      | None \<Rightarrow>
          (case nodeKey env ctx srv (NodeUuid (the req)) of
             Inl e \<Rightarrow> Inl (GoErr e)
           | Inr key \<Rightarrow>
               (case NewCipher key of
                  Inl e \<Rightarrow> Inl (GoErr e)
                | Inr block \<Rightarrow>
                    (case NewGCM block of
                       Inl e \<Rightarrow> Inl (GoErr e)
                     | Inr aesgcm \<Rightarrow>
                         (case ReadFull (rand_data env) NonceSize of
                            Inl e \<Rightarrow> Inl (GoErr e)
                          | Inr nonce \<Rightarrow>
                              if length (Data (the req)) \<noteq> PassphraseSize then
                                Inl (StatusErr InvalidArgument ''incorrect data length'')
                              else
                                (let encrypted = gcm_Seal aesgcm nonce (Data (the req))
                                 in Inr \<lparr>RespData = nonce @ encrypted\<rparr>))))))"

definition Heartbeat_body ::
  "rpc_env \<Rightarrow> rpc_ctx \<Rightarrow> Server \<Rightarrow> LeaseStore \<Rightarrow> (rpc_error + Response) \<times> LeaseStore" where
  "Heartbeat_body env ctx srv s =
     (if \<not> leaseEnabled srv then
        (Inl (StatusErr FailedPrecondition ''heartbeat leases are disabled''), s)
      else
        (case peerIPFromContext ctx of
           Inl err \<Rightarrow>
             (Inl (StatusErr Unauthenticated (''failed to identify heartbeat peer: '' @ Error err)), s)
         | Inr peerIP \<Rightarrow>
             (case HeartbeatByIP (iter_lease env) (io_lease env) peerIP (now_lease env) (leaseWindow srv) s of
                ((nodeUUID, leaseRecord, None), s1) \<Rightarrow> (Inr \<lparr>RespData = []\<rparr>, s1)
              | ((nodeUUID, leaseRecord, Some err), s1) \<Rightarrow>
                  if errors_Is err ErrLeaseBlocked then (Inl (StatusErr PermissionDenied ''node blocked''), s1)
                  else if errors_Is err ErrLeaseExpired then
                    (Inl (StatusErr PermissionDenied ''heartbeat lease expired''), s1)
                  else if errors_Is err ErrNodeIPNotFound then
                    (Inl (StatusErr PermissionDenied ''heartbeat peer is not registered''), s1)
                  else
                    (Inl (StatusErr Internal (''failed to refresh heartbeat lease: '' @ Error err)), s1))))"

text \<open>The error a deferred function sees.\<close>

definition result_err :: "rpc_error + Response \<Rightarrow> rpc_error option" where
  "result_err r = (case r of Inl e \<Rightarrow> Some e | Inr _ \<Rightarrow> None)"

definition Heartbeat ::
  "grpc_lib \<Rightarrow> rpc_env \<Rightarrow> rpc_ctx \<Rightarrow> Server \<Rightarrow> LeaseStore \<Rightarrow>
   (rpc_error + Response) \<times> Server \<times> LeaseStore" where
  "Heartbeat g env ctx srv s =
     (let (res, s1) = Heartbeat_body env ctx srv s
      in (res, srv\<lparr>srv_metrics := observeHeartbeat g (srv_metrics srv) (result_err res) (elapsed env)\<rparr>, s1))"

text \<open>What follows a successful decryption: the lease is bootstrapped.\<close>

definition unsealLease ::
  "rpc_env \<Rightarrow> rpc_ctx \<Rightarrow> string \<Rightarrow> bytes \<Rightarrow> Server \<Rightarrow> LeaseStore \<Rightarrow> (rpc_error + Response) \<times> LeaseStore" where
  "unsealLease env ctx nodeUUID decrypted srv s =
     (if leaseEnabled srv then
        (case peerIPFromContext ctx of
           Inl peerErr \<Rightarrow>
             (Inl (StatusErr Unauthenticated (''failed to identify unseal peer: '' @ Error peerErr)), s)
         | Inr peerIP \<Rightarrow>
             (case Bootstrap (iter_lease env) (io_lease env) nodeUUID peerIP (now_lease env) (leaseWindow srv) s of
                ((leaseRecord, Some bootstrapErr), s1) \<Rightarrow>
                  (Inl (StatusErr Internal (''failed to persist heartbeat lease: '' @ Error bootstrapErr)), s1)
              | ((leaseRecord, None), s1) \<Rightarrow> (Inr \<lparr>RespData = decrypted\<rparr>, s1)))
      else (Inr \<lparr>RespData = decrypted\<rparr>, s))"

text \<open>The part of \<open>Unseal\<close> from the key on.\<close>

definition unsealData ::
  "rpc_env \<Rightarrow> rpc_ctx \<Rightarrow> Request \<Rightarrow> Server \<Rightarrow> LeaseStore \<Rightarrow> (rpc_error + Response) \<times> LeaseStore" where
  "unsealData env ctx req srv s =
     (case nodeKey env ctx srv (NodeUuid req) of
        Inl e \<Rightarrow> (Inl (GoErr e), s)
      | Inr key \<Rightarrow>
          (case NewCipher key of
             Inl e \<Rightarrow> (Inl (GoErr e), s)
           | Inr block \<Rightarrow>
               (case NewGCM block of
                  Inl e \<Rightarrow> (Inl (GoErr e), s)
                | Inr aesgcm \<Rightarrow>
                    if length (Data req) \<noteq> BlockSize + PassphraseSize + NonceSize then
                      (Inl (StatusErr InvalidArgument ''incorrect data length''), s)
                    else
                      (case gcm_Open aesgcm (take NonceSize (Data req)) (drop NonceSize (Data req)) of
                         Inl _ \<Rightarrow>
                           (case ReadFull (rand_data env) PassphraseSize of
                              Inl e \<Rightarrow> (Inl (GoErr e), s)
                            | Inr bs \<Rightarrow> (Inr \<lparr>RespData = bs\<rparr>, s))
                       | Inr decrypted \<Rightarrow> unsealLease env ctx (NodeUuid req) decrypted srv s))))"

definition Unseal_body ::
  "rpc_env \<Rightarrow> rpc_ctx \<Rightarrow> Request option \<Rightarrow> Server \<Rightarrow> LeaseStore \<Rightarrow> (rpc_error + Response) \<times> LeaseStore" where
  "Unseal_body env ctx req srv s =
     (case ctx_err ctx of
        Some e \<Rightarrow> (Inl (GoErr e), s)
      | None \<Rightarrow>
          (case validateNodeUUID req of
             Some e \<Rightarrow> (Inl e, s)
           | None \<Rightarrow>
               (case validateLease env srv (NodeUuid (the req)) s of
                  (Some e, s1) \<Rightarrow> (Inl e, s1)
                | (None, s1) \<Rightarrow> unsealData env ctx (the req) srv s1)))"

definition Unseal ::
  "grpc_lib \<Rightarrow> rpc_env \<Rightarrow> rpc_ctx \<Rightarrow> Request option \<Rightarrow> Server \<Rightarrow> LeaseStore \<Rightarrow>
   (rpc_error + Response) \<times> Server \<times> LeaseStore" where
  "Unseal g env ctx req srv s =
     (let (res, s1) = Unseal_body env ctx req srv s
      in (res, srv\<lparr>srv_metrics := observeUnseal g (srv_metrics srv) (result_err res) (elapsed env)\<rparr>, s1))"

end
