(* ===== verification/Kms_Server_Props.thy ===== *)
theory Kms_Server_Props
  imports Kms_Server
begin

text \<open>
  The properties of the gRPC server: who is denied, what a successful unseal means, the
  round trip of sealing, the heartbeat by address, metrics and the peer address.
\<close>

subsection \<open>Branches of the lease check\<close>

definition expired_store :: "rpc_env \<Rightarrow> string \<Rightarrow> LeaseRecord \<Rightarrow> LeaseStore \<Rightarrow> LeaseStore" where
  "expired_store env u r s =
     updateLeaseMetricsLocked (iter_validate env) (now_validate env)
       (setNode u (r\<lparr>Status := LeaseStatusExpired\<rparr>) s)"

lemma validateLease_cases:
  assumes "leaseEnabled srv" and "io_sane (io_validate env)"
  shows "validateLease env srv u s =
    (case fmlookup (nodes s) u of
       None \<Rightarrow> (None, s)
     | Some r \<Rightarrow>
         if Status r = LeaseStatusBlocked then (Some (StatusErr PermissionDenied ''node blocked''), s)
         else if lapsed r (now_validate env) then
           (case persistLocked (io_validate env) (expired_store env u r s) of
              (Some e, s1) \<Rightarrow>
                (Some (StatusErr Internal (''failed to validate heartbeat lease: '' @ Error e)), s1)
            | (None, s1) \<Rightarrow> (Some (StatusErr PermissionDenied ''heartbeat lease expired''), s1))
         else (None, s))"
  using assms persist_not_sentinel [OF assms(2)]
  by (auto simp: validateLease_def Validate_def lapsed_def expired_store_def UTC_def Let_def
      split: option.splits prod.splits)

lemma validateLease_pass:
  assumes "io_sane (io_validate env)" and "validateLease env srv u s = (None, s1)"
  shows "s1 = s \<and> (leaseEnabled srv \<longrightarrow>
    (\<forall>r. fmlookup (nodes s) u = Some r \<longrightarrow>
       Status r \<noteq> LeaseStatusBlocked \<and> \<not> lapsed r (now_validate env)))"
proof (cases "leaseEnabled srv")
  case True
  with assms validateLease_cases [OF True assms(1), of u s] show ?thesis
    by (auto split: option.splits if_splits prod.splits)
next
  case False
  with assms(2) show ?thesis by (simp add: validateLease_def)
qed

lemma validateLease_lapsed:
  assumes "leaseEnabled srv" and "io_sane (io_validate env)"
    and "fmlookup (nodes s) u = Some r" and "Status r \<noteq> LeaseStatusBlocked"
    and "lapsed r (now_validate env)"
    and "validateLease env srv u s = (e, s1)"
  shows "nodes s1 = fmupd u (r\<lparr>Status := LeaseStatusExpired\<rparr>) (nodes s) \<and>
    (e = Some (StatusErr PermissionDenied ''heartbeat lease expired'') \<or>
     (\<exists>m. e = Some (StatusErr Internal m)) \<and>
       \<not> (no_fault (io_validate env) \<and> nodes_times_ok (nodes s1)))"
proof -
  obtain pe s2 where p: "persistLocked (io_validate env) (expired_store env u r s) = (pe, s2)"
    by fastforce
  then have n: "nodes s2 = fmupd u (r\<lparr>Status := LeaseStatusExpired\<rparr>) (nodes s)"
    by (auto simp: expired_store_def dest!: persist_pairD)
  show ?thesis
  proof (cases pe)
    case None
    with assms p n show ?thesis by (simp add: validateLease_cases)
  next
    case (Some e')
    with p have "\<not> (no_fault (io_validate env) \<and> nodes_times_ok (nodes (expired_store env u r s)))"
      using persist_succeeds [of "io_validate env" "expired_store env u r s"] by auto
    with assms p n Some show ?thesis by (auto simp: validateLease_cases expired_store_def)
  qed
qed

lemma validateNodeUUID_None: "validateNodeUUID req = None \<longleftrightarrow> (\<exists>r. req = Some r \<and> NodeUuid r \<noteq> '''')"
  by (auto simp: validateNodeUUID_def GetNodeUuid_def split: option.splits)

lemma Unseal_split:
  "Unseal g env ctx req srv s = (res, srv', s') \<longleftrightarrow>
     Unseal_body env ctx req srv s = (res, s') \<and>
     srv' = srv\<lparr>srv_metrics := observeUnseal g (srv_metrics srv) (result_err res) (elapsed env)\<rparr>"
  by (auto simp: Unseal_def Let_def split: prod.splits)

text \<open>A server and a context for the concrete instances below.\<close>

definition demo_server :: Server where
  "demo_server = NewServer (\<lambda>_ _. Inr (replicate 32 7))
     \<lparr>opt_LeaseStore = Some (demo_store demo_record), opt_Metrics = Some [], opt_LeaseDuration = 5\<rparr>"

definition demo_ctx :: rpc_ctx where
  "demo_ctx = \<lparr>ctx_err = None, incoming_md = None, ctx_peer = Some (Some ''10.0.0.1:4050'')\<rparr>"

definition demo_env :: "time \<Rightarrow> rpc_env" where
  "demo_env t = \<lparr>rand_key = Inr (\<lambda>_. 1), rand_data = Inr of_nat, now_validate = t, now_lease = t,
     elapsed = 0, iter_validate = sorted_iter, iter_lease = sorted_iter,
     io_validate = io_ok, io_lease = io_ok\<rparr>"

definition demo_request :: "bytes \<Rightarrow> Request" where
  "demo_request d = \<lparr>NodeUuid = ''node-1'', Data = d\<rparr>"

lemmas demo_defs = demo_server_def demo_ctx_def demo_env_def demo_request_def NewServer_def

lemma demo_peer: "peerIPFromContext demo_ctx = Inr ''10.0.0.1''"
  using SplitHostPort_plain [of "''10.0.0.1''" "''4050''"]
  by (simp add: peerIPFromContext_def peerFromAddr_def demo_ctx_def)

subsection \<open>Denial\<close>

text \<open>
  C2: with leases enabled, a node that is blocked or whose lease has lapsed never gets data
  out of \<open>Unseal\<close>, not even random data. A blocked node is refused with
  \<open>PermissionDenied\<close> and nothing changes; a lapsed one is refused with
  \<open>PermissionDenied\<close> and marked expired (or with \<open>Internal\<close>, when that mark cannot be
  persisted), and no other record changes.
\<close>

theorem unseal_denied:
  assumes "leaseEnabled srv" and "io_sane (io_validate env)" and "ctx_err ctx = None"
    and "NodeUuid r \<noteq> ''''" and "fmlookup (nodes s) (NodeUuid r) = Some rec"
    and "Status rec = LeaseStatusBlocked \<or> lapsed rec (now_validate env)"
    and "Unseal g env ctx (Some r) srv s = (res, srv', s')"
  shows "(if Status rec = LeaseStatusBlocked
      then res = Inl (StatusErr PermissionDenied ''node blocked'') \<and> s' = s
      else nodes s' = fmupd (NodeUuid r) (rec\<lparr>Status := LeaseStatusExpired\<rparr>) (nodes s) \<and>
        (res = Inl (StatusErr PermissionDenied ''heartbeat lease expired'') \<or>
         (\<exists>m. res = Inl (StatusErr Internal m)) \<and>
           \<not> (no_fault (io_validate env) \<and> nodes_times_ok (nodes s'))))"
proof -
  have u: "validateNodeUUID (Some r) = None" using assms(4) by (simp add: validateNodeUUID_None)
  obtain e s1 where v: "validateLease env srv (NodeUuid r) s = (e, s1)" by fastforce
  have body: "Unseal_body env ctx (Some r) srv s = (res, s')" using assms(7) by (simp add: Unseal_split)
  show ?thesis
  proof (cases "Status rec = LeaseStatusBlocked")
    case True
    then show ?thesis
      using body v u assms by (auto simp: Unseal_body_def validateLease_cases)
  next
    case False
    then have "lapsed rec (now_validate env)" using assms(6) by simp
    from validateLease_lapsed [OF assms(1,2,5) False this v]
    show ?thesis using body v u assms(3) False by (auto simp: Unseal_body_def)
  qed
qed

theorem unseal_denied_witness:
  "fst (Unseal grpc_doc (demo_env 9000) demo_ctx (Some (demo_request [])) demo_server
     (demo_store (blocked_at demo_record 2000))) =
   Inl (StatusErr PermissionDenied ''node blocked'')"
proof -
  let ?r = "Unseal grpc_doc (demo_env 9000) demo_ctx (Some (demo_request [])) demo_server
     (demo_store (blocked_at demo_record 2000))"
  show ?thesis
    using unseal_denied [of demo_server "demo_env 9000" demo_ctx "demo_request []"
        "demo_store (blocked_at demo_record 2000)" "blocked_at demo_record 2000" grpc_doc
        "fst ?r" "fst (snd ?r)" "snd (snd ?r)"]
    by (simp add: demo_defs)
qed

subsection \<open>Success\<close>

lemma cipher_ok: "NewCipher key = Inr k \<Longrightarrow> k = key"
  by (auto simp: NewCipher_def split: if_splits)

lemma NewGCM_ok [simp]: "NewGCM block = Inr block"
  by (simp add: NewGCM_def BlockSize_def)

lemma length_ReadFull: "ReadFull src n = Inr bs \<Longrightarrow> length bs = n"
  by (auto simp: ReadFull_def split: sum.splits)

text \<open>
  The data a node sent is authentic under a key: it is a nonce followed by what GCM makes
  of some plaintext under that key and nonce.
\<close>

definition sealed_under :: "bytes \<Rightarrow> bytes \<Rightarrow> bytes \<Rightarrow> bool" where
  "sealed_under key p data \<longleftrightarrow>
     data = take NonceSize data @ gcm_Seal key (take NonceSize data) p"

lemma sealed_under_iff:
  "sealed_under key p data \<longleftrightarrow> gcm_Open key (take NonceSize data) (drop NonceSize data) = Inr p"
  unfolding sealed_under_def gcm.open_iff
  by (metis append_eq_append_conv append_take_drop_id)

lemma unsealData_ok:
  assumes "unsealData env ctx req srv s = (Inr resp, s')"
  shows "\<exists>key. nodeKey env ctx srv (NodeUuid req) = Inr key \<and>
    ((\<exists>p. sealed_under key p (Data req) \<and> unsealLease env ctx (NodeUuid req) p srv s = (Inr resp, s')) \<or>
     (\<forall>p. \<not> sealed_under key p (Data req)) \<and> s' = s \<and>
     ReadFull (rand_data env) PassphraseSize = Inr (RespData resp) \<and> length (RespData resp) = PassphraseSize)"
  using assms
  by (auto simp: unsealData_def sealed_under_iff dest: length_ReadFull cipher_ok
      split: sum.splits if_splits)

lemma unsealLease_ok:
  assumes "valid_iter (iter_lease env)" and "unsealLease env ctx u p srv s = (Inr resp, s')"
  shows "RespData resp = p \<and>
    (if leaseEnabled srv
     then \<exists>ip. peerIPFromContext ctx = Inr ip \<and>
       (\<forall>k. fmlookup (nodes s') k =
          node_step (OpBootstrap u ip (now_lease env) (leaseWindow srv)) k (fmlookup (nodes s) k))
     else s' = s)"
proof (cases "leaseEnabled srv")
  case True
  then obtain ip where ip: "peerIPFromContext ctx = Inr ip"
    using assms(2) by (auto simp: unsealLease_def split: sum.splits)
  have "lease_range (iter_lease env)" using assms(1) by (simp add: lease_range_iff)
  note nodes = lease_range.Bootstrap_nodes [OF this, of "io_lease env" u ip "now_lease env" "leaseWindow srv" s]
  obtain rec e s1 where b: "Bootstrap (iter_lease env) (io_lease env) u ip (now_lease env) (leaseWindow srv) s =
      ((rec, e), s1)" by (metis prod.exhaust)
  then show ?thesis
    using assms(2) True ip nodes by (cases e) (auto simp: unsealLease_def)
next
  case False
  then show ?thesis using assms(2) by (auto simp: unsealLease_def)
qed

text \<open>
  C3: what a successful \<open>Unseal\<close> means. Either the data is authentic under the node's
  key, the answer is its plaintext, and with leases enabled the node was neither blocked nor
  lapsed and has been bootstrapped at the peer's address (every other record only loses a
  claim on that address); or the data is authentic for no plaintext, the answer is exactly the
  32 bytes this call read from the random source, and the lease store is untouched.
\<close>

theorem unseal_success_exact:
  assumes "io_sane (io_validate env)" and "valid_iter (iter_lease env)"
    and "Unseal g env ctx (Some r) srv s = (Inr resp, srv', s')"
  shows "(leaseEnabled srv \<longrightarrow> (\<forall>rec. fmlookup (nodes s) (NodeUuid r) = Some rec \<longrightarrow>
        Status rec \<noteq> LeaseStatusBlocked \<and> \<not> lapsed rec (now_validate env))) \<and>
    (\<exists>key. nodeKey env ctx srv (NodeUuid r) = Inr key \<and>
      (sealed_under key (RespData resp) (Data r) \<and>
         (if leaseEnabled srv
          then \<exists>ip. peerIPFromContext ctx = Inr ip \<and>
            (\<forall>k. fmlookup (nodes s') k =
              node_step (OpBootstrap (NodeUuid r) ip (now_lease env) (leaseWindow srv)) k
                (fmlookup (nodes s) k))
          else s' = s) \<or>
       (\<forall>p. \<not> sealed_under key p (Data r)) \<and>
         ReadFull (rand_data env) PassphraseSize = Inr (RespData resp) \<and>
         length (RespData resp) = PassphraseSize \<and> s' = s))"
proof -
  have body: "Unseal_body env ctx (Some r) srv s = (Inr resp, s')"
    using assms(3) by (simp add: Unseal_split)
  then obtain s1 where v: "validateLease env srv (NodeUuid r) s = (None, s1)"
    and d: "unsealData env ctx r srv s1 = (Inr resp, s')"
    by (auto simp: Unseal_body_def split: option.splits prod.splits)
  note pass = validateLease_pass [OF assms(1) v]
  obtain key where key: "nodeKey env ctx srv (NodeUuid r) = Inr key"
    and cases: "(\<exists>p. sealed_under key p (Data r) \<and> unsealLease env ctx (NodeUuid r) p srv s = (Inr resp, s')) \<or>
     (\<forall>p. \<not> sealed_under key p (Data r)) \<and> s' = s \<and>
     ReadFull (rand_data env) PassphraseSize = Inr (RespData resp) \<and> length (RespData resp) = PassphraseSize"
    using unsealData_ok [OF d] pass by blast
  from cases show ?thesis
  proof
    assume "\<exists>p. sealed_under key p (Data r) \<and> unsealLease env ctx (NodeUuid r) p srv s = (Inr resp, s')"
    then show ?thesis using key pass unsealLease_ok [OF assms(2)] by blast
  qed (use key pass in blast)
qed

subsection \<open>Round trip\<close>

lemma Seal_ok:
  assumes "Seal env ctx (Some r) srv = Inr resp" and "getKey srv ctx (NodeUuid r) = Inr key"
  shows "\<exists>nonce. RespData resp = nonce @ gcm_Seal key nonce (Data r) \<and> length nonce = NonceSize \<and>
    length (Data r) = PassphraseSize \<and> NodeUuid r \<noteq> '''' \<and> NewCipher key = Inr key"
  using assms
  by (auto simp: Seal_def nodeKey_def validateNodeUUID_def GetNodeUuid_def Let_def
      split: sum.splits if_splits option.splits) (metis cipher_ok length_ReadFull)

lemma unsealData_authentic:
  assumes "getKey srv ctx (NodeUuid r) = Inr key" and "NewCipher key = Inr key"
    and "Data r = nonce @ gcm_Seal key nonce p" and "length nonce = NonceSize"
    and "length p = PassphraseSize"
  shows "unsealData env ctx r srv s = unsealLease env ctx (NodeUuid r) p srv s"
  using assms
  by (simp add: unsealData_def nodeKey_def gcm.seal_length BlockSize_def gcm.open_seal)

lemma Bootstrap_no_error:
  assumes "valid_iter it" and "no_fault io" and "nodes_times_ok (nodes s)"
    and "json_time_ok t" and "json_time_ok (t + d)"
  shows "snd (fst (Bootstrap it io u ip t d s)) = None"
proof -
  have range: "lease_range it" using assms(1) by (simp add: lease_range_iff)
  obtain s2 where b: "snd (fst (Bootstrap it io u ip t d s)) = fst (persistLocked io s2)"
    "snd (Bootstrap it io u ip t d s) = snd (persistLocked io s2)"
    by (auto simp: Bootstrap_def Let_def case_prod_unfold)
  have step: "fmlookup (nodes s2) k = node_step (OpBootstrap u ip t d) k (fmlookup (nodes s) k)" for k
    using lease_range.Bootstrap_nodes [OF range, of io u ip t d s k] b(2) by simp
  then have "nodes_times_ok (nodes s2)"
    using nodes_times_ok_step [OF assms(3) _ step] assms(4,5) by simp
  then show ?thesis using b(1) persist_succeeds [OF assms(2)] by simp
qed

text \<open>When a call may touch the leases: all it needs from its environment is there.\<close>

definition lease_ready :: "rpc_env \<Rightarrow> rpc_ctx \<Rightarrow> string \<Rightarrow> Server \<Rightarrow> LeaseStore \<Rightarrow> bool" where
  "lease_ready env ctx u srv s \<longleftrightarrow>
     (case fmlookup (nodes s) u of
        None \<Rightarrow> True
      | Some rec \<Rightarrow> Status rec \<noteq> LeaseStatusBlocked \<and> \<not> lapsed rec (now_validate env)) \<and>
     (case peerIPFromContext ctx of Inl _ \<Rightarrow> False | Inr _ \<Rightarrow> True) \<and>
     io_sane (io_validate env) \<and> valid_iter (iter_lease env) \<and> no_fault (io_lease env) \<and>
     nodes_times_ok (nodes s) \<and> json_time_ok (now_lease env) \<and>
     json_time_ok (now_lease env + leaseWindow srv)"

lemma unsealLease_ready:
  assumes "leaseEnabled srv \<longrightarrow> lease_ready env ctx u srv s"
  shows "\<exists>s'. unsealLease env ctx u p srv s = (Inr \<lparr>RespData = p\<rparr>, s')"
proof (cases "leaseEnabled srv")
  case True
  then have ready: "lease_ready env ctx u srv s" using assms by simp
  then obtain ip where ip: "peerIPFromContext ctx = Inr ip"
    by (auto simp: lease_ready_def split: sum.splits)
  obtain rec e s1 where b: "Bootstrap (iter_lease env) (io_lease env) u ip (now_lease env) (leaseWindow srv) s =
      ((rec, e), s1)" by (metis prod.exhaust)
  have "e = None"
    using Bootstrap_no_error [of "iter_lease env" "io_lease env" s "now_lease env" "leaseWindow srv" u ip]
      ready b by (simp add: lease_ready_def)
  then show ?thesis using True ip b by (simp add: unsealLease_def)
next
  case False
  then show ?thesis by (simp add: unsealLease_def)
qed

lemma validateLease_ready:
  assumes "leaseEnabled srv \<longrightarrow> lease_ready env ctx u srv s"
  shows "validateLease env srv u s = (None, s)"
proof (cases "leaseEnabled srv")
  case True
  with assms validateLease_cases [OF True, of env u s] show ?thesis
    by (auto simp: lease_ready_def split: option.splits)
qed (simp add: validateLease_def)

lemma unseal_of_seal:
  assumes "Seal env0 ctx0 (Some r) srv0 = Inr resp"
    and "getKey srv0 ctx0 (NodeUuid r) = Inr key" and "getKey srv ctx (NodeUuid r) = Inr key"
    and "ctx_err ctx = None"
    and "leaseEnabled srv \<longrightarrow> lease_ready env ctx (NodeUuid r) srv s"
  shows "fst (Unseal g env ctx (Some (r\<lparr>Data := RespData resp\<rparr>)) srv s) = Inr \<lparr>RespData = Data r\<rparr>"
proof -
  let ?r = "r\<lparr>Data := RespData resp\<rparr>"
  obtain nonce where n: "RespData resp = nonce @ gcm_Seal key nonce (Data r)" "length nonce = NonceSize"
    and ok: "length (Data r) = PassphraseSize" "NodeUuid r \<noteq> ''''" "NewCipher key = Inr key"
    using Seal_ok [OF assms(1,2)] by blast
  have "unsealData env ctx ?r srv s = unsealLease env ctx (NodeUuid r) (Data r) srv s"
    using unsealData_authentic [of srv ctx ?r key nonce "Data r" env s] n ok assms(3) by simp
  moreover obtain s' where "unsealLease env ctx (NodeUuid r) (Data r) srv s = (Inr \<lparr>RespData = Data r\<rparr>, s')"
    using unsealLease_ready [OF assms(5)] by blast
  ultimately have "Unseal_body env ctx (Some ?r) srv s = (Inr \<lparr>RespData = Data r\<rparr>, s')"
    using validateLease_ready [OF assms(5)] assms(4) ok(2)
    by (simp add: Unseal_body_def validateNodeUUID_def GetNodeUuid_def)
  then show ?thesis by (simp add: Unseal_def)
qed

text \<open>
  C5: sealing and unsealing are inverse. What \<open>Seal\<close> returns for a node, \<open>Unseal\<close> turns
  back into the passphrase, at any later time and for any randomness, as long as the key
  callback gives the same key and, with leases enabled, the node is not blocked or lapsed and
  its lease can be written; a node that was never registered is let through.
\<close>

theorem seal_unseal_roundtrip:
  assumes "Seal env0 ctx0 (Some r) srv0 = Inr resp"
    and "getKey srv0 ctx0 (NodeUuid r) = Inr key" and "getKey srv ctx (NodeUuid r) = Inr key"
    and "ctx_err ctx = None"
    and "leaseEnabled srv \<longrightarrow> lease_ready env ctx (NodeUuid r) srv s"
  shows "fst (Unseal g env ctx (Some (r\<lparr>Data := RespData resp\<rparr>)) srv s) = Inr \<lparr>RespData = Data r\<rparr>"
  using assms by (rule unseal_of_seal)

lemma demo_seal:
  "\<exists>resp. Seal (demo_env 1001) demo_ctx (Some (demo_request (replicate 32 9))) demo_server = Inr resp"
  by (simp add: Seal_def demo_defs validateNodeUUID_def GetNodeUuid_def nodeKey_def NewCipher_def
      ReadFull_def PassphraseSize_def Let_def)

lemma demo_ready:
  "lease_ready (demo_env 1001) demo_ctx ''node-1'' demo_server (demo_store demo_record)"
proof -
  have "\<not> lapsed demo_record 1001" by (simp add: lapsed_def isExpired_def time_defs)
  then show ?thesis
    using demo_peer demo_times_ok
    by (simp add: lease_ready_def demo_env_def demo_server_def NewServer_def json_time_ok_def
        day_def second_def)
qed

theorem seal_unseal_roundtrip_witness:
  "\<exists>resp. Seal (demo_env 1001) demo_ctx (Some (demo_request (replicate 32 9))) demo_server = Inr resp \<and>
     fst (Unseal grpc_doc (demo_env 1001) demo_ctx
       (Some (demo_request (RespData resp))) demo_server (demo_store demo_record)) =
     Inr \<lparr>RespData = replicate 32 9\<rparr>"
proof -
  obtain resp where seal:
    "Seal (demo_env 1001) demo_ctx (Some (demo_request (replicate 32 9))) demo_server = Inr resp"
    using demo_seal by blast
  from seal_unseal_roundtrip [OF this, of "replicate 32 7" demo_server demo_ctx "demo_env 1001"
      "demo_store demo_record" grpc_doc] demo_ready seal
  show ?thesis by (simp add: demo_request_def demo_ctx_def demo_server_def NewServer_def)
qed

lemma sealed_by_Seal:
  assumes "Seal env ctx (Some r) srv = Inr resp" and "getKey srv ctx (NodeUuid r) = Inr key"
  shows "sealed_under key (Data r) (RespData resp)"
  using Seal_ok [OF assms] by (auto simp: sealed_under_def)

theorem unseal_success_exact_witness:
  "\<exists>(resp :: Response) srv' s' ip. Unseal grpc_doc (demo_env 1001) demo_ctx (Some (demo_request (RespData resp)))
      demo_server (demo_store demo_record) = (Inr \<lparr>RespData = replicate 32 9\<rparr>, srv', s') \<and>
    peerIPFromContext demo_ctx = Inr ip \<and>
    fmlookup (nodes s') ''node-1'' = Some (bootstrapped ip 1001 5 (Some demo_record))"
proof -
  obtain resp where seal:
    "Seal (demo_env 1001) demo_ctx (Some (demo_request (replicate 32 9))) demo_server = Inr resp"
    using demo_seal by blast
  have key: "getKey demo_server demo_ctx u = Inr (replicate 32 7)" for u
    by (simp add: demo_server_def NewServer_def)
  obtain res srv' s' where run: "Unseal grpc_doc (demo_env 1001) demo_ctx (Some (demo_request (RespData resp)))
      demo_server (demo_store demo_record) = (res, srv', s')" by (metis prod.exhaust)
  have res: "res = Inr \<lparr>RespData = replicate 32 9\<rparr>"
    using unseal_of_seal [OF seal key key, of "demo_env 1001" "demo_store demo_record" grpc_doc]
      demo_ready run by (simp add: demo_request_def demo_ctx_def)
  have env: "io_sane (io_validate (demo_env 1001))" "valid_iter (iter_lease (demo_env 1001))"
    "now_lease (demo_env 1001) = 1001" "leaseEnabled demo_server" "leaseWindow demo_server = 5"
    "nodeKey (demo_env 1001) demo_ctx demo_server u = Inr (replicate 32 7)" for u
    by (simp_all add: demo_defs nodeKey_def)
  have "sealed_under (replicate 32 7) (replicate 32 9) (RespData resp)"
    using sealed_by_Seal [OF seal key] by (simp add: demo_request_def)
  then obtain ip where "peerIPFromContext demo_ctx = Inr ip"
      "fmlookup (nodes s') ''node-1'' = Some (bootstrapped ip 1001 5 (Some demo_record))"
    using unseal_success_exact [OF env(1,2) run [unfolded res]] env(3-6)
    by (auto simp: demo_request_def)
  with run res show ?thesis by blast
qed

subsection \<open>Heartbeat by address\<close>

lemma HeartbeatByIP_blocked:
  assumes "recordByIPLocked it ip s = Some (u, r)" and "Status r = LeaseStatusBlocked"
  shows "HeartbeatByIP it io ip t d s = ((u, r, Some ErrLeaseBlocked), s)"
  using assms by (simp add: HeartbeatByIP_def)

lemma HeartbeatByIP_lapsed:
  assumes "recordByIPLocked it ip s = Some (u, r)" and "Status r \<noteq> LeaseStatusBlocked" and "lapsed r t"
    and "HeartbeatByIP it io ip t d s = ((u', r', e), s')"
  shows "nodes s' = fmupd u (r\<lparr>Status := LeaseStatusExpired\<rparr>) (nodes s)"
    and "\<exists>s1 pe. persistLocked io s1 = (pe, s') \<and>
      e = Some (case pe of None \<Rightarrow> ErrLeaseExpired | Some x \<Rightarrow> x)"
proof -
  let ?s1 = "updateLeaseMetricsLocked it t (setNode u (r\<lparr>Status := LeaseStatusExpired\<rparr>) s)"
  obtain pe s2 where p: "persistLocked io ?s1 = (pe, s2)" by fastforce
  have "s' = s2 \<and> e = Some (case pe of None \<Rightarrow> ErrLeaseExpired | Some x \<Rightarrow> x)"
    using assms p by (cases pe) (auto simp: HeartbeatByIP_def lapsed_def UTC_def)
  then show "nodes s' = fmupd u (r\<lparr>Status := LeaseStatusExpired\<rparr>) (nodes s)"
    "\<exists>s1 pe. persistLocked io s1 = (pe, s') \<and>
      e = Some (case pe of None \<Rightarrow> ErrLeaseExpired | Some x \<Rightarrow> x)"
    using p persist_pairD [OF p] by auto
qed

lemma HeartbeatByIP_active:
  assumes "recordByIPLocked it ip s = Some (u, r)" and "Status r \<noteq> LeaseStatusBlocked" and "\<not> lapsed r t"
    and "HeartbeatByIP it io ip t d s = ((u', r', e), s')"
  shows "nodes s' = fmupd u (renewed r t d) (nodes s)" and "\<exists>s1. persistLocked io s1 = (e, s')"
proof -
  let ?s1 = "updateLeaseMetricsLocked it t (setNode u (renewed r t d) s)"
  have "persistLocked io ?s1 = (e, s')"
    using assms by (auto simp: HeartbeatByIP_def lapsed_def renewed_def time_defs Let_def split: prod.splits)
  then show "nodes s' = fmupd u (renewed r t d) (nodes s)" "\<exists>s1. persistLocked io s1 = (e, s')"
    using persist_pairD [of io ?s1 e s'] by auto
qed

lemma Heartbeat_split:
  "Heartbeat g env ctx srv s = (res, srv', s') \<longleftrightarrow>
     Heartbeat_body env ctx srv s = (res, s') \<and>
     srv' = srv\<lparr>srv_metrics := observeHeartbeat g (srv_metrics srv) (result_err res) (elapsed env)\<rparr>"
  by (auto simp: Heartbeat_def Let_def split: prod.splits)

text \<open>
  The answer to the heartbeat of the node that holds the peer's address: refused when it is
  blocked or its lease has lapsed (which is then recorded), renewed otherwise. \<open>Internal\<close>
  is answered only when the new state could not be persisted.
\<close>

definition heartbeat_outcome ::
  "rpc_env \<Rightarrow> Server \<Rightarrow> string \<Rightarrow> LeaseRecord \<Rightarrow> LeaseStore \<Rightarrow> rpc_error + Response \<Rightarrow> LeaseStore \<Rightarrow> bool" where
  "heartbeat_outcome env srv u r s res s' \<longleftrightarrow>
     (let now = now_lease env;
          failed = ((\<exists>m. res = Inl (StatusErr Internal m)) \<and>
            \<not> (no_fault (io_lease env) \<and> nodes_times_ok (nodes s')))
      in if Status r = LeaseStatusBlocked
         then res = Inl (StatusErr PermissionDenied ''node blocked'') \<and> s' = s
         else if lapsed r now
         then nodes s' = fmupd u (r\<lparr>Status := LeaseStatusExpired\<rparr>) (nodes s) \<and>
           (res = Inl (StatusErr PermissionDenied ''heartbeat lease expired'') \<or> failed)
         else nodes s' = fmupd u (renewed r now (leaseWindow srv)) (nodes s) \<and>
           (res = Inr \<lparr>RespData = []\<rparr> \<or> failed))"

lemma heartbeat_found:
  assumes "leaseEnabled srv" and "io_sane (io_lease env)" and "peerIPFromContext ctx = Inr ip"
    and r: "recordByIPLocked (iter_lease env) ip s = Some (u, r)"
    and body: "Heartbeat_body env ctx srv s = (res, s')"
  shows "heartbeat_outcome env srv u r s res s'"
proof -
  let ?t = "now_lease env" and ?io = "io_lease env"
  obtain u' r' e s1 where h: "HeartbeatByIP (iter_lease env) ?io ip ?t (leaseWindow srv) s = ((u', r', e), s1)"
    by (metis prod.exhaust)
  have sentinel: "\<not> errors_Is x ErrLeaseBlocked \<and> \<not> errors_Is x ErrLeaseExpired \<and> \<not> errors_Is x ErrNodeIPNotFound"
    if "persistLocked ?io s0 = (Some x, s0')" for x s0 s0'
    using persist_not_sentinel [OF assms(2) that] by blast
  consider (blocked) "Status r = LeaseStatusBlocked"
    | (lapsed) "Status r \<noteq> LeaseStatusBlocked" "lapsed r ?t"
    | (active) "Status r \<noteq> LeaseStatusBlocked" "\<not> lapsed r ?t" by blast
  then show ?thesis
  proof cases
    case blocked
    with assms show ?thesis
      by (auto simp: heartbeat_outcome_def Heartbeat_body_def HeartbeatByIP_blocked)
  next
    case lapsed
    then obtain s0 pe where p: "persistLocked ?io s0 = (pe, s1)"
        "e = Some (case pe of None \<Rightarrow> ErrLeaseExpired | Some x \<Rightarrow> x)"
      using HeartbeatByIP_lapsed(2) [OF r _ _ h] by blast
    then show ?thesis
      using lapsed HeartbeatByIP_lapsed(1) [OF r lapsed h] body assms(1,3) h
        sentinel [of s0 _ s1] persist_error_reason [of ?io s0 _ s1]
      by (cases pe) (auto simp: heartbeat_outcome_def Heartbeat_body_def Let_def)
  next
    case active
    then obtain s0 where p: "persistLocked ?io s0 = (e, s1)"
      using HeartbeatByIP_active(2) [OF r _ _ h] by blast
    then show ?thesis
      using active HeartbeatByIP_active(1) [OF r active h] body assms(1,3) h
        sentinel [of s0 _ s1] persist_error_reason [of ?io s0 _ s1]
      by (cases e) (auto simp: heartbeat_outcome_def Heartbeat_body_def Let_def)
  qed
qed

text \<open>
  C11: the gRPC heartbeat in full. The peer's address is all that identifies the node: if no
  record holds the address the call is refused and nothing changes; otherwise exactly one
  does, whatever the iteration order, and it is refused when blocked, refused and marked
  expired when its lease has lapsed, and renewed otherwise; no other record changes.
\<close>

theorem heartbeat_exact:
  assumes "store_inv s" and "valid_iter (iter_lease env)" and "io_sane (io_lease env)"
    and "leaseEnabled srv" and "peerIPFromContext ctx = Inr ip" and "ip \<noteq> ''''"
    and "Heartbeat g env ctx srv s = (res, srv', s')"
  shows "(\<forall>u r. fmlookup (nodes s) u = Some r \<longrightarrow> LastUnsealIP r \<noteq> ip) \<and>
      res = Inl (StatusErr PermissionDenied ''heartbeat peer is not registered'') \<and> s' = s \<or>
    (\<exists>u r. (\<forall>u' r'. fmlookup (nodes s) u' = Some r' \<and> LastUnsealIP r' = ip \<longleftrightarrow> u' = u \<and> r' = r) \<and>
      heartbeat_outcome env srv u r s res s')"
proof -
  have range: "lease_range (iter_lease env)" using assms(2) by (simp add: lease_range_iff)
  have uniq: "unique_ip (nodes s)" using assms(1) by (simp add: store_inv_def)
  have body: "Heartbeat_body env ctx srv s = (res, s')" using assms(7) by (simp add: Heartbeat_split)
  show ?thesis
  proof (cases "recordByIPLocked (iter_lease env) ip s")
    case None
    then have "\<forall>u r. fmlookup (nodes s) u = Some r \<longrightarrow> LastUnsealIP r \<noteq> ip"
      using lease_range.recordByIP_None [OF range] by blast
    moreover have "res = Inl (StatusErr PermissionDenied ''heartbeat peer is not registered'') \<and> s' = s"
      using body None assms(4,5) by (simp add: Heartbeat_body_def HeartbeatByIP_def)
    ultimately show ?thesis by blast
  next
    case (Some p)
    obtain u r where p: "p = (u, r)" by fastforce
    have "\<forall>u' r'. fmlookup (nodes s) u' = Some r' \<and> LastUnsealIP r' = ip \<longleftrightarrow> u' = u \<and> r' = r"
      using lease_range.recordByIP_unique [OF range uniq assms(6)] Some p by (metis option.inject prod.inject)
    then show ?thesis using heartbeat_found [OF assms(4,3,5) _ body] Some p by blast
  qed
qed

theorem heartbeat_exact_witness:
  "heartbeat_outcome (demo_env 1001) demo_server ''node-1'' demo_record (demo_store demo_record)
     (fst (Heartbeat grpc_doc (demo_env 1001) demo_ctx demo_server (demo_store demo_record)))
     (snd (snd (Heartbeat grpc_doc (demo_env 1001) demo_ctx demo_server (demo_store demo_record))))"
proof -
  obtain res srv' s' where run:
    "Heartbeat grpc_doc (demo_env 1001) demo_ctx demo_server (demo_store demo_record) = (res, srv', s')"
    by (metis prod.exhaust)
  note ip = demo_peer
  have env: "valid_iter (iter_lease (demo_env 1001))" "io_sane (io_lease (demo_env 1001))"
    "leaseEnabled demo_server"
    by (simp_all add: demo_env_def demo_server_def NewServer_def)
  have rec: "fmlookup (nodes (demo_store demo_record)) ''node-1'' = Some demo_record"
    "LastUnsealIP demo_record = ''10.0.0.1''" by simp_all
  have "store_inv (demo_store demo_record)" by simp
  moreover have "''10.0.0.1'' \<noteq> ''''" by simp
  ultimately obtain u r where
    only: "\<forall>u' r'. fmlookup (nodes (demo_store demo_record)) u' = Some r' \<and>
      LastUnsealIP r' = ''10.0.0.1'' \<longleftrightarrow> u' = u \<and> r' = r"
    and out: "heartbeat_outcome (demo_env 1001) demo_server u r (demo_store demo_record) res s'"
    using heartbeat_exact [OF _ env ip _ run] rec by metis
  have "u = ''node-1'' \<and> r = demo_record" using only rec by metis
  with out show ?thesis by (simp only: run fst_conv snd_conv)
qed

subsection \<open>Metrics and addresses\<close>

lemma lease_labels:
  assumes "grpc_status g"
  shows "requestLabels g (Some (StatusErr PermissionDenied ''node blocked'')) = (''denied'', ''node_blocked'')"
    and "requestLabels g (Some (StatusErr PermissionDenied ''heartbeat lease expired'')) =
      (''denied'', ''lease_expired'')"
    and "requestLabels g (Some (StatusErr PermissionDenied ''heartbeat peer is not registered'')) =
      (''denied'', ''unknown_peer_ip'')"
  using grpc_status.FromError_status [OF assms]
  by (simp_all add: requestLabels_def HasPrefix_def)

text \<open>How a request is counted: by its outcome, with the reason for a lease denial.\<close>

definition counted_as :: "rpc_error + Response \<Rightarrow> string \<Rightarrow> string \<Rightarrow> bool" where
  "counted_as res result reason \<longleftrightarrow>
     (result = ''success'' \<longleftrightarrow> (\<exists>resp. res = Inr resp)) \<and>
     (result = ''denied'' \<longleftrightarrow>
       (\<exists>c m. res = Inl (StatusErr c m) \<and> c \<in> {PermissionDenied, Unauthenticated, FailedPrecondition})) \<and>
     (res = Inl (StatusErr PermissionDenied ''node blocked'') \<longrightarrow> reason = ''node_blocked'') \<and>
     (res = Inl (StatusErr PermissionDenied ''heartbeat lease expired'') \<longrightarrow> reason = ''lease_expired'') \<and>
     (res = Inl (StatusErr PermissionDenied ''heartbeat peer is not registered'') \<longrightarrow> reason = ''unknown_peer_ip'')"

lemma requestLabels_counted:
  assumes "grpc_status g" and "requestLabels g (result_err res) = (result, reason)"
  shows "counted_as res result reason"
proof (cases res)
  case (Inr resp)
  then show ?thesis using assms(2) by (auto simp: counted_as_def result_err_def requestLabels_def)
next
  case (Inl e)
  have no_success: "fst (requestLabels g (Some e)) \<noteq> ''success''"
    by (auto simp: requestLabels_def split: option.splits)
  show ?thesis
  proof (cases e)
    case (StatusErr c m)
    then show ?thesis
      using Inl assms no_success lease_labels [OF assms(1)]
        grpc_status.requestLabels_denied_iff [OF assms(1), of c m]
      by (auto simp: counted_as_def result_err_def)
  next
    case (GoErr x)
    then show ?thesis
      using Inl assms no_success grpc_status.requestLabels_plain [OF assms(1), of x]
      by (auto simp: counted_as_def result_err_def)
  qed
qed

text \<open>
  C32: every unseal and every gRPC heartbeat is counted once, together with its duration, and
  the counter's labels tell the truth: \<open>success\<close> exactly for calls that returned a
  response, \<open>denied\<close> exactly for permission, authentication and precondition failures, and
  the reasons \<open>node_blocked\<close>, \<open>lease_expired\<close> and \<open>unknown_peer_ip\<close> for the lease
  denials.
\<close>

theorem requests_counted:
  assumes "grpc_status g" and "srv_metrics srv = Some log"
    and "Unseal g env ctx req srv s = (res, srv1, s1)"
    and "Heartbeat g env ctx srv s = (res', srv2, s2)"
  shows "(\<exists>result reason. srv_metrics srv1 =
        Some (log @ [UnsealRequests result reason, RequestDuration ''unseal'' (elapsed env)]) \<and>
        counted_as res result reason) \<and>
    (\<exists>result reason. srv_metrics srv2 =
        Some (log @ [HeartbeatRequest result reason, RequestDuration ''heartbeat'' (elapsed env)]) \<and>
        counted_as res' result reason)"
  using assms requestLabels_counted [OF assms(1)]
  by (auto simp: Unseal_split Heartbeat_split observeUnseal_def observeHeartbeat_def split: prod.splits)

theorem requests_counted_witness:
  "\<exists>result reason. srv_metrics (fst (snd (Unseal grpc_doc (demo_env 9000) demo_ctx None demo_server
      (demo_store demo_record)))) =
     Some [UnsealRequests result reason, RequestDuration ''unseal'' 0] \<and>
     counted_as (fst (Unseal grpc_doc (demo_env 9000) demo_ctx None demo_server (demo_store demo_record)))
       result reason"
proof -
  let ?u = "Unseal grpc_doc (demo_env 9000) demo_ctx None demo_server (demo_store demo_record)"
  let ?h = "Heartbeat grpc_doc (demo_env 9000) demo_ctx demo_server (demo_store demo_record)"
  show ?thesis
    using requests_counted [OF doc.grpc_status_axioms, of demo_server "[]" "demo_env 9000" demo_ctx None
        "demo_store demo_record" "fst ?u" "fst (snd ?u)" "snd (snd ?u)" "fst ?h" "fst (snd ?h)" "snd (snd ?h)"]
    by (simp add: demo_server_def NewServer_def demo_env_def)
qed

lemma v4_string_chars: "c \<in> set (v4_string b) \<Longrightarrow> is_digit c \<or> c = CHR ''.''"
  using fmt_nat_digits by (auto simp: v4_string_def)

text \<open>
  C33: a node is the same node directly and behind the reverse proxy: the IPv4 address in the
  \<open>x-real-ip\<close> metadata and the same address with a port as the transport peer give the same
  text, which is the address in canonical dotted form; an unparsable header is ignored.
\<close>

theorem peer_address_canonical:
  assumes "length b = 4" and "list_all is_digit port"
  shows "peerIPFromContext \<lparr>ctx_err = e, incoming_md = Some md, ctx_peer = Some (Some (v4_string b @ '':'' @ port))\<rparr> =
    Inr (case md ''x-real-ip'' of
           [] \<Rightarrow> v4_string b
         | v # _ \<Rightarrow> (case ParseIP v of None \<Rightarrow> v4_string b | Some ip \<Rightarrow> IP_String ip)) \<and>
    (case ParseIP (v4_string b) of None \<Rightarrow> False | Some ip \<Rightarrow> IP_String ip = v4_string b)"
proof -
  have "{CHR '':'', CHR ''['', CHR '']''} \<inter> set (v4_string b) = {}"
    using v4_string_chars [of _ b] by (auto dest!: v4_string_chars simp del: not_digit) (simp_all)
  moreover have "{CHR '':'', CHR ''['', CHR '']''} \<inter> set port = {}"
    using assms(2) by (auto simp: list_all_iff)
  ultimately have "SplitHostPort (v4_string b @ '':'' @ port) = Inr (v4_string b, port)"
    by (rule SplitHostPort_plain)
  then show ?thesis
    using ParseIP_print_v4 [OF assms(1)]
    by (simp add: peerIPFromContext_def peerFromAddr_def split: list.splits option.splits)
qed

theorem peer_address_canonical_witness:
  "peerIPFromContext \<lparr>ctx_err = None, incoming_md = Some (\<lambda>_. [''10.0.0.1'']),
     ctx_peer = Some (Some (v4_string [127, 0, 0, 1] @ '':'' @ ''80''))\<rparr> = Inr (v4_string [10, 0, 0, 1])"
proof -
  have "v4_string [10, 0, 0, 1] = ''10.0.0.1''"
    by code_simp
  then show ?thesis
    using peer_address_canonical [of "[127, 0, 0, 1]" "''80''" None "\<lambda>_. [''10.0.0.1'']"]
      ParseIP_print_v4 [of "[10, 0, 0, 1]"]
    by (simp add: is_digit_def char_nat_def)
qed

end
