(* ===== verification/Hmac_Auth.thy ===== *)
theory Hmac_Auth
  imports Sha256 "HOL-Library.Signed_Division"
begin

text \<open>
  The request signatures of \<open>src/pkg/server/hmac.go\<close>. Timestamps are \<open>int64\<close> values,
  64-bit words here, so that the subtraction and the negation of \<open>ValidateTimestamp\<close>
  wrap around as they do in Go, and \<open>/\<close> truncates towards zero.
\<close>

subsection \<open>The authenticator\<close>

record HMACAuth =
  key :: bytes

definition NewHMACAuth :: "string \<Rightarrow> HMACAuth" where
  "NewHMACAuth k = \<lparr>key = string_bytes k\<rparr>"

definition roundTimestamp :: "int64 \<Rightarrow> int64" where
  "roundTimestamp ts = word_of_int (sint ts sdiv 30) * 30"

definition windows :: "int64 \<Rightarrow> int64 list" where
  "windows ts = (let rounded = roundTimestamp ts in [rounded, rounded - 30, rounded + 30])"

definition heartbeat_msg :: "string \<Rightarrow> string \<Rightarrow> int64 \<Rightarrow> string" where
  "heartbeat_msg nodeUUID nodeIP ts = nodeUUID @ nodeIP @ fmt_d (sint ts)"

definition identify_msg :: "string \<Rightarrow> int64 \<Rightarrow> string" where
  "identify_msg nodeIP ts = nodeIP @ fmt_d (sint ts)"

definition Sign :: "HMACAuth \<Rightarrow> string \<Rightarrow> string \<Rightarrow> int64 \<Rightarrow> string" where
  "Sign a nodeUUID nodeIP timestamp =
     (let rounded = roundTimestamp timestamp;
          msg = heartbeat_msg nodeUUID nodeIP rounded
      in EncodeToString (hmac_sha256 (key a) (string_bytes msg)))"

text \<open>The loop over the windows: \<open>true\<close> at the first one whose MAC equals the signature.\<close>

fun verify_loop :: "HMACAuth \<Rightarrow> (int64 \<Rightarrow> string) \<Rightarrow> bytes \<Rightarrow> int64 list \<Rightarrow> bool" where
  "verify_loop a msg sigBytes [] = False"
| "verify_loop a msg sigBytes (ts # tss) =
     (if hmac_Equal (hmac_sha256 (key a) (string_bytes (msg ts))) sigBytes then True
      else verify_loop a msg sigBytes tss)"

definition Verify :: "HMACAuth \<Rightarrow> string \<Rightarrow> string \<Rightarrow> int64 \<Rightarrow> string \<Rightarrow> bool" where
  "Verify a nodeUUID nodeIP timestamp signature =
     (case DecodeString signature of
        None \<Rightarrow> False
      | Some sigBytes \<Rightarrow>
          verify_loop a (heartbeat_msg nodeUUID nodeIP) sigBytes (windows timestamp))"

definition SignIdentify :: "HMACAuth \<Rightarrow> string \<Rightarrow> int64 \<Rightarrow> string" where
  "SignIdentify a nodeIP timestamp =
     (let rounded = roundTimestamp timestamp;
          msg = identify_msg nodeIP rounded
      in EncodeToString (hmac_sha256 (key a) (string_bytes msg)))"

definition VerifyIdentify :: "HMACAuth \<Rightarrow> string \<Rightarrow> int64 \<Rightarrow> string \<Rightarrow> bool" where
  "VerifyIdentify a nodeIP timestamp signature =
     (case DecodeString signature of
        None \<Rightarrow> False
      | Some sigBytes \<Rightarrow>
          verify_loop a (identify_msg nodeIP) sigBytes (windows timestamp))"

definition ValidateTimestamp :: "int64 \<Rightarrow> time \<Rightarrow> bool" where
  "ValidateTimestamp timestamp now =
     (let diff = Unix now - timestamp;
          diff = (if sint diff < 0 then - diff else diff)
      in sint diff \<le> 60)"

subsection \<open>Rounding to windows\<close>

definition window :: "int64 \<Rightarrow> int" where
  "window ts = sint ts sdiv 30"

lemma sdiv30: "i sdiv 30 = (if 0 \<le> i then i div 30 else - ((- i) div 30))" for i :: int
  by (auto simp: signed_divide_int_def sgn_if)

lemma roundTimestamp_window: "roundTimestamp ts = word_of_int (30 * window ts)"
  by (simp add: roundTimestamp_def window_def mult.commute)

lemma sint_roundTimestamp: "sint (roundTimestamp ts) = 30 * window ts"
proof -
  have "in_int64 (sint ts)"
    using sint_greater_eq [of ts] sint_less [of ts] by (simp add: int64_defs)
  then have "in_int64 (30 * window ts)"
    by (auto simp: int64_defs window_def sdiv30)
  then show ?thesis unfolding roundTimestamp_window by (rule sint_of_int64)
qed

lemma windows_iff:
  "w \<in> set (windows ts) \<longleftrightarrow> (\<exists>k\<in>{-1, 0, 1}. w = word_of_int (30 * (window ts + k)))"
proof -
  have *: "roundTimestamp ts - 30 = word_of_int (30 * (window ts + -1))"
    "roundTimestamp ts + 30 = word_of_int (30 * (window ts + 1))"
    "roundTimestamp ts = word_of_int (30 * (window ts + 0))"
    by (simp_all add: roundTimestamp_window)
  have "set (windows ts) = {roundTimestamp ts - 30, roundTimestamp ts, roundTimestamp ts + 30}"
    by (auto simp: windows_def Let_def)
  then show ?thesis by (simp only: *) auto
qed

lemma window_close:
  assumes "\<bar>sint t - sint u\<bar> \<le> 30"
  shows "\<bar>window t - window u\<bar> \<le> 1"
  using assms by (auto simp: window_def sdiv30)

lemma round_in_windows:
  assumes "\<bar>window t - window u\<bar> \<le> 1"
  shows "roundTimestamp t \<in> set (windows u)"
proof -
  have "window t - window u \<in> {-1, 0, 1}" using assms by auto
  then show ?thesis unfolding windows_iff
    by (intro bexI [of _ "window t - window u"]) (simp_all add: roundTimestamp_window)
qed

subsection \<open>What a signature scheme with windows gives\<close>

text \<open>
  The contract the HTTP handlers use: a signature is the hexadecimal text of the tag of the
  request at the rounded time, and it is accepted exactly when it decodes to the tag at one
  of the three windows around the time the request carries.
\<close>

locale signature_scheme =
  fixes tag :: "'m \<Rightarrow> int64 \<Rightarrow> bytes"
    and sign :: "'m \<Rightarrow> int64 \<Rightarrow> string"
    and verify :: "'m \<Rightarrow> int64 \<Rightarrow> string \<Rightarrow> bool"
  assumes sign_def: "sign m t = EncodeToString (tag m (roundTimestamp t))"
    and verify_iff:
      "verify m t s \<longleftrightarrow> (\<exists>w\<in>set (windows t). DecodeString s = Some (tag m w))"
begin

lemma verify_sign_iff:
  "verify m' t' (sign m t) \<longleftrightarrow> (\<exists>w\<in>set (windows t'). tag m' w = tag m (roundTimestamp t))"
  by (simp add: verify_iff sign_def Decode_Encode eq_commute)

lemma verify_sign_skew: "\<bar>sint t - sint t'\<bar> \<le> 30 \<Longrightarrow> verify m t' (sign m t)"
  using round_in_windows [OF window_close] by (auto simp: verify_sign_iff)

lemma verify_hex: "verify m t s \<Longrightarrow> \<exists>bs. DecodeString s = Some bs"
  by (auto simp: verify_iff)

end

lemma verify_loop_iff:
  "verify_loop a msg s tss \<longleftrightarrow>
     (\<exists>ts\<in>set tss. s = hmac_sha256 (key a) (string_bytes (msg ts)))"
  by (induction tss) (auto simp: hmac_Equal_def)

definition heartbeat_tag :: "HMACAuth \<Rightarrow> string \<times> string \<Rightarrow> int64 \<Rightarrow> bytes" where
  "heartbeat_tag a m ts = hmac_sha256 (key a) (string_bytes (heartbeat_msg (fst m) (snd m) ts))"

definition identify_tag :: "HMACAuth \<Rightarrow> string \<Rightarrow> int64 \<Rightarrow> bytes" where
  "identify_tag a ip ts = hmac_sha256 (key a) (string_bytes (identify_msg ip ts))"

interpretation hb: signature_scheme "heartbeat_tag a"
    "\<lambda>m. Sign a (fst m) (snd m)" "\<lambda>m. Verify a (fst m) (snd m)" for a
  by unfold_locales
    (auto simp: Sign_def Verify_def heartbeat_tag_def verify_loop_iff Let_def split: option.splits)

interpretation ident: signature_scheme "identify_tag a" "SignIdentify a" "VerifyIdentify a" for a
  by unfold_locales
    (auto simp: SignIdentify_def VerifyIdentify_def identify_tag_def verify_loop_iff Let_def
      split: option.splits)

subsection \<open>Decimal text determines the number\<close>

lemma length_fmt_nat: "10 ^ k \<le> n \<Longrightarrow> n < 10 ^ Suc k \<Longrightarrow> length (fmt_nat n) = Suc k"
proof (induction k arbitrary: n)
  case 0
  then show ?case by (simp add: fmt_nat.simps)
next
  case (Suc k)
  then have "10 ^ k \<le> n div 10" "n div 10 < 10 ^ Suc k" by auto
  from Suc.IH [OF this] have "length (fmt_nat (n div 10)) = Suc k" .
  moreover have "0 < (10 :: nat) ^ k" by simp
  then have "\<not> n < 10" using Suc.prems(1) unfolding power_Suc by linarith
  ultimately show ?case by (subst fmt_nat.simps) simp
qed

definition digits_value :: "string \<Rightarrow> nat" where
  "digits_value s = foldl (\<lambda>v c. 10 * v + (of_char c - 48)) 0 s"

lemma digits_value_fmt_nat: "digits_value (fmt_nat n) = n"
proof (induction n rule: fmt_nat.induct)
  case (1 n)
  then show ?case
    by (subst fmt_nat.simps) (auto simp: digits_value_def digit_char_def)
qed

lemma fmt_nat_eq_iff [simp]: "fmt_nat m = fmt_nat n \<longleftrightarrow> m = n"
  by (metis digits_value_fmt_nat)

lemma digit_char_not_minus: "n < 10 \<Longrightarrow> digit_char n \<noteq> CHR ''-''"
proof
  assume "n < 10" "digit_char n = CHR ''-''"
  then have "(of_char (digit_char n) :: nat) = 45" by simp
  then show False using \<open>n < 10\<close> by (simp add: digit_char_def)
qed

lemma hd_fmt_nat: "fmt_nat n \<noteq> [] \<and> hd (fmt_nat n) \<noteq> CHR ''-''"
proof (induction n rule: fmt_nat.induct)
  case (1 n)
  then show ?case
    by (subst (1 2) fmt_nat.simps) (auto simp: digit_char_not_minus hd_append)
qed

lemma fmt_d_eq_iff [simp]: "fmt_d i = fmt_d j \<longleftrightarrow> i = j"
proof -
  have *: "fmt_nat n \<noteq> CHR ''-'' # s" "CHR ''-'' # s \<noteq> fmt_nat n" for n s
    using hd_fmt_nat [of n] by (metis list.sel(1))+
  show ?thesis by (auto simp: fmt_d_def *)
qed

lemma length_fmt_d: "10 ^ k \<le> i \<Longrightarrow> i < 10 ^ Suc k \<Longrightarrow> length (fmt_d i) = Suc k"
proof -
  assume i: "10 ^ k \<le> i" "i < 10 ^ Suc k"
  moreover have "(0 :: int) < 10 ^ k" by simp
  ultimately have "0 \<le> i" by simp
  then have "10 ^ k \<le> nat i" "nat i < 10 ^ Suc k"
    using i by (auto simp: nat_less_iff le_nat_iff)
  then show ?thesis using length_fmt_nat \<open>0 \<le> i\<close> by (simp add: fmt_d_def)
qed

subsection \<open>What the signature covers\<close>

text \<open>Times from 2001 to 2286 whose windows and their neighbours have ten decimal digits.\<close>

definition contemporary :: "int64 \<Rightarrow> bool" where
  "contemporary t \<longleftrightarrow> 1000000080 \<le> sint t \<and> sint t < 9999999900"

lemma contemporary_window:
  assumes "contemporary t" and "w \<in> set (windows t)"
  shows "\<exists>k\<in>{-1, 0, 1}. sint w = 30 * (window t + k)" and "length (fmt_d (sint w)) = 10"
proof -
  obtain k where k: "k \<in> {-1, 0, 1}" and w: "w = word_of_int (30 * (window t + k))"
    using assms(2) unfolding windows_iff by blast
  have b: "1000000000 \<le> 30 * (window t + k) \<and> 30 * (window t + k) < 10000000000"
    using assms(1) k by (auto simp: contemporary_def window_def sdiv30)
  then have "in_int64 (30 * (window t + k))" by (simp add: int64_defs)
  then have s: "sint w = 30 * (window t + k)" unfolding w by (rule sint_of_int64)
  then show "\<exists>k\<in>{-1, 0, 1}. sint w = 30 * (window t + k)" using k by blast
  show "length (fmt_d (sint w)) = 10"
    using length_fmt_d [of 9 "sint w"] b s by simp
qed

lemma round_self: "roundTimestamp t \<in> set (windows t)"
  by (rule round_in_windows) simp

lemma heartbeat_msg_inj:
  assumes "heartbeat_msg u ip w = heartbeat_msg u' ip' w'"
    and "length u = length u'" and "length (fmt_d (sint w)) = length (fmt_d (sint w'))"
  shows "u = u' \<and> ip = ip' \<and> w = w'"
  using assms by (auto simp: heartbeat_msg_def intro: signed_word_eqI)

text \<open>
  A signature made for a node, an address and a time is accepted for the same node and
  address at every time at most 30 seconds away, whatever the pre-shared key; the same holds
  of the identify signatures.
\<close>

lemma Verify_accepts_skew:
  assumes "\<bar>sint t - sint t'\<bar> \<le> 30"
  shows "Verify (NewHMACAuth k) uuid ip t' (Sign (NewHMACAuth k) uuid ip t) \<and>
         VerifyIdentify (NewHMACAuth k) ip t' (SignIdentify (NewHMACAuth k) ip t)"
  using hb.verify_sign_skew [OF assms, of "NewHMACAuth k" "(uuid, ip)"]
    ident.verify_sign_skew [OF assms] by simp

text \<open>
  C10: a signature binds the request. When the node identifiers have the same length (UUIDs
  do) and the times lie between 2001 and 2286, a signature made for one request is accepted
  for another exactly if node, address and window (up to one neighbour) agree, or else if one
  of the three texts the verifier tries for the second request differs from the text signed
  for the first and has the same HMAC under the key: a collision of these two very texts.
\<close>

theorem Verify_binds_request:
  assumes "length uuid = length uuid'" and "contemporary t" and "contemporary t'"
  shows "Verify a uuid' ip' t' (Sign a uuid ip t) \<longleftrightarrow>
    uuid' = uuid \<and> ip' = ip \<and> \<bar>window t' - window t\<bar> \<le> 1 \<or>
    (\<exists>w\<in>set (windows t').
       heartbeat_msg uuid' ip' w \<noteq> heartbeat_msg uuid ip (roundTimestamp t) \<and>
       hmac_sha256 (key a) (string_bytes (heartbeat_msg uuid' ip' w)) =
         hmac_sha256 (key a) (string_bytes (heartbeat_msg uuid ip (roundTimestamp t))))"
    (is "?accepted \<longleftrightarrow> ?same \<or> ?collision")
proof -
  let ?r = "roundTimestamp t"
  have accepted: "?accepted \<longleftrightarrow> (\<exists>w\<in>set (windows t').
      hmac_sha256 (key a) (string_bytes (heartbeat_msg uuid' ip' w)) =
        hmac_sha256 (key a) (string_bytes (heartbeat_msg uuid ip ?r)))"
    using hb.verify_sign_iff [of a "(uuid', ip')" t' "(uuid, ip)" t] by (auto simp: heartbeat_tag_def)
  have bound: "?same" if w: "w \<in> set (windows t')" and eq: "heartbeat_msg uuid' ip' w = heartbeat_msg uuid ip ?r" for w
  proof -
    have "uuid' = uuid \<and> ip' = ip \<and> w = ?r"
      using heartbeat_msg_inj [OF eq] assms(1) contemporary_window(2) [OF assms(3) w]
        contemporary_window(2) [OF assms(2) round_self] by argo
    moreover have "\<bar>window t' - window t\<bar> \<le> 1" if "w = ?r"
      using contemporary_window(1) [OF assms(3) w] that by (auto simp: sint_roundTimestamp)
    ultimately show ?thesis by blast
  qed
  have "?r \<in> set (windows t')" if "?same"
    using that by (intro round_in_windows) (simp add: abs_minus_commute)
  then have "?accepted" if "?same" using that accepted by blast
  with accepted bound show ?thesis by blast
qed

theorem Verify_binds_request_witness:
  "Verify (NewHMACAuth ''secret'') ''node-1'' ''10.0.0.1'' 1700000029
     (Sign (NewHMACAuth ''secret'') ''node-1'' ''10.0.0.1'' 1700000000)"
  by (subst Verify_binds_request) (simp_all add: contemporary_def window_def sdiv30)

text \<open>
  C38: the fields are concatenated without separators, so a signature says nothing about
  where the node identifier ends and the address begins: it is accepted for every other
  split of the same text, and the signature of an identify request for that text is accepted
  as a heartbeat signature, and conversely.
\<close>

theorem signature_ignores_field_boundary:
  assumes "uuid @ ip = uuid' @ ip'"
  shows "Verify a uuid ip t s = Verify a uuid' ip' t s \<and>
         VerifyIdentify a (uuid @ ip) t s = Verify a uuid ip t s"
proof -
  have "heartbeat_msg uuid ip = heartbeat_msg uuid' ip'"
    "heartbeat_msg uuid ip = identify_msg (uuid @ ip)"
    using assms by (auto simp: heartbeat_msg_def identify_msg_def fun_eq_iff)
  then show ?thesis unfolding Verify_def VerifyIdentify_def by metis
qed

theorem signature_ignores_field_boundary_witness:
  "Verify (NewHMACAuth ''secret'') ''node-11'' ''0.0.0.1'' 1700000000
     (Sign (NewHMACAuth ''secret'') ''node-1'' ''10.0.0.1'' 1700000000)"
proof -
  have "Verify (NewHMACAuth ''secret'') ''node-1'' ''10.0.0.1'' 1700000000
     (Sign (NewHMACAuth ''secret'') ''node-1'' ''10.0.0.1'' 1700000000)"
    using hb.verify_sign_skew [of 1700000000 1700000000 _ "(''node-1'', ''10.0.0.1'')"] by simp
  then show ?thesis
    using signature_ignores_field_boundary [of "''node-11''" "''0.0.0.1''" "''node-1''" "''10.0.0.1''"]
    by simp
qed

text \<open>
  C30: for every clock reading from 1970 on, a timestamp is accepted exactly when it is at
  most 60 seconds from the clock, except for one more value: at \<open>now - 2^63\<close> the
  difference is the smallest \<open>int64\<close>, its negation wraps around to itself, and a
  timestamp that far away is accepted too.
\<close>

theorem ValidateTimestamp_exact:
  assumes "0 \<le> sint (Unix now)" and "sint (Unix now) < 2 ^ 62"
  shows "ValidateTimestamp ts now \<longleftrightarrow>
         \<bar>sint (Unix now) - sint ts\<bar> \<le> 60 \<or> sint ts = sint (Unix now) - 2 ^ 63"
proof -
  let ?n = "sint (Unix now)" and ?t = "sint ts"
  let ?d = "Unix now - ts"
  have t: "- (2 ^ 63) \<le> ?t" "?t < 2 ^ 63"
    using sint_greater_eq [of ts] sint_less [of ts] by simp_all
  have diff: "sint ?d = (if ?n - ?t < 2 ^ 63 then ?n - ?t else ?n - ?t - 2 ^ 64)"
    using assms t by (auto intro!: sint_int64_eqI simp: int64_defs)
  have neg: "sint (- ?d) = (if sint ?d = - (2 ^ 63) then - (2 ^ 63) else - sint ?d)"
    by (rule sint_uminus_int64)
  show ?thesis
    using assms t by (auto simp: ValidateTimestamp_def Let_def neg diff simp del: minus_diff_eq)
qed

theorem ValidateTimestamp_exact_witness:
  "ValidateTimestamp (1700000000 - 2 ^ 63) (Add 0 (63835596800 * second))"
proof -
  have "Unix (Add 0 (63835596800 * second)) = 1700000000"
    by (simp add: Unix_def Add_def second_def)
  then show ?thesis
    using ValidateTimestamp_exact
      [of "Add 0 (63835596800 * second)" "1700000000 - 2 ^ 63"] by simp
qed

end
