(* ===== verification/Go_Float.thy ===== *)
theory Go_Float
  imports Complex_Main Go_Base
begin

text \<open>
  The floating-point arithmetic the program does, on durations only: a finite \<open>float64\<close> is
  the rational number it denotes, and an operation is the exact result rounded to 53
  significant bits, to nearest and ties to even. The magnitudes that occur (durations in
  nanoseconds, multiples of them by powers of two) stay far from the subnormal numbers;
  overflow to infinity is the business of the caller.
\<close>

definition round_even :: "rat \<Rightarrow> int" where
  "round_even x =
     (let f = \<lfloor>x\<rfloor>; d = x - of_int f
      in if d < 1 / 2 then f else if 1 / 2 < d then f + 1 else if even f then f else f + 1)"

text \<open>The length of a number in binary, and the exponent of its leading bit.\<close>

function bit_length :: "int \<Rightarrow> nat" where
  "bit_length n = (if n \<le> 0 then 0 else Suc (bit_length (n div 2)))"
  by auto
termination
  by (relation "measure nat") auto

declare bit_length.simps [simp del]

definition exponent :: "rat \<Rightarrow> int" where
  "exponent x =
     (case quotient_of x of (a, b) \<Rightarrow>
        let k = int (bit_length a) - int (bit_length b)
        in if 2 powi k \<le> x then k else k - 1)"

definition fl :: "rat \<Rightarrow> rat" where
  "fl x =
     (if x = 0 then 0
      else let u = 2 powi (exponent \<bar>x\<bar> - 52)
           in sgn x * (of_int (round_even (\<bar>x\<bar> / u)) * u))"

text \<open>Conversion to an integer type truncates towards zero.\<close>

definition trunc :: "rat \<Rightarrow> int" where
  "trunc x = (if 0 \<le> x then \<lfloor>x\<rfloor> else \<lceil>x\<rceil>)"

text \<open>\<open>time.Duration.Seconds\<close>.\<close>

definition Seconds :: "duration \<Rightarrow> rat" where
  "Seconds d =
     (let sec = sgn d * (\<bar>d\<bar> div second); nsec = sgn d * (\<bar>d\<bar> mod second)
      in fl (fl (of_int sec) + fl (fl (of_int nsec) / 1000000000)))"

subsection \<open>Integers are exact\<close>

lemma round_even_int [simp]: "round_even (of_int n) = n"
  by (simp add: round_even_def)

lemma bit_length_bounds: "0 < n \<Longrightarrow> 2 ^ (bit_length n - 1) \<le> n"
proof (induction n rule: bit_length.induct)
  case (1 n)
  show ?case
  proof (cases "n = 1")
    case False
    then have n2: "0 < n div 2" using 1(2) by linarith
    then have "2 ^ (bit_length (n div 2) - 1) \<le> n div 2" using 1(2) by (intro 1(1)) simp_all
    moreover have "bit_length (n div 2) \<noteq> 0" using n2 by (subst bit_length.simps) simp
    then have "2 ^ bit_length (n div 2) = (2 :: int) * 2 ^ (bit_length (n div 2) - 1)"
      by (cases "bit_length (n div 2)") simp_all
    ultimately have "2 ^ bit_length (n div 2) \<le> n" by linarith
    moreover have "bit_length n - 1 = bit_length (n div 2)"
      using 1(2) by (subst bit_length.simps) simp
    ultimately show ?thesis by simp
  qed (simp add: bit_length.simps [of 1] bit_length.simps [of 0])
qed

lemma exponent_int_bounds:
  assumes "0 < n"
  shows "(2 :: rat) powi exponent (of_int n) \<le> of_int n"
proof -
  have one: "bit_length 1 = 1" by (simp add: bit_length.simps [of 1] bit_length.simps [of 0])
  let ?k = "bit_length n - 1"
  have "of_int (2 ^ ?k) \<le> (of_int n :: rat)"
    using bit_length_bounds [OF assms] by (simp only: of_int_le_iff)
  then have k: "(2 :: rat) ^ ?k \<le> of_int n" by simp
  have "0 < bit_length n" using assms by (simp add: bit_length.simps [of n])
  then have "int (bit_length n) - int (bit_length 1) = int ?k" using one by simp
  with k have "exponent (of_int n) = int ?k"
    by (simp add: exponent_def Let_def)
  with k show ?thesis by simp
qed

lemma fl_pos:
  assumes "0 < n" and "n \<le> 2 ^ 53"
  shows "of_int (round_even (of_int n / 2 powi (exponent (of_int n) - 52))) *
    2 powi (exponent (of_int n) - 52) = (of_int n :: rat)"
proof -
  define e where "e = exponent (of_int n)"
  have low: "(2 :: rat) powi e \<le> of_int n" unfolding e_def using assms(1) by (rule exponent_int_bounds)
  have high: "of_int n \<le> (2 :: rat) powi 53"
    using assms(2) by (metis of_int_le_iff of_int_numeral of_int_power power_int_numeral)
  have "e \<le> 53"
  proof (rule ccontr)
    assume "\<not> e \<le> 53"
    then have "(2 :: rat) powi 53 < 2 powi e" by (intro power_int_strict_increasing) auto
    with low high show False by simp
  qed
  then consider "e = 53" | "e \<le> 52" by linarith
  then have "\<exists>m. of_int n / (2 :: rat) powi (e - 52) = of_int m"
  proof cases
    case 1
    then have "(of_int n :: rat) = 2 powi 53" using low high by simp
    then show ?thesis using 1 by (intro exI [of _ "2 ^ 52"]) simp
  next
    case 2
    then have "(2 :: rat) powi (e - 52) = inverse (2 ^ nat (52 - e))"
      by (simp add: power_int_def field_simps)
    then have "of_int n / (2 :: rat) powi (e - 52) = of_int (n * 2 ^ nat (52 - e))"
      by (simp only: divide_inverse inverse_inverse_eq of_int_mult of_int_power of_int_numeral)
    then show ?thesis by blast
  qed
  then obtain m where m: "of_int n / (2 :: rat) powi (e - 52) = of_int m" by blast
  have "(2 :: rat) powi (e - 52) \<noteq> 0" by simp
  with m show ?thesis unfolding e_def [symmetric] by (simp add: field_simps)
qed

lemma fl_int:
  assumes "\<bar>n\<bar> \<le> 2 ^ 53"
  shows "fl (of_int n) = of_int n"
proof (cases "n = 0")
  case False
  then have "0 < \<bar>n\<bar>" by simp
  note pos = fl_pos [OF this assms]
  have "fl (of_int n) = sgn (of_int n) * of_int \<bar>n\<bar>"
    using False pos by (simp add: fl_def Let_def)
  then show ?thesis by (simp add: sgn_mult_abs)
qed (simp add: fl_def)

text \<open>Whole seconds are exact.\<close>

lemma fl_0 [simp]: "fl 0 = 0"
  by (simp add: fl_def)

lemma Seconds_whole:
  assumes "\<bar>n\<bar> \<le> 2 ^ 53"
  shows "trunc (Seconds (n * second)) = n"
proof -
  have "sgn (n * second) * (\<bar>n * second\<bar> div second) = n"
    by (simp add: second_def abs_mult sgn_mult sgn_mult_abs)
  moreover have "\<bar>n * second\<bar> mod second = 0"
    by (simp add: second_def abs_mult)
  ultimately have "Seconds (n * second) = of_int n"
    using fl_int [OF assms] by (simp add: Seconds_def Let_def)
  then show ?thesis by (simp add: trunc_def)
qed

subsection \<open>Signs\<close>

lemma round_even_nonneg: "0 \<le> x \<Longrightarrow> 0 \<le> round_even x"
  by (auto simp: round_even_def Let_def)

lemma fl_nonneg: "0 \<le> x \<Longrightarrow> 0 \<le> fl x"
  by (auto simp: fl_def Let_def intro!: mult_nonneg_nonneg round_even_nonneg divide_nonneg_nonneg)

lemma trunc_nonneg: "0 \<le> x \<Longrightarrow> 0 \<le> trunc x"
  by (simp add: trunc_def)

end
