(* ===== verification/Http_Api.thy ===== *)
theory Http_Api
  imports Lease_Store_Props Hmac_Auth Go_Float
begin

text \<open>
  The HTTP interface of \<open>src/pkg/server/http.go\<close>: the signed heartbeat and identify
  requests of the agents and the administrator's requests.

  A request is its method, the segments of its cleaned and unescaped path, its headers
  (\<open>Header.Get\<close>: the empty string when absent) and its body, the first JSON value of the
  stream, if there is one. A response is its status code and the JSON value written, if
  encoding succeeded. The lease store is shared, so it is passed and returned.
\<close>

subsection \<open>Requests and responses\<close>

record http_request =
  rq_method :: string
  rq_path :: "string list"
  rq_header :: "string \<Rightarrow> string"
  rq_body :: "json option"

record http_response =
  rs_code :: nat
  rs_body :: "json option"

definition StatusOK :: nat where "StatusOK = 200"

definition StatusBadRequest :: nat where "StatusBadRequest = 400"

definition StatusUnauthorized :: nat where "StatusUnauthorized = 401"

definition StatusForbidden :: nat where "StatusForbidden = 403"

definition StatusNotFound :: nat where "StatusNotFound = 404"

definition StatusMethodNotAllowed :: nat where "StatusMethodNotAllowed = 405"

definition StatusInternalServerError :: nat where "StatusInternalServerError = 500"

lemmas status_codes = StatusOK_def StatusBadRequest_def StatusUnauthorized_def StatusForbidden_def
  StatusNotFound_def StatusMethodNotAllowed_def StatusInternalServerError_def

record HTTPHandler =
  hmacAuth :: HMACAuth
  adminToken :: string
  leaseDuration :: duration
  heartbeatInterval :: duration

definition NewHTTPHandler :: "HMACAuth \<Rightarrow> string \<Rightarrow> duration \<Rightarrow> duration \<Rightarrow> HTTPHandler" where
  "NewHTTPHandler auth tok lease interval =
     \<lparr>hmacAuth = auth, adminToken = tok, leaseDuration = lease, heartbeatInterval = interval\<rparr>"

text \<open>What one request draws from its environment.\<close>

record http_env =
  now_check :: time
  now_store :: time
  http_iter :: "LeaseRecord iter"
  http_io :: sys_io

definition writeJSON :: "nat \<Rightarrow> json option \<Rightarrow> http_response" where
  "writeJSON code v = \<lparr>rs_code = code, rs_body = v\<rparr>"

definition errorResponse :: "string \<Rightarrow> string \<Rightarrow> json option" where
  "errorResponse err reason =
     Some (JObj ((''error'', JStr err) # omit (reason = '''') ''reason'' (JStr reason)))"

subsection \<open>Bodies\<close>

record identifyRequest =
  ir_NodeIP :: string
  ir_Timestamp :: int64

definition identify_schema :: "identifyRequest schema" where
  "identify_schema =
     [(''node_ip'', \<lambda>v r. map_option (\<lambda>s. r\<lparr>ir_NodeIP := s\<rparr>) (dec_string v (ir_NodeIP r))),
      (''timestamp'', \<lambda>v r. map_option (\<lambda>t. r\<lparr>ir_Timestamp := t\<rparr>) (dec_int64 v (ir_Timestamp r)))]"

definition dec_identifyRequest :: "json \<Rightarrow> identifyRequest option" where
  "dec_identifyRequest j = dec_struct identify_schema j \<lparr>ir_NodeIP = '''', ir_Timestamp = 0\<rparr>"

definition enc_identifyRequest :: "identifyRequest \<Rightarrow> json option" where
  "enc_identifyRequest r =
     Some (JObj ([(''node_ip'', JStr (ir_NodeIP r))] @ [(''timestamp'', JInt (sint (ir_Timestamp r)))]))"

record heartbeatRequest =
  hr_NodeUUID :: string
  hr_NodeIP :: string
  hr_Hostname :: string
  hr_Timestamp :: int64

definition heartbeat_schema :: "heartbeatRequest schema" where
  "heartbeat_schema =
     [(''node_uuid'', \<lambda>v r. map_option (\<lambda>s. r\<lparr>hr_NodeUUID := s\<rparr>) (dec_string v (hr_NodeUUID r))),
      (''node_ip'', \<lambda>v r. map_option (\<lambda>s. r\<lparr>hr_NodeIP := s\<rparr>) (dec_string v (hr_NodeIP r))),
      (''hostname'', \<lambda>v r. map_option (\<lambda>s. r\<lparr>hr_Hostname := s\<rparr>) (dec_string v (hr_Hostname r))),
      (''timestamp'', \<lambda>v r. map_option (\<lambda>t. r\<lparr>hr_Timestamp := t\<rparr>) (dec_int64 v (hr_Timestamp r)))]"

definition zero_heartbeat :: heartbeatRequest where
  "zero_heartbeat = \<lparr>hr_NodeUUID = '''', hr_NodeIP = '''', hr_Hostname = '''', hr_Timestamp = 0\<rparr>"

definition dec_heartbeatRequest :: "json \<Rightarrow> heartbeatRequest option" where
  "dec_heartbeatRequest j = dec_struct heartbeat_schema j zero_heartbeat"

definition enc_heartbeatRequest :: "heartbeatRequest \<Rightarrow> json option" where
  "enc_heartbeatRequest r =
     Some (JObj ([(''node_uuid'', JStr (hr_NodeUUID r))] @ [(''node_ip'', JStr (hr_NodeIP r))] @
       omit (hr_Hostname r = '''') ''hostname'' (JStr (hr_Hostname r)) @
       [(''timestamp'', JInt (sint (hr_Timestamp r)))]))"

definition identifyResponse :: "string \<Rightarrow> string \<Rightarrow> json option" where
  "identifyResponse uuid status = Some (JObj [(''node_uuid'', JStr uuid), (''status'', JStr status)])"

definition heartbeatResponse :: "string \<Rightarrow> int \<Rightarrow> json option" where
  "heartbeatResponse status next_in =
     Some (JObj [(''status'', JStr status), (''next_heartbeat_in'', JInt next_in)])"

text \<open>A missing or unreadable body is an error, as is one of the wrong shape.\<close>

definition decode_body :: "(json \<Rightarrow> 'a option) \<Rightarrow> http_request \<Rightarrow> 'a option" where
  "decode_body dec r = Option.bind (rq_body r) dec"

subsection \<open>Handlers of the agents' requests\<close>

definition handleIdentify :: "http_env \<Rightarrow> HTTPHandler \<Rightarrow> http_request \<Rightarrow> LeaseStore \<Rightarrow> http_response" where
  "handleIdentify env h r s =
     (case decode_body dec_identifyRequest r of
        None \<Rightarrow> writeJSON StatusBadRequest (errorResponse ''invalid_request'' '''')
      | Some req \<Rightarrow>
          if ir_NodeIP req = '''' \<or> ir_Timestamp req = 0 then
            writeJSON StatusBadRequest (errorResponse ''missing_fields'' '''')
          else if \<not> ValidateTimestamp (ir_Timestamp req) (now_check env) then
            writeJSON StatusBadRequest (errorResponse ''timestamp_out_of_range'' '''')
          else
            (let signature = rq_header r ''X-Hmac-Signature'' in
             if signature = '''' \<or> \<not> VerifyIdentify (hmacAuth h) (ir_NodeIP req) (ir_Timestamp req) signature
             then writeJSON StatusUnauthorized (errorResponse ''invalid_signature'' '''')
             else
               (case LookupByIP (http_iter env) (ir_NodeIP req) s of
                  Inl _ \<Rightarrow> writeJSON StatusNotFound (errorResponse ''node_not_found'' '''')
                | Inr (nodeUUID, record) \<Rightarrow>
                    writeJSON StatusOK (identifyResponse nodeUUID (Status record)))))"

definition handleHeartbeat ::
  "http_env \<Rightarrow> HTTPHandler \<Rightarrow> http_request \<Rightarrow> LeaseStore \<Rightarrow> http_response \<times> LeaseStore" where
  "handleHeartbeat env h r s =
     (case decode_body dec_heartbeatRequest r of
        None \<Rightarrow> (writeJSON StatusBadRequest (errorResponse ''invalid_request'' ''''), s)
      | Some req \<Rightarrow>
          if hr_NodeUUID req = '''' \<or> hr_NodeIP req = '''' \<or> hr_Timestamp req = 0 then
            (writeJSON StatusBadRequest (errorResponse ''missing_fields'' ''''), s)
          else if \<not> ValidateTimestamp (hr_Timestamp req) (now_check env) then
            (writeJSON StatusBadRequest (errorResponse ''timestamp_out_of_range'' ''''), s)
          else
            (let signature = rq_header r ''X-Hmac-Signature'' in
             if signature = '''' \<or>
                \<not> Verify (hmacAuth h) (hr_NodeUUID req) (hr_NodeIP req) (hr_Timestamp req) signature
             then (writeJSON StatusUnauthorized (errorResponse ''invalid_signature'' ''''), s)
             else
               (case HeartbeatByUUID (http_iter env) (http_io env) (hr_NodeUUID req) (hr_NodeIP req)
                       (hr_Hostname req) (now_store env) (leaseDuration h) s of
                  ((record, Some err), s1) \<Rightarrow>
                    if errors_Is err ErrLeaseBlocked then
                      (writeJSON StatusForbidden (errorResponse ''node_blocked'' (BlockReason record)), s1)
                    else (writeJSON StatusInternalServerError (errorResponse ''internal_error'' ''''), s1)
                | ((record, None), s1) \<Rightarrow>
                    (writeJSON StatusOK
                       (heartbeatResponse ''ok'' (trunc (Seconds (heartbeatInterval h)))), s1))))"

subsection \<open>Handlers of the administrator's requests\<close>

definition authenticateAdmin :: "HTTPHandler \<Rightarrow> http_request \<Rightarrow> bool" where
  "authenticateAdmin h r =
     (let token = TrimPrefix (rq_header r ''Authorization'') ''Bearer ''
      in token \<noteq> '''' \<and> token = adminToken h)"

text \<open>One entry of the list; a pointer to an instant is left out when the instant is zero.\<close>

definition nodeResponse :: "string \<Rightarrow> LeaseRecord \<Rightarrow> json option" where
  "nodeResponse uuid record =
     (if json_time_ok (FirstSeen record) \<and> json_time_ok (LastHeartbeatAt record) \<and>
         json_time_ok (BlockedAt record) \<and> json_time_ok (MaintenanceAt record)
      then Some (JObj
        (omit (IsZero (FirstSeen record)) ''first_seen'' (JTime (FirstSeen record)) @
         omit (IsZero (LastHeartbeatAt record)) ''last_heartbeat'' (JTime (LastHeartbeatAt record)) @
         omit (IsZero (BlockedAt record)) ''blocked_at'' (JTime (BlockedAt record)) @
         omit (IsZero (MaintenanceAt record)) ''maintenance_at'' (JTime (MaintenanceAt record)) @
         [(''uuid'', JStr uuid), (''ip'', JStr (NodeIP record))] @
         omit (Hostname record = '''') ''hostname'' (JStr (Hostname record)) @
         [(''status'', JStr (Status record))] @
         omit (BlockReason record = '''') ''block_reason'' (JStr (BlockReason record)) @
         [(''maintenance'', JBool (Maintenance record))]))
      else None)"

fun node_list :: "string list \<Rightarrow> LeaseRecord gomap \<Rightarrow> json list option" where
  "node_list [] m = Some []"
| "node_list (uuid # uuids) m =
     (case fmlookup m uuid of
        None \<Rightarrow> node_list uuids m
      | Some record \<Rightarrow>
          (case (nodeResponse uuid record, node_list uuids m) of
             (Some j, Some js) \<Rightarrow> Some (j # js)
           | _ \<Rightarrow> None))"

definition handleListNodes :: "http_env \<Rightarrow> HTTPHandler \<Rightarrow> http_request \<Rightarrow> LeaseStore \<Rightarrow> http_response" where
  "handleListNodes env h r s =
     (if \<not> authenticateAdmin h r then
        writeJSON StatusUnauthorized (errorResponse ''invalid_admin_token'' '''')
      else
        (let nodes = ListAll s
         in writeJSON StatusOK (map_option JArr (node_list (http_iter env nodes) nodes))))"

definition handleUnblockNode ::
  "http_env \<Rightarrow> HTTPHandler \<Rightarrow> http_request \<Rightarrow> string \<Rightarrow> LeaseStore \<Rightarrow> http_response \<times> LeaseStore" where
  "handleUnblockNode env h r uuid s =
     (if \<not> authenticateAdmin h r then
        (writeJSON StatusUnauthorized (errorResponse ''invalid_admin_token'' ''''), s)
      else if uuid = '''' then (writeJSON StatusBadRequest (errorResponse ''missing_uuid'' ''''), s)
      else
        (case Unblock (http_iter env) (http_io env) uuid (now_store env) (leaseDuration h) s of
           ((record, Some err), s1) \<Rightarrow>
             if errors_Is err ErrLeaseNotFound then
               (writeJSON StatusNotFound (errorResponse ''node_not_found'' ''''), s1)
             else (writeJSON StatusInternalServerError (errorResponse ''internal_error'' ''''), s1)
         | ((record, None), s1) \<Rightarrow>
             (writeJSON StatusOK (Some (JObj [(''status'', JStr ''unblocked''), (''uuid'', JStr uuid)])), s1)))"

definition maintenance_schema :: "bool schema" where
  "maintenance_schema = [(''enabled'', dec_bool)]"

definition dec_maintenance :: "json \<Rightarrow> bool option" where
  "dec_maintenance j = dec_struct maintenance_schema j False"

definition handleSetMaintenance ::
  "http_env \<Rightarrow> HTTPHandler \<Rightarrow> http_request \<Rightarrow> string \<Rightarrow> LeaseStore \<Rightarrow> http_response \<times> LeaseStore" where
  "handleSetMaintenance env h r uuid s =
     (if \<not> authenticateAdmin h r then
        (writeJSON StatusUnauthorized (errorResponse ''invalid_admin_token'' ''''), s)
      else if uuid = '''' then (writeJSON StatusBadRequest (errorResponse ''missing_uuid'' ''''), s)
      else
        (case decode_body dec_maintenance r of
           None \<Rightarrow> (writeJSON StatusBadRequest (errorResponse ''invalid_request'' ''''), s)
         | Some enabled \<Rightarrow>
             (case SetMaintenance (http_io env) uuid enabled (now_store env) (leaseDuration h) s of
                ((record, Some err), s1) \<Rightarrow>
                  if errors_Is err ErrLeaseNotFound then
                    (writeJSON StatusNotFound (errorResponse ''node_not_found'' ''''), s1)
                  else (writeJSON StatusInternalServerError (errorResponse ''internal_error'' ''''), s1)
              | ((record, None), s1) \<Rightarrow>
                  (writeJSON StatusOK
                     (Some (JObj [(''maintenance'', JBool (Maintenance record)), (''uuid'', JStr uuid)])), s1))))"

subsection \<open>Routing\<close>

datatype endpoint =
  EpHeartbeat | EpIdentify | EpListNodes | EpUnblock string | EpMaintenance string

text \<open>The registered patterns: the method and the endpoint of a path.\<close>

fun RegisterRoutes :: "string list \<Rightarrow> (string \<times> endpoint) option" where
  "RegisterRoutes [a] = (if a = ''heartbeat'' then Some (''POST'', EpHeartbeat) else None)"
| "RegisterRoutes [a, b] =
     (if a = ''node'' \<and> b = ''identify'' then Some (''POST'', EpIdentify)
      else if a = ''admin'' \<and> b = ''nodes'' then Some (''GET'', EpListNodes)
      else None)"
| "RegisterRoutes [a, b, uuid, c] =
     (if a = ''admin'' \<and> b = ''nodes'' then
        (if c = ''unblock'' then Some (''POST'', EpUnblock uuid)
         else if c = ''maintenance'' then Some (''POST'', EpMaintenance uuid)
         else None)
      else None)"
| "RegisterRoutes _ = None"

fun dispatch ::
  "http_env \<Rightarrow> HTTPHandler \<Rightarrow> http_request \<Rightarrow> endpoint \<Rightarrow> LeaseStore \<Rightarrow> http_response \<times> LeaseStore" where
  "dispatch env h r EpHeartbeat s = handleHeartbeat env h r s"
| "dispatch env h r EpIdentify s = (handleIdentify env h r s, s)"
| "dispatch env h r EpListNodes s = (handleListNodes env h r s, s)"
| "dispatch env h r (EpUnblock uuid) s = handleUnblockNode env h r uuid s"
| "dispatch env h r (EpMaintenance uuid) s = handleSetMaintenance env h r uuid s"

text \<open>
  \<open>http.ServeMux\<close>: a pattern for \<open>GET\<close> also serves \<open>HEAD\<close> (whose response has no
  body); a path known under another method is 405, an unknown one 404.
\<close>

definition ServeHTTP ::
  "http_env \<Rightarrow> HTTPHandler \<Rightarrow> http_request \<Rightarrow> LeaseStore \<Rightarrow> http_response \<times> LeaseStore" where
  "ServeHTTP env h r s =
     (case RegisterRoutes (rq_path r) of
        None \<Rightarrow> (\<lparr>rs_code = StatusNotFound, rs_body = None\<rparr>, s)
      | Some (m, ep) \<Rightarrow>
          if rq_method r = m then dispatch env h r ep s
          else if m = ''GET'' \<and> rq_method r = ''HEAD'' then
            (case dispatch env h r ep s of (resp, s1) \<Rightarrow> (resp\<lparr>rs_body := None\<rparr>, s1))
          else (\<lparr>rs_code = StatusMethodNotAllowed, rs_body = None\<rparr>, s))"

end
