(* ===== verification/Http_Props.thy ===== *)
theory Http_Props
  imports Http_Api
begin

text \<open>
  The properties of the HTTP interface: every request is at most one operation on the lease
  store, and only an authenticated one; the answers to heartbeats and to the
  administrator's requests.
\<close>

subsection \<open>A request is at most one store operation\<close>

definition authentic_heartbeat :: "http_env \<Rightarrow> HTTPHandler \<Rightarrow> http_request \<Rightarrow> heartbeatRequest \<Rightarrow> bool" where
  "authentic_heartbeat env h r req \<longleftrightarrow>
     decode_body dec_heartbeatRequest r = Some req \<and>
     hr_NodeUUID req \<noteq> '''' \<and> hr_NodeIP req \<noteq> '''' \<and> hr_Timestamp req \<noteq> 0 \<and>
     ValidateTimestamp (hr_Timestamp req) (now_check env) \<and>
     rq_header r ''X-Hmac-Signature'' \<noteq> '''' \<and>
     Verify (hmacAuth h) (hr_NodeUUID req) (hr_NodeIP req) (hr_Timestamp req)
       (rq_header r ''X-Hmac-Signature'')"

fun endpoint_op :: "http_env \<Rightarrow> HTTPHandler \<Rightarrow> http_request \<Rightarrow> endpoint \<Rightarrow> store_op option" where
  "endpoint_op env h r EpHeartbeat =
     (case decode_body dec_heartbeatRequest r of
        None \<Rightarrow> None
      | Some req \<Rightarrow>
          if authentic_heartbeat env h r req
          then Some (OpHeartbeatByUUID (hr_NodeUUID req) (hr_NodeIP req) (hr_Hostname req)
            (now_store env) (leaseDuration h))
          else None)"
| "endpoint_op env h r (EpUnblock uuid) =
     (if authenticateAdmin h r \<and> uuid \<noteq> ''''
      then Some (OpUnblock uuid (now_store env) (leaseDuration h)) else None)"
| "endpoint_op env h r (EpMaintenance uuid) =
     (if authenticateAdmin h r \<and> uuid \<noteq> ''''
      then map_option (\<lambda>b. OpSetMaintenance uuid b (now_store env) (leaseDuration h))
        (decode_body dec_maintenance r)
      else None)"
| "endpoint_op env h r _ = None"

definition http_op :: "http_env \<Rightarrow> HTTPHandler \<Rightarrow> http_request \<Rightarrow> store_op option" where
  "http_op env h r =
     (case RegisterRoutes (rq_path r) of
        None \<Rightarrow> None
      | Some (m, ep) \<Rightarrow> if rq_method r = m then endpoint_op env h r ep else None)"

definition run_op :: "LeaseRecord iter \<Rightarrow> sys_io \<Rightarrow> store_op option \<Rightarrow> LeaseStore \<Rightarrow> LeaseStore" where
  "run_op it io op s = (case op of None \<Rightarrow> s | Some op \<Rightarrow> exec_call (it, io, op) s)"

lemma handleHeartbeat_store:
  "snd (handleHeartbeat env h r s) = run_op (http_iter env) (http_io env) (endpoint_op env h r EpHeartbeat) s"
  by (auto simp: handleHeartbeat_def authentic_heartbeat_def run_op_def exec_call_def snd_exec_op Let_def
      split: option.splits prod.splits if_splits)

lemma handleUnblockNode_store:
  "snd (handleUnblockNode env h r u s) = run_op (http_iter env) (http_io env) (endpoint_op env h r (EpUnblock u)) s"
  by (auto simp: handleUnblockNode_def run_op_def exec_call_def snd_exec_op
      split: option.splits prod.splits)

lemma handleSetMaintenance_store:
  "snd (handleSetMaintenance env h r u s) =
     run_op (http_iter env) (http_io env) (endpoint_op env h r (EpMaintenance u)) s"
  by (auto simp: handleSetMaintenance_def run_op_def exec_call_def snd_exec_op
      split: option.splits prod.splits)

lemma dispatch_store:
  "snd (dispatch env h r ep s) = run_op (http_iter env) (http_io env) (endpoint_op env h r ep) s"
  by (cases ep)
    (simp_all add: handleHeartbeat_store handleUnblockNode_store handleSetMaintenance_store run_op_def
      del: endpoint_op.simps, simp_all)

lemma get_routes_read_only: "RegisterRoutes p = Some (''GET'', ep) \<Longrightarrow> endpoint_op env h r ep = None"
  by (cases p rule: RegisterRoutes.cases) (auto split: if_splits)

lemma ServeHTTP_store:
  "snd (ServeHTTP env h r s) = run_op (http_iter env) (http_io env) (http_op env h r) s"
proof (cases "RegisterRoutes (rq_path r)")
  case None
  then show ?thesis by (simp add: ServeHTTP_def http_op_def run_op_def)
next
  case (Some p)
  obtain m ep where p: "p = (m, ep)" by fastforce
  have "m = ''GET'' \<Longrightarrow> snd (dispatch env h r ep s) = s"
    using get_routes_read_only [of "rq_path r" ep env h r] Some p by (simp add: dispatch_store run_op_def)
  then show ?thesis
    using Some p by (auto simp: ServeHTTP_def http_op_def dispatch_store run_op_def case_prod_unfold)
qed

lemma http_op_ok: "http_op env h r = Some op \<Longrightarrow> op_ok op"
proof -
  assume "http_op env h r = Some op"
  then obtain ep where "endpoint_op env h r ep = Some op"
    by (auto simp: http_op_def split: option.splits if_splits)
  then show ?thesis by (cases ep) (auto split: option.splits if_splits)
qed

subsection \<open>Authentication\<close>

text \<open>
  The administrator is authenticated by the configured token and by nothing else: the
  \<open>Authorization\<close> header is the token, with or without \<open>Bearer\<close> in front, and the token
  is not empty; an unset token authenticates nobody.
\<close>

lemma authenticateAdmin_exact:
  "authenticateAdmin h r \<longleftrightarrow>
     adminToken h \<noteq> '''' \<and>
     (rq_header r ''Authorization'' = ''Bearer '' @ adminToken h \<or>
      rq_header r ''Authorization'' = adminToken h \<and> \<not> HasPrefix (adminToken h) ''Bearer '')"
  unfolding authenticateAdmin_def Let_def TrimPrefix_eq_iff [symmetric] by auto

lemma http_op_cases:
  assumes "http_op env h r = Some op"
  shows "rq_method r = ''POST'' \<and>
    (rq_path r = [''heartbeat''] \<and> (\<exists>req. authentic_heartbeat env h r req \<and>
       op = OpHeartbeatByUUID (hr_NodeUUID req) (hr_NodeIP req) (hr_Hostname req) (now_store env) (leaseDuration h)) \<or>
     authenticateAdmin h r \<and> (\<exists>u. u \<noteq> '''' \<and>
       (rq_path r = [''admin'', ''nodes'', u, ''unblock''] \<and> op = OpUnblock u (now_store env) (leaseDuration h) \<or>
        rq_path r = [''admin'', ''nodes'', u, ''maintenance''] \<and>
          (\<exists>b. op = OpSetMaintenance u b (now_store env) (leaseDuration h)))))"
  using assms unfolding http_op_def
  by (cases "rq_path r" rule: RegisterRoutes.cases) (auto split: option.splits if_splits)

text \<open>
  C6: nothing but an authenticated request changes the lease store: if a request changed it,
  it was a \<open>POST\<close>, either of a heartbeat with a fresh timestamp and a valid signature, or of
  an unblock or maintenance change with the administrator's token. Everything else (unknown
  paths, wrong methods, unreadable bodies, missing fields, stale timestamps, bad signatures or
  tokens, identify and list requests) leaves the store as it is.
\<close>

theorem http_changes_authenticated:
  assumes "ServeHTTP env h r s = (resp, s')" and "s' \<noteq> s"
  shows "rq_method r = ''POST'' \<and>
    (rq_path r = [''heartbeat''] \<and> (\<exists>req. authentic_heartbeat env h r req) \<or>
     authenticateAdmin h r \<and> (\<exists>u action. rq_path r = [''admin'', ''nodes'', u, action] \<and>
       action \<in> {''unblock'', ''maintenance''}))"
proof -
  have "s' = run_op (http_iter env) (http_io env) (http_op env h r) s"
    using ServeHTTP_store [of env h r s] assms(1) by simp
  then obtain op where "http_op env h r = Some op"
    using assms(2) by (auto simp: run_op_def split: option.splits)
  from http_op_cases [OF this] show ?thesis by auto
qed

text \<open>A handler and requests for the concrete instances below.\<close>

definition demo_handler :: HTTPHandler where
  "demo_handler = NewHTTPHandler (NewHMACAuth ''secret'') ''token'' 5 (30 * second)"

definition demo_http_env :: "time \<Rightarrow> http_env" where
  "demo_http_env t = \<lparr>now_check = t, now_store = t, http_iter = sorted_iter, http_io = io_ok\<rparr>"

definition unblock_request :: "string \<Rightarrow> http_request" where
  "unblock_request u = \<lparr>rq_method = ''POST'', rq_path = [''admin'', ''nodes'', u, ''unblock''],
     rq_header = (\<lambda>k. if k = ''Authorization'' then ''Bearer token'' else ''''), rq_body = None\<rparr>"

lemma demo_admin: "authenticateAdmin demo_handler (unblock_request u)"
  by (simp add: authenticateAdmin_def TrimPrefix_def HasPrefix_def demo_handler_def NewHTTPHandler_def
      unblock_request_def)

lemma unblock_http_op:
  "u \<noteq> '''' \<Longrightarrow> http_op env demo_handler (unblock_request u) = Some (OpUnblock u (now_store env) 5)"
  using demo_admin [of u]
  by (simp add: http_op_def unblock_request_def demo_handler_def NewHTTPHandler_def)

theorem http_changes_authenticated_witness:
  "authenticateAdmin demo_handler (unblock_request ''node-1'')"
proof -
  let ?s = "demo_store (blocked_at demo_record 2000)"
  let ?run = "ServeHTTP (demo_http_env 3000) demo_handler (unblock_request ''node-1'') ?s"
  have "snd ?run = exec_call (sorted_iter, io_ok, OpUnblock ''node-1'' 3000 5) ?s"
    by (simp add: ServeHTTP_store unblock_http_op run_op_def demo_http_env_def)
  then have "map_option Status (fmlookup (nodes (snd ?run)) ''node-1'') = Some LeaseStatusActive"
    by (simp add: exec_call_def Unblock_nodes snd_exec_op renewed_def del: exec_op.simps)
  moreover have "map_option Status (fmlookup (nodes ?s) ''node-1'') = Some LeaseStatusBlocked" by simp
  ultimately have "snd ?run \<noteq> ?s" by auto
  with http_changes_authenticated [of "demo_http_env 3000" demo_handler "unblock_request ''node-1''" ?s
      "fst ?run" "snd ?run"]
  show ?thesis by (auto simp: unblock_request_def)
qed

subsection \<open>Request bodies\<close>

interpretation heartbeat_body: json_codec enc_heartbeatRequest dec_heartbeatRequest
proof unfold_locales
  fix r j
  assume "enc_heartbeatRequest r = Some j"
  moreover have "hr_Timestamp r = word_of_int (sint (hr_Timestamp r))" by simp
  ultimately show "dec_heartbeatRequest j = Some r"
    using in_int64_sint [of "hr_Timestamp r"]
    by (cases r) (auto simp: enc_heartbeatRequest_def dec_heartbeatRequest_def heartbeat_schema_def
        omit_def schema_field_def zero_heartbeat_def)
qed

interpretation identify_body: json_codec enc_identifyRequest dec_identifyRequest
proof unfold_locales
  fix r j
  assume "enc_identifyRequest r = Some j"
  then show "dec_identifyRequest j = Some r"
    using in_int64_sint [of "ir_Timestamp r"]
    by (cases r) (auto simp: enc_identifyRequest_def dec_identifyRequest_def identify_schema_def
        schema_field_def)
qed

subsection \<open>Heartbeats\<close>

lemma HeartbeatByUUID_result:
  assumes "HeartbeatByUUID it io u ip h t d s = ((r, e), s')"
  shows "if is_blocked (fmlookup (nodes s) u)
    then fmlookup (nodes s) u = Some r \<and> e = Some ErrLeaseBlocked \<and> s' = s
    else fmlookup (nodes s') u = Some r \<and> (\<exists>s1. persistLocked io s1 = (e, s'))"
proof (cases "fmlookup (nodes s) u")
  case None
  then show ?thesis
    using assms by (auto simp: HeartbeatByUUID_def Let_def dest: persist_pairD split: prod.splits)
next
  case (Some old)
  show ?thesis
  proof (cases "Status old = LeaseStatusBlocked")
    case True
    then show ?thesis using assms Some by (simp add: HeartbeatByUUID_def)
  next
    case False
    then show ?thesis
      using assms Some HeartbeatByUUID_nodes [of it io u ip h t d s u]
      by (auto simp: HeartbeatByUUID_def Let_def dest: persist_pairD split: prod.splits)
  qed
qed

lemma handleHeartbeat_authentic:
  assumes "authentic_heartbeat env h r req" and "io_sane (http_io env)"
    and "handleHeartbeat env h r s = (resp, s')"
  shows "if is_blocked (fmlookup (nodes s) (hr_NodeUUID req))
    then s' = s \<and> rs_code resp = StatusForbidden \<and>
      (\<exists>rec. fmlookup (nodes s) (hr_NodeUUID req) = Some rec \<and>
         rs_body resp = errorResponse ''node_blocked'' (BlockReason rec))
    else (\<forall>k. fmlookup (nodes s') k =
        node_step (OpHeartbeatByUUID (hr_NodeUUID req) (hr_NodeIP req) (hr_Hostname req)
          (now_store env) (leaseDuration h)) k (fmlookup (nodes s) k)) \<and>
      (rs_code resp = StatusOK \<and>
         rs_body resp = heartbeatResponse ''ok'' (trunc (Seconds (heartbeatInterval h))) \<or>
       rs_code resp = StatusInternalServerError \<and>
         \<not> (no_fault (http_io env) \<and> nodes_times_ok (nodes s')))"
proof -
  obtain rec e s1 where hb: "HeartbeatByUUID (http_iter env) (http_io env) (hr_NodeUUID req) (hr_NodeIP req)
      (hr_Hostname req) (now_store env) (leaseDuration h) s = ((rec, e), s1)" by (metis prod.exhaust)
  note result = HeartbeatByUUID_result [OF hb]
  note step = HeartbeatByUUID_nodes [of "http_iter env" "http_io env" "hr_NodeUUID req" "hr_NodeIP req"
      "hr_Hostname req" "now_store env" "leaseDuration h" s, unfolded hb snd_conv]
  show ?thesis
  proof (cases "is_blocked (fmlookup (nodes s) (hr_NodeUUID req))")
    case True
    then show ?thesis
      using result assms(1,3) hb
      by (auto simp: handleHeartbeat_def authentic_heartbeat_def writeJSON_def Let_def)
  next
    case False
    then obtain s0 where p: "persistLocked (http_io env) s0 = (e, s1)" using result by auto
    have "\<not> errors_Is x ErrLeaseBlocked" if "e = Some x" for x
      using persist_not_sentinel [OF assms(2), of s0 x s1] p that by blast
    moreover have "\<not> (no_fault (http_io env) \<and> nodes_times_ok (nodes s1))" if "e = Some x" for x
      using persist_error_reason [of "http_io env" s0 x s1] p that by simp
    ultimately show ?thesis
      using False assms(1,3) hb step
      by (cases e) (auto simp: handleHeartbeat_def authentic_heartbeat_def writeJSON_def Let_def)
  qed
qed

text \<open>
  C12: the answer to an authentic HTTP heartbeat. A blocked node gets 403 with the reason of
  its block and nothing changes. Any other node, known or not, expired or not, is made active
  with a fresh lease, exactly as the abstract machine says, and the answer is 200 with the
  configured interval, or 500 when the new state could not be persisted.
\<close>

theorem http_heartbeat_exact:
  assumes "authentic_heartbeat env h r req" and "rq_method r = ''POST''" and "rq_path r = [''heartbeat'']"
    and "io_sane (http_io env)" and "ServeHTTP env h r s = (resp, s')"
  shows "if is_blocked (fmlookup (nodes s) (hr_NodeUUID req))
    then s' = s \<and> rs_code resp = StatusForbidden \<and>
      (\<exists>rec. fmlookup (nodes s) (hr_NodeUUID req) = Some rec \<and>
         rs_body resp = errorResponse ''node_blocked'' (BlockReason rec))
    else (\<forall>k. fmlookup (nodes s') k =
        node_step (OpHeartbeatByUUID (hr_NodeUUID req) (hr_NodeIP req) (hr_Hostname req)
          (now_store env) (leaseDuration h)) k (fmlookup (nodes s) k)) \<and>
      (rs_code resp = StatusOK \<and>
         rs_body resp = heartbeatResponse ''ok'' (trunc (Seconds (heartbeatInterval h))) \<or>
       rs_code resp = StatusInternalServerError \<and>
         \<not> (no_fault (http_io env) \<and> nodes_times_ok (nodes s')))"
  using assms(5) handleHeartbeat_authentic [OF assms(1,4), of s resp s']
  by (simp add: ServeHTTP_def assms(2,3))

text \<open>The heartbeat an agent sends, and what makes it authentic.\<close>

definition signed_heartbeat :: "HMACAuth \<Rightarrow> heartbeatRequest \<Rightarrow> http_request" where
  "signed_heartbeat a req = \<lparr>rq_method = ''POST'', rq_path = [''heartbeat''],
     rq_header = (\<lambda>k. if k = ''X-Hmac-Signature''
       then Sign a (hr_NodeUUID req) (hr_NodeIP req) (hr_Timestamp req) else ''''),
     rq_body = enc_heartbeatRequest req\<rparr>"

lemma Sign_not_empty: "Sign a u ip t \<noteq> ''''"
proof -
  have "hmac_sha256 (key a) m \<noteq> []" for m using hmac.tag_length [of "key a" m] by auto
  then show ?thesis by (simp add: Sign_def Let_def)
qed

lemma SignIdentify_not_empty: "SignIdentify a ip t \<noteq> ''''"
proof -
  have "hmac_sha256 (key a) m \<noteq> []" for m using hmac.tag_length [of "key a" m] by auto
  then show ?thesis by (simp add: SignIdentify_def Let_def)
qed

lemma Verify_Sign: "Verify a u ip t (Sign a u ip t)"
  using hb.verify_sign_skew [of t t a "(u, ip)"] by simp

lemma signed_heartbeat_authentic:
  assumes "hr_NodeUUID req \<noteq> ''''" and "hr_NodeIP req \<noteq> ''''" and "hr_Timestamp req \<noteq> 0"
    and "ValidateTimestamp (hr_Timestamp req) (now_check env)"
  shows "authentic_heartbeat env h (signed_heartbeat (hmacAuth h) req) req"
proof -
  obtain j where j: "enc_heartbeatRequest req = Some j" by (simp add: enc_heartbeatRequest_def)
  then have "dec_heartbeatRequest j = Some req" by (rule heartbeat_body.dec_enc)
  then show ?thesis
    using assms j Sign_not_empty Verify_Sign
    by (simp add: authentic_heartbeat_def signed_heartbeat_def decode_body_def)
qed

definition demo_now :: time where
  "demo_now = (62135596800 + 1700000000) * second"

lemma demo_now_fresh: "ValidateTimestamp 1700000000 demo_now"
proof -
  have "Unix demo_now = 1700000000" by (simp add: Unix_def demo_now_def second_def)
  then show ?thesis by (simp add: ValidateTimestamp_def)
qed

definition demo_heartbeat :: heartbeatRequest where
  "demo_heartbeat = \<lparr>hr_NodeUUID = ''node-1'', hr_NodeIP = ''10.0.0.1'', hr_Hostname = '''',
     hr_Timestamp = 1700000000\<rparr>"

lemma demo_heartbeat_authentic:
  "authentic_heartbeat (demo_http_env demo_now) demo_handler
     (signed_heartbeat (hmacAuth demo_handler) demo_heartbeat) demo_heartbeat"
  by (rule signed_heartbeat_authentic)
    (simp_all add: demo_heartbeat_def demo_http_env_def demo_now_fresh)

theorem http_heartbeat_exact_witness:
  "rs_code (fst (ServeHTTP (demo_http_env demo_now) demo_handler
     (signed_heartbeat (hmacAuth demo_handler) demo_heartbeat)
     (demo_store (blocked_at demo_record 2000)))) = StatusForbidden"
proof -
  let ?r = "signed_heartbeat (hmacAuth demo_handler) demo_heartbeat"
  let ?run = "ServeHTTP (demo_http_env demo_now) demo_handler ?r (demo_store (blocked_at demo_record 2000))"
  show ?thesis
    using http_heartbeat_exact [OF demo_heartbeat_authentic, of "demo_store (blocked_at demo_record 2000)"
        "fst ?run" "snd ?run"]
    by (simp add: signed_heartbeat_def demo_http_env_def demo_heartbeat_def)
qed

subsection \<open>The list of nodes\<close>

text \<open>
  What an entry of the list says of a node: its identifier, address, status and maintenance
  flag, and the host name, the block reason and the four instants when they are set. Each
  member is the record's own value, and there is no other member.
\<close>

definition unless_unset :: "bool \<Rightarrow> json \<Rightarrow> json option" where
  "unless_unset unset v = (if unset then None else Some v)"

definition describes :: "string \<Rightarrow> LeaseRecord \<Rightarrow> json \<Rightarrow> bool" where
  "describes uuid r j \<longleftrightarrow>
     (\<exists>ms. j = JObj ms \<and> distinct (map fst ms) \<and>
        map_of ms ''uuid'' = Some (JStr uuid) \<and>
        map_of ms ''ip'' = Some (JStr (NodeIP r)) \<and>
        map_of ms ''status'' = Some (JStr (Status r)) \<and>
        map_of ms ''maintenance'' = Some (JBool (Maintenance r)) \<and>
        map_of ms ''hostname'' = unless_unset (Hostname r = '''') (JStr (Hostname r)) \<and>
        map_of ms ''block_reason'' = unless_unset (BlockReason r = '''') (JStr (BlockReason r)) \<and>
        map_of ms ''first_seen'' = unless_unset (FirstSeen r = 0) (JTime (FirstSeen r)) \<and>
        map_of ms ''last_heartbeat'' = unless_unset (LastHeartbeatAt r = 0) (JTime (LastHeartbeatAt r)) \<and>
        map_of ms ''blocked_at'' = unless_unset (BlockedAt r = 0) (JTime (BlockedAt r)) \<and>
        map_of ms ''maintenance_at'' = unless_unset (MaintenanceAt r = 0) (JTime (MaintenanceAt r)) \<and>
        fst ` set ms \<subseteq> {''uuid'', ''ip'', ''status'', ''maintenance'', ''hostname'', ''block_reason'',
          ''first_seen'', ''last_heartbeat'', ''blocked_at'', ''maintenance_at''})"

lemma map_of_omit:
  "map_of (omit unset name v @ ms) k = (if k = name \<and> \<not> unset then Some v else map_of ms k)"
  by (simp add: omit_def)

lemma keys_omit:
  "distinct (map fst (omit unset name v @ ms)) \<longleftrightarrow> (unset \<or> name \<notin> fst ` set ms) \<and> distinct (map fst ms)"
  "fst ` set (omit unset name v @ ms) = (if unset then {} else {name}) \<union> fst ` set ms"
  by (auto simp: omit_def)

lemma nodeResponse_describes:
  assumes "record_times_ok r"
  obtains j where "nodeResponse uuid r = Some j" "describes uuid r j"
proof -
  obtain j where j: "nodeResponse uuid r = Some j"
    using assms by (simp add: nodeResponse_def record_times_ok_def)
  moreover have "describes uuid r j"
  proof -
    from j assms obtain ms where j: "j = JObj ms" and ms: "ms =
        omit (FirstSeen r = 0) ''first_seen'' (JTime (FirstSeen r)) @
        omit (LastHeartbeatAt r = 0) ''last_heartbeat'' (JTime (LastHeartbeatAt r)) @
        omit (BlockedAt r = 0) ''blocked_at'' (JTime (BlockedAt r)) @
        omit (MaintenanceAt r = 0) ''maintenance_at'' (JTime (MaintenanceAt r)) @
        [(''uuid'', JStr uuid), (''ip'', JStr (NodeIP r))] @
        omit (Hostname r = '''') ''hostname'' (JStr (Hostname r)) @
        [(''status'', JStr (Status r))] @
        omit (BlockReason r = '''') ''block_reason'' (JStr (BlockReason r)) @
        [(''maintenance'', JBool (Maintenance r))]"
      by (simp add: nodeResponse_def record_times_ok_def IsZero_def)
    have "distinct (map fst ms)" unfolding ms
      by (simp add: keys_omit del: map_append set_append distinct_append)
    moreover have "fst ` set ms \<subseteq> {''uuid'', ''ip'', ''status'', ''maintenance'', ''hostname'', ''block_reason'',
          ''first_seen'', ''last_heartbeat'', ''blocked_at'', ''maintenance_at''}"
      unfolding ms by (simp add: keys_omit del: set_append)
    ultimately show ?thesis
      unfolding describes_def j
      by (intro exI [of _ ms] conjI) (simp_all add: ms map_of_omit unless_unset_def del: map_of_append map_append set_append)
  qed
  ultimately show thesis by (rule that)
qed

lemma node_list_describes:
  assumes "\<And>k. k \<in> set ks \<Longrightarrow> \<exists>r. fmlookup m k = Some r \<and> record_times_ok r"
  shows "\<exists>js. node_list ks m = Some js \<and> list_all2 (\<lambda>k j. describes k (the (fmlookup m k)) j) ks js"
  using assms
proof (induction ks)
  case (Cons k ks)
  then obtain r js where r: "fmlookup m k = Some r" "record_times_ok r"
    and js: "node_list ks m = Some js" "list_all2 (\<lambda>k j. describes k (the (fmlookup m k)) j) ks js"
    by (metis list.set_intros)
  from r(2) show ?case
    by (rule nodeResponse_describes [of r k]) (use r(1) js in auto)
qed simp

text \<open>
  C34: the administrator's list is complete and exact: an authenticated list request gets one
  entry for every node of the store, and no other, in some order, and each entry says of its
  node exactly what the record says: identifier, address, status, maintenance flag, and the
  host name, block reason and instants that are set. Listing changes nothing. (The instants
  of the store must be ones that JSON can express, years 0 to 9999; otherwise the body
  cannot be encoded.)
\<close>

theorem list_complete:
  assumes "valid_iter (http_iter env)" and "authenticateAdmin h r" and "nodes_times_ok (nodes s)"
    and "rq_method r = ''GET''" and "rq_path r = [''admin'', ''nodes'']"
  shows "\<exists>ks js. distinct ks \<and> set ks = fset (fmdom (nodes s)) \<and>
    ServeHTTP env h r s = (\<lparr>rs_code = 200, rs_body = Some (JArr js)\<rparr>, s) \<and>
    list_all2 (\<lambda>k j. describes k (the (fmlookup (nodes s) k)) j) ks js"
proof -
  let ?ks = "http_iter env (nodes s)"
  have ks: "distinct ?ks" "set ?ks = fset (fmdom (nodes s))"
    using assms(1) by (simp_all add: valid_iter_def)
  have "\<exists>rec. fmlookup (nodes s) k = Some rec \<and> record_times_ok rec" if "k \<in> set ?ks" for k
    using that assms(1,3) map_range.visited_lookup [of "http_iter env" k "nodes s"]
    by (auto simp: map_range_iff nodes_times_ok_iff)
  then obtain js where "node_list ?ks (nodes s) = Some js"
      "list_all2 (\<lambda>k j. describes k (the (fmlookup (nodes s) k)) j) ?ks js"
    using node_list_describes [of ?ks "nodes s"] by blast
  moreover from this(1) have "ServeHTTP env h r s = (\<lparr>rs_code = 200, rs_body = Some (JArr js)\<rparr>, s)"
    using assms(2,4,5) by (simp add: ServeHTTP_def handleListNodes_def ListAll_def writeJSON_def StatusOK_def)
  ultimately show ?thesis using ks by blast
qed

theorem list_complete_witness:
  "\<exists>j. ServeHTTP (demo_http_env 3000) demo_handler
       ((unblock_request '''')\<lparr>rq_method := ''GET'', rq_path := [''admin'', ''nodes'']\<rparr>) (demo_store demo_record) =
     (\<lparr>rs_code = 200, rs_body = Some (JArr [j])\<rparr>, demo_store demo_record) \<and> describes ''node-1'' demo_record j"
proof -
  let ?r = "(unblock_request '''')\<lparr>rq_method := ''GET'', rq_path := [''admin'', ''nodes'']\<rparr>"
  have "authenticateAdmin demo_handler ?r"
    using demo_admin [of "''''"] by (simp add: authenticateAdmin_def)
  moreover note demo_times_ok
  moreover have "valid_iter (http_iter (demo_http_env 3000))" by (simp add: demo_http_env_def)
  ultimately obtain ks js where ks: "distinct ks" "set ks = {''node-1''}"
    and run: "ServeHTTP (demo_http_env 3000) demo_handler ?r (demo_store demo_record) =
      (\<lparr>rs_code = 200, rs_body = Some (JArr js)\<rparr>, demo_store demo_record)"
    and js: "list_all2 (\<lambda>k j. describes k (the (fmlookup (nodes (demo_store demo_record)) k)) j) ks js"
    using list_complete [of "demo_http_env 3000" demo_handler ?r "demo_store demo_record"] by auto
  have "ks = [''node-1'']" using ks by (cases ks; cases "tl ks") auto
  with run js show ?thesis by (auto simp: list_all2_Cons1)
qed

end
