(* ===== verification/Deadman.thy ===== *)
theory Deadman
  imports Lease_Store_Props
begin

text \<open>
  The dead-man's switch of \<open>src/pkg/server/deadman.go\<close>: one check cycle and the
  background loop.

  The switch shares its lease store with the request handlers, so the store is passed and
  returned. A component's \<open>metrics\<close> field holds the calls it makes on the collectors it
  writes; the switch is the only writer of the timeout counter, the store the only writer of
  the gauges and of the store-error counter, so the two logs are disjoint parts of the one
  \<open>*Metrics\<close> object. The warnings of the \<open>[SECURITY]\<close> log line are returned.
\<close>

subsection \<open>The switch\<close>

record DeadManSwitch =
  switch_metrics :: metrics
  checkInterval :: duration
  heartbeatTimeout :: duration

definition NewDeadManSwitch :: "metrics \<Rightarrow> duration \<Rightarrow> duration \<Rightarrow> DeadManSwitch" where
  "NewDeadManSwitch ms interval timeout =
     \<lparr>switch_metrics = ms, checkInterval = interval, heartbeatTimeout = timeout\<rparr>"

text \<open>What one log line reports: node, address and length of the silence.\<close>

type_synonym warning = "string \<times> string \<times> duration"

text \<open>
  One tick: the clock readings of the cycle (the first decides who is blocked, the later
  ones only appear in the log), the iteration order and what the operating system answers.
\<close>

record tick =
  tick_now :: time
  tick_log_now :: "nat \<Rightarrow> time"
  tick_iter :: "LeaseRecord iter"
  tick_io :: sys_io

fun warn_loop :: "LeaseRecord gomap \<Rightarrow> (nat \<Rightarrow> time) \<Rightarrow> nat \<Rightarrow> string list \<Rightarrow> warning list" where
  "warn_loop m clock i [] = []"
| "warn_loop m clock i (nodeUUID # rest) =
     (let record = (case fmlookup m nodeUUID of Some r \<Rightarrow> r | None \<Rightarrow> zeroRecord)
      in (nodeUUID, NodeIP record, Sub (clock i) (LastHeartbeatAt record)) #
         warn_loop m clock (Suc i) rest)"

definition Check ::
  "tick \<Rightarrow> DeadManSwitch \<Rightarrow> LeaseStore \<Rightarrow> warning list \<times> DeadManSwitch \<times> LeaseStore" where
  "Check t d s =
     (let (blocked, s1) = BlockExpiredNodes (tick_iter t) (tick_io t) (tick_now t) (heartbeatTimeout d) s
      in if length blocked = 0 then ([], d, s1)
         else
           (let d1 = d\<lparr>switch_metrics := incHeartbeatTimeouts (switch_metrics d) (length blocked)\<rparr>;
                nodes = ListAll s1
            in (warn_loop nodes (tick_log_now t) 0 blocked, d1, s1)))"

text \<open>
  The loop receives either the end of the context or a tick; the list is what it receives,
  in order. \<open>time.NewTicker\<close> panics on an interval that is not positive. A list that ends
  before \<open>CtxDone\<close> leaves the loop waiting.
\<close>

datatype signal = CtxDone | Tick tick

datatype run_result = Panics string | Waits | Returns

fun run_loop ::
  "signal list \<Rightarrow> DeadManSwitch \<Rightarrow> LeaseStore \<Rightarrow> run_result \<times> DeadManSwitch \<times> LeaseStore" where
  "run_loop [] d s = (Waits, d, s)"
| "run_loop (CtxDone # sigs) d s = (Returns, d, s)"
| "run_loop (Tick t # sigs) d s = (case Check t d s of (_, d', s') \<Rightarrow> run_loop sigs d' s')"

definition Run ::
  "signal list \<Rightarrow> DeadManSwitch \<Rightarrow> LeaseStore \<Rightarrow> run_result \<times> DeadManSwitch \<times> LeaseStore" where
  "Run sigs d s =
     (if checkInterval d \<le> 0 then (Panics ''non-positive interval for NewTicker'', d, s)
      else run_loop sigs d s)"

subsection \<open>Lemmas\<close>

definition tick_call :: "duration \<Rightarrow> tick \<Rightarrow> store_call" where
  "tick_call timeout t = (tick_iter t, tick_io t, OpBlockExpiredNodes (tick_now t) timeout)"

lemma Check_store: "snd (snd (Check t d s)) = exec_call (tick_call (heartbeatTimeout d) t) s"
  by (simp add: Check_def tick_call_def exec_call_def Let_def split: prod.splits)

lemma Check_nodes:
  assumes "valid_iter (tick_iter t)" and "Check t d s = (ws, d', s')"
  shows "fmlookup (nodes s') k =
    node_step (OpBlockExpiredNodes (tick_now t) (heartbeatTimeout d)) k (fmlookup (nodes s) k)"
proof -
  have range: "lease_range (tick_iter t)" using assms(1) by (simp add: lease_range_iff)
  have "s' = exec_call (tick_call (heartbeatTimeout d) t) s" using Check_store [of t d s] assms(2) by simp
  then show ?thesis
    using lease_range.BlockExpiredNodes_nodes [OF range, of "tick_io t" "tick_now t" "heartbeatTimeout d" s k]
    by (simp add: exec_call_def tick_call_def snd_exec_op del: exec_op.simps)
qed

lemma Check_switch:
  "heartbeatTimeout (fst (snd (Check t d s))) = heartbeatTimeout d"
  "checkInterval (fst (snd (Check t d s))) = checkInterval d"
  by (simp_all add: Check_def Let_def split: prod.splits)

text \<open>The ticks the loop handles: those before the context ends.\<close>

fun handled :: "signal list \<Rightarrow> tick list" where
  "handled [] = []"
| "handled (CtxDone # sigs) = []"
| "handled (Tick t # sigs) = t # handled sigs"

lemma run_loop_store:
  "snd (snd (run_loop sigs d s)) = fold exec_call (map (tick_call (heartbeatTimeout d)) (handled sigs)) s"
proof (induction sigs arbitrary: d s rule: handled.induct)
  case (3 t sigs)
  then show ?case
    using Check_store [of t d s] Check_switch [of t d s]
    by (simp add: case_prod_unfold)
qed simp_all

lemma tick_calls_ok:
  "list_all (\<lambda>t. valid_iter (tick_iter t)) ts \<Longrightarrow> list_all call_ok (map (tick_call timeout) ts)"
  by (induction ts) (auto simp: call_ok_def tick_call_def)

text \<open>The timeout counter is the sum of what was added to it.\<close>

fun timeouts_total :: "metric_event list \<Rightarrow> nat" where
  "timeouts_total [] = 0"
| "timeouts_total (HeartbeatTimeouts n # es) = n + timeouts_total es"
| "timeouts_total (_ # es) = timeouts_total es"

lemma timeouts_total_append: "timeouts_total (es @ fs) = timeouts_total es + timeouts_total fs"
  by (induction es rule: timeouts_total.induct) auto

definition blocked_nodes :: "LeaseStore \<Rightarrow> string set" where
  "blocked_nodes s = {k. is_blocked (fmlookup (nodes s) k)}"

lemma blocked_nodes_finite [simp]: "finite (blocked_nodes s)"
  using nodes_where_finite [of "nodes s" "\<lambda>r. Status r = LeaseStatusBlocked"]
  by (simp add: blocked_nodes_def nodes_where_def is_blocked_iff)

lemma length_warn_loop [simp]: "length (warn_loop m clock i ks) = length ks"
  by (induction ks arbitrary: i) (auto simp: Let_def)

lemma warn_loop_nodes: "map fst (warn_loop m clock i ks) = ks"
  by (induction ks arbitrary: i) (auto simp: Let_def)

lemma is_blocked_check:
  "is_blocked (node_step (OpBlockExpiredNodes t d) k old) \<longleftrightarrow>
     is_blocked old \<or> (\<exists>r. old = Some r \<and> overdue r t d)"
  by (cases old) auto

lemma Check_blocks:
  assumes "valid_iter (tick_iter t)"
  shows "blocked_nodes (snd (snd (Check t d s))) =
      blocked_nodes s \<union> set (map fst (fst (Check t d s)))"
    and "blocked_nodes s \<inter> set (map fst (fst (Check t d s))) = {}"
    and "distinct (map fst (fst (Check t d s)))"
proof -
  have range: "lease_range (tick_iter t)" using assms by (simp add: lease_range_iff)
  let ?b = "BlockExpiredNodes (tick_iter t) (tick_io t) (tick_now t) (heartbeatTimeout d) s"
  have w: "map fst (fst (Check t d s)) = fst ?b" and s: "snd (snd (Check t d s)) = snd ?b"
    by (auto simp: Check_def Let_def warn_loop_nodes split: prod.splits)
  show "distinct (map fst (fst (Check t d s)))"
    unfolding w by (rule lease_range.BlockExpiredNodes_distinct [OF range])
  show "blocked_nodes s \<inter> set (map fst (fst (Check t d s))) = {}"
    unfolding w by (auto simp: lease_range.BlockExpiredNodes_mem [OF range] blocked_nodes_def overdue_def)
  show "blocked_nodes (snd (snd (Check t d s))) =
      blocked_nodes s \<union> set (map fst (fst (Check t d s)))"
    unfolding w s blocked_nodes_def lease_range.BlockExpiredNodes_nodes [OF range] is_blocked_check
    by (auto simp: lease_range.BlockExpiredNodes_mem [OF range])
qed

lemma Check_metrics:
  assumes "switch_metrics d = Some log"
  shows "\<exists>log'. switch_metrics (fst (snd (Check t d s))) = Some log' \<and>
    timeouts_total log' = timeouts_total log + length (fst (Check t d s))"
  using assms
  by (auto simp: Check_def Let_def incHeartbeatTimeouts_def timeouts_total_append split: prod.splits)

text \<open>What a sequence of cycles makes of one record.\<close>

lemma checks_record:
  assumes "Status r \<noteq> LeaseStatusBlocked"
  shows "fold (\<lambda>t. node_step (OpBlockExpiredNodes (tick_now t) timeout) u) (ts :: tick list) (Some r) =
    (case find (\<lambda>t. overdue r (tick_now t) timeout) ts of
       None \<Rightarrow> Some r | Some t \<Rightarrow> Some (blocked_at r (tick_now t)))"
proof -
  define f where "f t = node_step (OpBlockExpiredNodes (tick_now t) timeout) u" for t :: tick
  have live: "f t (Some r) =
      Some (if overdue r (tick_now t) timeout then blocked_at r (tick_now t) else r)" for t
    by (simp add: f_def)
  have "f t (Some (blocked_at r t')) = Some (blocked_at r t')" for t t'
    by (simp add: f_def overdue_def)
  then have stays: "fold f ts (Some (blocked_at r t')) = Some (blocked_at r t')" for ts t'
    by (induction ts) auto
  have "fold f ts (Some r) = (case find (\<lambda>t. overdue r (tick_now t) timeout) ts of
       None \<Rightarrow> Some r | Some t \<Rightarrow> Some (blocked_at r (tick_now t)))"
    by (induction ts) (auto simp: live stays)
  then show ?thesis unfolding f_def [abs_def] .
qed

subsection \<open>Properties\<close>

text \<open>
  C7: the background loop decides the fate of a node exactly. Left alone, a node that is not
  blocked is blocked by the first tick at which it is active, out of maintenance, known to
  have sent a heartbeat and silent for more than the timeout, with that tick's time and the
  reason \<open>heartbeat_timeout\<close>; if no tick handled before the context ends is such a tick,
  its record is unchanged.
\<close>

theorem Run_blocks_exactly_silent:
  assumes "store_inv s" and "0 < checkInterval d"
    and "list_all (\<lambda>t. valid_iter (tick_iter t)) (handled sigs)"
    and "fmlookup (nodes s) u = Some r" and "Status r \<noteq> LeaseStatusBlocked"
    and "Run sigs d s = (res, d', s')"
  shows "fmlookup (nodes s') u =
    (case find (\<lambda>t. overdue r (tick_now t) (heartbeatTimeout d)) (handled sigs) of
       None \<Rightarrow> Some r
     | Some t \<Rightarrow> Some (r\<lparr>Status := LeaseStatusBlocked, BlockedAt := tick_now t,
         BlockReason := ''heartbeat_timeout''\<rparr>))"
proof -
  let ?calls = "map (tick_call (heartbeatTimeout d)) (handled sigs)"
  have s': "s' = fold exec_call ?calls s"
    using assms(2,6) run_loop_store [of sigs d s] by (simp add: Run_def)
  have "fmlookup (nodes s') u = fold (\<lambda>c. node_step (snd (snd c)) u) ?calls (fmlookup (nodes s) u)"
    unfolding s' using assms(1,3) by (intro store.run_refines tick_calls_ok)
  also have "\<dots> = fold (\<lambda>t. node_step (OpBlockExpiredNodes (tick_now t) (heartbeatTimeout d)) u)
      (handled sigs) (Some r)"
    by (simp add: fold_map comp_def tick_call_def assms(4))
  finally show ?thesis unfolding checks_record [OF assms(5)] blocked_at_def .
qed

theorem Run_blocks_exactly_silent_witness:
  "let t = \<lparr>tick_now = 2000, tick_log_now = \<lambda>_. 2000, tick_iter = sorted_iter, tick_io = io_ok\<rparr> in
   fmlookup (nodes (snd (snd (Run [Tick t, CtxDone] (NewDeadManSwitch None 10 500) (demo_store demo_record)))))
     ''node-1'' = Some (demo_record\<lparr>Status := LeaseStatusBlocked, BlockedAt := 2000,
         BlockReason := ''heartbeat_timeout''\<rparr>)"
proof -
  let ?t = "\<lparr>tick_now = 2000, tick_log_now = \<lambda>_. 2000, tick_iter = sorted_iter, tick_io = io_ok\<rparr>"
  let ?run = "Run [Tick ?t, CtxDone] (NewDeadManSwitch None 10 500) (demo_store demo_record)"
  have "overdue demo_record 2000 500" by (simp add: overdue_def Sub_def int64_defs)
  then show ?thesis
    using Run_blocks_exactly_silent [of "demo_store demo_record" "NewDeadManSwitch None 10 500"
        "[Tick ?t, CtxDone]" "''node-1''" demo_record "fst ?run" "fst (snd ?run)" "snd (snd ?run)"]
    by (simp add: NewDeadManSwitch_def)
qed

text \<open>
  The counter of heartbeat timeouts is exact: over a run of the loop it grows by the
  number of nodes that are blocked at the end and were not at the start, and no node blocked
  at the start is released.
\<close>

lemma Run_counts_timeouts:
  assumes "switch_metrics d = Some log"
    and "list_all (\<lambda>t. valid_iter (tick_iter t)) (handled sigs)"
    and "Run sigs d s = (res, d', s')"
  shows "blocked_nodes s \<subseteq> blocked_nodes s' \<and>
    (\<exists>log'. switch_metrics d' = Some log' \<and>
       timeouts_total log' = timeouts_total log + card (blocked_nodes s' - blocked_nodes s))"
proof (cases "checkInterval d \<le> 0")
  case True
  then show ?thesis using assms by (simp add: Run_def)
next
  case False
  with assms(3) have "run_loop sigs d s = (res, d', s')" by (simp add: Run_def)
  then show ?thesis using assms(1,2)
  proof (induction sigs arbitrary: d s log rule: handled.induct)
    case (3 t sigs)
    obtain ws d1 s1 where c: "Check t d s = (ws, d1, s1)" by (metis prod.exhaust)
    have valid: "valid_iter (tick_iter t)" using "3.prems"(3) by simp
    note b = Check_blocks [OF valid, where d = d and s = s, unfolded c, simplified]
    obtain log1 where log1: "switch_metrics d1 = Some log1"
        "timeouts_total log1 = timeouts_total log + length ws"
      using Check_metrics [OF "3.prems"(2), of t s] c by auto
    have ws: "length ws = card (blocked_nodes s1 - blocked_nodes s)"
    proof -
      have "blocked_nodes s1 - blocked_nodes s = set (map fst ws)" using b by auto
      then show ?thesis using b(3) by (metis distinct_card length_map)
    qed
    obtain log' where rest: "blocked_nodes s1 \<subseteq> blocked_nodes s'" "switch_metrics d' = Some log'"
        "timeouts_total log' = timeouts_total log1 + card (blocked_nodes s' - blocked_nodes s1)"
      using "3.IH" [OF _ log1(1)] "3.prems" c by auto
    have "blocked_nodes s \<subseteq> blocked_nodes s1" using b by auto
    moreover have "card (blocked_nodes s' - blocked_nodes s) =
        card (blocked_nodes s' - blocked_nodes s1) + card (blocked_nodes s1 - blocked_nodes s)"
      using rest(1) calculation
      by (subst card_Un_disjoint [symmetric]) (auto intro: arg_cong [where f = card])
    ultimately show ?case using rest log1(2) ws by auto
  qed auto
qed

text \<open>
  C36: the loop ends only with its context, and the check interval is used as it is: one that
  is zero or negative makes the switch panic before its first cycle.
\<close>

theorem Run_outcome:
  "fst (Run sigs (NewDeadManSwitch ms interval timeout) s) =
     (if interval \<le> 0 then Panics ''non-positive interval for NewTicker''
      else if CtxDone \<in> set sigs then Returns else Waits)"
proof -
  have "fst (run_loop sigs d s) = (if CtxDone \<in> set sigs then Returns else Waits)" for d s
    by (induction sigs arbitrary: d s rule: handled.induct) (auto simp: case_prod_unfold)
  then show ?thesis by (simp add: Run_def NewDeadManSwitch_def)
qed

end
