(* ===== verification/Service.thy ===== *)
theory Service
  imports Kms_Server_Props Http_Props Deadman
begin

text \<open>
  The running service: the gRPC server, the HTTP interface and the dead-man's switch work
  concurrently on one lease store (\<open>run\<close> in \<open>src/cmd/kms-server/main.go\<close> starts them
  side by side). A method of the store is atomic, since it holds the store's mutex, but
  \<open>Unseal\<close> calls two of them: it validates the lease, decrypts, and then bootstraps the
  lease, and other requests may run in between. So an unseal is two steps here, and the
  state holds the calls that have passed the lease check and not yet returned.
\<close>

subsection \<open>States and events\<close>

record service =
  sv_store :: LeaseStore
  sv_pending :: "(rpc_env \<times> rpc_ctx \<times> Request) list"

datatype svc_event =
    UnsealPasses string
  | UnsealDenied string rpc_error
  | UnsealEnds string "rpc_error + Response"
  | HeartbeatCall "rpc_error + Response"
  | HttpCall http_env http_request http_response
  | CheckCycle "warning list"

definition env_ok :: "rpc_env \<Rightarrow> bool" where
  "env_ok env \<longleftrightarrow>
     valid_iter (iter_validate env) \<and> valid_iter (iter_lease env) \<and>
     io_sane (io_validate env) \<and> io_sane (io_lease env)"

inductive svc_step :: "Server \<Rightarrow> HTTPHandler \<Rightarrow> DeadManSwitch \<Rightarrow> service \<Rightarrow> svc_event \<Rightarrow> service \<Rightarrow> bool"
  for srv h d where
  unseal_passes:
    "env_ok env \<Longrightarrow> ctx_err ctx = None \<Longrightarrow> validateNodeUUID (Some r) = None \<Longrightarrow>
     validateLease env srv (NodeUuid r) (sv_store st) = (None, s1) \<Longrightarrow>
     svc_step srv h d st (UnsealPasses (NodeUuid r))
       \<lparr>sv_store = s1, sv_pending = (env, ctx, r) # sv_pending st\<rparr>"
| unseal_denied_step:
    "env_ok env \<Longrightarrow> ctx_err (ctx :: rpc_ctx) = None \<Longrightarrow> validateNodeUUID (Some r) = None \<Longrightarrow>
     validateLease env srv (NodeUuid r) (sv_store st) = (Some e, s1) \<Longrightarrow>
     svc_step srv h d st (UnsealDenied (NodeUuid r) e) (st\<lparr>sv_store := s1\<rparr>)"
| unseal_ends:
    "sv_pending st = ps @ (env, ctx, r) # qs \<Longrightarrow> env_ok env \<Longrightarrow>
     unsealData env ctx r srv (sv_store st) = (res, s1) \<Longrightarrow>
     svc_step srv h d st (UnsealEnds (NodeUuid r) res) \<lparr>sv_store = s1, sv_pending = ps @ qs\<rparr>"
| heartbeat_call:
    "env_ok env \<Longrightarrow> peerIPFromContext ctx \<noteq> Inr '''' \<Longrightarrow>
     Heartbeat_body env ctx srv (sv_store st) = (res, s1) \<Longrightarrow>
     svc_step srv h d st (HeartbeatCall res) (st\<lparr>sv_store := s1\<rparr>)"
| http_call:
    "valid_iter (http_iter henv) \<Longrightarrow> ServeHTTP henv h rq (sv_store st) = (resp, s1) \<Longrightarrow>
     svc_step srv h d st (HttpCall henv rq resp) (st\<lparr>sv_store := s1\<rparr>)"
| check_cycle:
    "valid_iter (tick_iter t) \<Longrightarrow> Check t d (sv_store st) = (ws, d', s1) \<Longrightarrow>
     svc_step srv h d st (CheckCycle ws) (st\<lparr>sv_store := s1\<rparr>)"

inductive_cases svc_stepE: "svc_step srv h d st ev st'"

inductive svc_run :: "Server \<Rightarrow> HTTPHandler \<Rightarrow> DeadManSwitch \<Rightarrow> service \<Rightarrow> svc_event list \<Rightarrow> service \<Rightarrow> bool"
  for srv h d where
  run_start: "svc_run srv h d st [] st"
| run_step:
    "svc_run srv h d st evs st1 \<Longrightarrow> svc_step srv h d st1 ev st2 \<Longrightarrow>
     svc_run srv h d st (evs @ [ev]) st2"

subsection \<open>Every step is at most one store call\<close>

lemma validateLease_store:
  "snd (validateLease env srv u s) =
     (if leaseEnabled srv then exec_call (iter_validate env, io_validate env, OpValidate u (now_validate env)) s
      else s)"
  by (auto simp: validateLease_def exec_call_def split: prod.splits option.splits)

lemma unsealData_store:
  assumes "unsealData env ctx r srv s = (res, s')"
  shows "s' = s \<or> (\<exists>ip. s' = exec_call (iter_lease env, io_lease env,
    OpBootstrap (NodeUuid r) ip (now_lease env) (leaseWindow srv)) s)"
  using assms
  by (auto simp: unsealData_def unsealLease_def exec_call_def snd_exec_op simp del: exec_op.simps
      split: sum.splits if_splits prod.splits option.splits) (metis snd_conv)+

lemma Heartbeat_body_store:
  assumes "Heartbeat_body env ctx srv s = (res, s')"
  shows "s' = s \<or> (\<exists>ip. peerIPFromContext ctx = Inr ip \<and>
    s' = exec_call (iter_lease env, io_lease env, OpHeartbeatByIP ip (now_lease env) (leaseWindow srv)) s)"
  using assms
  by (auto simp: Heartbeat_body_def exec_call_def split: sum.splits if_splits prod.splits option.splits)

text \<open>Which events may carry an operation that releases a blocked node.\<close>

fun may_release :: "HTTPHandler \<Rightarrow> string \<Rightarrow> svc_event \<Rightarrow> bool" where
  "may_release h u (UnsealEnds u' res) = (u' = u)"
| "may_release h u (HttpCall henv rq resp) =
     (\<exists>t l. http_op henv h rq = Some (OpUnblock u t l))"
| "may_release h u _ = False"

text \<open>Only a check cycle blocks.\<close>

fun blocks :: "store_op \<Rightarrow> bool" where
  "blocks (OpBlockExpiredNodes t timeout) = True"
| "blocks _ = False"

text \<open>Operations that only HTTP requests carry.\<close>

fun by_http :: "store_op \<Rightarrow> bool" where
  "by_http (OpHeartbeatByUUID u ip hn t d) = True"
| "by_http (OpUnblock u t d) = True"
| "by_http (OpSetMaintenance u b t d) = True"
| "by_http _ = False"

fun over_http :: "svc_event \<Rightarrow> bool" where
  "over_http (HttpCall henv rq resp) = True"
| "over_http _ = False"

definition event_call :: "HTTPHandler \<Rightarrow> svc_event \<Rightarrow> store_call \<Rightarrow> bool" where
  "event_call h ev c \<longleftrightarrow>
     call_ok c \<and> (\<forall>u. releases u (snd (snd c)) \<longrightarrow> may_release h u ev) \<and>
     (blocks (snd (snd c)) \<longrightarrow> (\<exists>ws. ev = CheckCycle ws)) \<and>
     (by_http (snd (snd c)) \<longrightarrow> over_http ev)"

lemma svc_step_call:
  assumes "svc_step srv h d st ev st'"
  shows "sv_store st' = sv_store st \<or>
    (\<exists>c. event_call h ev c \<and> sv_store st' = exec_call c (sv_store st))"
  using assms
proof (cases rule: svc_step.cases)
  case (unseal_passes env ctx r s1)
  then show ?thesis
    using validateLease_store [of env srv "NodeUuid r" "sv_store st"]
    by (force simp: event_call_def call_ok_def env_ok_def split: if_splits)
next
  case (unseal_denied_step env ctx r e s1)
  then show ?thesis
    using validateLease_store [of env srv "NodeUuid r" "sv_store st"]
    by (force simp: event_call_def call_ok_def env_ok_def split: if_splits)
next
  case (unseal_ends ps env ctx r qs res s1)
  then show ?thesis
    using unsealData_store [of env ctx r srv "sv_store st" res s1]
    by (force simp: event_call_def call_ok_def env_ok_def)
next
  case (heartbeat_call env ctx res s1)
  then show ?thesis
    using Heartbeat_body_store [of env ctx srv "sv_store st" res s1]
    by (force simp: event_call_def call_ok_def env_ok_def)
next
  case (http_call henv rq resp s1)
  have s1: "s1 = run_op (http_iter henv) (http_io henv) (http_op henv h rq) (sv_store st)"
    using ServeHTTP_store [of henv h rq "sv_store st"] http_call by simp
  show ?thesis
  proof (cases "http_op henv h rq")
    case None
    then show ?thesis using s1 http_call by (simp add: run_op_def)
  next
    case (Some op)
    then have "releases u op \<longrightarrow> (\<exists>t l. op = OpUnblock u t l)" "\<not> blocks op" for u
      using http_op_cases [OF Some] by auto
    then show ?thesis
      using Some s1 http_call http_op_ok [OF Some]
      by (intro disjI2 exI [of _ "(http_iter henv, http_io henv, op)"])
        (auto simp: run_op_def event_call_def call_ok_def)
  qed
next
  case (check_cycle t ws d' s1)
  then show ?thesis
    using Check_store [of t d "sv_store st"]
    by (intro disjI2 exI [of _ "tick_call (heartbeatTimeout d) t"]) (auto simp: event_call_def call_ok_def tick_call_def)
qed

subsection \<open>Invariants of runs\<close>

lemma svc_step_inv:
  assumes "svc_step srv h d st ev st'" and "store_inv (sv_store st)"
  shows "store_inv (sv_store st')"
  using svc_step_call [OF assms(1)] assms(2) store.keeps_inv by (auto simp: event_call_def)

lemma svc_run_inv:
  assumes "svc_run srv h d st evs st'" and "store_inv (sv_store st)"
  shows "store_inv (sv_store st')"
  using assms by (induction rule: svc_run.induct) (auto intro: svc_step_inv)

lemma svc_step_node:
  assumes "svc_step srv h d st ev st'" and "store_inv (sv_store st)"
  obtains "sv_store st' = sv_store st"
  | c where "event_call h ev c"
      "\<And>u. fmlookup (nodes (sv_store st')) u = node_step (snd (snd c)) u (fmlookup (nodes (sv_store st)) u)"
proof -
  have "fmlookup (nodes (exec_call c (sv_store st))) u = node_step (snd (snd c)) u (fmlookup (nodes (sv_store st)) u)"
    if "event_call h ev c" for c u
    using store.refines [OF assms(2)] that by (simp add: event_call_def)
  then show thesis using svc_step_call [OF assms(1)] that by metis
qed

lemma svc_step_blocked:
  assumes "svc_step srv h d st ev st'" and "store_inv (sv_store st)"
    and "is_blocked (fmlookup (nodes (sv_store st)) u)" and "\<not> may_release h u ev"
  shows "is_blocked (fmlookup (nodes (sv_store st')) u)"
  using assms(1,2)
proof (cases rule: svc_step_node)
  case (2 c)
  then have "\<not> releases u (snd (snd c))" using assms(4) by (auto simp: event_call_def)
  then show ?thesis using 2 is_blocked_step [OF assms(3)] by simp
qed (use assms in simp)

lemma not_blocked_step: "\<not> blocks op \<Longrightarrow> \<not> is_blocked old \<Longrightarrow> \<not> is_blocked (node_step op k old)"
  by (cases op; cases old) (auto simp: is_blocked_iff step_defs)

lemma svc_run_never_blocks:
  assumes "svc_run srv h d st evs st'" and "store_inv (sv_store st)" and "\<forall>ws. CheckCycle ws \<notin> set evs"
    and "\<not> is_blocked (fmlookup (nodes (sv_store st)) u)"
  shows "\<not> is_blocked (fmlookup (nodes (sv_store st')) u)"
  using assms
proof (induction rule: svc_run.induct)
  case (run_step st evs st1 ev st2)
  then have st1: "\<not> is_blocked (fmlookup (nodes (sv_store st1)) u)" by simp
  from run_step.hyps(2) svc_run_inv [OF run_step.hyps(1) run_step.prems(1)] show ?case
  proof (cases rule: svc_step_node)
    case (2 c)
    then have "\<not> blocks (snd (snd c))" using run_step.prems(2) by (auto simp: event_call_def)
    then show ?thesis using 2 not_blocked_step [OF _ st1] by simp
  qed (use st1 in simp)
qed simp

text \<open>No unseal of the node is in flight.\<close>

definition no_pending :: "string \<Rightarrow> service \<Rightarrow> bool" where
  "no_pending u st \<longleftrightarrow> list_all (\<lambda>(env, ctx, r). NodeUuid r \<noteq> u) (sv_pending st)"

lemma svc_step_no_pending:
  assumes "svc_step srv h d st ev st'" and "leaseEnabled srv" and "no_pending u st"
    and "is_blocked (fmlookup (nodes (sv_store st)) u)"
  shows "no_pending u st' \<and> (\<forall>res. ev \<noteq> UnsealEnds u res)"
  using assms(1)
proof (cases rule: svc_step.cases)
  case (unseal_passes env ctx r s1)
  have "NodeUuid r \<noteq> u"
    using validateLease_pass [of env srv "NodeUuid r" "sv_store st" s1] unseal_passes assms(2,4)
    by (auto simp: is_blocked_iff env_ok_def)
  then show ?thesis using unseal_passes assms(3) by (simp add: no_pending_def)
next
  case (unseal_ends ps env ctx r qs res s1)
  then show ?thesis using assms(3) by (auto simp: no_pending_def)
qed (use assms(3) in \<open>simp_all add: no_pending_def\<close>)

text \<open>The administrator unblocks the node in the course of the run.\<close>

definition admin_unblocks :: "HTTPHandler \<Rightarrow> string \<Rightarrow> svc_event list \<Rightarrow> bool" where
  "admin_unblocks h u evs \<longleftrightarrow>
     (\<exists>henv rq resp. HttpCall henv rq resp \<in> set evs \<and> authenticateAdmin h rq \<and>
        rq_method rq = ''POST'' \<and> rq_path rq = [''admin'', ''nodes'', u, ''unblock''])"

lemma admin_unblocks_append: "admin_unblocks h u evs \<Longrightarrow> admin_unblocks h u (evs @ [ev])"
  by (auto simp: admin_unblocks_def)

lemma releasing_event:
  assumes "may_release h u ev" and "\<forall>res. ev \<noteq> UnsealEnds u res"
  shows "admin_unblocks h u (evs @ [ev])"
  using assms by (cases ev) (auto simp: admin_unblocks_def dest!: http_op_cases)

lemma blocked_run:
  assumes "svc_run srv h d st evs st'" and "store_inv (sv_store st)" and "leaseEnabled srv"
    and "is_blocked (fmlookup (nodes (sv_store st)) u)" and "no_pending u st"
  shows "store_inv (sv_store st') \<and> (admin_unblocks h u evs \<or>
    is_blocked (fmlookup (nodes (sv_store st')) u) \<and> no_pending u st' \<and> (\<forall>res. UnsealEnds u res \<notin> set evs))"
  using assms
proof (induction rule: svc_run.induct)
  case (run_step st evs st1 ev st2)
  then have inv: "store_inv (sv_store st1)" by blast
  note inv2 = svc_step_inv [OF run_step.hyps(2) inv]
  show ?case
  proof (cases "admin_unblocks h u evs")
    case False
    then have st1: "is_blocked (fmlookup (nodes (sv_store st1)) u)" "no_pending u st1"
      "\<forall>res. UnsealEnds u res \<notin> set evs" using run_step by blast+
    note step = svc_step_no_pending [OF run_step.hyps(2) run_step.prems(2) st1(2,1)]
    show ?thesis
    proof (cases "may_release h u ev")
      case True
      then show ?thesis using releasing_event step inv2 by blast
    next
      case False
      then show ?thesis using step st1 inv2 svc_step_blocked [OF run_step.hyps(2) inv st1(1)] by auto
    qed
  qed (use inv2 admin_unblocks_append in blast)
qed simp

text \<open>
  C4: a blocked node is released only by the administrator. In every run of the service with
  leases enabled, whatever requests arrive in whatever interleaving, from a state in which the
  node is blocked and no unseal of it is in flight: if the node is not blocked at the end, some
  HTTP request of the run was an authenticated unblock of exactly this node. (The store
  satisfies its invariant at the start.)
\<close>

theorem blocked_until_admin:
  assumes "svc_run srv h d st evs st'" and "store_inv (sv_store st)" and "leaseEnabled srv"
    and "is_blocked (fmlookup (nodes (sv_store st)) u)" and "no_pending u st"
    and "\<not> is_blocked (fmlookup (nodes (sv_store st')) u)"
  shows "\<exists>henv rq resp. HttpCall henv rq resp \<in> set evs \<and> authenticateAdmin h rq \<and>
    rq_method rq = ''POST'' \<and> rq_path rq = [''admin'', ''nodes'', u, ''unblock'']"
  using blocked_run [OF assms(1-5)] assms(6) by (auto simp: admin_unblocks_def)

theorem blocked_until_admin_witness:
  "\<exists>evs st'. svc_run demo_server demo_handler (NewDeadManSwitch None 10 500)
      \<lparr>sv_store = demo_store (blocked_at demo_record 2000), sv_pending = []\<rparr> evs st' \<and>
    (\<exists>henv rq resp. HttpCall henv rq resp \<in> set evs \<and> authenticateAdmin demo_handler rq)"
proof -
  let ?st = "\<lparr>sv_store = demo_store (blocked_at demo_record 2000), sv_pending = []\<rparr>"
  let ?henv = "demo_http_env 3000" and ?rq = "unblock_request ''node-1''"
  obtain resp s1 where http: "ServeHTTP ?henv demo_handler ?rq (sv_store ?st) = (resp, s1)" by fastforce
  let ?d = "NewDeadManSwitch None 10 500"
  have "svc_step demo_server demo_handler ?d ?st (HttpCall ?henv ?rq resp) (?st\<lparr>sv_store := s1\<rparr>)"
    using http by (intro svc_step.http_call) (simp_all add: demo_http_env_def)
  then have run: "svc_run demo_server demo_handler ?d ?st [HttpCall ?henv ?rq resp] (?st\<lparr>sv_store := s1\<rparr>)"
    using svc_run.run_step [OF svc_run.run_start] by fastforce
  have "s1 = exec_call (sorted_iter, io_ok, OpUnblock ''node-1'' 3000 5) (sv_store ?st)"
    using ServeHTTP_store [of ?henv demo_handler ?rq "sv_store ?st"] http
    by (simp add: unblock_http_op run_op_def demo_http_env_def)
  then have "\<not> is_blocked (fmlookup (nodes s1) ''node-1'')"
    by (simp add: exec_call_def Unblock_nodes snd_exec_op renewed_def del: exec_op.simps)
  then show ?thesis
    using blocked_until_admin [OF run, of "''node-1''"] run
    by (auto simp: record_ok_updates no_pending_def demo_server_def NewServer_def)
qed

text \<open>
  A blocked node gets nothing: in every run from such a state in which the administrator
  does not unblock the node, no unseal of it passes the lease check and none returns, be it
  with the passphrase, with random bytes or with any error but the denial.
\<close>

lemma blocked_gets_nothing:
  assumes "svc_run srv h d st evs st'" and "store_inv (sv_store st)" and "leaseEnabled srv"
    and "is_blocked (fmlookup (nodes (sv_store st)) u)" and "no_pending u st"
    and "\<not> admin_unblocks h u evs"
  shows "UnsealPasses u \<notin> set evs \<and> (\<forall>res. UnsealEnds u res \<notin> set evs)"
  using assms
proof (induction rule: svc_run.induct)
  case (run_step st evs st1 ev st2)
  have "\<not> admin_unblocks h u evs" using run_step.prems(5) admin_unblocks_append by blast
  then have st1: "is_blocked (fmlookup (nodes (sv_store st1)) u)" "no_pending u st1"
    using blocked_run [OF run_step.hyps(1) run_step.prems(1-4)] by blast+
  have "ev \<noteq> UnsealPasses u"
    using run_step.hyps(2)
  proof (cases rule: svc_step.cases)
    case (unseal_passes env ctx r s1)
    then show ?thesis
      using validateLease_pass [of env srv "NodeUuid r" "sv_store st1" s1] st1(1) run_step.prems(2)
      by (auto simp: is_blocked_iff env_ok_def)
  qed simp_all
  moreover have "\<forall>res. ev \<noteq> UnsealEnds u res"
    using svc_step_no_pending [OF run_step.hyps(2) run_step.prems(2) st1(2,1)] by blast
  ultimately show ?case using run_step \<open>\<not> admin_unblocks h u evs\<close> by auto
qed simp

subsection \<open>Expired nodes\<close>

definition is_expired :: "LeaseRecord option \<Rightarrow> bool" where
  "is_expired old \<longleftrightarrow> (\<exists>r. old = Some r \<and> Status r = LeaseStatusExpired)"

lemma is_expired_step:
  "is_expired old \<Longrightarrow> \<not> releases k op \<Longrightarrow> \<not> by_http op \<Longrightarrow> is_expired (node_step op k old)"
  by (cases op; cases old) (auto simp: is_expired_def lapsed_def overdue_def)

lemma svc_step_expired_pending:
  assumes "svc_step srv h d st ev st'" and "leaseEnabled srv" and "no_pending u st"
    and "is_expired (fmlookup (nodes (sv_store st)) u)"
  shows "no_pending u st' \<and> (\<forall>res. ev \<noteq> UnsealEnds u res)"
  using assms(1)
proof (cases rule: svc_step.cases)
  case (unseal_passes env ctx r s1)
  have "NodeUuid r \<noteq> u"
    using validateLease_pass [of env srv "NodeUuid r" "sv_store st" s1] unseal_passes assms(2,4)
    by (auto simp: is_expired_def env_ok_def lapsed_def)
  then show ?thesis using unseal_passes assms(3) by (simp add: no_pending_def)
next
  case (unseal_ends ps env ctx r qs res s1)
  then show ?thesis using assms(3) by (auto simp: no_pending_def)
qed (use assms(3) in \<open>simp_all add: no_pending_def\<close>)

lemma svc_run_expired:
  assumes "svc_run srv h d st evs st'" and "store_inv (sv_store st)" and "leaseEnabled srv"
    and "is_expired (fmlookup (nodes (sv_store st)) u)" and "no_pending u st"
    and "list_all (\<lambda>ev. \<not> over_http ev) evs"
  shows "is_expired (fmlookup (nodes (sv_store st')) u) \<and> no_pending u st'"
  using assms
proof (induction rule: svc_run.induct)
  case (run_step st evs st1 ev st2)
  then have st1: "is_expired (fmlookup (nodes (sv_store st1)) u)" "no_pending u st1" by simp_all
  have ev: "\<not> over_http ev" using run_step.prems by simp
  note pend = svc_step_expired_pending [OF run_step.hyps(2) run_step.prems(2) st1(2,1)]
  from run_step.hyps(2) svc_run_inv [OF run_step.hyps(1) run_step.prems(1)] show ?case
  proof (cases rule: svc_step_node)
    case (2 c)
    have "\<not> may_release h u ev" using pend ev by (cases ev) auto
    then have "\<not> releases u (snd (snd c))" "\<not> by_http (snd (snd c))"
      using 2(1) ev by (auto simp: event_call_def)
    then show ?thesis using 2(2) is_expired_step [OF st1(1)] pend by simp
  qed (use st1 pend in simp)
qed simp

lemma denied_expires:
  assumes "svc_step srv h d st (UnsealDenied u e) st'" and "leaseEnabled srv"
    and "fmlookup (nodes (sv_store st)) u = Some rec" and "Status rec \<noteq> LeaseStatusBlocked"
  shows "is_expired (fmlookup (nodes (sv_store st')) u)"
  using assms(1)
proof (cases rule: svc_step.cases)
  case (unseal_denied_step env ctx r s1)
  then have io: "io_sane (io_validate env)" by (simp add: env_ok_def)
  have "lapsed rec (now_validate env)"
    using validateLease_cases [OF assms(2) io, of u "sv_store st"] unseal_denied_step assms(3,4)
    by (auto split: if_splits)
  with validateLease_lapsed [OF assms(2) io assms(3,4)] unseal_denied_step show ?thesis
    by (simp add: is_expired_def)
qed

text \<open>
  C23: a silent node whose lease ran out can escape the switch. If an unseal of an active node is
  denied, the node is marked expired, and the switch looks at active nodes only: as long as no
  HTTP request arrives, whatever unseals, gRPC heartbeats and check cycles run and however long
  the node stays silent, it is expired and not blocked. The next signed heartbeat of the agent
  then makes it active again with a full lease, and no administrator was involved. (The node
  has no other unseal in flight, and the store satisfies its invariant.)
\<close>

theorem expired_escapes_switch:
  assumes "leaseEnabled srv" and "store_inv (sv_store st)" and "no_pending u st"
    and "fmlookup (nodes (sv_store st)) u = Some rec" and "Status rec = LeaseStatusActive"
    and "svc_step srv h d st (UnsealDenied u e) st0"
    and "svc_run srv h d st0 evs st1" and "list_all (\<lambda>ev. \<not> over_http ev) evs"
    and "svc_step srv h d st1 (HttpCall henv rq resp) st2" and "io_sane (http_io henv)"
    and "authentic_heartbeat henv h rq req" and "hr_NodeUUID req = u"
    and "rq_method rq = ''POST''" and "rq_path rq = [''heartbeat'']"
  shows "(\<exists>rec1. fmlookup (nodes (sv_store st1)) u = Some rec1 \<and> Status rec1 = LeaseStatusExpired) \<and>
    (\<exists>rec2. fmlookup (nodes (sv_store st2)) u = Some rec2 \<and> Status rec2 = LeaseStatusActive \<and>
       LeaseUntil rec2 = now_store henv + leaseDuration h)"
proof -
  have "is_expired (fmlookup (nodes (sv_store st0)) u)"
    using denied_expires [OF assms(6,1,4)] assms(5) by simp
  moreover have "no_pending u st0" using assms(6,3) by (cases rule: svc_step.cases) (simp add: no_pending_def)
  ultimately have st1: "is_expired (fmlookup (nodes (sv_store st1)) u)"
    using svc_run_expired [OF assms(7) svc_step_inv [OF assms(6,2)] assms(1) _ _ assms(8)] by blast
  have "handleHeartbeat henv h rq (sv_store st1) = (resp, sv_store st2)"
    using assms(9,13,14) by (cases rule: svc_step.cases) (simp add: ServeHTTP_def)
  from handleHeartbeat_authentic [OF assms(11,10) this]
  have "fmlookup (nodes (sv_store st2)) u = node_step (OpHeartbeatByUUID u (hr_NodeIP req) (hr_Hostname req)
      (now_store henv) (leaseDuration h)) u (fmlookup (nodes (sv_store st1)) u)"
    using st1 assms(12) by (auto simp: is_expired_def is_blocked_iff split: if_splits)
  then show ?thesis using st1 by (auto simp: is_expired_def renewed_def)
qed

theorem expired_escapes_switch_witness:
  "\<exists>e ws resp st'. svc_run demo_server demo_handler (NewDeadManSwitch None (30 * second) (120 * second))
      \<lparr>sv_store = demo_store demo_record, sv_pending = []\<rparr>
      [UnsealDenied ''node-1'' e, CheckCycle ws,
       HttpCall (demo_http_env demo_now) (signed_heartbeat (hmacAuth demo_handler) demo_heartbeat) resp] st' \<and>
    (\<exists>rec. fmlookup (nodes (sv_store st')) ''node-1'' = Some rec \<and> Status rec = LeaseStatusActive \<and>
       LeaseUntil rec = demo_now + 5)"
proof -
  let ?d = "NewDeadManSwitch None (30 * second) (120 * second)"
  let ?st = "\<lparr>sv_store = demo_store demo_record, sv_pending = []\<rparr>"
  let ?t = "\<lparr>tick_now = 200 * second, tick_log_now = \<lambda>_. 0, tick_iter = sorted_iter, tick_io = io_ok\<rparr>"
  let ?rq = "signed_heartbeat (hmacAuth demo_handler) demo_heartbeat" and ?henv = "demo_http_env demo_now"
  obtain v s0 where v: "validateLease (demo_env 2000) demo_server ''node-1'' (demo_store demo_record) = (v, s0)"
    by fastforce
  have "\<not> (v = None)"
  proof
    assume "v = None"
    with validateLease_pass [of "demo_env 2000" demo_server "''node-1''" "demo_store demo_record" s0] v
    show False by (simp add: demo_defs lapsed_def isExpired_def demo_record_def bootstrapped_def time_defs)
  qed
  then obtain e where e: "v = Some e" by blast
  let ?denied = "?st\<lparr>sv_store := s0\<rparr>"
  have s0: "svc_step demo_server demo_handler ?d ?st (UnsealDenied ''node-1'' e) ?denied"
  proof -
    have "env_ok (demo_env 2000)" "ctx_err demo_ctx = None" "validateNodeUUID (Some (demo_request [])) = None"
      by (simp_all add: env_ok_def demo_defs validateNodeUUID_def GetNodeUuid_def)
    from svc_step.unseal_denied_step [OF this, of demo_server ?st e s0 demo_handler ?d] v e show ?thesis
      by (simp add: demo_request_def)
  qed
  obtain ws d' s1 where chk: "Check ?t ?d s0 = (ws, d', s1)" by (metis prod.exhaust)
  let ?st1 = "?st\<lparr>sv_store := s1\<rparr>"
  have s1: "svc_step demo_server demo_handler ?d ?denied (CheckCycle ws) ?st1"
    using svc_step.check_cycle [of ?t ?d ?denied ws d' s1] chk by simp
  then have r1: "svc_run demo_server demo_handler ?d ?denied [CheckCycle ws] ?st1"
    using svc_run.run_step [OF svc_run.run_start] by fastforce
  obtain resp s2 where http: "ServeHTTP ?henv demo_handler ?rq s1 = (resp, s2)" by fastforce
  let ?st2 = "?st\<lparr>sv_store := s2\<rparr>"
  have s2: "svc_step demo_server demo_handler ?d ?st1 (HttpCall ?henv ?rq resp) ?st2"
    using svc_step.http_call [of ?henv demo_handler ?rq ?st1 resp s2] http by (simp add: demo_http_env_def)
  have "svc_run demo_server demo_handler ?d ?st
      [UnsealDenied ''node-1'' e, CheckCycle ws, HttpCall ?henv ?rq resp] ?st2"
    using svc_run.run_step [OF svc_run.run_step [OF svc_run.run_step [OF svc_run.run_start s0] s1] s2] by simp
  moreover have "\<exists>rec2. fmlookup (nodes (sv_store ?st2)) ''node-1'' = Some rec2 \<and> Status rec2 = LeaseStatusActive \<and>
       LeaseUntil rec2 = now_store ?henv + leaseDuration demo_handler"
    using expired_escapes_switch [OF _ _ _ _ _ s0 r1 _ s2 _ demo_heartbeat_authentic]
    by (simp add: demo_server_def NewServer_def no_pending_def demo_http_env_def demo_heartbeat_def
        signed_heartbeat_def)
  ultimately show ?thesis by (fastforce simp: demo_http_env_def demo_handler_def NewHTTPHandler_def)
qed

subsection \<open>The window between the lease check and the bootstrap\<close>

lemma sealed_length:
  assumes "sealed_under aeskey p data" and "length p = PassphraseSize"
  shows "length (take NonceSize data) = NonceSize"
proof (rule ccontr)
  assume "length (take NonceSize data) \<noteq> NonceSize"
  then have "take NonceSize data = data" by (simp add: min_def split: if_splits)
  with assms have "data = data @ gcm_Seal aeskey data p" by (simp add: sealed_under_def)
  then have "length (gcm_Seal aeskey data p) = 0" by simp
  with assms(2) show False by (simp add: gcm.seal_length PassphraseSize_def)
qed

lemma check_keeps_times:
  assumes "valid_iter (tick_iter t)" and "json_time_ok (tick_now t)" and "nodes_times_ok (nodes s)"
    and "Check t d s = (ws, d', s')"
  shows "nodes_times_ok (nodes s')"
  using assms(2) nodes_times_ok_step [OF assms(3) _ Check_nodes [OF assms(1,4)]] by simp

text \<open>An unseal that has passed the lease check succeeds, whatever happened to the store since.\<close>

lemma unseal_completes:
  fixes r :: Request
  assumes "env_ok env" and "leaseEnabled srv" and "lease_ready env ctx (NodeUuid r) srv s"
    and "getKey srv ctx (NodeUuid r) = Inr aeskey" and "NewCipher aeskey = Inr aeskey"
    and "sealed_under aeskey p (Data r)" and "length p = PassphraseSize"
    and "nodes_times_ok (nodes s2)"
  shows "\<exists>s3 rec'. unsealData env ctx r srv s2 = (Inr \<lparr>RespData = p\<rparr>, s3) \<and>
    fmlookup (nodes s3) (NodeUuid r) = Some rec' \<and> Status rec' = LeaseStatusActive"
proof -
  let ?u = "NodeUuid r"
  obtain ip where ip: "peerIPFromContext ctx = Inr ip"
    using assms(3) by (auto simp: lease_ready_def split: sum.splits)
  obtain rec' e s3 where b: "Bootstrap (iter_lease env) (io_lease env) ?u ip (now_lease env) (leaseWindow srv) s2 =
      ((rec', e), s3)" by (metis prod.exhaust)
  have "e = None"
    using Bootstrap_no_error [of "iter_lease env" "io_lease env" s2 "now_lease env" "leaseWindow srv" ?u ip]
      assms(3,8) b by (simp add: lease_ready_def)
  then have "unsealData env ctx r srv s2 = (Inr \<lparr>RespData = p\<rparr>, s3)"
    using unsealData_authentic [of srv ctx r aeskey "take NonceSize (Data r)" p env s2]
      assms(2,4-7) sealed_length [OF assms(6,7)] ip b
    by (simp add: sealed_under_def unsealLease_def)
  moreover have "lease_range (iter_lease env)" using assms(1) by (simp add: lease_range_iff env_ok_def)
  from lease_range.Bootstrap_nodes [OF this, of "io_lease env" ?u ip "now_lease env" "leaseWindow srv" s2 ?u] b
  have "\<exists>rec'. fmlookup (nodes s3) ?u = Some rec' \<and> Status rec' = LeaseStatusActive"
    by (simp add: bootstrapped_def)
  ultimately show ?thesis by blast
qed

text \<open>
  C17: the lease check and the bootstrap of an unseal are separate critical sections. When a
  check cycle runs between them and blocks the node, the unseal still succeeds, hands out the
  passphrase and makes the node active again, although no administrator unblocked it.
\<close>

theorem unseal_race_releases:
  fixes r :: Request and t :: tick
  assumes "env_ok env" and "leaseEnabled srv" and "ctx_err ctx = None" and "NodeUuid r \<noteq> ''''"
    and "lease_ready env ctx (NodeUuid r) srv (sv_store st)"
    and "getKey srv ctx (NodeUuid r) = Inr aeskey" and "NewCipher aeskey = Inr aeskey"
    and "sealed_under aeskey p (Data r)" and "length p = PassphraseSize"
    and "valid_iter (tick_iter t)" and "json_time_ok (tick_now t)"
    and "fmlookup (nodes (sv_store st)) (NodeUuid r) = Some rec"
    and "overdue rec (tick_now t) (heartbeatTimeout d)"
  shows "\<exists>ws st'. svc_run srv h d st
      [UnsealPasses (NodeUuid r), CheckCycle ws, UnsealEnds (NodeUuid r) (Inr \<lparr>RespData = p\<rparr>)] st' \<and>
    NodeUuid r \<in> set (map fst ws) \<and>
    (\<exists>rec'. fmlookup (nodes (sv_store st')) (NodeUuid r) = Some rec' \<and> Status rec' = LeaseStatusActive)"
proof -
  let ?u = "NodeUuid r" and ?s = "sv_store st"
  let ?st1 = "\<lparr>sv_store = ?s, sv_pending = (env, ctx, r) # sv_pending st\<rparr>"
  have pass: "validateLease env srv ?u ?s = (None, ?s)" using assms(5) by (intro validateLease_ready [where ctx = ctx]) simp
  have s1: "svc_step srv h d st (UnsealPasses ?u) ?st1"
    using assms(1,3,4) pass by (intro svc_step.unseal_passes) (auto simp: validateNodeUUID_None)
  obtain ws d' s2 where chk: "Check t d ?s = (ws, d', s2)" by (metis prod.exhaust)
  let ?st2 = "?st1\<lparr>sv_store := s2\<rparr>"
  have s2: "svc_step srv h d ?st1 (CheckCycle ws) ?st2"
    using assms(10) chk by (intro svc_step.check_cycle) simp_all
  have range: "lease_range (tick_iter t)" using assms(10) by (simp add: lease_range_iff)
  have "map fst ws = fst (BlockExpiredNodes (tick_iter t) (tick_io t) (tick_now t) (heartbeatTimeout d) ?s)"
    using chk by (auto simp: Check_def Let_def warn_loop_nodes split: prod.splits if_splits)
  then have blocked: "?u \<in> set (map fst ws)"
    using lease_range.BlockExpiredNodes_mem [OF range] assms(12,13) by auto
  have times: "nodes_times_ok (nodes s2)"
    using check_keeps_times [OF assms(10,11) _ chk] assms(5) by (simp add: lease_ready_def)
  obtain s3 rec' where unseal: "unsealData env ctx r srv s2 = (Inr \<lparr>RespData = p\<rparr>, s3)"
      "fmlookup (nodes s3) ?u = Some rec'" "Status rec' = LeaseStatusActive"
    using unseal_completes [OF assms(1,2,5-9) times] by blast
  then have s3: "svc_step srv h d ?st2 (UnsealEnds ?u (Inr \<lparr>RespData = p\<rparr>)) \<lparr>sv_store = s3, sv_pending = sv_pending st\<rparr>"
    using assms(1) svc_step.unseal_ends [of ?st2 "[]" env ctx r "sv_pending st" srv] by simp
  have "svc_run srv h d st [UnsealPasses ?u, CheckCycle ws, UnsealEnds ?u (Inr \<lparr>RespData = p\<rparr>)]
      \<lparr>sv_store = s3, sv_pending = sv_pending st\<rparr>"
    using svc_run.run_step [OF svc_run.run_step [OF svc_run.run_step [OF svc_run.run_start s1] s2] s3] by simp
  then show ?thesis using blocked unseal(2,3) by fastforce
qed

theorem unseal_race_releases_witness:
  "\<exists>resp ws st'. svc_run demo_server demo_handler (NewDeadManSwitch None 10 0)
      \<lparr>sv_store = demo_store demo_record, sv_pending = []\<rparr>
      [UnsealPasses ''node-1'', CheckCycle ws, UnsealEnds ''node-1'' (Inr resp)] st' \<and>
    ''node-1'' \<in> set (map fst ws)"
proof -
  obtain resp where seal:
    "Seal (demo_env 1001) demo_ctx (Some (demo_request (replicate 32 9))) demo_server = Inr resp"
    using demo_seal by blast
  let ?r = "demo_request (RespData resp)"
  let ?t = "\<lparr>tick_now = 1002, tick_log_now = \<lambda>_. 1002, tick_iter = sorted_iter, tick_io = io_ok\<rparr>"
  let ?st = "\<lparr>sv_store = demo_store demo_record, sv_pending = []\<rparr>"
  let ?d = "NewDeadManSwitch None 10 0"
  have sealed: "sealed_under (replicate 32 7) (replicate 32 9) (Data ?r)"
    using sealed_by_Seal [OF seal, of "replicate 32 7"]
    by (simp add: demo_request_def demo_server_def NewServer_def)
  have "\<exists>ws st'. svc_run demo_server demo_handler ?d ?st
      [UnsealPasses (NodeUuid ?r), CheckCycle ws, UnsealEnds (NodeUuid ?r) (Inr \<lparr>RespData = replicate 32 9\<rparr>)] st' \<and>
    NodeUuid ?r \<in> set (map fst ws) \<and>
    (\<exists>rec'. fmlookup (nodes (sv_store st')) (NodeUuid ?r) = Some rec' \<and> Status rec' = LeaseStatusActive)"
  proof (rule unseal_race_releases [where env = "demo_env 1001" and ctx = demo_ctx and t = ?t and
        rec = demo_record and aeskey = "replicate 32 7"])
    show "overdue demo_record (tick_now ?t) (heartbeatTimeout ?d)"
      by (simp add: overdue_def Sub_def int64_defs NewDeadManSwitch_def)
    show "lease_ready (demo_env 1001) demo_ctx (NodeUuid ?r) demo_server (sv_store ?st)"
      using demo_ready by (simp add: demo_request_def)
  qed (use sealed in \<open>simp_all add: env_ok_def demo_defs NewCipher_def PassphraseSize_def
        json_time_ok_def day_def second_def\<close>)
  then show ?thesis by (auto simp: demo_request_def)
qed

end
