(* ===== verification/Go_Duration.thy ===== *)
theory Go_Duration
  imports Go_Float Net_IP
begin

text \<open>
  \<open>time.ParseDuration\<close>, which reads the durations of the agent's environment and of the
  server's flags. The accumulators are \<open>uint64\<close> in Go; the checks keep them at most
  \<open>2^63\<close>, so integers are exact here.
\<close>

definition time_quote :: "string \<Rightarrow> string" where
  "time_quote s =
     (let quote_char = (\<lambda>c. let n = of_char c :: nat in
        if n = 34 \<or> n = 92 then [char_of (92 :: nat), c]
        else if 32 \<le> n \<and> n < 128 then [c]
        else [char_of (92 :: nat), CHR ''x'', hex_char (n div 16), hex_char (n mod 16)])
      in char_of (34 :: nat) # concat (map quote_char s) @ [char_of (34 :: nat)])"

definition two63 :: int where
  "two63 = 9223372036854775808"

definition digit_value :: "char \<Rightarrow> int" where
  "digit_value c = int (char_nat c) - 48"

text \<open>The digits at the front: their value, and the rest; \<open>None\<close> on overflow.\<close>

fun leadingInt :: "string \<Rightarrow> int \<Rightarrow> (int \<times> string) option" where
  "leadingInt [] x = Some (x, [])"
| "leadingInt (c # cs) x =
     (if \<not> is_digit c then Some (x, c # cs)
      else if two63 div 10 < x then None
      else if two63 < x * 10 + digit_value c then None
      else leadingInt cs (x * 10 + digit_value c))"

text \<open>The digits of a fraction: value and scale stop growing at the first overflow.\<close>

fun leadingFraction :: "string \<Rightarrow> int \<Rightarrow> rat \<Rightarrow> bool \<Rightarrow> int \<times> rat \<times> string" where
  "leadingFraction [] x scale overflow = (x, scale, [])"
| "leadingFraction (c # cs) x scale overflow =
     (if \<not> is_digit c then (x, scale, c # cs)
      else if overflow then leadingFraction cs x scale True
      else if (two63 - 1) div 10 < x then leadingFraction cs x scale True
      else if two63 < x * 10 + digit_value c then leadingFraction cs x scale True
      else leadingFraction cs (x * 10 + digit_value c) (fl (scale * 10)) False)"

definition unitMap :: "string \<Rightarrow> int option" where
  "unitMap u =
     (if u = ''ns'' then Some 1
      else if u = ''us'' \<or> u = [CHR 0xC2, CHR 0xB5, CHR ''s''] \<or> u = [CHR 0xCE, CHR 0xBC, CHR ''s''] then Some 1000
      else if u = ''ms'' then Some 1000000
      else if u = ''s'' then Some 1000000000
      else if u = ''m'' then Some 60000000000
      else if u = ''h'' then Some 3600000000000
      else None)"

definition unit_char :: "char \<Rightarrow> bool" where
  "unit_char c \<longleftrightarrow> c \<noteq> CHR ''.'' \<and> \<not> is_digit c"

definition invalid_duration :: "string \<Rightarrow> go_error" where
  "invalid_duration orig = ErrorString (''time: invalid duration '' @ time_quote orig)"

text \<open>The loop over the terms; every round consumes at least a digit and a unit.\<close>

definition duration_term :: "string \<Rightarrow> string \<Rightarrow> go_error + int \<times> string" where
  "duration_term orig s =
     (if \<not> (hd s = CHR ''.'' \<or> is_digit (hd s)) then Inl (invalid_duration orig)
      else case leadingInt s 0 of
        None \<Rightarrow> Inl (invalid_duration orig)
      | Some (v, s1) \<Rightarrow>
          (let pre = (length s \<noteq> length s1);
               dot = (s1 \<noteq> [] \<and> hd s1 = CHR ''.'');
               (f, scale, s2) = (if dot then leadingFraction (tl s1) 0 1 False else (0, 1, s1));
               post = (dot \<and> length (tl s1) \<noteq> length s2)
           in if \<not> pre \<and> \<not> post then Inl (invalid_duration orig)
              else
                (let u = takeWhile unit_char s2; s3 = dropWhile unit_char s2 in
                 if u = [] then Inl (ErrorString (''time: missing unit in duration '' @ time_quote orig))
                 else case unitMap u of
                   None \<Rightarrow>
                     Inl (ErrorString (''time: unknown unit '' @ time_quote u @ '' in duration '' @ time_quote orig))
                 | Some unit \<Rightarrow>
                     if two63 div unit < v then Inl (invalid_duration orig)
                     else
                       (let v1 = v * unit;
                            v2 = (if 0 < f then v1 + trunc (fl (fl (of_int f) * fl (fl (of_int unit) / scale)))
                                  else v1)
                        in if two63 < v2 then Inl (invalid_duration orig) else Inr (v2, s3)))))"

fun duration_loop :: "nat \<Rightarrow> string \<Rightarrow> string \<Rightarrow> int \<Rightarrow> go_error + int" where
  "duration_loop 0 orig s d = Inr d"
| "duration_loop (Suc n) orig s d =
     (if s = [] then Inr d
      else case duration_term orig s of
        Inl e \<Rightarrow> Inl e
      | Inr (v, s') \<Rightarrow>
          if two63 < d + v then Inl (invalid_duration orig) else duration_loop n orig s' (d + v))"

definition ParseDuration :: "string \<Rightarrow> go_error + duration" where
  "ParseDuration orig =
     (let signed = (orig \<noteq> [] \<and> (hd orig = CHR ''-'' \<or> hd orig = CHR ''+''));
          neg = (signed \<and> hd orig = CHR ''-'');
          s = (if signed then tl orig else orig)
      in if s = ''0'' then Inr 0
         else if s = [] then Inl (invalid_duration orig)
         else case duration_loop (length s) orig s 0 of
           Inl e \<Rightarrow> Inl e
         | Inr d \<Rightarrow>
             if neg then Inr (- d)
             else if two63 - 1 < d then Inl (invalid_duration orig)
             else Inr d)"

text \<open>The fuel is enough: every term is a proper part of what is left.\<close>

lemma length_leadingInt: "leadingInt s x = Some (v, s') \<Longrightarrow> length s' \<le> length s"
  by (induction s x rule: leadingInt.induct) (auto split: if_splits)

lemma length_leadingFraction: "leadingFraction s x sc b = (f, sc', s') \<Longrightarrow> length s' \<le> length s"
  by (induction s x sc b rule: leadingFraction.induct) (auto split: if_splits)

lemma duration_term_shorter:
  assumes "duration_term orig s = Inr (v, s')"
  shows "length s' < length s"
proof -
  obtain x s1 where s1: "leadingInt s 0 = Some (x, s1)"
    using assms by (auto simp: duration_term_def split: if_splits option.splits)
  let ?dot = "s1 \<noteq> [] \<and> hd s1 = CHR ''.''"
  obtain f sc s2 where s2: "(if ?dot then leadingFraction (tl s1) 0 1 False else (0, 1, s1)) = (f, sc, s2)"
    by (metis prod.exhaust)
  have "length s2 \<le> length s1"
    using s2 length_leadingFraction [of "tl s1" 0 1 False f sc s2] by (cases s1) (auto split: if_splits)
  moreover have "takeWhile unit_char s2 \<noteq> [] \<and> s' = dropWhile unit_char s2"
    using assms s1 s2
    by (auto simp: duration_term_def Let_def split: if_splits option.splits)
  moreover have "length (takeWhile unit_char s2) + length (dropWhile unit_char s2) = length s2"
    by (metis length_append takeWhile_dropWhile_id)
  ultimately show ?thesis
    using length_leadingInt [OF s1] by (cases "takeWhile unit_char s2") auto
qed

lemma duration_loop_fuel:
  "length s \<le> n \<Longrightarrow> duration_loop n orig s d = duration_loop (length s) orig s d"
proof (induction n arbitrary: s d rule: less_induct)
  case (less n)
  show ?case
  proof (cases "s = [] \<or> n = 0")
    case True
    then show ?thesis using less.prems by (cases n) auto
  next
    case False
    then obtain m k where n: "n = Suc m" and k: "length s = Suc k" by (cases n; cases s) auto
    have "duration_loop m orig s' x = duration_loop k orig s' x"
      if "duration_term orig s = Inr (v, s')" for v s' x
      using duration_term_shorter [OF that] less.IH [of m s' x] less.IH [of k s' x] less.prems n k by simp
    then show ?thesis using n k by (auto split: sum.splits)
  qed
qed

subsection \<open>Whole seconds\<close>

lemma leadingInt_fmt_nat:
  assumes "int n \<le> two63"
  shows "leadingInt (fmt_nat n @ rest) 0 = leadingInt rest (int n)"
  using assms
proof (induction n arbitrary: rest rule: fmt_nat.induct)
  case (1 n)
  have d: "is_digit (digit_char k) \<and> digit_value (digit_char k) = int k" if "k < 10" for k
    using digit_char_digit [OF that] by (simp add: digit_value_def)
  show ?case
  proof (cases "n < 10")
    case True
    then show ?thesis using d [OF True] by (subst fmt_nat.simps) (simp add: two63_def)
  next
    case False
    have ten: "int (n div 10) * 10 + int (n mod 10) = int n" by presburger
    have "leadingInt (fmt_nat n @ rest) 0 = leadingInt (fmt_nat (n div 10) @ digit_char (n mod 10) # rest) 0"
      using False by (subst fmt_nat.simps) simp
    also have "\<dots> = leadingInt (digit_char (n mod 10) # rest) (int (n div 10))"
      using 1 False by (intro 1(1)) (auto simp: two63_def)
    also have "\<dots> = leadingInt rest (int n)"
      using d [of "n mod 10"] 1(2) ten by (simp add: two63_def)
    finally show ?thesis .
  qed
qed

lemma fmt_nat_head: "fmt_nat n \<noteq> []" "is_digit (hd (fmt_nat n))"
proof -
  show ne: "fmt_nat n \<noteq> []" by (subst fmt_nat.simps) simp
  show "is_digit (hd (fmt_nat n))" using fmt_nat_digits [of n] hd_in_set [OF ne] by blast
qed

lemma sign_not_digit: "\<not> is_digit (CHR ''-'')" "\<not> is_digit (CHR ''+'')"
  by (simp_all add: is_digit_def char_nat_def)

lemma ParseDuration_seconds:
  assumes "int n * second < two63"
  shows "ParseDuration (fmt_nat n @ ''s'') = Inr (int n * second)"
proof -
  let ?s = "fmt_nat n @ ''s''"
  have n: "int n \<le> two63" using assms by (simp add: second_def)
  note hd = fmt_nat_head [of n]
  have li: "leadingInt ?s 0 = Some (int n, ''s'')"
    using leadingInt_fmt_nat [OF n, of "''s''"] by (simp add: is_digit_def char_nat_def)
  have "duration_term ?s ?s = Inr (int n * second, [])"
    using hd li assms
    by (auto simp: duration_term_def unit_char_def unitMap_def is_digit_def char_nat_def two63_def
        second_def Let_def)
  then have "duration_loop (Suc k) ?s ?s 0 = Inr (int n * second)" for k
    using assms by (cases k) simp_all
  moreover have "length ?s = Suc (length (fmt_nat n))" by simp
  moreover have "hd ?s \<noteq> CHR ''-''" "hd ?s \<noteq> CHR ''+''" using hd sign_not_digit by auto
  moreover have "?s \<noteq> ''0''"
    using hd(1) by (cases "fmt_nat n") auto
  ultimately show ?thesis
    using assms hd(1) by (simp add: ParseDuration_def Let_def)
qed

subsection \<open>Any duration, in nanoseconds\<close>

lemma duration_loop_ns:
  assumes "int n \<le> two63"
  shows "duration_loop (Suc k) orig (fmt_nat n @ ''ns'') 0 = Inr (int n)"
proof -
  let ?s = "fmt_nat n @ ''ns''"
  have "leadingInt ?s 0 = Some (int n, ''ns'')"
    using leadingInt_fmt_nat [OF assms, of "''ns''"] by (simp add: is_digit_def char_nat_def)
  then have "duration_term orig ?s = Inr (int n, [])"
    using fmt_nat_head [of n] assms
    by (auto simp: duration_term_def unit_char_def unitMap_def is_digit_def char_nat_def two63_def Let_def)
  then show ?thesis using assms by (cases k) simp_all
qed

lemma ParseDuration_ns:
  assumes "in_int64 d"
  shows "ParseDuration (fmt_d d @ ''ns'') = Inr d"
proof -
  let ?n = "nat \<bar>d\<bar>"
  let ?s = "fmt_nat ?n @ ''ns''"
  have n: "int ?n \<le> two63" using assms by (auto simp: int64_defs two63_def)
  have run: "duration_loop (length ?s) orig ?s 0 = Inr \<bar>d\<bar>" for orig
    using duration_loop_ns [OF n, of "length (fmt_nat ?n) + 1" orig] by simp
  have s: "?s \<noteq> ''0''" "?s \<noteq> []"
    using fmt_nat_head(1) [of ?n] by (cases "fmt_nat ?n"; simp)+
  have hd: "hd ?s \<noteq> CHR ''-''" "hd ?s \<noteq> CHR ''+''"
    using fmt_nat_head [of ?n] sign_not_digit by auto
  show ?thesis
  proof (cases "d < 0")
    case True
    then have "fmt_d d @ ''ns'' = CHR ''-'' # ?s" by (simp add: fmt_d_def)
    then show ?thesis using run s True by (simp add: ParseDuration_def Let_def)
  next
    case False
    then have "fmt_d d @ ''ns'' = ?s" by (simp add: fmt_d_def)
    then show ?thesis
      using run s hd False assms by (simp add: ParseDuration_def Let_def two63_def int64_defs)
  qed
qed

subsection \<open>Results are 64-bit integers\<close>

lemma digit_value_nonneg: "is_digit c \<Longrightarrow> 0 \<le> digit_value c"
  by (simp add: digit_value_def is_digit_def)

lemma leadingInt_nonneg: "leadingInt s x = Some (v, s') \<Longrightarrow> 0 \<le> x \<Longrightarrow> 0 \<le> v"
  by (induction s x rule: leadingInt.induct) (auto simp: digit_value_nonneg split: if_splits)

lemma leadingFraction_nonneg: "leadingFraction s x sc b = (f, sc', s') \<Longrightarrow> 0 \<le> sc \<Longrightarrow> 0 \<le> sc'"
  by (induction s x sc b rule: leadingFraction.induct) (auto simp: fl_nonneg split: if_splits)

lemma unitMap_pos: "unitMap u = Some unit \<Longrightarrow> 0 < unit"
  by (auto simp: unitMap_def split: if_splits)

lemma duration_term_bounds:
  assumes "duration_term orig s = Inr (v, s')"
  shows "0 \<le> v \<and> v \<le> two63"
proof -
  obtain x s1 where s1: "leadingInt s 0 = Some (x, s1)"
    using assms by (auto simp: duration_term_def split: if_splits option.splits)
  let ?dot = "s1 \<noteq> [] \<and> hd s1 = CHR ''.''"
  obtain f sc s2 where s2: "(if ?dot then leadingFraction (tl s1) 0 1 False else (0, 1, s1)) = (f, sc, s2)"
    by (metis prod.exhaust)
  have sc: "0 \<le> sc" using s2 leadingFraction_nonneg [of "tl s1" 0 1 False f sc s2] by (auto split: if_splits)
  obtain unit where unit: "unitMap (takeWhile unit_char s2) = Some unit"
      "v = (if 0 < f then x * unit + trunc (fl (fl (of_int f) * fl (fl (of_int unit) / sc))) else x * unit)"
      "v \<le> two63"
    using assms s1 s2 by (auto simp: duration_term_def Let_def split: if_splits option.splits)
  have "0 \<le> x * unit" using leadingInt_nonneg [OF s1] unitMap_pos [OF unit(1)] by simp
  moreover have "0 \<le> trunc (fl (fl (of_int f) * fl (fl (of_int unit) / sc)))" if "0 < f"
    using that sc unitMap_pos [OF unit(1)]
    by (intro trunc_nonneg fl_nonneg mult_nonneg_nonneg divide_nonneg_nonneg) simp_all
  ultimately show ?thesis using unit(2,3) by auto
qed

lemma duration_loop_bounds:
  "duration_loop n orig s d = Inr r \<Longrightarrow> 0 \<le> d \<Longrightarrow> d \<le> two63 \<Longrightarrow> 0 \<le> r \<and> r \<le> two63"
proof (induction n orig s d rule: duration_loop.induct)
  case (2 n orig s d)
  then show ?case
    using duration_term_bounds [of orig s] by (force split: if_splits sum.splits)
qed simp

lemma ParseDuration_int64: "ParseDuration s = Inr d \<Longrightarrow> in_int64 d"
  by (auto simp: ParseDuration_def Let_def two63_def int64_defs
      dest!: duration_loop_bounds split: if_splits sum.splits)

end
