(* ===== verification/Go_Flag.thy ===== *)
theory Go_Flag
  imports Go_Duration
begin

text \<open>
  The standard library's \<open>flag\<close> package, as far as the programs use it: string, boolean
  and duration flags, parsed with \<open>flag.CommandLine\<close>, which ends the process on an error.

  A set of flags for a record of type \<open>'r\<close> is a list of names, each with its kind and what
  \<open>Set\<close> does with a text (\<open>None\<close> when it is refused).
\<close>

subsection \<open>Flag values\<close>

definition ParseBool :: "string \<Rightarrow> bool option" where
  "ParseBool s =
     (if s \<in> set [''1'', ''t'', ''T'', ''true'', ''TRUE'', ''True''] then Some True
      else if s \<in> set [''0'', ''f'', ''F'', ''false'', ''FALSE'', ''False''] then Some False
      else None)"

type_synonym 'r flag_def = "string \<times> bool \<times> (string \<Rightarrow> 'r \<Rightarrow> 'r option)"

definition StringVar :: "(string \<Rightarrow> 'r \<Rightarrow> 'r) \<Rightarrow> string \<Rightarrow> 'r flag_def" where
  "StringVar upd name = (name, False, \<lambda>s r. Some (upd s r))"

definition BoolVar :: "(bool \<Rightarrow> 'r \<Rightarrow> 'r) \<Rightarrow> string \<Rightarrow> 'r flag_def" where
  "BoolVar upd name = (name, True, \<lambda>s r. map_option (\<lambda>b. upd b r) (ParseBool s))"

definition DurationVar :: "(duration \<Rightarrow> 'r \<Rightarrow> 'r) \<Rightarrow> string \<Rightarrow> 'r flag_def" where
  "DurationVar upd name =
     (name, False, \<lambda>s r. case ParseDuration s of Inl _ \<Rightarrow> None | Inr d \<Rightarrow> Some (upd d r))"

lemmas flag_vars = StringVar_def BoolVar_def DurationVar_def

subsection \<open>Parsing\<close>

datatype flag_error =
    ErrHelp
  | BadSyntax string
  | NotDefined string
  | NeedsArgument string
  | InvalidValue string string

text \<open>A flag without its dashes: the name, and the value after the first \<open>=\<close>.\<close>

definition split_flag :: "string \<Rightarrow> string \<times> string option" where
  "split_flag s =
     (takeWhile (\<lambda>c. c \<noteq> CHR ''='') s,
      case dropWhile (\<lambda>c. c \<noteq> CHR ''='') s of [] \<Rightarrow> None | _ # v \<Rightarrow> Some v)"

definition undashed :: "string \<Rightarrow> string" where
  "undashed s = (if s ! 1 = CHR ''-'' then drop 2 s else drop 1 s)"

text \<open>
  The loop of \<open>FlagSet.Parse\<close> over the arguments, and the arguments it leaves. It stops at
  the first argument that is not a flag and after \<open>--\<close>.
\<close>

fun flag_Parse :: "'r flag_def list \<Rightarrow> string list \<Rightarrow> 'r \<Rightarrow> flag_error + 'r \<times> string list" where
  "flag_Parse fs [] r = Inr (r, [])"
| "flag_Parse fs (s # args) r =
     (if length s < 2 \<or> hd s \<noteq> CHR ''-'' then Inr (r, s # args)
      else if s = ''--'' then Inr (r, args)
      else if undashed s = [] \<or> hd (undashed s) = CHR ''-'' \<or> hd (undashed s) = CHR ''='' then Inl (BadSyntax s)
      else
        (let (name, value) = split_flag (undashed s) in
         case map_of fs name of
           None \<Rightarrow> Inl (if name = ''help'' \<or> name = ''h'' then ErrHelp else NotDefined name)
         | Some (True, setv) \<Rightarrow>
             (let text = (case value of None \<Rightarrow> ''true'' | Some v \<Rightarrow> v) in
              case setv text r of
                None \<Rightarrow> Inl (InvalidValue name text)
              | Some r' \<Rightarrow> flag_Parse fs args r')
         | Some (False, setv) \<Rightarrow>
             (case (value, args) of
                (Some text, _) \<Rightarrow>
                  (case setv text r of
                     None \<Rightarrow> Inl (InvalidValue name text)
                   | Some r' \<Rightarrow> flag_Parse fs args r')
              | (None, text # args') \<Rightarrow>
                  (case setv text r of
                     None \<Rightarrow> Inl (InvalidValue name text)
                   | Some r' \<Rightarrow> flag_Parse fs args' r')
              | (None, []) \<Rightarrow> Inl (NeedsArgument name))))"

text \<open>The exit status of \<open>flag.ExitOnError\<close>.\<close>

definition flag_exit :: "flag_error \<Rightarrow> nat" where
  "flag_exit e = (if e = ErrHelp then 0 else 2)"

subsection \<open>Assignments\<close>

text \<open>An argument that sets one flag, and the texts of values.\<close>

definition assign :: "string \<Rightarrow> string \<Rightarrow> string" where
  "assign name value = ''--'' @ name @ ''='' @ value"

definition bool_text :: "bool \<Rightarrow> string" where
  "bool_text b = (if b then ''true'' else ''false'')"

definition duration_text :: "duration \<Rightarrow> string" where
  "duration_text d = fmt_d d @ ''ns''"

lemma ParseBool_text [simp]: "ParseBool (bool_text b) = Some b"
  by (simp add: ParseBool_def bool_text_def)

lemma ParseDuration_text [simp]: "in_int64 d \<Longrightarrow> ParseDuration (duration_text d) = Inr d"
  by (simp add: duration_text_def ParseDuration_ns)

definition flag_name_ok :: "string \<Rightarrow> bool" where
  "flag_name_ok name \<longleftrightarrow> name \<noteq> [] \<and> hd name \<noteq> CHR ''-'' \<and> CHR ''='' \<notin> set name"

lemma split_assign: "CHR ''='' \<notin> set name \<Longrightarrow> split_flag (name @ ''='' @ value) = (name, Some value)"
  by (induction name) (auto simp: split_flag_def)

text \<open>An assignment sets exactly its flag, whatever the text of the value.\<close>

lemma Parse_assign:
  assumes "flag_name_ok name"
  shows "flag_Parse fs (assign name v # args) r =
    (case map_of fs name of
       None \<Rightarrow> Inl (if name = ''help'' \<or> name = ''h'' then ErrHelp else NotDefined name)
     | Some (_, setv) \<Rightarrow>
         (case setv v r of None \<Rightarrow> Inl (InvalidValue name v) | Some r' \<Rightarrow> flag_Parse fs args r'))"
proof -
  have "undashed (assign name v) = name @ ''='' @ v" by (simp add: undashed_def assign_def)
  moreover have "assign name v \<noteq> ''--''" by (simp add: assign_def)
  moreover have "hd name \<noteq> CHR ''=''" using assms by (metis flag_name_ok_def hd_in_set)
  ultimately show ?thesis
    using assms split_assign [of name v]
    by (auto simp: flag_name_ok_def assign_def split: option.splits list.splits bool.splits)
qed

subsection \<open>Invariants of parsing\<close>

text \<open>A round of the loop either ends it or sets one flag.\<close>

lemma Parse_step:
  assumes "flag_Parse fs (s # args) r = Inr (r', rest)" and "r' \<noteq> r"
  obtains name b setv v r1 args1 where "(name, b, setv) \<in> set fs" "setv v r = Some r1"
    "flag_Parse fs args1 r1 = Inr (r', rest)" "length args1 \<le> length args"
proof -
  obtain name val where nv: "split_flag (undashed s) = (name, val)" by fastforce
  then obtain b setv where f: "map_of fs name = Some (b, setv)"
    using assms by (auto split: if_splits option.splits)
  note mem = map_of_SomeD [OF f]
  show thesis
  proof (cases "b \<or> val \<noteq> None")
    case True
    then obtain v r1 where "setv v r = Some r1" "flag_Parse fs args r1 = Inr (r', rest)"
      using assms nv f by (cases b) (auto simp: Let_def split: if_splits option.splits)
    then show thesis using that [OF mem] by blast
  next
    case False
    then obtain v args1 r1 where "args = v # args1" "setv v r = Some r1" "flag_Parse fs args1 r1 = Inr (r', rest)"
      using assms nv f by (auto split: if_splits option.splits list.splits)
    then show thesis using that [OF mem, of v r1 args1] by simp
  qed
qed

text \<open>What every flag keeps, parsing keeps.\<close>

lemma Parse_invariant:
  assumes "flag_Parse fs args r = Inr (r', rest)" and "P r"
    and step: "\<And>name b setv v r r'. (name, b, setv) \<in> set fs \<Longrightarrow> P r \<Longrightarrow> setv v r = Some r' \<Longrightarrow> P r'"
  shows "P r'"
  using assms(1,2)
proof (induction "length args" arbitrary: args r rule: less_induct)
  case less
  show ?case
  proof (cases "r' = r \<or> args = []")
    case False
    then obtain s as where as: "args = s # as" by (cases args) auto
    with less.prems(1) have p: "flag_Parse fs (s # as) r = Inr (r', rest)" by blast
    have "r' \<noteq> r" using False by simp
    with p show ?thesis
      by (rule Parse_step) (use less step as in \<open>simp add: less_Suc_eq_le del: flag_Parse.simps; blast\<close>)
  qed (use less.prems in auto)
qed

end
