(* ===== verification/Server_Main.thy ===== *)
theory Server_Main
  imports Service Go_Flag
begin

text \<open>
  The server program of \<open>src/cmd/kms-server/main.go\<close>: its flags and environment, the
  options it derives from them, and which services \<open>run\<close> starts.

  What a start draws from its host is a record: the outcome of creating a logger, files,
  listening on an address, loading a TLS key pair (\<open>credentials.NewServerTLSFromFile\<close> of
  the gRPC library), and the system calls of the lease store. Whether the process can listen on
  an address depends on the addresses it already listens on, so the outcome of a \<open>Listen\<close> is a
  function of both, and the start hands on what it holds so far. What the errgroup of the
  started services returns is a parameter of \<open>server_run\<close>; the services themselves are the
  steps of the theory \<open>Service\<close>.
\<close>

subsection \<open>Flags\<close>

record kmsFlags =
  kf_tlsKeyPath :: string
  kf_heartbeatHMACKey :: string
  kf_keyPath :: string
  kf_leaseStorePath :: string
  kf_metricsEndpoint :: string
  kf_tlsCertPath :: string
  kf_httpEndpoint :: string
  kf_adminToken :: string
  kf_apiEndpoint :: string
  kf_leaseDuration :: duration
  kf_heartbeatInterval :: duration
  kf_heartbeatCheckInterval :: duration
  kf_heartbeatTimeout :: duration
  kf_heartbeatEnable :: bool
  kf_tlsEnable :: bool

definition server_defaults :: kmsFlags where
  "server_defaults = \<lparr>kf_tlsKeyPath = '''', kf_heartbeatHMACKey = '''', kf_keyPath = '''',
     kf_leaseStorePath = '''', kf_metricsEndpoint = '':2112'', kf_tlsCertPath = '''',
     kf_httpEndpoint = '':4051'', kf_adminToken = '''', kf_apiEndpoint = '':4050'',
     kf_leaseDuration = 0, kf_heartbeatInterval = 30 * second,
     kf_heartbeatCheckInterval = 30 * second, kf_heartbeatTimeout = 120 * second,
     kf_heartbeatEnable = False, kf_tlsEnable = False\<rparr>"

definition server_flags :: "kmsFlags flag_def list" where
  "server_flags =
     [StringVar (\<lambda>s. kf_apiEndpoint_update (\<lambda>_. s)) ''kms-api-endpoint'',
      StringVar (\<lambda>s. kf_httpEndpoint_update (\<lambda>_. s)) ''http-endpoint'',
      BoolVar (\<lambda>b. kf_heartbeatEnable_update (\<lambda>_. b)) ''heartbeat-enable'',
      StringVar (\<lambda>s. kf_keyPath_update (\<lambda>_. s)) ''key-path'',
      StringVar (\<lambda>s. kf_metricsEndpoint_update (\<lambda>_. s)) ''metrics-endpoint'',
      BoolVar (\<lambda>b. kf_tlsEnable_update (\<lambda>_. b)) ''tls-enable'',
      StringVar (\<lambda>s. kf_tlsCertPath_update (\<lambda>_. s)) ''tls-cert-path'',
      StringVar (\<lambda>s. kf_tlsKeyPath_update (\<lambda>_. s)) ''tls-key-path'',
      StringVar (\<lambda>s. kf_leaseStorePath_update (\<lambda>_. s)) ''lease-store-path'',
      DurationVar (\<lambda>d. kf_heartbeatInterval_update (\<lambda>_. d)) ''heartbeat-interval'',
      DurationVar (\<lambda>d. kf_heartbeatTimeout_update (\<lambda>_. d)) ''heartbeat-timeout'',
      DurationVar (\<lambda>d. kf_heartbeatCheckInterval_update (\<lambda>_. d)) ''heartbeat-check-interval'',
      DurationVar (\<lambda>d. kf_leaseDuration_update (\<lambda>_. d)) ''lease-duration'']"

text \<open>The secrets come from the environment.\<close>

definition env_flags :: "(string \<Rightarrow> string) \<Rightarrow> kmsFlags \<Rightarrow> kmsFlags" where
  "env_flags Getenv f =
     (let f1 = (if Getenv ''HEARTBEAT_HMAC_KEY'' \<noteq> ''''
                then f\<lparr>kf_heartbeatHMACKey := Getenv ''HEARTBEAT_HMAC_KEY''\<rparr> else f)
      in if Getenv ''ADMIN_TOKEN'' \<noteq> '''' then f1\<lparr>kf_adminToken := Getenv ''ADMIN_TOKEN''\<rparr> else f1)"

subsection \<open>Options and services\<close>

record server_host =
  sh_NewProduction_err :: "go_error option"
  sh_ReadFile :: "string \<Rightarrow> go_error + bytes"
  sh_TLSFromFile_err :: "string \<Rightarrow> string \<Rightarrow> go_error option"
  sh_Listen_err :: "string list \<Rightarrow> string \<Rightarrow> go_error option"
  sh_iter :: "LeaseRecord iter"
  sh_io :: sys_io
  sh_now :: time
  sh_files :: "string \<rightharpoonup> file_data"

definition serverOptions :: "server_host \<Rightarrow> kmsFlags \<Rightarrow> metrics \<Rightarrow> go_error + Options" where
  "serverOptions host f ms =
     (if \<not> kf_heartbeatEnable f then
        (if 0 < kf_leaseDuration f \<or> kf_leaseStorePath f \<noteq> '''' then
           Inl (ErrorString ''--lease-duration and --lease-store-path require --heartbeat-enable'')
         else Inr \<lparr>opt_LeaseStore = None, opt_Metrics = ms, opt_LeaseDuration = 0\<rparr>)
      else if kf_leaseStorePath f = '''' then
        Inl (ErrorString ''--lease-store-path is required when heartbeat leases are enabled'')
      else if kf_heartbeatInterval f \<le> 0 then
        Inl (ErrorString ''--heartbeat-interval must be greater than zero when heartbeat leases are enabled'')
      else if kf_leaseDuration f \<le> 0 then
        Inl (ErrorString ''--lease-duration must be greater than zero when heartbeat leases are enabled'')
      else if kf_leaseDuration f \<le> kf_heartbeatInterval f then
        Inl (ErrorString ''--lease-duration must be greater than --heartbeat-interval'')
      else
        (case NewFileLeaseStore (sh_iter host) (sh_io host) (sh_now host) (kf_leaseStorePath f) ms
                (sh_files host) of
           Inl err \<Rightarrow> Inl err
         | Inr leaseStore \<Rightarrow>
             Inr \<lparr>opt_LeaseStore = Some leaseStore, opt_Metrics = ms, opt_LeaseDuration = kf_leaseDuration f\<rparr>))"

text \<open>The gRPC server: whether it uses TLS.\<close>

definition newGRPCServer :: "server_host \<Rightarrow> kmsFlags \<Rightarrow> go_error + bool" where
  "newGRPCServer host f =
     (if \<not> kf_tlsEnable f then Inr False
      else
        (case sh_TLSFromFile_err host (kf_tlsCertPath f) (kf_tlsKeyPath f) of
           Some err \<Rightarrow> Inl (Wrapf ''failed to create TLS credentials'' err)
         | None \<Rightarrow> Inr True))"

text \<open>The services that run side by side once the start has succeeded.\<close>

record running =
  rn_grpc :: "string \<times> bool"
  rn_server :: Server
  rn_store :: "LeaseStore option"
  rn_metrics :: "string option"
  rn_http :: "(string \<times> HTTPHandler) option"
  rn_switch :: "DeadManSwitch option"

definition with_secrets :: "kmsFlags \<Rightarrow> bool" where
  "with_secrets f \<longleftrightarrow> kf_heartbeatEnable f \<and> kf_heartbeatHMACKey f \<noteq> '''' \<and> kf_adminToken f \<noteq> ''''"

text \<open>The addresses the process listens on, in the order in which it took them.\<close>

definition held :: "running \<Rightarrow> string list" where
  "held rn = fst (rn_grpc rn) # (case rn_metrics rn of None \<Rightarrow> [] | Some ep \<Rightarrow> [ep]) @
     (case rn_http rn of None \<Rightarrow> [] | Some (ep, _) \<Rightarrow> [ep])"

definition start_http :: "server_host \<Rightarrow> kmsFlags \<Rightarrow> running \<Rightarrow> go_error + running" where
  "start_http host f rn =
     (if \<not> with_secrets f then Inr rn
      else
        (case sh_Listen_err host (held rn) (kf_httpEndpoint f) of
           Some httpErr \<Rightarrow> Inl (Wrapf ''error listening for HTTP API'' httpErr)
         | None \<Rightarrow>
             Inr (rn\<lparr>rn_http := Some (kf_httpEndpoint f,
                      NewHTTPHandler (NewHMACAuth (kf_heartbeatHMACKey f)) (kf_adminToken f)
                        (kf_leaseDuration f) (kf_heartbeatInterval f)),
                    rn_switch := Some (NewDeadManSwitch NewMetrics (kf_heartbeatCheckInterval f)
                      (kf_heartbeatTimeout f))\<rparr>)))"

definition start_metrics :: "server_host \<Rightarrow> kmsFlags \<Rightarrow> running \<Rightarrow> go_error + running" where
  "start_metrics host f rn =
     (if kf_metricsEndpoint f = '''' then Inr rn
      else
        (case sh_Listen_err host (held rn) (kf_metricsEndpoint f) of
           Some metricsErr \<Rightarrow> Inl (Wrapf ''error listening for metrics API'' metricsErr)
         | None \<Rightarrow> Inr (rn\<lparr>rn_metrics := Some (kf_metricsEndpoint f)\<rparr>)))"

definition start_server :: "server_host \<Rightarrow> kmsFlags \<Rightarrow> go_error + running" where
  "start_server host f =
     (case sh_NewProduction_err host of
        Some err \<Rightarrow> Inl (Wrapf ''failed to create logger'' err)
      | None \<Rightarrow>
          if kf_keyPath f = '''' then Inl (ErrorString ''--key-path is not set'')
          else
            (case sh_ReadFile host (kf_keyPath f) of
               Inl err \<Rightarrow> Inl err
             | Inr keyBytes \<Rightarrow>
                 (case serverOptions host f NewMetrics of
                    Inl err \<Rightarrow> Inl err
                  | Inr options \<Rightarrow>
                      (case newGRPCServer host f of
                         Inl err \<Rightarrow> Inl err
                       | Inr tls \<Rightarrow>
                           (case sh_Listen_err host [] (kf_apiEndpoint f) of
                              Some err \<Rightarrow> Inl (Wrapf ''error listening for gRPC API'' err)
                            | None \<Rightarrow>
                                (case start_metrics host f
                                    \<lparr>rn_grpc = (kf_apiEndpoint f, tls),
                                     rn_server = NewServer (\<lambda>_ _. Inr keyBytes) options,
                                     rn_store = opt_LeaseStore options, rn_metrics = None,
                                     rn_http = None, rn_switch = None\<rparr> of
                                   Inl err \<Rightarrow> Inl err
                                 | Inr rn \<Rightarrow> start_http host f rn))))))"

text \<open>
  \<open>run\<close>: a failed start ends it, otherwise the first error of a service does, unless it only
  says that the gRPC server was stopped (\<open>stopped\<close>: \<open>errors.Is(err, grpc.ErrServerStopped)\<close>).
\<close>

definition server_run ::
  "(go_error \<Rightarrow> bool) \<Rightarrow> server_host \<Rightarrow> (running \<Rightarrow> go_error option) \<Rightarrow> kmsFlags \<Rightarrow> go_error option" where
  "server_run stopped host Wait f =
     (case start_server host f of
        Inl err \<Rightarrow> Some err
      | Inr rn \<Rightarrow>
          (case Wait rn of
             None \<Rightarrow> None
           | Some err \<Rightarrow> if stopped err then None else Some err))"

text \<open>\<open>main\<close>: the exit status and the error printed.\<close>

definition server_main ::
  "(go_error \<Rightarrow> bool) \<Rightarrow> server_host \<Rightarrow> (running \<Rightarrow> go_error option) \<Rightarrow> (string \<Rightarrow> string) \<Rightarrow> string list \<Rightarrow>
   nat \<times> go_error option" where
  "server_main stopped host Wait Getenv args =
     (case flag_Parse server_flags args server_defaults of
        Inl e \<Rightarrow> (flag_exit e, None)
      | Inr (f, _) \<Rightarrow> (0, server_run stopped host Wait (env_flags Getenv f)))"

end
