(* ===== verification/Kms_Client.thy ===== *)
theory Kms_Client
  imports Kms_Server_Props Go_Flag
begin

text \<open>
  The gRPC heartbeat client of \<open>src/cmd/kms-client/main.go\<close>: its flags, the heartbeat loop
  and the classification of errors.

  What is not part of the repository is a parameter: \<open>status.Code\<close> of the gRPC library is
  the argument \<open>Code\<close>, with the locale \<open>status_code\<close> for what its documentation says, and
  a \<open>client_host\<close> has the outcome of creating a logger, the files, the certificate parser
  and the connection \<open>grpc.NewClient\<close> gives. A connection answers a heartbeat in a world
  of type \<open>'w\<close> that the call may change. The loop is driven by what its \<open>select\<close> receives.
\<close>

subsection \<open>Flags\<close>

record clientFlags =
  cf_kmsEndpoint :: string
  cf_tlsCAPath :: string
  cf_heartbeatInterval :: duration
  cf_heartbeatTimeout :: duration
  cf_tlsEnable :: bool

definition client_defaults :: clientFlags where
  "client_defaults = \<lparr>cf_kmsEndpoint = ''127.0.0.1:4050'', cf_tlsCAPath = '''',
     cf_heartbeatInterval = 30 * second, cf_heartbeatTimeout = 5 * second, cf_tlsEnable = True\<rparr>"

definition client_flags :: "clientFlags flag_def list" where
  "client_flags =
     [StringVar (\<lambda>s. cf_kmsEndpoint_update (\<lambda>_. s)) ''kms-endpoint'',
      BoolVar (\<lambda>b. cf_tlsEnable_update (\<lambda>_. b)) ''tls-enable'',
      StringVar (\<lambda>s. cf_tlsCAPath_update (\<lambda>_. s)) ''tls-ca-path'',
      DurationVar (\<lambda>d. cf_heartbeatInterval_update (\<lambda>_. d)) ''heartbeat-interval'',
      DurationVar (\<lambda>d. cf_heartbeatTimeout_update (\<lambda>_. d)) ''heartbeat-timeout'']"

definition validateFlags :: "clientFlags \<Rightarrow> go_error option" where
  "validateFlags cf =
     (if cf_heartbeatInterval cf \<le> 0 then
        Some (ErrorString ''--heartbeat-interval must be greater than zero'')
      else if cf_heartbeatTimeout cf \<le> 0 then
        Some (ErrorString ''--heartbeat-timeout must be greater than zero'')
      else if cf_heartbeatInterval cf \<le> cf_heartbeatTimeout cf then
        Some (ErrorString ''--heartbeat-timeout must be less than --heartbeat-interval'')
      else if \<not> cf_tlsEnable cf then
        (if cf_tlsCAPath cf \<noteq> '''' then Some (ErrorString ''TLS file flags require --tls-enable'')
         else None)
      else if cf_tlsCAPath cf = '''' then Some (ErrorString ''--tls-ca-path is not set'')
      else None)"

subsection \<open>Errors\<close>

text \<open>An error of the client: a Go error, or a wrapped answer of the server.\<close>

datatype client_error = ClientErr go_error | RejectedByKMS rpc_error

text \<open>\<open>status.Code\<close> as documented: the code of a status error, \<open>Unknown\<close> for any other.\<close>

locale status_code =
  fixes Code :: "rpc_error \<Rightarrow> code"
  assumes Code_status: "Code (StatusErr c m) = c"
    and Code_plain: "Code (GoErr e) = Unknown"

primrec Code_doc :: "rpc_error \<Rightarrow> code" where
  "Code_doc (StatusErr c m) = c"
| "Code_doc (GoErr e) = Unknown"

interpretation code_doc: status_code Code_doc
  by unfold_locales simp_all

definition classifyHeartbeatError :: "(rpc_error \<Rightarrow> code) \<Rightarrow> rpc_error \<Rightarrow> client_error option" where
  "classifyHeartbeatError Code err =
     (let code = Code err in
      if code = OK then None
      else if code = PermissionDenied \<or> code = Unauthenticated \<or> code = FailedPrecondition \<or>
              code = InvalidArgument
      then Some (RejectedByKMS err)
      else None)"

subsection \<open>Connection and loop\<close>

datatype 'pool creds = Insecure | TLS nat 'pool

text \<open>The identifier of TLS 1.2, \<open>tls.VersionTLS12\<close>.\<close>

definition VersionTLS12 :: nat where
  "VersionTLS12 = 771"

type_synonym 'w connection = "duration \<Rightarrow> Request \<Rightarrow> 'w \<Rightarrow> (rpc_error + Response) \<times> 'w"

record ('pool, 'w) client_host =
  NewProduction_err :: "go_error option"
  host_ReadFile :: "string \<Rightarrow> go_error + bytes"
  AppendCertsFromPEM :: "bytes \<Rightarrow> 'pool option"
  NewClient :: "string \<Rightarrow> 'pool creds \<Rightarrow> go_error + 'w connection"

definition transportCredentials :: "('pool, 'w) client_host \<Rightarrow> clientFlags \<Rightarrow> go_error + 'pool creds" where
  "transportCredentials host cf =
     (if \<not> cf_tlsEnable cf then Inr Insecure
      else
        (case host_ReadFile host (cf_tlsCAPath cf) of
           Inl e \<Rightarrow> Inl (Wrapf ''failed to read CA bundle'' e)
         | Inr caBundle \<Rightarrow>
             (case AppendCertsFromPEM host caBundle of
                None \<Rightarrow> Inl (ErrorString ''failed to parse CA bundle'')
              | Some rootCAs \<Rightarrow> Inr (TLS VersionTLS12 rootCAs))))"

definition client_sendHeartbeat :: "'w connection \<Rightarrow> clientFlags \<Rightarrow> 'w \<Rightarrow> rpc_error option \<times> 'w" where
  "client_sendHeartbeat conn cf w =
     (case conn (cf_heartbeatTimeout cf) \<lparr>NodeUuid = '''', Data = []\<rparr> w of
        (Inl err, w1) \<Rightarrow> (Some err, w1)
      | (Inr _, w1) \<Rightarrow> (None, w1))"

datatype client_signal = ClientDone | ClientTick

datatype client_result = ClientPanics string | ClientWaits | ClientReturns "client_error option"

fun client_rounds ::
  "(rpc_error \<Rightarrow> code) \<Rightarrow> 'w connection \<Rightarrow> clientFlags \<Rightarrow> client_signal list \<Rightarrow> 'w \<Rightarrow> client_result \<times> 'w" where
  "client_rounds Code conn cf [] w = (ClientWaits, w)"
| "client_rounds Code conn cf (ClientDone # sigs) w = (ClientReturns None, w)"
| "client_rounds Code conn cf (ClientTick # sigs) w =
     (case client_sendHeartbeat conn cf w of
        (None, w1) \<Rightarrow> client_rounds Code conn cf sigs w1
      | (Some err, w1) \<Rightarrow>
          (case classifyHeartbeatError Code err of
             Some classifiedErr \<Rightarrow> (ClientReturns (Some classifiedErr), w1)
           | None \<Rightarrow> client_rounds Code conn cf sigs w1))"

definition client_heartbeatLoop ::
  "(rpc_error \<Rightarrow> code) \<Rightarrow> 'w connection \<Rightarrow> clientFlags \<Rightarrow> client_signal list \<Rightarrow> 'w \<Rightarrow> client_result \<times> 'w" where
  "client_heartbeatLoop Code conn cf sigs w =
     (case client_sendHeartbeat conn cf w of
        (Some err, w1) \<Rightarrow> (ClientReturns (classifyHeartbeatError Code err), w1)
      | (None, w1) \<Rightarrow>
          if cf_heartbeatInterval cf \<le> 0 then (ClientPanics ''non-positive interval for NewTicker'', w1)
          else client_rounds Code conn cf sigs w1)"

definition client_run ::
  "(rpc_error \<Rightarrow> code) \<Rightarrow> ('pool, 'w) client_host \<Rightarrow> clientFlags \<Rightarrow> client_signal list \<Rightarrow> 'w \<Rightarrow> client_result \<times> 'w" where
  "client_run Code host cf sigs w =
     (case validateFlags cf of
        Some e \<Rightarrow> (ClientReturns (Some (ClientErr e)), w)
      | None \<Rightarrow>
          (case NewProduction_err host of
             Some e \<Rightarrow> (ClientReturns (Some (ClientErr (Wrapf ''failed to create logger'' e))), w)
           | None \<Rightarrow>
               (case transportCredentials host cf of
                  Inl e \<Rightarrow> (ClientReturns (Some (ClientErr e)), w)
                | Inr creds \<Rightarrow>
                    (case NewClient host (cf_kmsEndpoint cf) creds of
                       Inl e \<Rightarrow> (ClientReturns (Some (ClientErr (Wrapf ''failed to dial KMS'' e))), w)
                     | Inr conn \<Rightarrow> client_heartbeatLoop Code conn cf sigs w))))"

text \<open>
  \<open>main\<close>: the process exits with the status of the flag package, or prints the error of
  \<open>run\<close>, if any, and exits with status 0; \<open>None\<close> is a process that has not exited.
\<close>

definition client_main ::
  "(rpc_error \<Rightarrow> code) \<Rightarrow> ('pool, 'w) client_host \<Rightarrow> string list \<Rightarrow> client_signal list \<Rightarrow> 'w \<Rightarrow>
   (nat \<times> client_error option) option \<times> 'w" where
  "client_main Code host args sigs w =
     (case flag_Parse client_flags args client_defaults of
        Inl e \<Rightarrow> (Some (flag_exit e, None), w)
      | Inr (cf, _) \<Rightarrow>
          (case client_run Code host cf sigs w of
             (ClientPanics _, w1) \<Rightarrow> (Some (2, None), w1)
           | (ClientWaits, w1) \<Rightarrow> (None, w1)
           | (ClientReturns err, w1) \<Rightarrow> (Some (0, err), w1)))"

end
