(* ===== verification/Client_Props.thy ===== *)
theory Client_Props
  imports Kms_Client Service
begin

text \<open>
  What the heartbeat client does: when its loop ends, which connection it uses, and that its
  heartbeats keep the lease of the node alive on the gRPC server.
\<close>

subsection \<open>The loop\<close>

text \<open>The answers of \<open>n\<close> heartbeats in a row: the error, if any, and the world after them.\<close>

fun answers :: "'w connection \<Rightarrow> clientFlags \<Rightarrow> nat \<Rightarrow> 'w \<Rightarrow> rpc_error option list \<times> 'w" where
  "answers conn cf 0 w = ([], w)"
| "answers conn cf (Suc n) w =
     (let (a, w1) = client_sendHeartbeat conn cf w; (as, w2) = answers conn cf n w1 in (a # as, w2))"

text \<open>An answer that tells the client to stop.\<close>

fun denial :: "rpc_error \<Rightarrow> bool" where
  "denial (StatusErr c m) = (c \<in> {PermissionDenied, Unauthenticated, FailedPrecondition, InvalidArgument})"
| "denial (GoErr e) = False"

context status_code
begin

lemma classify_iff: "classifyHeartbeatError Code err = (if denial err then Some (RejectedByKMS err) else None)"
  by (cases err) (auto simp: classifyHeartbeatError_def Code_status Code_plain)

lemma rounds_exact:
  assumes "sigs = (if stop then [ClientDone] else [])"
  shows "fst (client_rounds Code conn cf (replicate n ClientTick @ sigs) w) =
    (case find denial (List.map_filter id (fst (answers conn cf n w))) of
       Some err \<Rightarrow> ClientReturns (Some (RejectedByKMS err))
     | None \<Rightarrow> if stop then ClientReturns None else ClientWaits)"
proof (induction n arbitrary: w)
  case 0
  then show ?case using assms by (simp add: List.map_filter_def)
next
  case (Suc n)
  obtain a w1 where a: "client_sendHeartbeat conn cf w = (a, w1)" by fastforce
  then show ?case
    using Suc [of w1]
    by (cases a) (simp_all add: classify_iff List.map_filter_def split: prod.splits)
qed

end

text \<open>
  C21: when the client's loop ends. With the gRPC library as documented, the client goes on
  through errors that are not denials and returns the first denial (permission denied,
  unauthenticated, failed precondition or invalid argument); otherwise it runs until its
  context ends. The very first heartbeat is different: any error of it ends the client, and
  one that is not a denial ends it without an error.
\<close>

theorem client_loop_exact:
  assumes "status_code Code" and "0 < cf_heartbeatInterval cf"
    and "fst (answers conn cf (Suc n) w) = a # as"
  shows "fst (client_heartbeatLoop Code conn cf
      (replicate n ClientTick @ (if stop then [ClientDone] else [])) w) =
    (case a of
       Some err \<Rightarrow> ClientReturns (if denial err then Some (RejectedByKMS err) else None)
     | None \<Rightarrow>
         (case find denial (List.map_filter id as) of
            Some err \<Rightarrow> ClientReturns (Some (RejectedByKMS err))
          | None \<Rightarrow> if stop then ClientReturns None else ClientWaits))"
proof -
  obtain b w1 where b: "client_sendHeartbeat conn cf w = (b, w1)" by fastforce
  then have "a = b" "as = fst (answers conn cf n w1)" using assms(3) by (auto split: prod.splits)
  then show ?thesis
    using b assms(2) status_code.rounds_exact [OF assms(1) refl, of conn cf n stop w1]
    by (cases b) (simp_all add: client_heartbeatLoop_def status_code.classify_iff [OF assms(1)])
qed

theorem client_loop_exact_witness:
  "let conn = (\<lambda>timeout req w. (case w of [] \<Rightarrow> Inr \<lparr>RespData = []\<rparr> | e # _ \<Rightarrow> e, tl w));
       unavailable = Inl (StatusErr Unavailable ''connection refused'')
   in fst (client_heartbeatLoop Code_doc conn client_defaults [ClientTick]
        [Inr \<lparr>RespData = []\<rparr>, unavailable]) = ClientWaits \<and>
      fst (client_heartbeatLoop Code_doc conn client_defaults [ClientTick] [unavailable]) =
        ClientReturns None"
proof -
  let ?conn = "\<lambda>timeout req w. (case w of [] \<Rightarrow> Inr \<lparr>RespData = []\<rparr> | e # _ \<Rightarrow> e, tl w)"
  let ?unavailable = "Inl (StatusErr Unavailable ''connection refused'')"
  have i: "0 < cf_heartbeatInterval client_defaults" by (simp add: client_defaults_def second_def)
  have "fst (answers ?conn client_defaults (Suc 1) [Inr \<lparr>RespData = []\<rparr>, ?unavailable]) =
      None # [Some (StatusErr Unavailable ''connection refused'')]"
    by (simp add: client_sendHeartbeat_def)
  note later = client_loop_exact [OF code_doc.status_code_axioms i this, of False]
  have "fst (answers ?conn client_defaults (Suc 1) [?unavailable]) =
      Some (StatusErr Unavailable ''connection refused'') # [None]"
    by (simp add: client_sendHeartbeat_def)
  note first = client_loop_exact [OF code_doc.status_code_axioms i this, of False]
  show ?thesis using later first by (simp add: List.map_filter_def)
qed

subsection \<open>Starting the client\<close>

lemma validateFlags_None:
  "validateFlags cf = None \<longleftrightarrow>
     0 < cf_heartbeatTimeout cf \<and> cf_heartbeatTimeout cf < cf_heartbeatInterval cf \<and>
     (cf_tlsEnable cf = (cf_tlsCAPath cf \<noteq> ''''))"
  by (auto simp: validateFlags_def)

text \<open>The credentials the flags ask for.\<close>

definition wanted_creds :: "('pool, 'w) client_host \<Rightarrow> clientFlags \<Rightarrow> 'pool creds \<Rightarrow> bool" where
  "wanted_creds host cf creds \<longleftrightarrow>
     (if cf_tlsEnable cf
      then \<exists>pem pool. host_ReadFile host (cf_tlsCAPath cf) = Inr pem \<and>
        AppendCertsFromPEM host pem = Some pool \<and> creds = TLS VersionTLS12 pool
      else creds = Insecure)"

lemma transportCredentials_wanted: "transportCredentials host cf = Inr creds \<Longrightarrow> wanted_creds host cf creds"
  by (auto simp: transportCredentials_def wanted_creds_def split: if_splits sum.splits option.splits)

lemma rounds_no_panic: "fst (client_rounds Code conn cf sigs w) \<noteq> ClientPanics m"
  by (induction Code conn cf sigs w rule: client_rounds.induct) (auto split: prod.splits option.splits)

text \<open>
  C22: a client either fails at its start, with an error and without having sent anything, or
  runs its loop on one connection to the configured endpoint. In the second case the timeout
  of a heartbeat is positive and less than the interval, the connection verifies the server
  with the certificates of the configured bundle and TLS 1.2 or later unless TLS was turned
  off, and the client does not panic.
\<close>

theorem client_run_connects:
  "(\<exists>e. client_run Code host cf sigs w = (ClientReturns (Some (ClientErr e)), w)) \<or>
   (\<exists>creds conn. client_run Code host cf sigs w = client_heartbeatLoop Code conn cf sigs w \<and>
      NewClient host (cf_kmsEndpoint cf) creds = Inr conn \<and> wanted_creds host cf creds \<and>
      0 < cf_heartbeatTimeout cf \<and> cf_heartbeatTimeout cf < cf_heartbeatInterval cf \<and>
      cf_tlsEnable cf = (cf_tlsCAPath cf \<noteq> '''') \<and>
      (\<nexists>m. fst (client_run Code host cf sigs w) = ClientPanics m))"
proof (cases "\<exists>e. client_run Code host cf sigs w = (ClientReturns (Some (ClientErr e)), w)")
  case False
  then obtain creds conn where c: "validateFlags cf = None" "transportCredentials host cf = Inr creds"
      "NewClient host (cf_kmsEndpoint cf) creds = Inr conn"
      "client_run Code host cf sigs w = client_heartbeatLoop Code conn cf sigs w"
    by (auto simp: client_run_def split: option.splits sum.splits)
  have "fst (client_heartbeatLoop Code conn cf sigs w) \<noteq> ClientPanics m" for m
    using c(1) rounds_no_panic [of Code conn cf sigs]
    by (auto simp: client_heartbeatLoop_def validateFlags_None split: prod.splits option.splits)
  then show ?thesis
    using c transportCredentials_wanted [OF c(2)] by (auto simp: validateFlags_None)
qed simp

subsection \<open>The client and the server\<close>

text \<open>
  A connection to the gRPC server: each call is one heartbeat from the client's address. Other
  requests and the check cycles of the switch reach the store in between; each of them is at
  most one store call (\<open>svc_step_call\<close>), so the world holds, for the heartbeats to come, the
  calls that run before each of them and its environment.
\<close>

type_synonym server_world = "(store_call list \<times> rpc_env) list \<times> Server \<times> LeaseStore"

fun server_conn :: "grpc_lib \<Rightarrow> rpc_ctx \<Rightarrow> server_world connection" where
  "server_conn g ctx timeout req ([], srv, s) = (Inl (StatusErr Unavailable ''''), [], srv, s)"
| "server_conn g ctx timeout req ((calls, env) # bs, srv, s) =
     (case Heartbeat g env ctx srv (fold exec_call calls s) of (res, srv', s') \<Rightarrow> (res, bs, srv', s'))"

text \<open>An environment in which nothing fails, and the clock can be written as JSON.\<close>

definition fair_env :: "duration \<Rightarrow> rpc_env \<Rightarrow> bool" where
  "fair_env dur env \<longleftrightarrow>
     valid_iter (iter_lease env) \<and> no_fault (io_lease env) \<and>
     json_time_ok (now_lease env) \<and> json_time_ok (now_lease env + dur)"

text \<open>
  Calls that do not concern the node \<open>u\<close> at the address \<open>ip\<close>, last heard of at \<open>heard\<close> and
  leased until \<open>until\<close>: requests for other nodes and from other addresses, lease checks of the
  node before its lease ends, and check cycles no later than their timeout after \<open>heard\<close>.
\<close>

fun unconcerned :: "string \<Rightarrow> string \<Rightarrow> time \<Rightarrow> time \<Rightarrow> store_op \<Rightarrow> bool" where
  "unconcerned u ip heard until (OpBootstrap u' ip' t dur) = (u' \<noteq> u \<and> ip' \<noteq> ip)"
| "unconcerned u ip heard until (OpHeartbeatByIP ip' t dur) = (ip' \<noteq> ip)"
| "unconcerned u ip heard until (OpValidate u' t) = (u' \<noteq> u \<or> t \<le> until)"
| "unconcerned u ip heard until (OpHeartbeatByUUID u' ip' hn t dur) = (u' \<noteq> u)"
| "unconcerned u ip heard until (OpUnblock u' t dur) = (u' \<noteq> u)"
| "unconcerned u ip heard until (OpSetMaintenance u' b t dur) = (u' \<noteq> u)"
| "unconcerned u ip heard until (OpBlockExpiredNodes t timeout) =
     (0 \<le> timeout \<and> timeout < maxInt64 \<and> t \<le> heard + timeout)"

definition harmless :: "string \<Rightarrow> string \<Rightarrow> time \<Rightarrow> time \<Rightarrow> store_call \<Rightarrow> bool" where
  "harmless u ip heard until c \<longleftrightarrow>
     call_ok c \<and> op_times_ok (snd (snd c)) \<and> unconcerned u ip heard until (snd (snd c))"

text \<open>
  Heartbeats no further apart than the lease window, the first before \<open>until\<close>, and no check
  cycle later than its timeout after the heartbeat before it.
\<close>

fun in_time :: "string \<Rightarrow> string \<Rightarrow> duration \<Rightarrow> time \<Rightarrow> time \<Rightarrow> (store_call list \<times> rpc_env) list \<Rightarrow> bool" where
  "in_time u ip dur heard until [] = True"
| "in_time u ip dur heard until ((calls, env) # bs) =
     (list_all (harmless u ip heard until) calls \<and> fair_env dur env \<and> now_lease env \<le> until \<and>
      in_time u ip dur (now_lease env) (now_lease env + dur) bs)"

text \<open>
  The node at the client's address is active, was last heard of at \<open>heard\<close> and holds a lease
  that lasts until the given time.
\<close>

definition holds_lease ::
  "rpc_ctx \<Rightarrow> Server \<Rightarrow> string \<Rightarrow> string \<Rightarrow> time \<Rightarrow> time \<Rightarrow> LeaseStore \<Rightarrow> bool" where
  "holds_lease ctx srv u ip heard until s \<longleftrightarrow>
     store_inv s \<and> nodes_times_ok (nodes s) \<and> leaseEnabled srv \<and>
     peerIPFromContext ctx = Inr ip \<and> ip \<noteq> '''' \<and>
     (\<exists>r. fmlookup (nodes s) u = Some r \<and> LastUnsealIP r = ip \<and> Status r = LeaseStatusActive \<and>
        LastHeartbeatAt r = heard \<and> LeaseUntil r = until)"

lemma no_fault_sane: "no_fault io \<Longrightarrow> io_sane io"
  by (simp add: no_fault_def io_sane_def)

lemma unconcerned_step:
  assumes "unconcerned u (LastUnsealIP r) (LastHeartbeatAt r) (LeaseUntil r) op" and "Status r = LeaseStatusActive"
  shows "node_step op u (Some r) = Some r"
  using assms
  by (cases op) (auto simp: lapsed_def isExpired_def time_defs overdue_def Sub_gt_iff int64_defs)

lemma harmless_keeps:
  assumes "holds_lease ctx srv u ip heard until s" and "harmless u ip heard until c"
  shows "holds_lease ctx srv u ip heard until (exec_call c s)"
proof -
  have s: "store_inv s" "nodes_times_ok (nodes s)" using assms(1) by (simp_all add: holds_lease_def)
  have c: "call_ok c" "op_times_ok (snd (snd c))" "unconcerned u ip heard until (snd (snd c))"
    using assms(2) by (simp_all add: harmless_def)
  note step = store.refines [OF s(1) c(1)]
  have "nodes_times_ok (nodes (exec_call c s))" using nodes_times_ok_step [OF s(2) c(2)] step by simp
  moreover have "store_inv (exec_call c s)" using store.keeps_inv [OF s(1) c(1)] .
  moreover have "fmlookup (nodes (exec_call c s)) u = fmlookup (nodes s) u"
    using assms(1) step [of u] unconcerned_step [of u _ "snd (snd c)"] c(3) by (auto simp: holds_lease_def)
  ultimately show ?thesis using assms(1) by (simp add: holds_lease_def)
qed

lemma harmless_keep:
  assumes "holds_lease ctx srv u ip heard until s" and "list_all (harmless u ip heard until) calls"
  shows "holds_lease ctx srv u ip heard until (fold exec_call calls s)"
  using assms by (induction calls arbitrary: s) (auto intro: harmless_keeps)

lemma beat_renews:
  assumes "holds_lease ctx srv u ip heard until s" and "fair_env (leaseWindow srv) env" and "now_lease env \<le> until"
  shows "\<exists>srv' s'. Heartbeat g env ctx srv s = (Inr \<lparr>RespData = []\<rparr>, srv', s') \<and>
    leaseWindow srv' = leaseWindow srv \<and>
    holds_lease ctx srv' u ip (now_lease env) (now_lease env + leaseWindow srv) s'"
proof -
  obtain r where ip: "peerIPFromContext ctx = Inr ip" "ip \<noteq> ''''" and r: "fmlookup (nodes s) u = Some r"
      "LastUnsealIP r = ip" "Status r = LeaseStatusActive" "LeaseUntil r = until"
    using assms(1) by (auto simp: holds_lease_def)
  have inv: "store_inv s" "nodes_times_ok (nodes s)" "leaseEnabled srv"
    using assms(1) by (simp_all add: holds_lease_def)
  have env: "valid_iter (iter_lease env)" "no_fault (io_lease env)"
    using assms(2) by (simp_all add: fair_env_def)
  obtain res srv' s' where h: "Heartbeat g env ctx srv s = (res, srv', s')" by (metis prod.exhaust)
  then have body: "Heartbeat_body env ctx srv s = (res, s')"
    and srv': "leaseWindow srv' = leaseWindow srv" "leaseEnabled srv'"
    using inv(3) by (auto simp: Heartbeat_split)
  have range: "lease_range (iter_lease env)" using env(1) by (simp add: lease_range_iff)
  have "recordByIPLocked (iter_lease env) ip s = Some (u, r)"
    using lease_range.recordByIP_unique [OF range _ ip(2)] inv(1) r by (simp add: store_inv_def)
  from heartbeat_found [OF inv(3) no_fault_sane [OF env(2)] ip(1) this body]
  have out: "nodes s' = fmupd u (renewed r (now_lease env) (leaseWindow srv)) (nodes s)"
      "res = Inr \<lparr>RespData = []\<rparr> \<or> \<not> nodes_times_ok (nodes s')"
    using r env(2) assms(3)
    by (auto simp: heartbeat_outcome_def lapsed_def isExpired_def time_defs Let_def)
  have times: "nodes_times_ok (nodes s')"
    using inv(2) assms(2) r(1) unfolding nodes_times_ok_iff
    by (auto simp: out(1) fair_env_def renewed_def record_times_ok_def)
  have "s' = s \<or> s' = exec_call (iter_lease env, io_lease env,
      OpHeartbeatByIP ip (now_lease env) (leaseWindow srv)) s"
    using Heartbeat_body_store [OF body] ip(1) by auto
  then have "store_inv s'"
    using inv(1) store.keeps_inv env(1) ip(2) by (auto simp: call_ok_def)
  then have "holds_lease ctx srv' u ip (now_lease env) (now_lease env + leaseWindow srv) s'"
    using times srv' ip r(2) by (auto simp: holds_lease_def out(1) renewed_def)
  with h out(2) times srv'(1) show ?thesis by auto
qed

lemma send_renews:
  assumes "holds_lease ctx srv u ip heard until s"
    and "in_time u ip (leaseWindow srv) heard until ((calls, env) # bs)"
  shows "\<exists>srv' s'. client_sendHeartbeat (server_conn g ctx) cf ((calls, env) # bs, srv, s) = (None, bs, srv', s') \<and>
    leaseWindow srv' = leaseWindow srv \<and>
    holds_lease ctx srv' u ip (now_lease env) (now_lease env + leaseWindow srv) s'"
  using beat_renews [OF harmless_keep [OF assms(1)], of calls env g] assms(2)
  by (force simp: client_sendHeartbeat_def)

lemma rounds_renew:
  assumes "holds_lease ctx srv u ip heard until s" and "in_time u ip (leaseWindow srv) heard until bs"
  shows "\<exists>srv' s'. client_rounds Code (server_conn g ctx) cf (replicate (length bs) ClientTick) (bs, srv, s) =
      (ClientWaits, [], srv', s') \<and>
    holds_lease ctx srv' u ip (last (heard # map (\<lambda>b. now_lease (snd b)) bs))
      (last (until # map (\<lambda>b. now_lease (snd b) + leaseWindow srv) bs)) s'"
  using assms
proof (induction bs arbitrary: srv s heard "until")
  case (Cons b bs)
  obtain calls env where b: "b = (calls, env)" by fastforce
  with Cons obtain srv1 s1 where
    "client_sendHeartbeat (server_conn g ctx) cf (b # bs, srv, s) = (None, bs, srv1, s1)"
    "leaseWindow srv1 = leaseWindow srv"
    "holds_lease ctx srv1 u ip (now_lease env) (now_lease env + leaseWindow srv) s1"
    using send_renews by blast
  with Cons.IH [of srv1 "now_lease env" "now_lease env + leaseWindow srv" s1] Cons.prems(2) b show ?case by simp
qed simp

text \<open>
  C16: a client that beats in time keeps its node's lease while the rest of the service runs. With
  leases enabled and the store invariant, let the node at the client's address be active and
  hold a lease, and let each heartbeat reach the server within the lease window of the one
  before (the first before the lease ends) and be persisted. In between, let the store receive
  any calls on behalf of other nodes and other (non-empty) addresses, lease checks of the node
  itself while its lease lasts, and check cycles, as long as no check cycle finds the last
  heartbeat older than its timeout: the heartbeats must keep within both the lease window and
  \<open>--heartbeat-timeout\<close>. Then after any number of heartbeats the client is still running, and
  the node is active, last heard of at the last of them, with a lease that lasts for the full
  window from it.
\<close>

theorem client_keeps_lease:
  assumes "holds_lease ctx srv u ip heard until s" and "0 < cf_heartbeatInterval cf"
    and "in_time u ip (leaseWindow srv) heard until bs" and "bs \<noteq> []"
  shows "\<exists>srv' s'. client_heartbeatLoop Code (server_conn g ctx) cf
      (replicate (length bs - 1) ClientTick) (bs, srv, s) = (ClientWaits, [], srv', s') \<and>
    holds_lease ctx srv' u ip (now_lease (snd (last bs))) (now_lease (snd (last bs)) + leaseWindow srv) s'"
proof -
  obtain calls env es where bs: "bs = (calls, env) # es" using assms(4) by (cases bs) auto
  then obtain srv1 s1 where s1:
    "client_sendHeartbeat (server_conn g ctx) cf ((calls, env) # es, srv, s) = (None, es, srv1, s1)"
    "leaseWindow srv1 = leaseWindow srv"
    "holds_lease ctx srv1 u ip (now_lease env) (now_lease env + leaseWindow srv) s1"
    using send_renews [OF assms(1)] assms(3) by blast
  have last: "last ((now_lease env + leaseWindow srv) # map (\<lambda>b. now_lease (snd b) + leaseWindow srv) es) =
      now_lease (snd (last bs)) + leaseWindow srv"
    "last (now_lease env # map (\<lambda>b. now_lease (snd b)) es) = now_lease (snd (last bs))"
    by (simp_all add: bs last_map)
  show ?thesis
    using rounds_renew [OF s1(3), of es Code g cf] s1 assms(2,3) last
    by (simp add: client_heartbeatLoop_def bs)
qed

text \<open>Between the two heartbeats another node is unsealed and the switch runs a check cycle.\<close>

theorem client_keeps_lease_witness:
  "\<exists>srv' s'. client_heartbeatLoop Code_doc (server_conn grpc_doc demo_ctx) client_defaults [ClientTick]
      ([([], demo_env 1001),
        ([(sorted_iter, io_ok, OpBootstrap ''node-2'' ''10.0.0.2'' 1002 5),
          (sorted_iter, io_ok, OpBlockExpiredNodes 1003 (120 * second))], demo_env 1004)],
       demo_server, demo_store demo_record) = (ClientWaits, [], srv', s') \<and>
    holds_lease demo_ctx srv' ''node-1'' ''10.0.0.1'' 1004 1009 s'"
proof -
  have "holds_lease demo_ctx demo_server ''node-1'' ''10.0.0.1'' (LastHeartbeatAt demo_record)
      (LeaseUntil demo_record) (demo_store demo_record)"
    using demo_peer demo_times_ok by (simp add: holds_lease_def demo_server_def NewServer_def)
  from client_keeps_lease [OF this, of client_defaults "[([], demo_env 1001),
      ([(sorted_iter, io_ok, OpBootstrap ''node-2'' ''10.0.0.2'' 1002 5),
        (sorted_iter, io_ok, OpBlockExpiredNodes 1003 (120 * second))], demo_env 1004)]" Code_doc grpc_doc]
  show ?thesis
    by (simp add: client_defaults_def second_def demo_server_def NewServer_def demo_env_def fair_env_def
        harmless_def call_ok_def int64_defs json_time_ok_def day_def)
qed

end
