(* ===== verification/Kms_Agent.thy ===== *)
theory Kms_Agent
  imports Http_Props Go_Duration
begin

text \<open>
  The heartbeat agent of \<open>src/cmd/kms-agent/main.go\<close>: configuration, the signed requests
  and the two retry loops.

  The network is a parameter \<open>net\<close> of the definitions: what a \<open>POST\<close> of a JSON body to a
  URL gives, in a world of type \<open>'w\<close> that the exchange may change. A loop is driven by
  what its \<open>select\<close> statements receive. The result of converting a number outside the
  range of \<open>int64\<close> is left open by the language, so the conversion takes the
  architecture's choice as an argument.
\<close>

subsection \<open>Configuration\<close>

record agentConfig =
  nodeUUID :: string
  nodeIP :: string
  hostname :: string
  kmsServerURL :: string
  hmacKey :: string
  agentInterval :: duration
  agentTimeout :: duration

definition loadConfig :: "(string \<Rightarrow> string) \<Rightarrow> go_error + string \<Rightarrow> go_error + agentConfig" where
  "loadConfig Getenv osHostname =
     (case (if Getenv ''NODE_HOSTNAME'' = ''''
            then (case osHostname of Inl e \<Rightarrow> Inl (Wrapf ''failed to get hostname'' e) | Inr h \<Rightarrow> Inr h)
            else Inr (Getenv ''NODE_HOSTNAME'')) of
        Inl e \<Rightarrow> Inl e
      | Inr host \<Rightarrow>
          (let cfg = \<lparr>nodeUUID = Getenv ''NODE_UUID'', nodeIP = Getenv ''NODE_IP'', hostname = host,
                 kmsServerURL = Getenv ''KMS_SERVER_URL'', hmacKey = Getenv ''HEARTBEAT_HMAC_KEY'',
                 agentInterval = 30 * second, agentTimeout = 5 * second\<rparr> in
           if nodeIP cfg = '''' then Inl (ErrorString ''NODE_IP environment variable is required'')
           else if kmsServerURL cfg = '''' then
             Inl (ErrorString ''KMS_SERVER_URL environment variable is required'')
           else if hmacKey cfg = '''' then
             Inl (ErrorString ''HEARTBEAT_HMAC_KEY environment variable is required'')
           else
             (case (if Getenv ''HEARTBEAT_INTERVAL'' = '''' then Inr cfg
                    else case ParseDuration (Getenv ''HEARTBEAT_INTERVAL'') of
                      Inl e \<Rightarrow> Inl (Wrapf ''invalid HEARTBEAT_INTERVAL'' e)
                    | Inr d \<Rightarrow> Inr (cfg\<lparr>agentInterval := d\<rparr>)) of
                Inl e \<Rightarrow> Inl e
              | Inr cfg1 \<Rightarrow>
                  if Getenv ''HEARTBEAT_TIMEOUT'' = '''' then Inr cfg1
                  else case ParseDuration (Getenv ''HEARTBEAT_TIMEOUT'') of
                    Inl e \<Rightarrow> Inl (Wrapf ''invalid HEARTBEAT_TIMEOUT'' e)
                  | Inr d \<Rightarrow> Inr (cfg1\<lparr>agentTimeout := d\<rparr>))))"

subsection \<open>Backoff\<close>

text \<open>
  \<open>float64(base) * math.Pow(2, n)\<close>: the power is exact up to the largest exponent and
  infinite beyond, and so is the product (\<open>None\<close> for infinities and not-a-number).
\<close>

definition float_scale :: "duration \<Rightarrow> nat \<Rightarrow> rat option" where
  "float_scale base n =
     (if 1023 < n \<or> 2 ^ 1024 \<le> \<bar>fl (of_int base) * 2 ^ n\<bar> then None else Some (fl (of_int base) * 2 ^ n))"

definition float_to_int64 :: "(rat option \<Rightarrow> int) \<Rightarrow> rat option \<Rightarrow> int" where
  "float_to_int64 oor x =
     (case x of
        Some q \<Rightarrow> if in_int64 (trunc q) then trunc q else oor x
      | None \<Rightarrow> oor x)"

text \<open>Two architectures: amd64 gives the smallest value, arm64 saturates (an infinite product is positive for a positive interval).\<close>

definition amd64 :: "rat option \<Rightarrow> int" where
  "amd64 x = minInt64"

definition arm64 :: "rat option \<Rightarrow> int" where
  "arm64 x = (case x of Some q \<Rightarrow> if q < 0 then minInt64 else maxInt64 | None \<Rightarrow> maxInt64)"

definition maxBackoff :: duration where
  "maxBackoff = 5 * minute"

definition backoffDuration :: "(rat option \<Rightarrow> int) \<Rightarrow> nat \<Rightarrow> duration \<Rightarrow> duration" where
  "backoffDuration oor failures baseInterval =
     (if failures \<le> 1 then baseInterval
      else
        (let backoff = float_to_int64 oor (float_scale baseInterval (failures - 1))
         in if maxBackoff < backoff then maxBackoff else backoff))"

subsection \<open>Requests\<close>

datatype post_result = BadURL go_error | SendFailed go_error | Answered http_response

type_synonym 'w network = "string \<Rightarrow> (string \<Rightarrow> string) \<Rightarrow> json \<Rightarrow> 'w \<Rightarrow> post_result \<times> 'w"

definition request_header :: "string \<Rightarrow> string \<Rightarrow> string" where
  "request_header sig k =
     (if k = ''Content-Type'' then ''application/json''
      else if k = ''X-Hmac-Signature'' then sig else '''')"

definition sendHeartbeat ::
  "'w network \<Rightarrow> HMACAuth \<Rightarrow> agentConfig \<Rightarrow> time \<Rightarrow> 'w \<Rightarrow> go_error option \<times> 'w" where
  "sendHeartbeat net auth cfg now w =
     (let timestamp = Unix now;
          reqBody = \<lparr>hr_NodeUUID = nodeUUID cfg, hr_NodeIP = nodeIP cfg, hr_Hostname = hostname cfg,
            hr_Timestamp = timestamp\<rparr>
      in case enc_heartbeatRequest reqBody of
           None \<Rightarrow> (Some (Wrapf ''failed to marshal heartbeat request'' (SysError '''')), w)
         | Some body \<Rightarrow>
             (case net (kmsServerURL cfg @ ''/heartbeat'')
                     (request_header (Sign auth (nodeUUID cfg) (nodeIP cfg) timestamp)) body w of
                (BadURL e, w1) \<Rightarrow> (Some (Wrapf ''failed to create heartbeat request'' e), w1)
              | (SendFailed e, w1) \<Rightarrow> (Some (Wrapf ''heartbeat request failed'' e), w1)
              | (Answered resp, w1) \<Rightarrow>
                  if rs_code resp = StatusOK then (None, w1)
                  else (Some (ErrorString (''heartbeat rejected with status '' @ fmt_d (int (rs_code resp)))), w1)))"

definition identifyResponse_schema :: "(string \<times> string) schema" where
  "identifyResponse_schema =
     [(''node_uuid'', \<lambda>v r. map_option (\<lambda>s. (s, snd r)) (dec_string v (fst r))),
      (''status'', \<lambda>v r. map_option (\<lambda>s. (fst r, s)) (dec_string v (snd r)))]"

definition dec_identifyResponse :: "json \<Rightarrow> (string \<times> string) option" where
  "dec_identifyResponse j = dec_struct identifyResponse_schema j ('''', '''')"

definition sendIdentify ::
  "'w network \<Rightarrow> HMACAuth \<Rightarrow> agentConfig \<Rightarrow> time \<Rightarrow> 'w \<Rightarrow> (go_error + string) \<times> 'w" where
  "sendIdentify net auth cfg now w =
     (let timestamp = Unix now;
          reqBody = \<lparr>ir_NodeIP = nodeIP cfg, ir_Timestamp = timestamp\<rparr>
      in case enc_identifyRequest reqBody of
           None \<Rightarrow> (Inl (Wrapf ''failed to marshal identify request'' (SysError '''')), w)
         | Some body \<Rightarrow>
             (case net (kmsServerURL cfg @ ''/node/identify'')
                     (request_header (SignIdentify auth (nodeIP cfg) timestamp)) body w of
                (BadURL e, w1) \<Rightarrow> (Inl (Wrapf ''failed to create identify request'' e), w1)
              | (SendFailed e, w1) \<Rightarrow> (Inl (Wrapf ''identify request failed'' e), w1)
              | (Answered resp, w1) \<Rightarrow>
                  if rs_code resp = StatusNotFound then
                    (Inl (ErrorString ''node not yet registered (waiting for first Unseal)''), w1)
                  else if rs_code resp \<noteq> StatusOK then
                    (Inl (ErrorString (''identify rejected with status '' @ fmt_d (int (rs_code resp)))), w1)
                  else
                    (case Option.bind (rs_body resp) dec_identifyResponse of
                       None \<Rightarrow> (Inl (Wrapf ''failed to decode identify response'' (SysError ''invalid JSON'')), w1)
                     | Some (uuid, status) \<Rightarrow>
                         if uuid = '''' then (Inl (ErrorString ''server returned empty node_uuid''), w1)
                         else (Inr uuid, w1))))"

subsection \<open>Loops\<close>

text \<open>
  One round of \<open>heartbeatLoop\<close>: its first \<open>select\<close> receives the end of the context, or a
  tick at some time; should the heartbeat fail, the second one receives the end of the
  context or the timer. The result lists the delays chosen, in order.
\<close>

datatype round = Stop | Beat time bool

datatype loop_result = LoopPanics string | LoopWaits | LoopReturns

fun heartbeat_rounds ::
  "(rat option \<Rightarrow> int) \<Rightarrow> 'w network \<Rightarrow> HMACAuth \<Rightarrow> agentConfig \<Rightarrow> round list \<Rightarrow> nat \<Rightarrow> duration list \<Rightarrow> 'w \<Rightarrow>
   loop_result \<times> nat \<times> duration list \<times> 'w" where
  "heartbeat_rounds oor net auth cfg [] failures delays w = (LoopWaits, failures, delays, w)"
| "heartbeat_rounds oor net auth cfg (Stop # rs) failures delays w = (LoopReturns, failures, delays, w)"
| "heartbeat_rounds oor net auth cfg (Beat now stop # rs) failures delays w =
     (case sendHeartbeat net auth cfg now w of
        (None, w1) \<Rightarrow> heartbeat_rounds oor net auth cfg rs 0 delays w1
      | (Some _, w1) \<Rightarrow>
          (let failures' = failures + 1;
               delays' = delays @ [backoffDuration oor failures' (agentInterval cfg)]
           in if stop then (LoopReturns, failures', delays', w1)
              else heartbeat_rounds oor net auth cfg rs failures' delays' w1))"

definition heartbeatLoop ::
  "(rat option \<Rightarrow> int) \<Rightarrow> 'w network \<Rightarrow> HMACAuth \<Rightarrow> agentConfig \<Rightarrow> time \<Rightarrow> round list \<Rightarrow> 'w \<Rightarrow>
   loop_result \<times> nat \<times> duration list \<times> 'w" where
  "heartbeatLoop oor net auth cfg now rs w =
     (let (err, w1) = sendHeartbeat net auth cfg now w;
          failures = (case err of Some _ \<Rightarrow> 1 | None \<Rightarrow> 0)
      in if agentInterval cfg \<le> 0 then (LoopPanics ''non-positive interval for NewTicker'', failures, [], w1)
         else heartbeat_rounds oor net auth cfg rs failures [] w1)"

text \<open>
  \<open>identifyLoop\<close>: the times of the attempts; after a failed one the \<open>select\<close> receives the
  end of the context (\<open>Some e\<close>, its error) or the timer. \<open>None\<close> is a loop still trying.
\<close>

fun identifyLoop ::
  "(rat option \<Rightarrow> int) \<Rightarrow> 'w network \<Rightarrow> HMACAuth \<Rightarrow> agentConfig \<Rightarrow> (time \<times> go_error option) list \<Rightarrow> nat \<Rightarrow> duration list \<Rightarrow> 'w \<Rightarrow>
   (go_error + string) option \<times> duration list \<times> 'w" where
  "identifyLoop oor net auth cfg [] failures delays w = (None, delays, w)"
| "identifyLoop oor net auth cfg ((now, stop) # rs) failures delays w =
     (case sendIdentify net auth cfg now w of
        (Inr uuid, w1) \<Rightarrow> (Some (Inr uuid), delays, w1)
      | (Inl _, w1) \<Rightarrow>
          (let failures' = failures + 1;
               delays' = delays @ [backoffDuration oor failures' (agentInterval cfg)]
           in case stop of
                Some e \<Rightarrow> (Some (Inl e), delays', w1)
              | None \<Rightarrow> identifyLoop oor net auth cfg rs failures' delays' w1))"

text \<open>\<open>run\<close>, given what creating the logger gives: discovery when the node does not know its UUID, then the heartbeats.\<close>

datatype agent_result = AgentFails go_error | AgentIdentifying | AgentLoops loop_result

definition agent_run ::
  "(rat option \<Rightarrow> int) \<Rightarrow> 'w network \<Rightarrow> go_error option \<Rightarrow> (string \<Rightarrow> string) \<Rightarrow> go_error + string \<Rightarrow>
   (time \<times> go_error option) list \<Rightarrow> time \<Rightarrow> round list \<Rightarrow> 'w \<Rightarrow> agent_result \<times> 'w" where
  "agent_run oor net logger_err Getenv osHostname ids now rs w =
     (case logger_err of
        Some e \<Rightarrow> (AgentFails (Wrapf ''failed to create logger'' e), w)
      | None \<Rightarrow>
          (case loadConfig Getenv osHostname of
             Inl e \<Rightarrow> (AgentFails e, w)
           | Inr cfg \<Rightarrow>
               (let auth = NewHMACAuth (hmacKey cfg) in
                if nodeUUID cfg = '''' then
                  (case identifyLoop oor net auth cfg ids 0 [] w of
                     (None, _, w1) \<Rightarrow> (AgentIdentifying, w1)
                   | (Some (Inl e), _, w1) \<Rightarrow> (AgentFails e, w1)
                   | (Some (Inr uuid), _, w1) \<Rightarrow>
                       (case heartbeatLoop oor net auth (cfg\<lparr>nodeUUID := uuid\<rparr>) now rs w1 of
                          (res, _, _, w2) \<Rightarrow> (AgentLoops res, w2)))
                else
                  (case heartbeatLoop oor net auth cfg now rs w of (res, _, _, w1) \<Rightarrow> (AgentLoops res, w1)))))"

text \<open>\<open>main\<close>: the exit status and the error printed; \<open>None\<close> is a process that has not exited.\<close>

fun agent_main :: "agent_result \<Rightarrow> (nat \<times> go_error option) option" where
  "agent_main (AgentFails e) = Some (1, Some e)"
| "agent_main AgentIdentifying = None"
| "agent_main (AgentLoops (LoopPanics m)) = Some (2, None)"
| "agent_main (AgentLoops LoopWaits) = None"
| "agent_main (AgentLoops LoopReturns) = Some (0, None)"

end
