(* ===== verification/Main_Props.thy ===== *)
theory Main_Props
  imports Server_Main Client_Props Kms_Agent
begin

text \<open>
  What the programs do with their configuration: the command line is read back as it was
  written, a server that starts is wired as its flags say, and the service as a whole keeps
  the promise of the dead-man's switch exactly when it was given its secrets.
\<close>

subsection \<open>Command lines\<close>

text \<open>A command line that sets every flag of the server, and of the client.\<close>

definition server_args :: "kmsFlags \<Rightarrow> string list" where
  "server_args f =
     [assign ''kms-api-endpoint'' (kf_apiEndpoint f), assign ''http-endpoint'' (kf_httpEndpoint f),
      assign ''heartbeat-enable'' (bool_text (kf_heartbeatEnable f)), assign ''key-path'' (kf_keyPath f),
      assign ''metrics-endpoint'' (kf_metricsEndpoint f), assign ''tls-enable'' (bool_text (kf_tlsEnable f)),
      assign ''tls-cert-path'' (kf_tlsCertPath f), assign ''tls-key-path'' (kf_tlsKeyPath f),
      assign ''lease-store-path'' (kf_leaseStorePath f),
      assign ''heartbeat-interval'' (duration_text (kf_heartbeatInterval f)),
      assign ''heartbeat-timeout'' (duration_text (kf_heartbeatTimeout f)),
      assign ''heartbeat-check-interval'' (duration_text (kf_heartbeatCheckInterval f)),
      assign ''lease-duration'' (duration_text (kf_leaseDuration f))]"

definition client_args :: "clientFlags \<Rightarrow> string list" where
  "client_args cf =
     [assign ''kms-endpoint'' (cf_kmsEndpoint cf), assign ''tls-enable'' (bool_text (cf_tlsEnable cf)),
      assign ''tls-ca-path'' (cf_tlsCAPath cf),
      assign ''heartbeat-interval'' (duration_text (cf_heartbeatInterval cf)),
      assign ''heartbeat-timeout'' (duration_text (cf_heartbeatTimeout cf))]"

lemma server_args_parsed:
  assumes "in_int64 (kf_heartbeatInterval f)" "in_int64 (kf_heartbeatTimeout f)"
    "in_int64 (kf_heartbeatCheckInterval f)" "in_int64 (kf_leaseDuration f)"
  shows "flag_Parse server_flags (server_args f) server_defaults =
    Inr (f\<lparr>kf_heartbeatHMACKey := '''', kf_adminToken := ''''\<rparr>, [])"
  using assms
  by (simp add: server_args_def Parse_assign flag_name_ok_def server_flags_def flag_vars server_defaults_def
      del: flag_Parse.simps(2))

lemma client_args_parsed:
  assumes "in_int64 (cf_heartbeatInterval cf)" "in_int64 (cf_heartbeatTimeout cf)"
  shows "flag_Parse client_flags (client_args cf) client_defaults = Inr (cf, [])"
  using assms
  by (simp add: client_args_def Parse_assign flag_name_ok_def client_flags_def flag_vars client_defaults_def
      del: flag_Parse.simps(2))

subsection \<open>Starting the server\<close>

text \<open>What \<open>run\<close> demands of the flags, and of the host.\<close>

definition flags_ok :: "kmsFlags \<Rightarrow> bool" where
  "flags_ok f \<longleftrightarrow>
     kf_keyPath f \<noteq> '''' \<and>
     (if kf_heartbeatEnable f
      then kf_leaseStorePath f \<noteq> '''' \<and> 0 < kf_heartbeatInterval f \<and> kf_heartbeatInterval f < kf_leaseDuration f
      else kf_leaseStorePath f = '''' \<and> kf_leaseDuration f \<le> 0)"

definition endpoints :: "kmsFlags \<Rightarrow> string list" where
  "endpoints f =
     kf_apiEndpoint f # (if kf_metricsEndpoint f = '''' then [] else [kf_metricsEndpoint f]) @
     (if with_secrets f then [kf_httpEndpoint f] else [])"

text \<open>The host lets the process listen on the endpoints, one after the other.\<close>

fun listens :: "server_host \<Rightarrow> string list \<Rightarrow> string list \<Rightarrow> bool" where
  "listens host taken [] = True"
| "listens host taken (ep # eps) = (sh_Listen_err host taken ep = None \<and> listens host (taken @ [ep]) eps)"

definition open_store :: "server_host \<Rightarrow> kmsFlags \<Rightarrow> go_error + LeaseStore" where
  "open_store host f =
     NewFileLeaseStore (sh_iter host) (sh_io host) (sh_now host) (kf_leaseStorePath f) NewMetrics (sh_files host)"

definition host_ok :: "server_host \<Rightarrow> kmsFlags \<Rightarrow> bool" where
  "host_ok host f \<longleftrightarrow>
     sh_NewProduction_err host = None \<and> (\<exists>bs. sh_ReadFile host (kf_keyPath f) = Inr bs) \<and>
     (kf_heartbeatEnable f \<longrightarrow> (\<exists>s. open_store host f = Inr s)) \<and>
     (kf_tlsEnable f \<longrightarrow> sh_TLSFromFile_err host (kf_tlsCertPath f) (kf_tlsKeyPath f) = None) \<and>
     listens host [] (endpoints f)"

text \<open>
  An address on which the host does not let a process listen twice: one with a fixed port (with
  port 0 the host chooses a free one each time).
\<close>

definition exclusive :: "server_host \<Rightarrow> string \<Rightarrow> bool" where
  "exclusive host ep \<longleftrightarrow> (\<forall>taken. ep \<in> set taken \<longrightarrow> sh_Listen_err host taken ep \<noteq> None)"

lemma listens_distinct:
  assumes "listens host taken eps" and "distinct (filter (exclusive host) taken)"
  shows "distinct (filter (exclusive host) (taken @ eps))"
  using assms
proof (induction eps arbitrary: taken)
  case (Cons ep eps)
  then have "ep \<notin> set taken \<or> \<not> exclusive host ep" by (auto simp: exclusive_def)
  with Cons.prems have "distinct (filter (exclusive host) (taken @ [ep]))" by auto
  with Cons.IH [of "taken @ [ep]"] Cons.prems(1) show ?case by simp
qed simp

lemma serverOptions_ok:
  "serverOptions host f NewMetrics = Inr opts \<Longrightarrow>
     if kf_heartbeatEnable f
     then kf_leaseStorePath f \<noteq> '''' \<and> 0 < kf_heartbeatInterval f \<and> kf_heartbeatInterval f < kf_leaseDuration f \<and>
       (\<exists>s. open_store host f = Inr s \<and>
         opts = \<lparr>opt_LeaseStore = Some s, opt_Metrics = NewMetrics, opt_LeaseDuration = kf_leaseDuration f\<rparr>)
     else kf_leaseStorePath f = '''' \<and> kf_leaseDuration f \<le> 0 \<and>
       opts = \<lparr>opt_LeaseStore = None, opt_Metrics = NewMetrics, opt_LeaseDuration = 0\<rparr>"
  by (auto simp: serverOptions_def open_store_def split: if_splits sum.splits)

lemma serverOptions_total:
  "flags_ok f \<Longrightarrow> (kf_heartbeatEnable f \<longrightarrow> (\<exists>s. open_store host f = Inr s)) \<Longrightarrow>
     \<exists>opts. serverOptions host f NewMetrics = Inr opts"
  by (auto simp: serverOptions_def open_store_def flags_ok_def split: if_splits)

lemma start_wiring:
  assumes "start_server host f = Inr rn"
  shows "\<exists>bs opts tls. sh_NewProduction_err host = None \<and> kf_keyPath f \<noteq> '''' \<and>
    sh_ReadFile host (kf_keyPath f) = Inr bs \<and> serverOptions host f NewMetrics = Inr opts \<and>
    newGRPCServer host f = Inr tls \<and> listens host [] (endpoints f) \<and> held rn = endpoints f \<and>
    rn_server rn = NewServer (\<lambda>_ _. Inr bs) opts \<and> rn_store rn = opt_LeaseStore opts \<and>
    rn_http rn = (if with_secrets f
      then Some (kf_httpEndpoint f, NewHTTPHandler (NewHMACAuth (kf_heartbeatHMACKey f)) (kf_adminToken f)
        (kf_leaseDuration f) (kf_heartbeatInterval f)) else None) \<and>
    rn_switch rn = (if with_secrets f
      then Some (NewDeadManSwitch NewMetrics (kf_heartbeatCheckInterval f) (kf_heartbeatTimeout f)) else None)"
  using assms
  by (auto simp: start_server_def start_metrics_def start_http_def endpoints_def held_def
      split: option.splits if_splits sum.splits)

lemma newGRPCServer_iff:
  "(\<exists>tls. newGRPCServer host f = Inr tls) \<longleftrightarrow>
     (kf_tlsEnable f \<longrightarrow> sh_TLSFromFile_err host (kf_tlsCertPath f) (kf_tlsKeyPath f) = None)"
  by (auto simp: newGRPCServer_def split: option.splits)

lemma start_ok:
  assumes ok: "flags_ok f" "host_ok host f"
  shows "\<exists>rn. start_server host f = Inr rn"
proof -
  from ok obtain opts where opts: "serverOptions host f NewMetrics = Inr opts"
    using serverOptions_total [of f host] by (auto simp: host_ok_def)
  obtain tls where tls: "newGRPCServer host f = Inr tls"
    using ok newGRPCServer_iff [of host f] by (auto simp: host_ok_def)
  from ok obtain bs where "sh_NewProduction_err host = None" "kf_keyPath f \<noteq> ''''"
    "sh_ReadFile host (kf_keyPath f) = Inr bs" "listens host [] (endpoints f)"
    by (auto simp: host_ok_def flags_ok_def)
  with opts tls show ?thesis
    by (auto simp: start_server_def start_metrics_def start_http_def endpoints_def held_def split: if_splits)
qed

text \<open>
  C19: the server starts exactly when its configuration is consistent and its host provides
  what that configuration needs. A key path is required; with leases enabled, so are a store
  path and a lease that outlasts a positive heartbeat interval; without them, neither may be
  set. The key file must be readable, the lease store loadable, the TLS key pair (with TLS)
  readable, and the host must let the process listen on the endpoint of the gRPC interface,
  then on that of the metrics (unless it is empty) and then on that of the HTTP interface (with
  leases enabled and both secrets set), each while it holds the ones before. In every other
  case \<open>run\<close> returns an error. In particular no two of them may be the same address, if it is
  one on which the host does not let a process listen twice.
\<close>

theorem start_exact:
  "((\<exists>rn. start_server host f = Inr rn) \<longleftrightarrow> flags_ok f \<and> host_ok host f) \<and>
   ((\<exists>rn. start_server host f = Inr rn) \<longrightarrow> distinct (filter (exclusive host) (endpoints f)))"
proof -
  have needs: "flags_ok f \<and> host_ok host f" if rn: "start_server host f = Inr rn" for rn
  proof -
    obtain bs opts tls where w: "sh_NewProduction_err host = None" "kf_keyPath f \<noteq> ''''"
      "sh_ReadFile host (kf_keyPath f) = Inr bs" "serverOptions host f NewMetrics = Inr opts"
      "newGRPCServer host f = Inr tls" "listens host [] (endpoints f)"
      using start_wiring [OF rn] by blast
    then show ?thesis
      using serverOptions_ok [OF w(4)] newGRPCServer_iff [of host f]
      by (auto simp: flags_ok_def host_ok_def split: if_splits)
  qed
  moreover have "distinct (filter (exclusive host) (endpoints f))" if "host_ok host f"
    using listens_distinct [of host "[]" "endpoints f"] that by (simp add: host_ok_def)
  ultimately show ?thesis using start_ok by blast
qed

subsection \<open>Whole programs\<close>

text \<open>
  C20: the programs run with the configuration they are given. A command line that assigns
  every flag is read back exactly, for every text and every duration, and so are the two
  secrets of the server's environment, which no flag can set.
\<close>

theorem main_runs_flags:
  assumes "in_int64 (kf_heartbeatInterval f)" and "in_int64 (kf_heartbeatTimeout f)"
    and "in_int64 (kf_heartbeatCheckInterval f)" and "in_int64 (kf_leaseDuration f)"
    and "Getenv ''HEARTBEAT_HMAC_KEY'' = kf_heartbeatHMACKey f" and "Getenv ''ADMIN_TOKEN'' = kf_adminToken f"
    and "in_int64 (cf_heartbeatInterval cf)" and "in_int64 (cf_heartbeatTimeout cf)"
  shows "server_main stopped host Wait Getenv (server_args f) = (0, server_run stopped host Wait f) \<and>
    client_main Code chost (client_args cf) sigs w =
      (case client_run Code chost cf sigs w of
         (ClientPanics _, w1) \<Rightarrow> (Some (2, None), w1)
       | (ClientWaits, w1) \<Rightarrow> (None, w1)
       | (ClientReturns err, w1) \<Rightarrow> (Some (0, err), w1))"
proof -
  have "env_flags Getenv (f\<lparr>kf_heartbeatHMACKey := '''', kf_adminToken := ''''\<rparr>) = f"
    using assms(5,6) by (cases f) (simp add: env_flags_def Let_def)
  then show ?thesis
    using server_args_parsed [OF assms(1-4)] client_args_parsed [OF assms(7,8)]
    by (simp add: server_main_def client_main_def)
qed

text \<open>A configuration and a host for the concrete instances: the store holds one node.\<close>

definition demo_flags :: kmsFlags where
  "demo_flags = server_defaults\<lparr>kf_keyPath := ''master.key'', kf_heartbeatEnable := True,
     kf_leaseStorePath := ''leases.json'', kf_leaseDuration := 5 * minute,
     kf_heartbeatHMACKey := ''secret'', kf_adminToken := ''token''\<rparr>"

definition saved_store :: LeaseStore where
  "saved_store = snd (persistLocked io_ok (demo_store demo_record))"

definition demo_host :: server_host where
  "demo_host = \<lparr>sh_NewProduction_err = None, sh_ReadFile = (\<lambda>_. Inr (replicate 32 7)),
     sh_TLSFromFile_err = (\<lambda>_ _. None), sh_Listen_err = (\<lambda>taken ep. if ep \<in> set taken then Some (SysError ''address already in use'') else None),
     sh_iter = sorted_iter,
     sh_io = io_ok, sh_now = 1001, sh_files = files saved_store\<rparr>"

definition offline :: "(unit, unit) client_host" where
  "offline = \<lparr>NewProduction_err = None, host_ReadFile = (\<lambda>_. Inl ErrNotExist),
     AppendCertsFromPEM = (\<lambda>_. None), NewClient = (\<lambda>_ _. Inl ErrNotExist)\<rparr>"

theorem main_runs_flags_witness:
  "let Getenv = (\<lambda>k. if k = ''HEARTBEAT_HMAC_KEY'' then ''secret'' else ''token'') in
   server_main (\<lambda>_. False) demo_host (\<lambda>_. None) Getenv (server_args demo_flags) =
     (0, server_run (\<lambda>_. False) demo_host (\<lambda>_. None) demo_flags) \<and>
   client_main Code_doc offline (client_args client_defaults) [] () =
     (Some (0, Some (ClientErr (ErrorString ''--tls-ca-path is not set''))), ())"
proof -
  let ?Getenv = "\<lambda>k. if k = ''HEARTBEAT_HMAC_KEY'' then ''secret'' else ''token''"
  have "in_int64 (kf_heartbeatInterval demo_flags)" "in_int64 (kf_heartbeatTimeout demo_flags)"
    "in_int64 (kf_heartbeatCheckInterval demo_flags)" "in_int64 (kf_leaseDuration demo_flags)"
    "?Getenv ''HEARTBEAT_HMAC_KEY'' = kf_heartbeatHMACKey demo_flags" "?Getenv ''ADMIN_TOKEN'' = kf_adminToken demo_flags"
    "in_int64 (cf_heartbeatInterval client_defaults)" "in_int64 (cf_heartbeatTimeout client_defaults)"
    by (simp_all add: demo_flags_def server_defaults_def client_defaults_def int64_defs second_def minute_def)
  from main_runs_flags [OF this, of "\<lambda>_. False" demo_host "\<lambda>_. None" Code_doc offline "[]" "()"]
  have run: "server_main (\<lambda>_. False) demo_host (\<lambda>_. None) ?Getenv (server_args demo_flags) =
      (0, server_run (\<lambda>_. False) demo_host (\<lambda>_. None) demo_flags)"
    and client: "client_main Code_doc offline (client_args client_defaults) [] () =
      (case client_run Code_doc offline client_defaults [] () of
         (ClientPanics _, w1) \<Rightarrow> (Some (2, None), w1)
       | (ClientWaits, w1) \<Rightarrow> (None, w1)
       | (ClientReturns err, w1) \<Rightarrow> (Some (0, err), w1))" by blast+
  have "client_run Code_doc offline client_defaults [] () =
      (ClientReturns (Some (ClientErr (ErrorString ''--tls-ca-path is not set''))), ())"
    by (simp add: client_run_def validateFlags_def client_defaults_def second_def)
  with run client show ?thesis unfolding Let_def by simp
qed

lemma demo_open:
  "\<exists>s. open_store demo_host f = Inr s \<and> nodes s = nodes (demo_store demo_record)"
  if "kf_leaseStorePath f = ''leases.json''"
proof -
  have path: "path saved_store = ''leases.json''" "nodes saved_store = nodes (demo_store demo_record)"
    by (simp_all add: saved_store_def)
  have "synced saved_store"
    unfolding saved_store_def using demo_times_ok by (intro persist_synced) simp_all
  then show ?thesis
    using load_synced [of saved_store io_ok sorted_iter 1001 NewMetrics] path that
    by (simp add: open_store_def demo_host_def io_ok_def)
qed

lemma demo_host_simps:
  "sh_NewProduction_err demo_host = None" "sh_ReadFile demo_host p = Inr (replicate 32 7)"
  "sh_TLSFromFile_err demo_host cert keyfile = None"
  by (simp_all add: demo_host_def)

lemma demo_listens: "distinct eps \<Longrightarrow> set eps \<inter> set taken = {} \<Longrightarrow> listens demo_host taken eps"
  by (induction eps arbitrary: taken) (auto simp: demo_host_def)

lemma demo_start:
  assumes "kf_heartbeatEnable f" and "flags_ok f" and "kf_leaseStorePath f = ''leases.json''"
    and "distinct (endpoints f)"
  obtains rn s where "start_server demo_host f = Inr rn" "rn_store rn = Some s"
    "nodes s = nodes (demo_store demo_record)" "leaseEnabled (rn_server rn)"
proof -
  obtain s where s: "open_store demo_host f = Inr s" "nodes s = nodes (demo_store demo_record)"
    using demo_open [OF assms(3)] by blast
  then obtain opts where opts: "serverOptions demo_host f NewMetrics = Inr opts"
    using serverOptions_total [OF assms(2)] by blast
  have "host_ok demo_host f" using s(1) demo_listens assms(4) by (simp add: host_ok_def demo_host_simps)
  then obtain rn where rn: "start_server demo_host f = Inr rn" using start_ok [OF assms(2)] by blast
  with start_wiring [OF rn] opts obtain bs where
    "rn_store rn = opt_LeaseStore opts" "rn_server rn = NewServer (\<lambda>_ _. Inr bs) opts" by auto
  then show thesis
    using that [OF rn] serverOptions_ok [OF opts] s assms(1) by (auto simp: NewServer_def)
qed

lemma demo_flags_ok:
  "flags_ok demo_flags" "flags_ok (demo_flags\<lparr>kf_adminToken := ''''\<rparr>)"
  "distinct (endpoints demo_flags)" "distinct (endpoints (demo_flags\<lparr>kf_adminToken := ''''\<rparr>))"
  by (simp_all add: flags_ok_def endpoints_def demo_flags_def server_defaults_def second_def minute_def)

text \<open>The server starts on the default endpoints, and not with its metrics on the gRPC endpoint.\<close>

theorem start_exact_witness:
  "(\<exists>rn. start_server demo_host demo_flags = Inr rn) \<and>
   \<not> (\<exists>rn. start_server demo_host (demo_flags\<lparr>kf_metricsEndpoint := '':4050''\<rparr>) = Inr rn)"
proof -
  let ?f = "demo_flags\<lparr>kf_metricsEndpoint := '':4050''\<rparr>"
  obtain s where "open_store demo_host demo_flags = Inr s"
    using demo_open [of demo_flags] by (auto simp: demo_flags_def)
  then have "host_ok demo_host demo_flags"
    using demo_listens demo_flags_ok(3) by (simp add: host_ok_def demo_host_simps)
  moreover have "\<not> distinct (filter (exclusive demo_host) (endpoints ?f))"
    by (simp add: endpoints_def exclusive_def demo_host_def demo_flags_def server_defaults_def)
  ultimately show ?thesis
    using start_exact [of demo_host demo_flags] start_exact [of demo_host ?f] demo_flags_ok(1) by blast
qed


subsection \<open>Configured durations\<close>

text \<open>
  Go's \<open>time.Duration\<close> is an \<open>int64\<close>; the integers that stand for the configured durations
  here are always in its range.
\<close>

lemma server_durations:
  assumes "flag_Parse server_flags args server_defaults = Inr (f, rest)"
  shows "in_int64 (kf_heartbeatInterval f) \<and> in_int64 (kf_heartbeatTimeout f) \<and>
    in_int64 (kf_heartbeatCheckInterval f) \<and> in_int64 (kf_leaseDuration f)"
  using assms
proof (rule Parse_invariant)
  show "in_int64 (kf_heartbeatInterval server_defaults) \<and> in_int64 (kf_heartbeatTimeout server_defaults) \<and>
    in_int64 (kf_heartbeatCheckInterval server_defaults) \<and> in_int64 (kf_leaseDuration server_defaults)"
    by (simp add: server_defaults_def int64_defs second_def)
qed (auto simp: server_flags_def flag_vars split: sum.splits, (erule ParseDuration_int64)+)

lemma client_durations:
  assumes "flag_Parse client_flags args client_defaults = Inr (cf, rest)"
  shows "in_int64 (cf_heartbeatInterval cf) \<and> in_int64 (cf_heartbeatTimeout cf)"
  using assms
proof (rule Parse_invariant)
  show "in_int64 (cf_heartbeatInterval client_defaults) \<and> in_int64 (cf_heartbeatTimeout client_defaults)"
    by (simp add: client_defaults_def int64_defs second_def)
qed (auto simp: client_flags_def flag_vars split: sum.splits, (erule ParseDuration_int64)+)

lemma agent_durations:
  assumes "loadConfig Getenv osHostname = Inr cfg"
  shows "in_int64 (agentInterval cfg) \<and> in_int64 (agentTimeout cfg)"
proof -
  have d: "in_int64 (30 * second)" "in_int64 (5 * second)" by (simp_all add: int64_defs second_def)
  show ?thesis
    using assms d
    by (auto simp: loadConfig_def Let_def intro: ParseDuration_int64 split: sum.splits if_splits)
qed

end
