(* ===== verification/Agent_Props.thy ===== *)
theory Agent_Props
  imports Kms_Agent
begin

text \<open>
  The agent against the server: its requests are accepted by the HTTP interface with the
  same key, discovery finds the node, and the delays between retries.
\<close>

subsection \<open>The server at the other end of the network\<close>

definition server_net :: "http_env \<Rightarrow> HTTPHandler \<Rightarrow> string \<Rightarrow> LeaseStore network" where
  "server_net env h base url hdr body s =
     (if url = base @ ''/heartbeat'' then
        (case ServeHTTP env h \<lparr>rq_method = ''POST'', rq_path = [''heartbeat''], rq_header = hdr, rq_body = Some body\<rparr> s of
           (resp, s1) \<Rightarrow> (Answered resp, s1))
      else if url = base @ ''/node/identify'' then
        (case ServeHTTP env h \<lparr>rq_method = ''POST'', rq_path = [''node'', ''identify''], rq_header = hdr, rq_body = Some body\<rparr> s of
           (resp, s1) \<Rightarrow> (Answered resp, s1))
      else (BadURL (ErrorString ''unknown URL''), s))"

lemma signed_request_authentic:
  assumes "rq_body r = enc_heartbeatRequest req"
    and "rq_header r ''X-Hmac-Signature'' = Sign (hmacAuth h) (hr_NodeUUID req) (hr_NodeIP req) (hr_Timestamp req)"
    and "hr_NodeUUID req \<noteq> ''''" and "hr_NodeIP req \<noteq> ''''" and "hr_Timestamp req \<noteq> 0"
    and "ValidateTimestamp (hr_Timestamp req) (now_check env)"
  shows "authentic_heartbeat env h r req"
proof -
  obtain j where j: "enc_heartbeatRequest req = Some j" by (simp add: enc_heartbeatRequest_def)
  then have "dec_heartbeatRequest j = Some req" by (rule heartbeat_body.dec_enc)
  then show ?thesis
    using assms j Sign_not_empty Verify_Sign by (simp add: authentic_heartbeat_def decode_body_def)
qed

definition agent_request :: "agentConfig \<Rightarrow> time \<Rightarrow> heartbeatRequest" where
  "agent_request cfg now = \<lparr>hr_NodeUUID = nodeUUID cfg, hr_NodeIP = nodeIP cfg, hr_Hostname = hostname cfg,
     hr_Timestamp = Unix now\<rparr>"

lemma sendHeartbeat_server:
  assumes "nodeUUID cfg \<noteq> ''''" and "nodeIP cfg \<noteq> ''''" and "Unix now \<noteq> 0"
    and "ValidateTimestamp (Unix now) (now_check env)"
  shows "\<exists>r resp s'. authentic_heartbeat env h r (agent_request cfg now) \<and> rq_method r = ''POST'' \<and>
    rq_path r = [''heartbeat''] \<and> ServeHTTP env h r s = (resp, s') \<and>
    sendHeartbeat (server_net env h (kmsServerURL cfg)) (hmacAuth h) cfg now s =
      (if rs_code resp = StatusOK then (None, s')
       else (Some (ErrorString (''heartbeat rejected with status '' @ fmt_d (int (rs_code resp)))), s'))"
proof -
  let ?req = "agent_request cfg now"
  obtain body where body: "enc_heartbeatRequest ?req = Some body" by (simp add: enc_heartbeatRequest_def)
  let ?r = "\<lparr>rq_method = ''POST'', rq_path = [''heartbeat''],
    rq_header = request_header (Sign (hmacAuth h) (nodeUUID cfg) (nodeIP cfg) (Unix now)), rq_body = Some body\<rparr>"
  have "authentic_heartbeat env h ?r ?req"
    using assms body by (intro signed_request_authentic) (simp_all add: agent_request_def request_header_def)
  moreover obtain resp s' where run: "ServeHTTP env h ?r s = (resp, s')" by fastforce
  moreover have "sendHeartbeat (server_net env h (kmsServerURL cfg)) (hmacAuth h) cfg now s =
      (if rs_code resp = StatusOK then (None, s')
       else (Some (ErrorString (''heartbeat rejected with status '' @ fmt_d (int (rs_code resp)))), s'))"
    using body run by (simp add: sendHeartbeat_def server_net_def agent_request_def)
  ultimately show ?thesis by (intro exI [of _ ?r] exI [of _ resp] exI [of _ s']) simp
qed

lemma accepted_heartbeat:
  assumes "nodeUUID cfg \<noteq> ''''" and "nodeIP cfg \<noteq> ''''" and "Unix now \<noteq> 0"
    and "ValidateTimestamp (Unix now) (now_check env)"
    and "io_sane (http_io env)" and "no_fault (http_io env)" and "nodes_times_ok (nodes s)"
    and "json_time_ok (now_store env)" and "json_time_ok (now_store env + leaseDuration h)"
    and "\<not> is_blocked (fmlookup (nodes s) (nodeUUID cfg))"
  shows "\<exists>s'. sendHeartbeat (server_net env h (kmsServerURL cfg)) (hmacAuth h) cfg now s = (None, s') \<and>
    (\<forall>k. fmlookup (nodes s') k = node_step (OpHeartbeatByUUID (nodeUUID cfg) (nodeIP cfg) (hostname cfg)
       (now_store env) (leaseDuration h)) k (fmlookup (nodes s) k))"
proof -
  obtain r resp s' where r: "authentic_heartbeat env h r (agent_request cfg now)" "rq_method r = ''POST''"
      "rq_path r = [''heartbeat'']" and run: "ServeHTTP env h r s = (resp, s')"
    and send: "sendHeartbeat (server_net env h (kmsServerURL cfg)) (hmacAuth h) cfg now s =
      (if rs_code resp = StatusOK then (None, s')
       else (Some (ErrorString (''heartbeat rejected with status '' @ fmt_d (int (rs_code resp)))), s'))"
    using sendHeartbeat_server [OF assms(1-4)] by blast
  have "handleHeartbeat env h r s = (resp, s')" using run r(2,3) by (simp add: ServeHTTP_def)
  note served = handleHeartbeat_authentic [OF r(1) assms(5) this]
  then have step: "\<forall>k. fmlookup (nodes s') k = node_step (OpHeartbeatByUUID (nodeUUID cfg) (nodeIP cfg)
      (hostname cfg) (now_store env) (leaseDuration h)) k (fmlookup (nodes s) k)"
    using assms(10) by (simp add: agent_request_def)
  then have "nodes_times_ok (nodes s')"
    using nodes_times_ok_step [OF assms(7) _ step [rule_format]] assms(8,9) by simp
  then have "rs_code resp = StatusOK" using served assms(6,10) by (simp add: agent_request_def)
  then show ?thesis using send step by simp
qed

text \<open>
  C14: agent and server agree. With the same pre-shared key, clocks that pass the timestamp check
  and a store that can be persisted (no system call fails and the instants are ones JSON can
  express), a heartbeat of the agent reaches its node: unless the node is blocked it is
  accepted and the node is active with a fresh lease from the server's clock; if it is blocked
  the agent sees the status 403 and nothing changes.
\<close>

theorem agent_heartbeat_accepted:
  assumes "nodeUUID cfg \<noteq> ''''" and "nodeIP cfg \<noteq> ''''" and "Unix now \<noteq> 0"
    and "ValidateTimestamp (Unix now) (now_check env)"
    and "io_sane (http_io env)" and "no_fault (http_io env)" and "nodes_times_ok (nodes s)"
    and "json_time_ok (now_store env)" and "json_time_ok (now_store env + leaseDuration h)"
  shows "if is_blocked (fmlookup (nodes s) (nodeUUID cfg))
    then sendHeartbeat (server_net env h (kmsServerURL cfg)) (hmacAuth h) cfg now s =
      (Some (ErrorString ''heartbeat rejected with status 403''), s)
    else \<exists>s' rec. sendHeartbeat (server_net env h (kmsServerURL cfg)) (hmacAuth h) cfg now s = (None, s') \<and>
      fmlookup (nodes s') (nodeUUID cfg) = Some rec \<and> Status rec = LeaseStatusActive \<and>
      LastHeartbeatAt rec = now_store env \<and> LeaseUntil rec = now_store env + leaseDuration h \<and>
      NodeIP rec = nodeIP cfg"
proof (cases "is_blocked (fmlookup (nodes s) (nodeUUID cfg))")
  case True
  obtain r resp s' where r: "authentic_heartbeat env h r (agent_request cfg now)" "rq_method r = ''POST''"
      "rq_path r = [''heartbeat'']" and run: "ServeHTTP env h r s = (resp, s')"
    and send: "sendHeartbeat (server_net env h (kmsServerURL cfg)) (hmacAuth h) cfg now s =
      (if rs_code resp = StatusOK then (None, s')
       else (Some (ErrorString (''heartbeat rejected with status '' @ fmt_d (int (rs_code resp)))), s'))"
    using sendHeartbeat_server [OF assms(1-4)] by blast
  have "handleHeartbeat env h r s = (resp, s')" using run r(2,3) by (simp add: ServeHTTP_def)
  from handleHeartbeat_authentic [OF r(1) assms(5) this] True
  have "s' = s \<and> rs_code resp = 403" by (simp add: agent_request_def StatusForbidden_def)
  moreover have "fmt_d 403 = ''403''" by code_simp
  ultimately show ?thesis using True send by (simp add: StatusOK_def)
next
  case False
  then obtain s' where s': "sendHeartbeat (server_net env h (kmsServerURL cfg)) (hmacAuth h) cfg now s = (None, s')"
    "fmlookup (nodes s') (nodeUUID cfg) = node_step (OpHeartbeatByUUID (nodeUUID cfg) (nodeIP cfg) (hostname cfg)
       (now_store env) (leaseDuration h)) (nodeUUID cfg) (fmlookup (nodes s) (nodeUUID cfg))"
    using accepted_heartbeat [OF assms] by blast
  then show ?thesis
    using False by (cases "fmlookup (nodes s) (nodeUUID cfg)") (auto simp: renewed_def zeroRecord_def)
qed

definition demo_config :: agentConfig where
  "demo_config = \<lparr>nodeUUID = ''node-1'', nodeIP = ''10.0.0.1'', hostname = ''host'',
     kmsServerURL = ''http://kms'', hmacKey = ''secret'', agentInterval = 30 * second, agentTimeout = 5 * second\<rparr>"

lemma demo_now_Unix: "Unix demo_now = 1700000000"
  by (simp add: Unix_def demo_now_def second_def)

lemma demo_now_ok: "json_time_ok demo_now" "json_time_ok (demo_now + 5)"
  by (simp_all add: json_time_ok_def day_def second_def demo_now_def)

lemmas demo_times = demo_times_ok demo_now_ok

theorem agent_heartbeat_accepted_witness:
  "\<exists>s' rec. sendHeartbeat (server_net (demo_http_env demo_now) demo_handler ''http://kms'')
      (hmacAuth demo_handler) demo_config demo_now (demo_store demo_record) = (None, s') \<and>
    fmlookup (nodes s') ''node-1'' = Some rec \<and> LastHeartbeatAt rec = demo_now"
  using agent_heartbeat_accepted [of demo_config demo_now "demo_http_env demo_now" "demo_store demo_record" demo_handler]
    demo_times demo_now_fresh demo_now_Unix
  by (auto simp: demo_config_def demo_http_env_def demo_handler_def NewHTTPHandler_def)

subsection \<open>Discovery\<close>

lemma dec_identifyResponse_ok:
  "Option.bind (identifyResponse uuid status) dec_identifyResponse = Some (uuid, status)"
  by (simp add: identifyResponse_def dec_identifyResponse_def identifyResponse_schema_def schema_field_def)

lemma sendIdentify_server:
  assumes "nodeIP cfg \<noteq> ''''" and "Unix now \<noteq> 0" and "ValidateTimestamp (Unix now) (now_check env)"
    and "LookupByIP (http_iter env) (nodeIP cfg) s = Inr (uuid, rec)" and "uuid \<noteq> ''''"
  shows "sendIdentify (server_net env h (kmsServerURL cfg)) (hmacAuth h) cfg now s = (Inr uuid, s)"
proof -
  let ?req = "\<lparr>ir_NodeIP = nodeIP cfg, ir_Timestamp = Unix now\<rparr>"
  obtain body where body: "enc_identifyRequest ?req = Some body" by (simp add: enc_identifyRequest_def)
  then have dec: "dec_identifyRequest body = Some ?req" by (rule identify_body.dec_enc)
  have "VerifyIdentify (hmacAuth h) (nodeIP cfg) (Unix now) (SignIdentify (hmacAuth h) (nodeIP cfg) (Unix now))"
    by (rule ident.verify_sign_skew) simp
  then show ?thesis
    using assms body dec SignIdentify_not_empty
    by (simp add: sendIdentify_def server_net_def ServeHTTP_def handleIdentify_def request_header_def
        decode_body_def writeJSON_def dec_identifyResponse_ok status_codes)
qed

text \<open>
  C15: an agent that does not know its node finds it and keeps it alive. After the node was
  unsealed from the agent's address, the agent started without \<open>NODE_UUID\<close> identifies
  itself at the first attempt, and its first heartbeat renews the lease of exactly this node:
  it is active, heard of now, and leased for the handler's lease duration from now on, while
  the record of every other node is what it was. (The store invariant holds, the two
  timestamps are fresh and not 0, and the heartbeat can be persisted.)
\<close>

theorem agent_discovers_node:
  assumes "loadConfig Getenv osHostname = Inr cfg" and "nodeUUID cfg = ''''"
    and "hmacAuth h = NewHMACAuth (hmacKey cfg)" and "0 < agentInterval cfg"
    and "store_inv s0" and "valid_iter it" and "valid_iter (http_iter env)"
    and "Bootstrap it io u (nodeIP cfg) t d s0 = ((rec0, e), s)" and "u \<noteq> ''''"
    and "Unix t1 \<noteq> 0" and "ValidateTimestamp (Unix t1) (now_check env)"
    and "Unix t2 \<noteq> 0" and "ValidateTimestamp (Unix t2) (now_check env)"
    and "io_sane (http_io env)" and "no_fault (http_io env)" and "nodes_times_ok (nodes s)"
    and "json_time_ok (now_store env)" and "json_time_ok (now_store env + leaseDuration h)"
  shows "\<exists>s' rec. agent_run oor (server_net env h (kmsServerURL cfg)) None Getenv osHostname
      ((t1, stop) # ids) t2 [] s = (AgentLoops LoopWaits, s') \<and>
    fmlookup (nodes s') u = Some rec \<and> Status rec = LeaseStatusActive \<and>
    LastHeartbeatAt rec = now_store env \<and> LeaseUntil rec = now_store env + leaseDuration h \<and>
    LastUnsealIP rec = nodeIP cfg \<and> (\<forall>k. k \<noteq> u \<longrightarrow> fmlookup (nodes s') k = fmlookup (nodes s) k)"
proof -
  let ?net = "server_net env h (kmsServerURL cfg)" and ?auth = "hmacAuth h"
  let ?cfg = "cfg\<lparr>nodeUUID := u\<rparr>"
  have ip: "nodeIP cfg \<noteq> ''''"
    using assms(1) by (auto simp: loadConfig_def Let_def split: sum.splits if_splits)
  have range: "lease_range it" "lease_range (http_iter env)" using assms by (simp_all add: lease_range_iff)
  let ?rec = "bootstrapped (nodeIP cfg) t d (fmlookup (nodes s0) u)"
  have rec: "fmlookup (nodes s) u = Some ?rec"
    using lease_range.Bootstrap_nodes [OF range(1), of io u "nodeIP cfg" t d s0 u] assms(8) by simp
  have "store_inv (snd (exec_op it io (OpBootstrap u (nodeIP cfg) t d) s0))"
    using assms(5,6) by (intro store_inv_exec) simp_all
  then have "unique_ip (nodes s)" using assms(8) by (simp add: store_inv_def)
  then have "recordByIPLocked (http_iter env) (nodeIP cfg) s = Some (u, ?rec)"
    using lease_range.recordByIP_unique [OF range(2) _ ip] rec by (simp add: bootstrapped_def)
  then have ident: "sendIdentify ?net ?auth cfg t1 s = (Inr u, s)"
    using sendIdentify_server [OF ip assms(10,11) _ assms(9)] by (simp add: LookupByIP_def)
  have "\<not> is_blocked (fmlookup (nodes s) (nodeUUID ?cfg))" using rec by (simp add: bootstrapped_def)
  then obtain s' where hb: "sendHeartbeat ?net ?auth ?cfg t2 s = (None, s')"
    "\<And>k. fmlookup (nodes s') k = node_step (OpHeartbeatByUUID u (nodeIP cfg) (hostname cfg)
       (now_store env) (leaseDuration h)) k (fmlookup (nodes s) k)"
    using accepted_heartbeat [of ?cfg t2 env s h] ip assms(9,12-18) by auto
  have "agent_run oor ?net None Getenv osHostname ((t1, stop) # ids) t2 [] s = (AgentLoops LoopWaits, s')"
    using assms(1,2,4) hb(1) ident unfolding agent_run_def assms(3) [symmetric]
    by (simp add: Let_def heartbeatLoop_def flip: assms(3))
  then show ?thesis using hb(2) rec by (auto simp: renewed_def bootstrapped_def)
qed

definition demo_getenv :: "string \<Rightarrow> string" where
  "demo_getenv k =
     (if k = ''NODE_IP'' then ''10.0.0.1'' else if k = ''KMS_SERVER_URL'' then ''http://kms''
      else if k = ''HEARTBEAT_HMAC_KEY'' then ''secret'' else '''')"

lemma demo_loadConfig:
  "loadConfig demo_getenv (Inr ''host'') = Inr (demo_config\<lparr>nodeUUID := ''''\<rparr>)"
  by (simp add: loadConfig_def demo_getenv_def demo_config_def)

theorem agent_discovers_node_witness:
  "\<exists>s' rec. agent_run amd64 (server_net (demo_http_env demo_now) demo_handler ''http://kms'') None demo_getenv
      (Inr ''host'') [(demo_now, None)] demo_now []
      (snd (Bootstrap sorted_iter io_ok ''node-2'' ''10.0.0.1'' 1002 5 (demo_store demo_record))) =
      (AgentLoops LoopWaits, s') \<and>
    fmlookup (nodes s') ''node-2'' = Some rec \<and> LastHeartbeatAt rec = demo_now \<and>
    LeaseUntil rec = demo_now + 5"
proof -
  let ?cfg = "demo_config\<lparr>nodeUUID := ''''\<rparr>"
  obtain rec e s where b: "Bootstrap sorted_iter io_ok ''node-2'' (nodeIP ?cfg) 1002 5 (demo_store demo_record) =
      ((rec, e), s)" by (metis prod.exhaust)
  have "fmlookup (nodes s) k = node_step (OpBootstrap ''node-2'' ''10.0.0.1'' 1002 5) k
      (fmlookup (nodes (demo_store demo_record)) k)" for k
    using sorted_lease.Bootstrap_nodes [of io_ok "''node-2''" "nodeIP ?cfg" 1002 5 "demo_store demo_record" k] b
    by (simp add: demo_config_def)
  then have "nodes_times_ok (nodes s)"
    by (rule nodes_times_ok_step [OF demo_times(1), rotated]) (simp add: json_time_ok_def day_def second_def)
  with agent_discovers_node [OF demo_loadConfig _ _ _ _ _ _ b, of demo_handler "demo_http_env demo_now"
      demo_now demo_now amd64 None "[]"] b
  show ?thesis
    using demo_times(2,3) demo_now_fresh demo_now_Unix
    by (auto simp: demo_config_def demo_http_env_def demo_handler_def NewHTTPHandler_def second_def)
qed

subsection \<open>Backoff\<close>

lemma in_range_scale:
  assumes "0 \<le> base" and "base * 2 ^ n \<le> maxInt64"
  shows "n \<le> 63 \<or> base = 0"
proof (rule ccontr)
  assume "\<not> (n \<le> 63 \<or> base = 0)"
  then have "1 * 2 ^ 64 \<le> base * 2 ^ n" using assms(1) by (intro mult_mono power_increasing) auto
  with assms(2) show False by (simp add: int64_defs)
qed

lemma float_scale_exact:
  assumes "0 < base" and "base \<le> 2 ^ 53" and "base * 2 ^ n \<le> maxInt64"
  shows "float_to_int64 oor (float_scale base n) = base * 2 ^ n"
proof -
  have n: "n \<le> 63" using in_range_scale [of base n] assms by simp
  have f: "fl (of_int base) = of_int base" using assms by (intro fl_int) simp
  have q: "fl (of_int base) * 2 ^ n = (of_int (base * 2 ^ n) :: rat)" by (simp add: f)
  have "(of_int (base * 2 ^ n) :: rat) \<le> of_int maxInt64" using assms(3) by (simp only: of_int_le_iff)
  also have "\<dots> < 2 ^ 1024"
    by (simp add: maxInt64_def)
  finally have "\<not> 2 ^ 1024 \<le> \<bar>fl (of_int base) * 2 ^ n\<bar>" using assms(1) unfolding q by simp
  then have "float_scale base n = Some (of_int (base * 2 ^ n))"
    unfolding float_scale_def using n q by simp
  moreover have "trunc (of_int (base * 2 ^ n)) = base * 2 ^ n"
    using assms(1) by (simp add: trunc_def del: of_int_mult of_int_power)
  moreover have "in_int64 (base * 2 ^ n)"
  proof -
    have "0 \<le> base * 2 ^ n" using assms(1) by simp
    then show ?thesis using assms(3) unfolding in_int64_def minInt64_def by linarith
  qed
  ultimately show ?thesis by (simp add: float_to_int64_def del: of_int_mult)
qed

text \<open>
  C35: the delay after \<open>n\<close> consecutive failures: on every architecture, as long as
  \<open>interval * 2^(n-1)\<close> fits into an \<open>int64\<close> and the interval is at most \<open>2^53\<close>
  nanoseconds (104 days), the first failure waits one interval, and each further one twice as
  long as the one before, up to five minutes.
\<close>

theorem backoff_doubles:
  assumes "0 < base" and "base \<le> 2 ^ 53" and "1 \<le> n" and "base * 2 ^ (n - 1) \<le> maxInt64"
  shows "backoffDuration oor n base = (if n = 1 then base else min (base * 2 ^ (n - 1)) (5 * minute))"
  using assms float_scale_exact [OF assms(1,2,4)]
  by (auto simp: backoffDuration_def maxBackoff_def Let_def)

theorem backoff_doubles_witness:
  "backoffDuration amd64 3 (30 * second) = min (30 * second * 2 ^ 2) (5 * minute)"
  using backoff_doubles [of "30 * second" 3 amd64] by (simp add: second_def int64_defs)

lemma backoff_overflow:
  assumes "30 \<le> n"
  shows "backoffDuration amd64 n (30 * second) = minInt64"
    and "backoffDuration arm64 n (30 * second) = 5 * minute"
proof -
  let ?q = "fl (of_int (30 * second)) * 2 ^ (n - 1)"
  have f: "fl (of_int (30 * second)) = 30000000000"
    using fl_int [of "30 * second"] by (simp add: second_def)
  have "(2 :: rat) ^ 29 \<le> 2 ^ (n - 1)" using assms by (intro power_increasing) auto
  then have big: "30000000000 * 2 ^ 29 \<le> ?q" unfolding f by (intro mult_left_mono) auto
  then have "30000000000 * 2 ^ 29 \<le> trunc ?q"
    by (simp add: trunc_def le_floor_iff)
  then have "\<not> in_int64 (trunc ?q)" by (simp add: int64_defs)
  then have "float_to_int64 oor (float_scale (30 * second) (n - 1)) = oor (float_scale (30 * second) (n - 1))" for oor
    by (simp add: float_to_int64_def float_scale_def)
  moreover have "arm64 (float_scale (30 * second) (n - 1)) = maxInt64"
    using big by (auto simp: arm64_def float_scale_def)
  ultimately show "backoffDuration amd64 n (30 * second) = minInt64"
    "backoffDuration arm64 n (30 * second) = 5 * minute"
    using assms by (simp_all add: backoffDuration_def amd64_def maxBackoff_def minute_def second_def
        int64_defs Let_def)
qed

lemma identifyLoop_fails:
  assumes "\<And>now w. \<exists>e. fst (sendIdentify net auth cfg now w) = Inl e" and "list_all (\<lambda>r. snd r = None) rs"
  shows "\<exists>w'. identifyLoop oor net auth cfg rs f ds w =
    (None, ds @ map (\<lambda>i. backoffDuration oor (f + 1 + i) (agentInterval cfg)) [0..<length rs], w')"
  using assms(2)
proof (induction rs arbitrary: f ds w)
  case (Cons r rs)
  obtain now where r: "r = (now, None)" using Cons.prems by (cases r) auto
  obtain e w1 where send: "sendIdentify net auth cfg now w = (Inl e, w1)"
    using assms(1) [of now w] by (metis prod.collapse)
  have idx: "map (\<lambda>i. backoffDuration oor (f + 1 + i) (agentInterval cfg)) [0..<length (r # rs)] =
      backoffDuration oor (f + 1) (agentInterval cfg) #
      map (\<lambda>i. backoffDuration oor (f + 1 + 1 + i) (agentInterval cfg)) [0..<length rs]"
    by (simp add: upt_conv_Cons map_Suc_upt [symmetric] comp_def del: upt_Suc)
  show ?case
    using Cons.IH [of "f + 1" "ds @ [backoffDuration oor (f + 1) (agentInterval cfg)]" w1] Cons.prems
    unfolding idx by (simp add: r send)
qed simp

text \<open>
  C37: with the default interval of 30 seconds the product in the backoff leaves \<open>int64\<close> at
  the thirtieth consecutive failure. On amd64 the conversion gives the smallest \<open>int64\<close>,
  which is below the cap, so an agent that cannot identify itself waits a negative time, that
  is not at all, after the thirtieth and every later attempt; on arm64, where the conversion
  saturates, it goes on waiting five minutes.
\<close>

theorem identify_retries_unthrottled:
  assumes "\<And>now w. \<exists>e. fst (sendIdentify net auth cfg now w) = Inl e"
    and "list_all (\<lambda>r. snd r = None) rs" and "agentInterval cfg = 30 * second"
    and "29 \<le> k" and "k < length rs"
  shows "(\<exists>delays w'. identifyLoop amd64 net auth cfg rs 0 [] w = (None, delays, w') \<and>
      length delays = length rs \<and> delays ! k = minInt64) \<and>
    (\<exists>delays w'. identifyLoop arm64 net auth cfg rs 0 [] w = (None, delays, w') \<and>
      length delays = length rs \<and> delays ! k = 5 * minute)"
proof -
  have "30 \<le> 0 + 1 + k" using assms(4) by simp
  note slow = backoff_overflow [OF this]
  show ?thesis
    using identifyLoop_fails [OF assms(1,2), of amd64 0 "[]" w] slow(1)
      identifyLoop_fails [OF assms(1,2), of arm64 0 "[]" w] slow(2) assms(3,5) by auto
qed

theorem identify_retries_unthrottled_witness:
  "\<exists>delays. fst (snd (identifyLoop amd64 (\<lambda>url hdr body w. (SendFailed (SysError ''refused''), w))
      (NewHMACAuth ''secret'') demo_config (replicate 40 (0, None)) 0 [] ())) = delays \<and>
    delays ! 35 = minInt64"
proof -
  let ?net = "\<lambda>url hdr body (w :: unit). (SendFailed (SysError ''refused''), w)"
  have "\<exists>e. fst (sendIdentify ?net (NewHMACAuth ''secret'') demo_config now w) = Inl e" for now w
    by (simp add: sendIdentify_def enc_identifyRequest_def Let_def)
  from identify_retries_unthrottled [OF this, of "replicate 40 (0, None)" 35 "()"]
  show ?thesis by (auto simp: demo_config_def list_all_iff)
qed

end
