(* ===== verification/Keep_Alive.thy ===== *)
theory Keep_Alive
  imports Agent_Props Service
begin

text \<open>
  The agent, the HTTP interface and the dead-man's switch together: an agent whose heartbeats
  arrive in time keeps its node active, however the switch runs in between.
\<close>

subsection \<open>The service at the other end of the network\<close>

text \<open>
  Before each request arrives the switch runs some check cycles; the world of the network
  holds, for the requests to come, these cycles and the environment of the request.
\<close>

type_synonym service_world = "(tick list \<times> http_env) list \<times> DeadManSwitch \<times> LeaseStore"

fun service_net :: "HTTPHandler \<Rightarrow> string \<Rightarrow> service_world network" where
  "service_net h base url hdr body ([], d, s) = (SendFailed (SysError ''connection refused''), [], d, s)"
| "service_net h base url hdr body ((ts, env) # bs, d, s) =
     (case run_loop (map Tick ts) d s of
        (_, d', s1) \<Rightarrow>
          (case server_net env h base url hdr body s1 of (res, s2) \<Rightarrow> (res, bs, d', s2)))"

text \<open>The node is active and was last heard of at the given time.\<close>

definition alive :: "string \<Rightarrow> time \<Rightarrow> LeaseStore \<Rightarrow> bool" where
  "alive u heard s \<longleftrightarrow>
     nodes_times_ok (nodes s) \<and>
     (\<exists>r. fmlookup (nodes s) u = Some r \<and> Status r = LeaseStatusActive \<and> LastHeartbeatAt r = heard)"

text \<open>A check cycle no later than the timeout after the last heartbeat.\<close>

definition early_check :: "duration \<Rightarrow> time \<Rightarrow> tick \<Rightarrow> bool" where
  "early_check timeout heard t \<longleftrightarrow>
     valid_iter (tick_iter t) \<and> json_time_ok (tick_now t) \<and> tick_now t \<le> heard + timeout"

text \<open>A heartbeat the server can accept: a fresh timestamp, and a file system that works.\<close>

definition fair_beat :: "HTTPHandler \<Rightarrow> time \<Rightarrow> http_env \<Rightarrow> bool" where
  "fair_beat h now env \<longleftrightarrow>
     Unix now \<noteq> 0 \<and> ValidateTimestamp (Unix now) (now_check env) \<and> no_fault (http_io env) \<and>
     json_time_ok (now_store env) \<and> json_time_ok (now_store env + leaseDuration h)"

fun timely :: "HTTPHandler \<Rightarrow> duration \<Rightarrow> time \<Rightarrow> (tick list \<times> http_env) list \<Rightarrow> time list \<Rightarrow> bool" where
  "timely h timeout heard ((ts, env) # bs) (now # nows) =
     (list_all (early_check timeout heard) ts \<and> fair_beat h now env \<and>
      timely h timeout (now_store env) bs nows)"
| "timely h timeout heard [] [] = True"
| "timely h timeout heard _ _ = False"

subsection \<open>Check cycles and heartbeats\<close>

lemma early_check_keeps:
  assumes "alive u heard s" and "early_check (heartbeatTimeout d) heard t"
    and "0 \<le> heartbeatTimeout d" and "heartbeatTimeout d < maxInt64"
    and "Check t d s = (ws, d', s')"
  shows "alive u heard s'"
proof -
  obtain r where r: "fmlookup (nodes s) u = Some r" "Status r = LeaseStatusActive" "LastHeartbeatAt r = heard"
    using assms(1) by (auto simp: alive_def)
  have t: "valid_iter (tick_iter t)" "json_time_ok (tick_now t)" "tick_now t \<le> heard + heartbeatTimeout d"
    using assms(2) by (simp_all add: early_check_def)
  then have "\<not> overdue r (tick_now t) (heartbeatTimeout d)"
    using r(3) assms(3,4) by (simp add: overdue_def Sub_gt_iff int64_defs)
  then have "fmlookup (nodes s') u = Some r"
    using Check_nodes [OF t(1) assms(5), of u] r(1) by simp
  moreover have "nodes_times_ok (nodes s')"
    using check_keeps_times [OF t(1,2) _ assms(5)] assms(1) by (simp add: alive_def)
  ultimately show ?thesis using r by (simp add: alive_def)
qed

lemma early_checks_keep:
  assumes "run_loop (map Tick ts) d s = (res, d', s')" and "alive u heard s"
    and "list_all (early_check (heartbeatTimeout d) heard) ts"
    and "0 \<le> heartbeatTimeout d" and "heartbeatTimeout d < maxInt64"
  shows "alive u heard s' \<and> heartbeatTimeout d' = heartbeatTimeout d"
  using assms
proof (induction ts arbitrary: d s)
  case (Cons t ts)
  obtain ws d1 s1 where c: "Check t d s = (ws, d1, s1)" by (metis prod.exhaust)
  have "heartbeatTimeout d1 = heartbeatTimeout d" using Check_switch [of t d s] c by simp
  moreover have "alive u heard s1" using early_check_keeps [OF Cons.prems(2) _ Cons.prems(4,5) c] Cons.prems(3) by simp
  ultimately show ?case using Cons.IH [of d1 s1] Cons.prems c by simp
qed simp

lemma send_through_service:
  assumes "run_loop (map Tick ts) d s = (res, d', s1)"
  shows "sendHeartbeat (service_net h base) auth cfg now ((ts, env) # bs, d, s) =
    (case sendHeartbeat (server_net env h base) auth cfg now s1 of
       (e, s2) \<Rightarrow> (e, bs, d', s2))"
  using assms
  by (auto simp: sendHeartbeat_def enc_heartbeatRequest_def Let_def split: prod.splits post_result.splits)

lemma beat_keeps:
  assumes "alive (nodeUUID cfg) heard s" and "0 \<le> heartbeatTimeout d" and "heartbeatTimeout d < maxInt64"
    and "timely h (heartbeatTimeout d) heard ((ts, env) # bs) (now # nows)"
    and "nodeUUID cfg \<noteq> ''''" and "nodeIP cfg \<noteq> ''''"
  shows "\<exists>d' s'. sendHeartbeat (service_net h (kmsServerURL cfg)) (hmacAuth h) cfg now ((ts, env) # bs, d, s) =
      (None, bs, d', s') \<and> heartbeatTimeout d' = heartbeatTimeout d \<and> alive (nodeUUID cfg) (now_store env) s'"
proof -
  let ?u = "nodeUUID cfg"
  obtain res d' s1 where run: "run_loop (map Tick ts) d s = (res, d', s1)" by (metis prod.exhaust)
  have a: "alive ?u heard s1" "heartbeatTimeout d' = heartbeatTimeout d"
    using early_checks_keep [OF run assms(1) _ assms(2,3)] assms(4) by simp_all
  have beat: "fair_beat h now env" using assms(4) by simp
  then have io: "io_sane (http_io env)" by (simp add: fair_beat_def no_fault_def io_sane_def)
  have "\<not> is_blocked (fmlookup (nodes s1) ?u)" using a(1) by (auto simp: alive_def is_blocked_iff)
  then obtain s2 where s2: "sendHeartbeat (server_net env h (kmsServerURL cfg)) (hmacAuth h) cfg now s1 = (None, s2)"
    "\<And>k. fmlookup (nodes s2) k = node_step (OpHeartbeatByUUID ?u (nodeIP cfg) (hostname cfg)
       (now_store env) (leaseDuration h)) k (fmlookup (nodes s1) k)"
    using accepted_heartbeat [of cfg now env s1 h] assms(5,6) beat io a(1)
    unfolding fair_beat_def alive_def by blast
  have "nodes_times_ok (nodes s2)"
    using nodes_times_ok_step [OF _ _ s2(2)] a(1) beat by (simp add: alive_def fair_beat_def)
  then have "alive ?u (now_store env) s2"
    using s2(2) [of ?u] a(1) by (auto simp: alive_def renewed_def)
  then show ?thesis
    using send_through_service [OF run, of h "kmsServerURL cfg" "hmacAuth h" cfg now env bs] s2(1) a(2) by simp
qed

lemma rounds_keep:
  assumes "alive (nodeUUID cfg) heard s" and "0 \<le> heartbeatTimeout d" and "heartbeatTimeout d < maxInt64"
    and "timely h (heartbeatTimeout d) heard bs nows" and "nodeUUID cfg \<noteq> ''''" and "nodeIP cfg \<noteq> ''''"
  shows "\<exists>d' s'. heartbeat_rounds oor (service_net h (kmsServerURL cfg)) (hmacAuth h) cfg
      (map (\<lambda>now. Beat now False) nows) 0 [] (bs, d, s) = (LoopWaits, 0, [], [], d', s') \<and>
    alive (nodeUUID cfg) (List.last (heard # map (now_store \<circ> snd) bs)) s'"
  using assms
proof (induction h "heartbeatTimeout d" heard bs nows arbitrary: d s rule: timely.induct)
  case (1 h heard ts env bs now nows)
  obtain d1 s1 where "sendHeartbeat (service_net h (kmsServerURL cfg)) (hmacAuth h) cfg now ((ts, env) # bs, d, s) =
      (None, bs, d1, s1)" and d1: "heartbeatTimeout d1 = heartbeatTimeout d"
      and a: "alive (nodeUUID cfg) (now_store env) s1"
    using beat_keeps [OF 1(2-5)] 1(6,7) by blast
  moreover have "\<exists>d' s'. heartbeat_rounds oor (service_net h (kmsServerURL cfg)) (hmacAuth h) cfg
      (map (\<lambda>now. Beat now False) nows) 0 [] (bs, d1, s1) = (LoopWaits, 0, [], [], d', s') \<and>
    alive (nodeUUID cfg) (List.last (now_store env # map (now_store \<circ> snd) bs)) s'"
    using 1(1) [OF d1 [symmetric] a] 1(3-7) d1 by simp
  ultimately show ?case by simp
qed simp_all

text \<open>
  C13: an agent that beats in time keeps its node active. If before every check cycle the last
  heartbeat of the node is at most \<open>--heartbeat-timeout\<close> old, and each heartbeat is fresh
  when it arrives and can be persisted, then every heartbeat of the agent's loop is accepted:
  the loop never counts a failure, never backs off, and the node is still active, last heard
  of at the last heartbeat, whatever the switch did to the other nodes in between.
\<close>

theorem agent_keeps_node_active:
  assumes "alive (nodeUUID cfg) heard s" and "0 \<le> heartbeatTimeout d" and "heartbeatTimeout d < maxInt64"
    and "timely h (heartbeatTimeout d) heard (b # bs) (now # nows)"
    and "nodeUUID cfg \<noteq> ''''" and "nodeIP cfg \<noteq> ''''" and "0 < agentInterval cfg"
  shows "\<exists>d' s'. heartbeatLoop oor (service_net h (kmsServerURL cfg)) (hmacAuth h) cfg now
      (map (\<lambda>now. Beat now False) nows) (b # bs, d, s) = (LoopWaits, 0, [], [], d', s') \<and>
    alive (nodeUUID cfg) (now_store (snd (List.last (b # bs)))) s'"
proof -
  obtain ts env where b: "b = (ts, env)" by fastforce
  then obtain d1 s1 where send: "sendHeartbeat (service_net h (kmsServerURL cfg)) (hmacAuth h) cfg now (b # bs, d, s) =
      (None, bs, d1, s1)" and d1: "heartbeatTimeout d1 = heartbeatTimeout d"
      and a: "alive (nodeUUID cfg) (now_store env) s1"
    using beat_keeps [OF assms(1-3) _ assms(5,6)] assms(4) by blast
  have "timely h (heartbeatTimeout d1) (now_store env) bs nows" using assms(4) b d1 by simp
  from rounds_keep [OF a _ _ this assms(5,6), of oor] assms(2,3,7) send d1 b show ?thesis
    by (cases "bs = []") (auto simp: heartbeatLoop_def last_map)
qed

theorem agent_keeps_node_active_witness:
  "\<exists>d' s'. heartbeatLoop amd64 (service_net demo_handler ''http://kms'') (hmacAuth demo_handler) demo_config demo_now
      [Beat demo_now False]
      ([([], demo_http_env demo_now),
        ([\<lparr>tick_now = demo_now + 100 * second, tick_log_now = (\<lambda>_. 0), tick_iter = sorted_iter, tick_io = io_ok\<rparr>],
         demo_http_env demo_now)],
       NewDeadManSwitch None (30 * second) (120 * second), demo_store demo_record) =
      (LoopWaits, 0, [], [], d', s') \<and> alive ''node-1'' demo_now s'"
proof -
  let ?d = "NewDeadManSwitch None (30 * second) (120 * second)"
  let ?t = "\<lparr>tick_now = demo_now + 100 * second, tick_log_now = (\<lambda>_. 0), tick_iter = sorted_iter, tick_io = io_ok\<rparr>"
  have "alive (nodeUUID demo_config) 1000 (demo_store demo_record)"
    using demo_times_ok by (simp add: alive_def demo_config_def)
  moreover have "fair_beat demo_handler demo_now (demo_http_env demo_now)"
    using demo_now_fresh demo_now_Unix demo_now_ok
    by (simp add: fair_beat_def demo_http_env_def demo_handler_def NewHTTPHandler_def)
  then have "timely demo_handler (heartbeatTimeout ?d) 1000 [([], demo_http_env demo_now), ([?t], demo_http_env demo_now)]
      [demo_now, demo_now]"
    by (simp add: early_check_def NewDeadManSwitch_def demo_http_env_def demo_now_def json_time_ok_def
        day_def second_def)
  ultimately show ?thesis
    using agent_keeps_node_active [of demo_config 1000 "demo_store demo_record" ?d demo_handler
        "([], demo_http_env demo_now)" "[([?t], demo_http_env demo_now)]" demo_now "[demo_now]" amd64]
    by (simp add: NewDeadManSwitch_def demo_config_def demo_http_env_def second_def int64_defs)
qed

end
