(* ===== verification/Spec2Isabelle.thy ===== *)
theory Spec2Isabelle
  imports Main_Props Keep_Alive
begin

text \<open>
  Verification of a key management server with a dead-man's switch.

  \<^bold>\<open>The program.\<close> A server (\<open>src/cmd/kms-server\<close>, \<open>src/pkg/server\<close>) seals and unseals
  the disk passphrases of nodes over gRPC. With heartbeat leases enabled it keeps a record per
  node in a file-backed store: an unseal bootstraps the node's lease, heartbeats renew it, and
  a background switch blocks every node that has been silent for too long; a blocked node
  cannot unseal until the administrator unblocks it. Heartbeats come over HTTP, signed with a
  pre-shared key, from an agent on each node (\<open>src/cmd/kms-agent\<close>), or over gRPC,
  identified by the peer's address, from a client (\<open>src/cmd/kms-client\<close>). The
  administrator lists nodes, unblocks them and puts them into maintenance over HTTP.

  \<^bold>\<open>The library.\<close> Definitions follow the source function by function and keep its names; a
  definition whose name is taken by another program's function of the same name has the
  program's name in front (\<open>client_run\<close>, \<open>server_run\<close>, \<open>agent_run\<close>).

  \<^item> \<open>Prelude\<close>: names for Go's types, 64-bit bounds, the locale \<open>map_range\<close> for Go's
    \<open>range\<close> over a map (the order of visits is an argument of every function that ranges).
  \<^item> \<open>Go_Base\<close>, \<open>Go_Json\<close>, \<open>Go_Float\<close>, \<open>Go_Duration\<close>, \<open>Go_Flag\<close>, \<open>Net_IP\<close>,
    \<open>Sha256\<close>, \<open>Aes_Gcm\<close>: the parts of Go's standard library the programs call (errors,
    instants, text, JSON values, rounding of \<open>float64\<close>, \<open>time.ParseDuration\<close>, the \<open>flag\<close>
    package, IP addresses, HMAC-SHA256, AES-GCM).
  \<^item> \<open>Metrics\<close> (\<open>metrics.go\<close>): gRPC errors and their labels, the calls on the collectors.
  \<^item> \<open>Lease_Record\<close>, \<open>Lease_Store\<close> (\<open>lease_store.go\<close>): records, their JSON, the store as
    a state with one function per method; \<open>Lease_Store_Facts\<close>: its invariant, the abstract
    per-node machine \<open>node_step\<close> every operation refines (locale \<open>node_machine\<close>), the file;
    \<open>Lease_Store_Props\<close>: the properties of the store.
  \<^item> \<open>Hmac_Auth\<close> (\<open>hmac.go\<close>): signatures, over the locale \<open>signature_scheme\<close>.
  \<^item> \<open>Deadman\<close> (\<open>deadman.go\<close>): the check cycle and the loop of the switch.
  \<^item> \<open>Kms_Server\<close>, \<open>Kms_Server_Props\<close> (\<open>server.go\<close>): \<open>Seal\<close>, \<open>Unseal\<close>, \<open>Heartbeat\<close>.
  \<^item> \<open>Http_Api\<close>, \<open>Http_Props\<close> (\<open>http.go\<close>): the handlers and their routes.
  \<^item> \<open>Service\<close>: gRPC, HTTP and the switch side by side on one store, as a step relation with
    events; \<open>Unseal\<close> is two steps, since it enters the store's critical section twice.
  \<^item> \<open>Kms_Agent\<close>, \<open>Agent_Props\<close>: the agent, alone and against the HTTP handlers.
  \<^item> \<open>Keep_Alive\<close>: the agent against the HTTP handlers while the switch runs.
  \<^item> \<open>Kms_Client\<close>, \<open>Client_Props\<close>: the client, alone and against the gRPC server.
  \<^item> \<open>Server_Main\<close>, \<open>Main_Props\<close>: flags, options and wiring of the server program.
  \<^item> This theory: the properties of the service as it is started by the server program.

  \<^bold>\<open>What is shown.\<close> The store keeps its invariant and refines the per-node machine under every
  sequence of calls, every iteration order and every failure of the file system; a restart
  gives back what was persisted. An unseal succeeds exactly for nodes in good standing, returns
  what was sealed, and is refused to blocked and expired nodes. Nothing but an authenticated
  request changes the store over HTTP, signatures bind node, address and time, and a blocked
  node is released only by the administrator. The switch blocks exactly the silent nodes that
  are active. Agent and client keep the lease of their node alive while the switch and other
  requests run. The programs run with the configuration they are given and start exactly when
  it is consistent and the host provides what it needs. Where the code falls short of this
  (overflow in the timestamp check and in the backoff, missing separators in the signed text,
  the window between the two critical sections of an unseal, maintenance ended by an unseal,
  silent nodes that were marked expired and so escape the switch, addresses reported by several
  nodes, the silent omission of the switch) a theorem states what it does instead.

  \<^bold>\<open>Conventions.\<close> A Go method is a function that returns its results and the new state; an
  \<open>error\<close> result is an option or the left of a sum. What a call draws from its environment
  (clock, random bytes, system calls, iteration order, network) is an argument, so a statement
  holds whatever it is. Loops that wait on channels take the list of what they receive and
  return \<open>Waits\<close> when it ends; every other loop is a total function. \<open>ParseDuration\<close> runs
  its loop with the length of the text as fuel, which \<open>duration_loop_fuel\<close> shows to be
  enough: every round consumes a character. \<open>int64\<close> values that may wrap are words;
  instants and durations are integers, with the saturation of \<open>Time.Sub\<close> written out. Text
  that is encoded as JSON is valid UTF-8 (\<open>Go_Json\<close>).

  \<^bold>\<open>Parameters.\<close> Code that is not in the repository is an argument, with a locale for what is
  relied on where something is: \<open>grpc_status\<close> (\<open>status.FromError\<close>) and \<open>status_code\<close>
  (\<open>status.Code\<close>), both interpreted on the documented functions. The key callback, the gRPC
  connection, certificate parsing and the errgroup carry no assumption. Whether the process can
  listen on an address may depend on the addresses it listens on already. Statements about the
  store exclude a heartbeat by an empty address, which no TCP peer has.

  \<^bold>\<open>Not modelled.\<close> Log lines; the Prometheus client beyond the calls made on it; the text of
  JSON documents (a body or file is the JSON value it holds, or not JSON at all); protocol
  buffer encoding and the generated stubs (\<open>src/api\<close>); TLS, sockets and the orderly shutdown
  of the servers; the administration script, deployment files and tests.
\<close>

subsection \<open>The started service\<close>

text \<open>The events of the services that a start has brought up.\<close>

fun started :: "running \<Rightarrow> svc_event \<Rightarrow> bool" where
  "started rn (HttpCall henv rq resp) = (rn_http rn \<noteq> None)"
| "started rn (CheckCycle ws) = (rn_switch rn \<noteq> None)"
| "started rn _ = True"

lemma started_leases:
  assumes "start_server host f = Inr rn" and "rn_store rn = Some s"
  shows "leaseEnabled (rn_server rn)" and "kf_heartbeatEnable f"
  using start_wiring [OF assms(1)] serverOptions_ok [of host f] assms(2)
  by (auto simp: NewServer_def split: if_splits)

lemma Check_blocks_overdue:
  assumes "valid_iter (tick_iter t)" and "Check t d s = (ws, d', s1)"
    and "fmlookup (nodes s) u = Some rec" and "overdue rec (tick_now t) (heartbeatTimeout d)"
  shows "is_blocked (fmlookup (nodes s1) u)"
  using Check_nodes [OF assms(1,2), of u] assms(3,4) by (simp add: is_blocked_iff blocked_at_def)

text \<open>
  C1: the promise of the dead-man's switch to active nodes, end to end. Let the server have
  started with its secrets, on a store that satisfies the store invariant (as every store the
  program has written does), and let any run of it lead to a state in which a node with the
  status active was last heard of longer ago than \<open>--heartbeat-timeout\<close>, is not in maintenance,
  and has no unseal in flight. After the next check cycle the node is locked out: whatever
  requests follow, in whatever interleaving, unless one of them is an unblock of this node that
  carries the \<open>ADMIN_TOKEN\<close>, no unseal of the node passes the lease check, none returns
  anything, and the node stays blocked. Nothing is claimed of a silent node that a denied
  request has already marked expired: the check passes it over, and the theory \<open>Service\<close>
  shows what becomes of it.
\<close>

theorem silent_node_locked_out:
  assumes "start_server host f = Inr rn" and "rn_store rn = Some s" and "store_inv s"
    and "rn_http rn = Some (ep, h)" and "rn_switch rn = Some d"
    and "svc_run (rn_server rn) h d \<lparr>sv_store = s, sv_pending = []\<rparr> evs st"
    and "fmlookup (nodes (sv_store st)) u = Some rec"
    and "overdue rec (tick_now t) (kf_heartbeatTimeout f)" and "no_pending u st"
    and "valid_iter (tick_iter t)" and "Check t d (sv_store st) = (ws, d', s1)"
    and "svc_run (rn_server rn) h d (st\<lparr>sv_store := s1\<rparr>) evs' st'"
    and "\<nexists>henv rq resp. HttpCall henv rq resp \<in> set evs' \<and>
      TrimPrefix (rq_header rq ''Authorization'') ''Bearer '' = kf_adminToken f \<and>
      rq_path rq = [''admin'', ''nodes'', u, ''unblock'']"
  shows "UnsealPasses u \<notin> set evs' \<and> (\<forall>res. UnsealEnds u res \<notin> set evs') \<and>
    is_blocked (fmlookup (nodes (sv_store st')) u)"
proof -
  have d: "heartbeatTimeout d = kf_heartbeatTimeout f" and h: "adminToken h = kf_adminToken f"
    using start_wiring [OF assms(1)] assms(4,5)
    by (auto simp: NewDeadManSwitch_def NewHTTPHandler_def split: if_splits)
  have lease: "leaseEnabled (rn_server rn)" using started_leases assms(1,2) by blast
  have blocked: "is_blocked (fmlookup (nodes s1) u)"
    using Check_blocks_overdue assms(7,8,10,11) d by metis
  have "store_inv (sv_store st)" using svc_run_inv [OF assms(6)] assms(3) by simp
  then have inv: "store_inv (sv_store (st\<lparr>sv_store := s1\<rparr>))"
    using svc_step_inv [OF svc_step.check_cycle [OF assms(10,11)]] by blast
  have quiet: "\<not> admin_unblocks h u evs'"
    using assms(13) h by (auto simp: admin_unblocks_def authenticateAdmin_def Let_def)
  have pend: "no_pending u (st\<lparr>sv_store := s1\<rparr>)" using assms(9) by (simp add: no_pending_def)
  show ?thesis
    using blocked_gets_nothing [OF assms(12) inv lease _ pend quiet]
      blocked_run [OF assms(12) inv lease _ pend] blocked quiet by simp
qed

lemma denied_run:
  fixes r :: Request and ctx :: rpc_ctx
  assumes "leaseEnabled srv" and "is_blocked (fmlookup (nodes (sv_store st)) (NodeUuid r))"
    and "env_ok env" and "ctx_err ctx = None" and "NodeUuid r \<noteq> ''''"
  shows "svc_run srv h d st [UnsealDenied (NodeUuid r) (StatusErr PermissionDenied ''node blocked'')] st"
proof -
  have "validateLease env srv (NodeUuid r) (sv_store st) =
      (Some (StatusErr PermissionDenied ''node blocked''), sv_store st)"
    using assms(1-3) by (auto simp: validateLease_cases is_blocked_iff env_ok_def)
  from svc_step.unseal_denied_step [OF assms(3,4) _ this] assms(5)
  have "svc_step srv h d st (UnsealDenied (NodeUuid r) (StatusErr PermissionDenied ''node blocked'')) st"
    by (simp add: validateNodeUUID_def GetNodeUuid_def)
  from svc_run.run_step [OF svc_run.run_start this] show ?thesis by simp
qed

theorem silent_node_locked_out_witness:
  "\<exists>rn s h ep d st'. start_server demo_host demo_flags = Inr rn \<and> rn_store rn = Some s \<and>
     rn_http rn = Some (ep, h) \<and> rn_switch rn = Some d \<and>
     (let t = \<lparr>tick_now = 200 * second, tick_log_now = \<lambda>_. 0, tick_iter = sorted_iter, tick_io = io_ok\<rparr>;
          denied = UnsealDenied ''node-1'' (StatusErr PermissionDenied ''node blocked'')
      in svc_run (rn_server rn) h d \<lparr>sv_store = snd (snd (Check t d s)), sv_pending = []\<rparr> [denied] st' \<and>
         is_blocked (fmlookup (nodes (sv_store st')) ''node-1''))"
proof -
  let ?t = "\<lparr>tick_now = 200 * second, tick_log_now = \<lambda>_. 0, tick_iter = sorted_iter, tick_io = io_ok\<rparr>"
  obtain rn s where rn: "start_server demo_host demo_flags = Inr rn" "rn_store rn = Some s"
    and s: "nodes s = nodes (demo_store demo_record)" and lease: "leaseEnabled (rn_server rn)"
    by (rule demo_start [OF _ demo_flags_ok(1) _ demo_flags_ok(3)]) (simp_all add: demo_flags_def server_defaults_def)
  have secrets: "with_secrets demo_flags" by (simp add: with_secrets_def demo_flags_def server_defaults_def)
  then obtain ep h d where hd: "rn_http rn = Some (ep, h)" "rn_switch rn = Some d"
      "heartbeatTimeout d = kf_heartbeatTimeout demo_flags"
    using start_wiring [OF rn(1)] by (force simp: NewDeadManSwitch_def)
  obtain ws d' s1 where chk: "Check ?t d s = (ws, d', s1)" by (metis prod.exhaust)
  let ?st = "\<lparr>sv_store = s, sv_pending = []\<rparr>"
  have inv: "store_inv s" using demo_store_inv [OF demo_record_ok] s by (simp add: store_inv_def)
  have rec: "fmlookup (nodes (sv_store ?st)) ''node-1'' = Some demo_record" using s by simp
  have over: "overdue demo_record (tick_now ?t) (kf_heartbeatTimeout demo_flags)"
    by (simp add: overdue_def Sub_def int64_defs second_def demo_flags_def server_defaults_def)
  have b: "is_blocked (fmlookup (nodes (sv_store (?st\<lparr>sv_store := s1\<rparr>))) (NodeUuid (demo_request [])))"
    using Check_blocks_overdue [OF _ chk _ over [folded hd(3)]] rec by (simp add: demo_request_def)
  have run: "svc_run (rn_server rn) h d (?st\<lparr>sv_store := s1\<rparr>)
      [UnsealDenied ''node-1'' (StatusErr PermissionDenied ''node blocked'')] (?st\<lparr>sv_store := s1\<rparr>)"
    using denied_run [OF lease b, of "demo_env 3000" demo_ctx h d] by (simp add: env_ok_def demo_defs)
  from silent_node_locked_out [OF rn inv hd(1,2) svc_run.run_start rec over _ _ _ run] chk
  have "is_blocked (fmlookup (nodes (sv_store (?st\<lparr>sv_store := s1\<rparr>))) ''node-1'')"
    by (simp add: no_pending_def)
  with rn hd(1,2) run chk show ?thesis by (fastforce simp: Let_def)
qed

text \<open>
  C18: without its secrets the server enforces leases but has no switch. If leases are enabled
  and \<open>HEARTBEAT_HMAC_KEY\<close> or \<open>ADMIN_TOKEN\<close> is not set, the server starts all the same,
  and no node is ever blocked, whatever happens and however long it is silent.
\<close>

theorem no_secrets_no_switch:
  assumes "start_server host f = Inr rn" and "rn_store rn = Some s" and "store_inv s"
    and "kf_heartbeatHMACKey f = '''' \<or> kf_adminToken f = ''''"
    and "svc_run (rn_server rn) h d \<lparr>sv_store = s, sv_pending = []\<rparr> evs st'"
    and "list_all (started rn) evs" and "\<not> is_blocked (fmlookup (nodes s) u)"
  shows "leaseEnabled (rn_server rn) \<and> rn_http rn = None \<and> rn_switch rn = None \<and>
    \<not> is_blocked (fmlookup (nodes (sv_store st')) u)"
proof -
  have none: "rn_http rn = None" "rn_switch rn = None"
    using start_wiring [OF assms(1)] assms(4) by (auto simp: with_secrets_def)
  have "CheckCycle ws \<notin> set evs" for ws
    using assms(6) none(2) by (auto simp: list_all_iff dest!: bspec)
  then show ?thesis
    using svc_run_never_blocks [OF assms(5), of u] assms(3,7) none started_leases [OF assms(1,2)] by simp
qed

theorem no_secrets_no_switch_witness:
  "\<exists>rn s. start_server demo_host (demo_flags\<lparr>kf_adminToken := ''''\<rparr>) = Inr rn \<and> rn_store rn = Some s \<and>
     (\<exists>r. fmlookup (nodes s) ''node-1'' = Some r) \<and> leaseEnabled (rn_server rn) \<and> rn_switch rn = None"
proof -
  let ?f = "demo_flags\<lparr>kf_adminToken := ''''\<rparr>"
  obtain rn s where rn: "start_server demo_host ?f = Inr rn" "rn_store rn = Some s"
    and s: "nodes s = nodes (demo_store demo_record)"
    by (rule demo_start [OF _ demo_flags_ok(2) _ demo_flags_ok(4)]) (simp_all add: demo_flags_def server_defaults_def)
  have inv: "store_inv s" using demo_store_inv [OF demo_record_ok] s by (simp add: store_inv_def)
  show ?thesis
    using no_secrets_no_switch [OF rn inv _ svc_run.run_start, of "''node-1''"] rn s
    by (simp add: is_blocked_iff)
qed

end
